(* ===== verification/Prelude.thy ===== *)
theory Prelude
  imports Main "HOL-Library.Sublist" "HOL-Library.Char_ord" "HOL-Library.List_Lexorder"
begin

text \<open>
  Shared vocabulary of the development: instants and durations, Go's error values, the
  results of fallible calls, the parts of Go's standard library that several packages use
  (decimal printing as \<open>%d\<close> does it, \<open>strings.SplitN\<close>, \<open>strings.Join\<close>), loops with an
  early exit, and the collections of rewrite rules the component theories extend.
\<close>

section \<open>Collections of facts\<close>

named_theorems repo_defs \<open>definitions of the repository operations over the tables\<close>
named_theorems flow_simps \<open>how loops with an early exit unfold\<close>
named_theorems inv_intros \<open>operations that keep a component's invariant\<close>

section \<open>Basic types\<close>

text \<open>
  \<open>time.Time\<close> and \<open>time.Duration\<close> are counts of nanoseconds; an \<open>int64\<close> Telegram identifier
  is only compared, never computed with, so it is an \<open>int\<close>.
\<close>

type_synonym instant = int
type_synonym duration = int
type_synonym user_id = int
type_synonym chat_id = int

definition second :: duration where "second = 1000000000"
definition minute :: duration where "minute = 60 * second"
definition hour :: duration where "hour = 60 * minute"

text \<open>The zero \<open>time.Time\<close>, 1 January of year 1.\<close>

definition zero_time :: instant where "zero_time = -62135596800 * second"

lemma second_pos [simp]: "0 < second" by (simp add: second_def)
lemma minute_pos [simp]: "0 < minute" by (simp add: minute_def)
lemma hour_pos [simp]: "0 < hour" by (simp add: hour_def)

text \<open>
  \<open>t.UTC().Format(time.RFC3339)\<close> prints whole seconds, so writing an instant as text and
  parsing it back rounds it down to the second.
\<close>

definition rfc3339 :: "instant \<Rightarrow> int" where
  "rfc3339 t = t div second"

definition parse_rfc3339 :: "int \<Rightarrow> instant" where
  "parse_rfc3339 s = s * second"

lemma rfc3339_roundtrip [simp]: "rfc3339 (parse_rfc3339 s) = s"
  by (simp add: rfc3339_def parse_rfc3339_def second_def)

lemma parse_rfc3339_le: "parse_rfc3339 (rfc3339 t) \<le> t"
  by (simp add: rfc3339_def parse_rfc3339_def second_def)

lemma parse_rfc3339_close: "t < parse_rfc3339 (rfc3339 t) + second"
  unfolding rfc3339_def parse_rfc3339_def second_def by presburger

lemma rfc3339_mono: "t \<le> u \<Longrightarrow> rfc3339 t \<le> rfc3339 u"
  by (simp add: rfc3339_def second_def zdiv_mono1)

text \<open>A timestamp column holds that text: what is read back is the instant of its second.\<close>

definition column_time :: "instant \<Rightarrow> instant" where
  "column_time t = parse_rfc3339 (rfc3339 t)"

lemma column_time_le: "column_time t \<le> t"
  by (simp add: column_time_def parse_rfc3339_le)

lemma column_time_close: "t < column_time t + second"
  by (simp add: column_time_def parse_rfc3339_close)

lemma column_time_idem [simp]: "column_time (column_time t) = column_time t"
  by (simp add: column_time_def)

lemma column_time_mono: "t \<le> u \<Longrightarrow> column_time t \<le> column_time u"
  by (simp add: column_time_def parse_rfc3339_def rfc3339_mono)

section \<open>Errors and results\<close>

text \<open>
  \<open>storage.ErrNotFound\<close> is a sentinel that callers compare with; every other error is known
  by its text, and \<open>fmt.Errorf\<close> with \<open>%w\<close> wraps one. \<open>DriverErr\<close> stands for whatever a library
  or a remote service reports.
\<close>

datatype go_error =
    ErrNotFound
  | ErrText string
  | ErrWrap string go_error
  | DriverErr string

type_synonym 'a result = "go_error + 'a"

fun err_text :: "go_error \<Rightarrow> string" where
  "err_text ErrNotFound = ''not found''"
| "err_text (ErrText s) = s"
| "err_text (ErrWrap s e) = s @ '': '' @ err_text e"
| "err_text (DriverErr s) = s"

definition wrap_err :: "string \<Rightarrow> 'a result \<Rightarrow> 'a result" where
  "wrap_err msg r = (case r of Inl e \<Rightarrow> Inl (ErrWrap msg e) | Inr x \<Rightarrow> Inr x)"

lemma wrap_err_simps [simp]:
  "wrap_err msg (Inl e) = Inl (ErrWrap msg e)"
  "wrap_err msg (Inr x) = Inr x"
  by (simp_all add: wrap_err_def)

abbreviation is_err :: "'a result \<Rightarrow> bool" where
  "is_err r \<equiv> isl r"

section \<open>Maps with a default, as Go reads them\<close>

text \<open>\<open>m[k]\<close> on a \<open>map[K]bool\<close> is false for an absent key.\<close>

definition bool_at :: "('k \<rightharpoonup> bool) \<Rightarrow> 'k \<Rightarrow> bool" where
  "bool_at m k = (case m k of Some b \<Rightarrow> b | None \<Rightarrow> False)"

lemma bool_at_upd [simp]: "bool_at (m(k \<mapsto> b)) j = (if j = k then b else bool_at m j)"
  by (simp add: bool_at_def)

lemma bool_at_empty [simp]: "\<not> bool_at Map.empty k"
  by (simp add: bool_at_def)

text \<open>Building a set as a \<open>map[K]bool\<close>, one key at a time.\<close>

fun mark_all :: "('k \<rightharpoonup> bool) \<Rightarrow> 'k list \<Rightarrow> ('k \<rightharpoonup> bool)" where
  "mark_all m [] = m"
| "mark_all m (k # ks) = mark_all (m(k \<mapsto> True)) ks"

lemma bool_at_mark_all [simp]: "bool_at (mark_all m ks) k \<longleftrightarrow> k \<in> set ks \<or> bool_at m k"
  by (induction ks arbitrary: m) auto

lemma dom_mark_all: "dom (mark_all m ks) = dom m \<union> set ks"
  by (induction ks arbitrary: m) auto

section \<open>Decimal numbers\<close>

definition digit_char :: "nat \<Rightarrow> char" where
  "digit_char d = char_of (48 + d)"

fun show_nat :: "nat \<Rightarrow> string" where
  "show_nat n = (if n < 10 then [digit_char n] else show_nat (n div 10) @ [digit_char (n mod 10)])"

declare show_nat.simps [simp del]

definition show_int :: "int \<Rightarrow> string" where
  "show_int i = (if i < 0 then ''-'' @ show_nat (nat (- i)) else show_nat (nat i))"

definition digit_val :: "char \<Rightarrow> nat option" where
  "digit_val c = (let k = of_char c in if 48 \<le> k \<and> k \<le> (57::nat) then Some (k - 48) else None)"

fun read_digits :: "nat \<Rightarrow> string \<Rightarrow> nat option" where
  "read_digits acc [] = Some acc"
| "read_digits acc (c # cs) =
     (case digit_val c of None \<Rightarrow> None | Some d \<Rightarrow> read_digits (10 * acc + d) cs)"

lemma digit_val_char: "d < 10 \<Longrightarrow> digit_val (digit_char d) = Some d"
  by (simp add: digit_val_def digit_char_def)

lemma read_digits_append:
  "read_digits a (xs @ ys) = (case read_digits a xs of None \<Rightarrow> None | Some b \<Rightarrow> read_digits b ys)"
  by (induction xs arbitrary: a) (auto split: option.splits)

lemma read_show_nat: "read_digits 0 (show_nat n) = Some n"
proof (induction n rule: show_nat.induct)
  case (1 n)
  show ?case
  proof (cases "n < 10")
    case True
    then show ?thesis by (simp add: show_nat.simps [of n] digit_val_char)
  next
    case False
    with "1" show ?thesis
      by (simp add: show_nat.simps [of n] read_digits_append digit_val_char)
  qed
qed

lemma show_nat_nonempty [simp]: "show_nat n \<noteq> []"
  by (simp add: show_nat.simps [of n])

lemma digit_char_inj: "d < 10 \<Longrightarrow> digit_char d \<noteq> c" if "digit_val c = None"
  using that digit_val_char by fastforce

lemma show_nat_chars: "c \<in> set (show_nat n) \<Longrightarrow> digit_val c \<noteq> None"
proof (induction n rule: show_nat.induct)
  case (1 n)
  show ?case
  proof (cases "n < 10")
    case True
    with "1.prems" show ?thesis by (simp add: show_nat.simps [of n] digit_val_char)
  next
    case False
    with "1" show ?thesis
      by (auto simp add: show_nat.simps [of n] digit_val_char)
  qed
qed

section \<open>Splitting and joining strings\<close>

text \<open>
  Texts are valid UTF-8; a rune starts at every byte that is not a continuation byte.
\<close>

definition rune_start :: "char \<Rightarrow> bool" where
  "rune_start c \<longleftrightarrow> of_char c div 64 \<noteq> (2::nat)"

text \<open>
  \<open>strings.SplitN(s, sep, n)\<close> with a one-byte separator and \<open>n > 0\<close>: at most \<open>n\<close> parts, the
  last of which keeps the separators it contains. Callback data of the bot is built with
  \<open>Sprintf("%s|%s")\<close> and taken apart with it.
\<close>

fun break_at :: "char \<Rightarrow> string \<Rightarrow> string \<times> string option" where
  "break_at c [] = ([], None)"
| "break_at c (x # xs) =
     (if x = c then ([], Some xs) else (let (a, r) = break_at c xs in (x # a, r)))"

fun split_n :: "nat \<Rightarrow> char \<Rightarrow> string \<Rightarrow> string list" where
  "split_n 0 c s = []"
| "split_n (Suc 0) c s = [s]"
| "split_n (Suc (Suc n)) c s =
     (case break_at c s of (a, None) \<Rightarrow> [a] | (a, Some r) \<Rightarrow> a # split_n (Suc n) c r)"

fun split_all :: "char \<Rightarrow> string \<Rightarrow> string list" where
  "split_all c [] = [[]]"
| "split_all c (x # xs) =
     (if x = c then [] # split_all c xs
      else (case split_all c xs of [] \<Rightarrow> [[x]] | y # ys \<Rightarrow> (x # y) # ys))"

fun join_with :: "string \<Rightarrow> string list \<Rightarrow> string" where
  "join_with sep [] = []"
| "join_with sep [x] = x"
| "join_with sep (x # y # ys) = x @ sep @ join_with sep (y # ys)"

lemma break_at_sep [simp]: "c \<notin> set a \<Longrightarrow> break_at c (a @ c # r) = (a, Some r)"
  by (induction a) auto

lemma break_at_none [simp]: "c \<notin> set a \<Longrightarrow> break_at c a = (a, None)"
  by (induction a) auto

lemma split_n_cons [simp]:
  "c \<notin> set a \<Longrightarrow> split_n (Suc (Suc n)) c (a @ c # r) = a # split_n (Suc n) c r"
  by simp

lemma split_n_last [simp]: "c \<notin> set a \<Longrightarrow> split_n (Suc n) c a = [a]"
  by (cases n) auto

lemma split_n_length: "length (split_n n c s) \<le> n"
proof (induction n c s rule: split_n.induct)
  case (3 n c s)
  then show ?case by (auto split: prod.split option.split)
qed auto

lemma split_n_2: "c \<notin> set a \<Longrightarrow> split_n 2 c (a @ c # b) = [a, b]"
  using split_n_cons [of c a 0 b] by (simp add: numeral_2_eq_2 del: split_n_cons)

lemma split_n_3:
  "c \<notin> set a \<Longrightarrow> c \<notin> set b \<Longrightarrow> split_n 3 c (a @ c # b @ c # r) = [a, b, r]"
  by (simp add: numeral_3_eq_3 del: split_n.simps(3))

lemma split_n_4:
  "c \<notin> set a \<Longrightarrow> c \<notin> set b \<Longrightarrow> c \<notin> set d \<Longrightarrow>
   split_n 4 c (a @ c # b @ c # d @ c # r) = [a, b, d, r]"
  by (simp add: eval_nat_numeral del: split_n.simps(3))

lemma break_at_append:
  "break_at c s = (a, r) \<Longrightarrow> s = a @ (case r of None \<Rightarrow> [] | Some t \<Rightarrow> c # t)"
  by (induction s arbitrary: a r) (auto split: if_splits prod.splits option.splits)

lemma split_n_nonempty [simp]: "split_n (Suc n) c s \<noteq> []"
  by (cases n) (auto split: prod.split option.split)

lemma join_split_n: "join_with [c] (split_n (Suc n) c s) = s"
proof (induction n arbitrary: s)
  case 0
  then show ?case by simp
next
  case (Suc n)
  obtain a r where b: "break_at c s = (a, r)" by (cases "break_at c s")
  show ?case
  proof (cases r)
    case None
    with b break_at_append [OF b] show ?thesis by simp
  next
    case (Some t)
    obtain y ys where e: "split_n (Suc n) c t = y # ys"
      by (cases "split_n (Suc n) c t") simp_all
    with b Some break_at_append [OF b] Suc.IH [of t] show ?thesis by simp
  qed
qed

lemma split_n_2_inv: "split_n 2 c s = [a, b] \<Longrightarrow> s = a @ c # b"
  using join_split_n [of c 1 s] by (simp add: numeral_2_eq_2 del: split_n.simps)

lemma split_n_3_inv: "split_n 3 c s = [a, b, d] \<Longrightarrow> s = a @ c # b @ c # d"
  using join_split_n [of c 2 s] by (simp add: numeral_3_eq_3 numeral_2_eq_2 del: split_n.simps)

lemma split_all_nonempty [simp]: "split_all c s \<noteq> []"
  by (cases s) (auto split: list.split)

lemma split_all_sep: "c \<notin> set a \<Longrightarrow> split_all c (a @ c # r) = a # split_all c r"
  by (induction a) auto

lemma split_all_plain: "c \<notin> set a \<Longrightarrow> split_all c a = [a]"
  by (induction a) auto

lemma split_all_join:
  "xs \<noteq> [] \<Longrightarrow> \<forall>x \<in> set xs. c \<notin> set x \<Longrightarrow> split_all c (join_with [c] xs) = xs"
  by (induction "[c]" xs rule: join_with.induct) (auto simp: split_all_sep split_all_plain)

lemma join_split_all: "join_with [c] (split_all c s) = s"
proof (induction s)
  case Nil
  then show ?case by simp
next
  case (Cons x xs)
  obtain y ys where e: "split_all c xs = y # ys"
    by (cases "split_all c xs") auto
  with Cons.IH show ?case by (cases ys) auto
qed

lemma split_all_no_sep: "p \<in> set (split_all c s) \<Longrightarrow> c \<notin> set p"
proof (induction s arbitrary: p)
  case Nil
  then show ?case by simp
next
  case (Cons x xs)
  then show ?case by (cases "split_all c xs") (auto split: if_splits)
qed

lemma split_all_subset: "p \<in> set (split_all c s) \<Longrightarrow> set p \<subseteq> set s"
proof (induction s arbitrary: p)
  case Nil
  then show ?case by simp
next
  case (Cons x xs)
  obtain y ys where e: "split_all c xs = y # ys"
    by (cases "split_all c xs") auto
  have "set y \<subseteq> set xs" "z \<in> set ys \<Longrightarrow> set z \<subseteq> set xs" for z
    using Cons.IH e by auto
  with e Cons.prems show ?case by (force split: if_splits)
qed

section \<open>Searching and updating lists\<close>

text \<open>Equal slices of a list put together again: what every paging routine relies on.\<close>

lemma slices_concat: "concat (map (\<lambda>p. take n (drop (p * n) xs)) [0..<k]) = take (k * n) xs"
proof (induction k)
  case (Suc k)
  have "take (k * n) xs @ take n (drop (k * n) xs) = take (k * n + n) xs"
    by (simp add: take_add)
  with Suc show ?case by (simp add: add.commute)
qed simp

text \<open>The first element that satisfies a test, and rewriting the first such element in place.\<close>

fun update_first :: "('a \<Rightarrow> bool) \<Rightarrow> ('a \<Rightarrow> 'a) \<Rightarrow> 'a list \<Rightarrow> 'a list" where
  "update_first p f [] = []"
| "update_first p f (x # xs) = (if p x then f x # xs else x # update_first p f xs)"

lemma length_update_first [simp]: "length (update_first p f xs) = length xs"
  by (induction xs) auto

lemma update_first_none: "\<not> list_ex p xs \<Longrightarrow> update_first p f xs = xs"
  by (induction xs) auto

lemma update_first_map:
  "(\<And>x. x \<in> set xs \<Longrightarrow> g (f x) = g x) \<Longrightarrow> map g (update_first p f xs) = map g xs"
  by (induction xs) auto

lemma find_SomeD: "find p xs = Some x \<Longrightarrow> x \<in> set xs \<and> p x"
  by (induction xs) (auto split: if_splits)

lemma find_NoneD: "find p xs = None \<Longrightarrow> x \<in> set xs \<Longrightarrow> \<not> p x"
  by (induction xs) (auto split: if_splits)

lemma find_unique:
  "distinct (map k xs) \<Longrightarrow> x \<in> set xs \<Longrightarrow> find (\<lambda>y. k y = k x) xs = Some x"
  by (induction xs) (auto simp: image_iff)

end
