(* ===== verification/Entities.thy ===== *)
theory Entities
  imports Prelude
begin

text \<open>
  The domain model of \<open>internal/entity\<close>: policy rules, roles and their bindings, users,
  approval requests, deployment freezes, audit entries, clusters and notification
  preferences, with the methods these types carry. Field names keep the Go names behind a
  short prefix per type. A clock reading taken by a method (\<open>time.Now()\<close>) is an argument.
\<close>

section \<open>Roles and policy rules (role.go, user.go)\<close>

record policy_rule =
  pr_modules :: "string list"
  pr_resources :: "string list"
  pr_actions :: "string list"
  pr_clusters :: "string list"
  pr_namespaces :: "string list"
  pr_effect :: string

fun matches_wildcard :: "string list \<Rightarrow> string \<Rightarrow> bool" where
  "matches_wildcard [] v = False"
| "matches_wildcard (x # xs) v = (if x = ''*'' \<or> x = v then True else matches_wildcard xs v)"

definition rule_matches ::
  "policy_rule \<Rightarrow> string \<Rightarrow> string \<Rightarrow> string \<Rightarrow> string \<Rightarrow> string \<Rightarrow> bool" where
  "rule_matches r module resource action cluster namespace \<longleftrightarrow>
     matches_wildcard (pr_modules r) module \<and>
     matches_wildcard (pr_resources r) resource \<and>
     matches_wildcard (pr_actions r) action \<and>
     matches_wildcard (pr_clusters r) cluster \<and>
     matches_wildcard (pr_namespaces r) namespace"

record role =
  r_name :: string
  r_display_name :: string
  r_description :: string
  r_rules :: "policy_rule list"
  r_is_builtin :: bool
  r_created_at :: instant
  r_permissions :: "string list"

record user_role_binding =
  b_id :: string
  b_user_id :: user_id
  b_role_name :: string
  b_expires_at :: "instant option"

definition binding_is_expired :: "instant \<Rightarrow> user_role_binding \<Rightarrow> bool" where
  "binding_is_expired now b =
     (case b_expires_at b of None \<Rightarrow> False | Some t \<Rightarrow> t < now)"

record user =
  u_telegram_id :: user_id
  u_username :: string
  u_display_name :: string
  u_role :: string
  u_is_active :: bool
  u_created_at :: instant
  u_updated_at :: instant

definition role_admin :: string where "role_admin = ''admin''"
definition role_operator :: string where "role_operator = ''operator''"
definition role_viewer :: string where "role_viewer = ''viewer''"
definition role_super_admin :: string where "role_super_admin = ''super-admin''"
definition role_on_call :: string where "role_on_call = ''on-call''"

definition valid_roles :: "string list" where
  "valid_roles = [role_super_admin, role_admin, role_operator, role_viewer, role_on_call]"

fun is_valid_role_in :: "string list \<Rightarrow> string \<Rightarrow> bool" where
  "is_valid_role_in [] r = False"
| "is_valid_role_in (x # xs) r = (if x = r then True else is_valid_role_in xs r)"

definition is_valid_role :: "string \<Rightarrow> bool" where
  "is_valid_role r = is_valid_role_in valid_roles r"

lemmas role_names =
  role_admin_def role_operator_def role_viewer_def role_super_admin_def role_on_call_def

section \<open>Approval requests (approval\_request.go)\<close>

datatype approval_status =
    ApprovalPending
  | ApprovalApproved
  | ApprovalRejected
  | ApprovalExpired
  | ApprovalCancelled

fun status_text :: "approval_status \<Rightarrow> string" where
  "status_text ApprovalPending = ''pending''"
| "status_text ApprovalApproved = ''approved''"
| "status_text ApprovalRejected = ''rejected''"
| "status_text ApprovalExpired = ''expired''"
| "status_text ApprovalCancelled = ''cancelled''"

record approver =
  a_user_id :: user_id
  a_decision :: string
  a_comment :: string
  a_decided_at :: "instant option"

record approval_request =
  ar_id :: string
  ar_requester_id :: user_id
  ar_requester_name :: string
  ar_action :: string
  ar_resource :: string
  ar_cluster :: string
  ar_namespace :: string
  ar_details :: "(string \<times> string) list"
  ar_status :: approval_status
  ar_approvers :: "approver list"
  ar_required_approvals :: int
  ar_created_at :: instant
  ar_expires_at :: instant
  ar_resolved_at :: "instant option"
  ar_resolved_by :: "user_id option"
  ar_chat_id :: chat_id
  ar_message_id :: int

definition is_pending :: "approval_request \<Rightarrow> bool" where
  "is_pending r \<longleftrightarrow> ar_status r = ApprovalPending"

fun count_approved :: "approver list \<Rightarrow> nat" where
  "count_approved [] = 0"
| "count_approved (a # as) =
     (if a_decision a = ''approved'' then Suc (count_approved as) else count_approved as)"

definition approval_count :: "approval_request \<Rightarrow> int" where
  "approval_count r = int (count_approved (ar_approvers r))"

fun any_rejected :: "approver list \<Rightarrow> bool" where
  "any_rejected [] = False"
| "any_rejected (a # as) = (if a_decision a = ''rejected'' then True else any_rejected as)"

definition has_rejection :: "approval_request \<Rightarrow> bool" where
  "has_rejection r = any_rejected (ar_approvers r)"

section \<open>Deployment freezes (freeze.go)\<close>

record deployment_freeze =
  f_id :: string
  f_scope :: string
  f_reason :: string
  f_created_by :: user_id
  f_created_at :: instant
  f_expires_at :: instant
  f_thawed_at :: "instant option"
  f_thawed_by :: "user_id option"

definition freeze_is_active :: "instant \<Rightarrow> deployment_freeze \<Rightarrow> bool" where
  "freeze_is_active now f \<longleftrightarrow> f_thawed_at f = None \<and> now < f_expires_at f"

text \<open>\<open>RemainingDuration\<close> reads the clock twice: once in \<open>IsActive\<close>, once in \<open>time.Until\<close>.\<close>

definition remaining_duration :: "instant \<Rightarrow> instant \<Rightarrow> deployment_freeze \<Rightarrow> duration" where
  "remaining_duration now1 now2 f =
     (if \<not> freeze_is_active now1 f then 0
      else (let remaining = f_expires_at f - now2
            in if remaining < 0 then 0 else remaining))"

section \<open>Audit entries (audit\_entry.go)\<close>

record audit_entry =
  ae_id :: string
  ae_user_id :: user_id
  ae_username :: string
  ae_action :: string
  ae_resource :: string
  ae_cluster :: string
  ae_namespace :: string
  ae_chat_id :: chat_id
  ae_chat_type :: string
  ae_status :: string
  ae_details :: "(string \<times> string) list"
  ae_error :: string
  ae_occurred_at :: instant

definition audit_success :: string where "audit_success = ''success''"
definition audit_denied :: string where "audit_denied = ''denied''"
definition audit_error :: string where "audit_error = ''error''"

section \<open>Clusters and health (cluster.go)\<close>

datatype health_status = Healthy | Unhealthy | HealthUnknown

record cluster_info =
  ci_name :: string
  ci_display_name :: string
  ci_in_cluster :: bool
  ci_is_default :: bool
  ci_status :: health_status

datatype status_emoji = GreenCircle | RedCircle | WhiteCircle

fun health_emoji :: "health_status \<Rightarrow> status_emoji" where
  "health_emoji Healthy = GreenCircle"
| "health_emoji Unhealthy = RedCircle"
| "health_emoji HealthUnknown = WhiteCircle"

section \<open>Notification preferences and alert rules (notification\_pref.go)\<close>

record notification_preference =
  np_user_id :: user_id
  np_min_severity :: string
  np_muted_alerts :: "string list"
  np_muted_clusters :: "string list"
  np_quiet_hours_start :: "string option"
  np_quiet_hours_end :: "string option"
  np_timezone :: string

record alert_condition =
  ac_type :: string
  ac_threshold :: int
  ac_window :: string
  ac_resource :: string

record alert_scope =
  as_clusters :: "string list"
  as_namespaces :: "string list"

record alert_notify =
  an_chats :: "chat_id list"
  an_mention :: "string list"

record alert_rule =
  al_name :: string
  al_description :: string
  al_condition :: alert_condition
  al_scope :: alert_scope
  al_severity :: string
  al_notify :: alert_notify

section \<open>Lemmas on the methods\<close>

lemma matches_wildcard_iff: "matches_wildcard xs v \<longleftrightarrow> ''*'' \<in> set xs \<or> v \<in> set xs"
  by (induction xs) auto

lemma matches_wildcard_star [simp]: "matches_wildcard [''*''] v"
  by simp

lemma is_valid_role_iff: "is_valid_role r \<longleftrightarrow> r \<in> set valid_roles"
proof -
  have "is_valid_role_in xs r \<longleftrightarrow> r \<in> set xs" for xs
    by (induction xs) auto
  then show ?thesis by (simp add: is_valid_role_def)
qed

lemma count_approved_filter:
  "count_approved as = length (filter (\<lambda>a. a_decision a = ''approved'') as)"
  by (induction as) auto

lemma count_approved_append [simp]:
  "count_approved (as @ bs) = count_approved as + count_approved bs"
  by (induction as) auto

lemma any_rejected_iff: "any_rejected as \<longleftrightarrow> (\<exists>a \<in> set as. a_decision a = ''rejected'')"
  by (induction as) auto

lemma remaining_duration_nonneg: "0 \<le> remaining_duration now1 now2 f"
  by (simp add: remaining_duration_def Let_def)

lemma remaining_duration_pos:
  "now1 \<le> now2 \<Longrightarrow> freeze_is_active now2 f \<Longrightarrow> 0 < remaining_duration now1 now2 f"
  by (simp add: remaining_duration_def freeze_is_active_def Let_def)

end
