(* ===== verification/Sqlite.thy ===== *)
theory Sqlite
  imports Entities
begin

text \<open>
  The SQLite store (\<open>internal/storage/sqlite\<close>): the tables as lists of rows in insertion
  order, and the user and role repositories (user\_repo.go, the first half of rbac\_repo.go).
  The repositories of the other components are in their own theories, over the same tables.

  A statement either runs or the driver reports an error (\<open>db_fault\<close>), in which case no table
  changes. \<open>db_fk_on\<close> says whether the connection enforces foreign keys: \<open>New\<close> sets the
  pragma on one connection of the pool only. JSON columns round-trip (encoding/json), except
  for text that was not written by these repositories: the \<open>rules\<close> column is \<open>None\<close> then.
  Values generated outside (the clock, ULIDs) are arguments.
\<close>

section \<open>Tables\<close>

record role_row =
  rr_name :: string
  rr_display_name :: string
  rr_description :: string
  rr_rules :: "policy_rule list option"
  rr_is_builtin :: int
  rr_created_at :: instant

record db =
  db_users :: "user list"
  db_roles :: "role_row list"
  db_bindings :: "user_role_binding list"
  db_approvals :: "approval_request list"
  db_freezes :: "deployment_freeze list"
  db_audit :: "audit_entry list"
  db_prefs :: "notification_preference list"
  db_fk_on :: bool
  db_fault :: "string option"

text \<open>A fresh store after the migrations: every table empty.\<close>

definition new_store :: db where
  "new_store =
     \<lparr>db_users = [], db_roles = [], db_bindings = [], db_approvals = [], db_freezes = [],
      db_audit = [], db_prefs = [], db_fk_on = True, db_fault = None\<rparr>"

text \<open>Primary keys: no table holds two rows with one key.\<close>

definition keys_ok :: "db \<Rightarrow> bool" where
  "keys_ok s \<longleftrightarrow>
     distinct (map u_telegram_id (db_users s)) \<and>
     distinct (map rr_name (db_roles s)) \<and>
     distinct (map b_id (db_bindings s)) \<and>
     distinct (map ar_id (db_approvals s)) \<and>
     distinct (map f_id (db_freezes s)) \<and>
     distinct (map ae_id (db_audit s)) \<and>
     distinct (map np_user_id (db_prefs s))"

text \<open>Running a statement: the driver's error, or what the statement does.\<close>

definition query :: "db \<Rightarrow> 'a \<Rightarrow> 'a result" where
  "query s x = (case db_fault s of Some e \<Rightarrow> Inl (DriverErr e) | None \<Rightarrow> Inr x)"

definition exec_sql :: "db \<Rightarrow> db \<Rightarrow> 'a \<Rightarrow> db \<times> 'a result" where
  "exec_sql s s' x =
     (case db_fault s of Some e \<Rightarrow> (s, Inl (DriverErr e)) | None \<Rightarrow> (s', Inr x))"

section \<open>Users (user\_repo.go)\<close>

definition bool_to_int :: "bool \<Rightarrow> int" where
  "bool_to_int b = (if b then 1 else 0)"

definition user_get :: "db \<Rightarrow> user_id \<Rightarrow> user result" where
  "user_get s tid =
     (case db_fault s of
        Some e \<Rightarrow> Inl (ErrWrap ''querying user'' (DriverErr e))
      | None \<Rightarrow>
         (case find (\<lambda>u. u_telegram_id u = tid) (db_users s) of
            None \<Rightarrow> Inl ErrNotFound
          | Some u \<Rightarrow> Inr (u\<lparr>u_is_active := (bool_to_int (u_is_active u) = 1)\<rparr>)))"

text \<open>
  \<open>Upsert\<close> inserts with both timestamps at \<open>now\<close>; on a conflict it keeps the stored role,
  activity flag and creation time.
\<close>

definition user_upsert :: "instant \<Rightarrow> db \<Rightarrow> user \<Rightarrow> db \<times> unit result" where
  "user_upsert now s u =
     (case db_fault s of
        Some e \<Rightarrow> (s, Inl (ErrWrap ''upserting user'' (DriverErr e)))
      | None \<Rightarrow>
         (if list_ex (\<lambda>v. u_telegram_id v = u_telegram_id u) (db_users s)
          then (s\<lparr>db_users :=
                  map (\<lambda>v. if u_telegram_id v = u_telegram_id u
                           then v\<lparr>u_username := u_username u,
                                  u_display_name := u_display_name u,
                                  u_updated_at := now\<rparr>
                           else v) (db_users s)\<rparr>, Inr ())
          else (s\<lparr>db_users := db_users s @ [u\<lparr>u_created_at := now, u_updated_at := now\<rparr>]\<rparr>,
                Inr ())))"

definition user_list :: "db \<Rightarrow> user list result" where
  "user_list s =
     (case db_fault s of
        Some e \<Rightarrow> Inl (ErrWrap ''listing users'' (DriverErr e))
      | None \<Rightarrow> Inr (sort_key u_created_at (db_users s)))"

section \<open>Legacy roles (rbac\_repo.go)\<close>

definition get_user_role :: "db \<Rightarrow> user_id \<Rightarrow> string result" where
  "get_user_role s tid =
     (case db_fault s of
        Some e \<Rightarrow> Inl (ErrWrap ''getting user role'' (DriverErr e))
      | None \<Rightarrow>
         (case find (\<lambda>u. u_telegram_id u = tid) (db_users s) of
            None \<Rightarrow> Inl ErrNotFound
          | Some u \<Rightarrow> Inr (u_role u)))"

definition set_user_role :: "instant \<Rightarrow> db \<Rightarrow> user_id \<Rightarrow> string \<Rightarrow> db \<times> unit result" where
  "set_user_role now s tid r =
     (case db_fault s of
        Some e \<Rightarrow> (s, Inl (ErrWrap ''setting user role'' (DriverErr e)))
      | None \<Rightarrow>
         (let s' = s\<lparr>db_users :=
                map (\<lambda>u. if u_telegram_id u = tid
                         then u\<lparr>u_role := r, u_updated_at := column_time now\<rparr> else u)
                    (db_users s)\<rparr>;
              rows = length (filter (\<lambda>u. u_telegram_id u = tid) (db_users s))
          in if rows = 0 then (s', Inl ErrNotFound) else (s', Inr ())))"

section \<open>Custom roles (rbac\_repo.go)\<close>

definition create_role :: "db \<Rightarrow> role \<Rightarrow> db \<times> unit result" where
  "create_role s r =
     (let row = \<lparr>rr_name = r_name r, rr_display_name = r_display_name r,
                 rr_description = r_description r, rr_rules = Some (r_rules r),
                 rr_is_builtin = bool_to_int (r_is_builtin r),
                 rr_created_at = column_time (r_created_at r)\<rparr>
      in exec_sql s
          (if list_ex (\<lambda>x. rr_name x = r_name r) (db_roles s)
           then s\<lparr>db_roles :=
                  map (\<lambda>x. if rr_name x = r_name r
                           then x\<lparr>rr_display_name := rr_display_name row,
                                  rr_description := rr_description row,
                                  rr_rules := rr_rules row\<rparr>
                           else x) (db_roles s)\<rparr>
           else s\<lparr>db_roles := db_roles s @ [row]\<rparr>) ())"

definition role_of_row :: "role_row \<Rightarrow> policy_rule list \<Rightarrow> role" where
  "role_of_row x rules =
     \<lparr>r_name = rr_name x, r_display_name = rr_display_name x,
      r_description = rr_description x, r_rules = rules,
      r_is_builtin = (rr_is_builtin x = 1), r_created_at = rr_created_at x,
      r_permissions = []\<rparr>"

definition get_role :: "db \<Rightarrow> string \<Rightarrow> role result" where
  "get_role s name =
     (case db_fault s of
        Some e \<Rightarrow> Inl (ErrWrap ''get role'' (DriverErr e))
      | None \<Rightarrow>
         (case find (\<lambda>x. rr_name x = name) (db_roles s) of
            None \<Rightarrow> Inl ErrNotFound
          | Some x \<Rightarrow>
             (case rr_rules x of
                None \<Rightarrow> Inl (ErrWrap ''unmarshal rules'' (DriverErr ''invalid JSON''))
              | Some rules \<Rightarrow> Inr (role_of_row x rules))))"

text \<open>\<open>ListRoles\<close> ignores a rules column it cannot parse.\<close>

definition list_roles :: "db \<Rightarrow> role list result" where
  "list_roles s =
     query s (map (\<lambda>x. role_of_row x (case rr_rules x of None \<Rightarrow> [] | Some rs \<Rightarrow> rs))
                  (sort_key rr_name (db_roles s)))"

definition delete_role :: "db \<Rightarrow> string \<Rightarrow> db \<times> unit result" where
  "delete_role s name =
     exec_sql s
       (s\<lparr>db_roles := filter (\<lambda>x. rr_name x \<noteq> name) (db_roles s),
          db_bindings := (if db_fk_on s
                          then filter (\<lambda>b. b_role_name b \<noteq> name) (db_bindings s)
                          else db_bindings s)\<rparr>) ()"

section \<open>Role bindings (rbac\_repo.go)\<close>

definition create_role_binding :: "string \<Rightarrow> db \<Rightarrow> user_role_binding \<Rightarrow> db \<times> unit result" where
  "create_role_binding new_id s b0 =
     (let b = (if b_id b0 = '''' then b0\<lparr>b_id := new_id\<rparr> else b0);
          row = b\<lparr>b_expires_at := map_option column_time (b_expires_at b)\<rparr>
      in case db_fault s of
           Some e \<Rightarrow> (s, Inl (DriverErr e))
         | None \<Rightarrow>
            if list_ex (\<lambda>x. b_id x = b_id row) (db_bindings s)
            then (s, Inl (DriverErr ''UNIQUE constraint failed: user_role_bindings.id''))
            else if db_fk_on s \<and> \<not> list_ex (\<lambda>x. rr_name x = b_role_name row) (db_roles s)
            then (s, Inl (DriverErr ''FOREIGN KEY constraint failed''))
            else (s\<lparr>db_bindings := db_bindings s @ [row]\<rparr>, Inr ()))"

definition get_user_role_bindings :: "db \<Rightarrow> user_id \<Rightarrow> user_role_binding list result" where
  "get_user_role_bindings s uid =
     query s (filter (\<lambda>b. b_user_id b = uid) (db_bindings s))"

definition delete_role_binding :: "db \<Rightarrow> user_id \<Rightarrow> string \<Rightarrow> db \<times> unit result" where
  "delete_role_binding s uid rn =
     exec_sql s
       (s\<lparr>db_bindings := filter (\<lambda>b. \<not> (b_user_id b = uid \<and> b_role_name b = rn)) (db_bindings s)\<rparr>) ()"

definition list_all_bindings :: "db \<Rightarrow> user_role_binding list result" where
  "list_all_bindings s = query s (sort_key b_user_id (db_bindings s))"

lemmas rbac_repo_defs [repo_defs] =
  user_get_def user_upsert_def user_list_def get_user_role_def set_user_role_def
  create_role_def get_role_def list_roles_def delete_role_def create_role_binding_def
  get_user_role_bindings_def delete_role_binding_def list_all_bindings_def
  query_def exec_sql_def

section \<open>Primary keys are kept\<close>

lemma map_key_map:
  "(\<And>x. k (f x) = k x) \<Longrightarrow> map k (map f xs) = map k xs"
  by simp

lemma distinct_map_snoc [simp]:
  "distinct (map k (xs @ [x])) \<longleftrightarrow> distinct (map k xs) \<and> k x \<notin> k ` set xs"
  by auto

lemma distinct_map_filter_keys: "distinct (map k xs) \<Longrightarrow> distinct (map k (filter p xs))"
  by (induction xs) auto

lemma map_key_if [simp]:
  "(\<And>x. k (g x) = k x) \<Longrightarrow> map (\<lambda>x. k (if c x then g x else x)) xs = map k xs"
  by simp

lemma keys_ok_new_store [simp]: "keys_ok new_store"
  by (simp add: keys_ok_def new_store_def)

lemma keys_ok_user_upsert [inv_intros]: "keys_ok s \<Longrightarrow> keys_ok (fst (user_upsert now s u))"
  by (auto simp: keys_ok_def user_upsert_def list_ex_iff comp_def if_distrib image_iff
           cong: if_cong split: option.splits)

lemma keys_ok_set_user_role [inv_intros]: "keys_ok s \<Longrightarrow> keys_ok (fst (set_user_role now s t r))"
  by (auto simp: keys_ok_def set_user_role_def Let_def comp_def if_distrib
           cong: if_cong split: option.splits)

lemma keys_ok_create_role [inv_intros]: "keys_ok s \<Longrightarrow> keys_ok (fst (create_role s r))"
  by (auto simp: keys_ok_def create_role_def exec_sql_def Let_def list_ex_iff comp_def
      if_distrib image_iff cong: if_cong split: option.splits)

lemma keys_ok_delete_role [inv_intros]: "keys_ok s \<Longrightarrow> keys_ok (fst (delete_role s n))"
  by (auto simp: keys_ok_def delete_role_def exec_sql_def distinct_map_filter_keys
           split: option.splits)

lemma keys_ok_create_binding [inv_intros]: "keys_ok s \<Longrightarrow> keys_ok (fst (create_role_binding i s b))"
  by (auto simp: keys_ok_def create_role_binding_def Let_def list_ex_iff image_iff
           split: option.splits if_splits)

lemma keys_ok_delete_binding [inv_intros]: "keys_ok s \<Longrightarrow> keys_ok (fst (delete_role_binding s u n))"
  by (auto simp: keys_ok_def delete_role_binding_def exec_sql_def distinct_map_filter_keys
           split: option.splits)

section \<open>What lookups return after updates\<close>

lemma find_map_keyed:
  "(\<And>x. k (f x) = k x) \<Longrightarrow> find (\<lambda>y. k y = a) (map f xs) = map_option f (find (\<lambda>y. k y = a) xs)"
  by (induction xs) auto

lemma find_None_iff_filter: "find p xs = None \<longleftrightarrow> filter p xs = []"
  by (induction xs) auto

lemma find_append: "find p (xs @ ys) = (case find p xs of None \<Rightarrow> find p ys | Some x \<Rightarrow> Some x)"
  by (induction xs) auto

lemma user_get_fault [simp]: "db_fault s = Some e \<Longrightarrow> user_get s t = Inl (ErrWrap ''querying user'' (DriverErr e))"
  by (simp add: user_get_def)

lemma user_get_some:
  "db_fault s = None \<Longrightarrow> user_get s t =
     (case find (\<lambda>u. u_telegram_id u = t) (db_users s) of None \<Rightarrow> Inl ErrNotFound | Some u \<Rightarrow> Inr u)"
  by (simp add: user_get_def bool_to_int_def split: option.split)

end
