(* ===== verification/RbacEngine.thy ===== *)
theory RbacEngine
  imports Sqlite
begin

text \<open>
  Role-based access control (\<open>internal/rbac\<close>): the permission names and built-in roles of
  defaults.go and the engine of engine.go. The engine works over a repository interface
  (storage.RBACRepository), a record of operations here as it is an interface value in Go;
  \<open>rbac_repo\<close> states the laws a repository promises, and the SQLite repository is shown to
  keep them.
\<close>

section \<open>Permissions and built-in roles (defaults.go)\<close>

definition perm_k8s_pods_list :: string where "perm_k8s_pods_list = ''kubernetes.pods.list''"
definition perm_k8s_pods_get :: string where "perm_k8s_pods_get = ''kubernetes.pods.get''"
definition perm_k8s_pods_logs :: string where "perm_k8s_pods_logs = ''kubernetes.pods.logs''"
definition perm_k8s_pods_events :: string where "perm_k8s_pods_events = ''kubernetes.pods.events''"
definition perm_k8s_pods_restart :: string where "perm_k8s_pods_restart = ''kubernetes.pods.restart''"
definition perm_k8s_pods_delete :: string where "perm_k8s_pods_delete = ''kubernetes.pods.delete''"
definition perm_k8s_deployments_list :: string where
  "perm_k8s_deployments_list = ''kubernetes.deployments.list''"
definition perm_k8s_deployments_scale :: string where
  "perm_k8s_deployments_scale = ''kubernetes.deployments.scale''"
definition perm_k8s_metrics_view :: string where "perm_k8s_metrics_view = ''kubernetes.metrics.view''"
definition perm_k8s_nodes_view :: string where "perm_k8s_nodes_view = ''kubernetes.nodes.view''"
definition perm_k8s_nodes_cordon :: string where "perm_k8s_nodes_cordon = ''kubernetes.nodes.cordon''"
definition perm_k8s_nodes_drain :: string where "perm_k8s_nodes_drain = ''kubernetes.nodes.drain''"
definition perm_k8s_quota_view :: string where "perm_k8s_quota_view = ''kubernetes.quota.view''"
definition perm_k8s_namespaces_list :: string where
  "perm_k8s_namespaces_list = ''kubernetes.namespaces.list''"
definition perm_k8s_cronjobs_list :: string where "perm_k8s_cronjobs_list = ''kubernetes.cronjobs.list''"
definition perm_admin_users_manage :: string where "perm_admin_users_manage = ''admin.users.manage''"
definition perm_admin_rbac_manage :: string where "perm_admin_rbac_manage = ''admin.rbac.manage''"
definition perm_admin_audit_view :: string where "perm_admin_audit_view = ''admin.audit.view''"
definition perm_argocd_apps_list :: string where "perm_argocd_apps_list = ''argocd.apps.list''"
definition perm_argocd_apps_view :: string where "perm_argocd_apps_view = ''argocd.apps.view''"
definition perm_argocd_apps_diff :: string where "perm_argocd_apps_diff = ''argocd.apps.diff''"
definition perm_argocd_apps_sync :: string where "perm_argocd_apps_sync = ''argocd.apps.sync''"
definition perm_argocd_apps_rollback :: string where
  "perm_argocd_apps_rollback = ''argocd.apps.rollback''"
definition perm_argocd_freeze_manage :: string where
  "perm_argocd_freeze_manage = ''argocd.freeze.manage''"
definition perm_helm_releases_list :: string where "perm_helm_releases_list = ''helm.releases.list''"
definition perm_helm_releases_rollback :: string where
  "perm_helm_releases_rollback = ''helm.releases.rollback''"

lemmas perm_defs =
  perm_k8s_pods_list_def perm_k8s_pods_get_def perm_k8s_pods_logs_def perm_k8s_pods_events_def
  perm_k8s_pods_restart_def perm_k8s_pods_delete_def perm_k8s_deployments_list_def
  perm_k8s_deployments_scale_def perm_k8s_metrics_view_def perm_k8s_nodes_view_def
  perm_k8s_nodes_cordon_def perm_k8s_nodes_drain_def perm_k8s_quota_view_def
  perm_k8s_namespaces_list_def perm_k8s_cronjobs_list_def perm_admin_users_manage_def
  perm_admin_rbac_manage_def perm_admin_audit_view_def perm_argocd_apps_list_def
  perm_argocd_apps_view_def perm_argocd_apps_diff_def perm_argocd_apps_sync_def
  perm_argocd_apps_rollback_def perm_argocd_freeze_manage_def perm_helm_releases_list_def
  perm_helm_releases_rollback_def

definition viewer_perms :: "string list" where
  "viewer_perms =
     [perm_k8s_pods_list, perm_k8s_pods_get, perm_k8s_pods_logs, perm_k8s_pods_events,
      perm_k8s_metrics_view, perm_k8s_nodes_view, perm_k8s_quota_view,
      perm_k8s_namespaces_list, perm_k8s_deployments_list, perm_k8s_cronjobs_list,
      perm_argocd_apps_list, perm_argocd_apps_view]"

definition operator_perms :: "string list" where
  "operator_perms = viewer_perms @
     [perm_k8s_pods_restart, perm_k8s_deployments_scale, perm_argocd_apps_diff,
      perm_helm_releases_list]"

definition admin_perms :: "string list" where
  "admin_perms = operator_perms @
     [perm_k8s_pods_delete, perm_k8s_nodes_cordon, perm_k8s_nodes_drain,
      perm_admin_users_manage, perm_admin_rbac_manage, perm_admin_audit_view,
      perm_argocd_apps_sync, perm_argocd_apps_rollback, perm_argocd_freeze_manage,
      perm_helm_releases_rollback]"

definition on_call_perms :: "string list" where
  "on_call_perms = operator_perms @ [perm_argocd_apps_rollback, perm_k8s_nodes_drain]"

text \<open>\<open>splitPerm\<close> scans the string, cutting at every dot; \<open>seg\<close> is the part since \<open>start\<close>.\<close>

fun split_perm_loop :: "string list \<Rightarrow> string \<Rightarrow> string \<Rightarrow> string list" where
  "split_perm_loop parts seg [] = parts @ [seg]"
| "split_perm_loop parts seg (c # cs) =
     (if c = CHR ''.'' then split_perm_loop (parts @ [seg]) [] cs
      else split_perm_loop parts (seg @ [c]) cs)"

definition split_perm :: "string \<Rightarrow> string list" where
  "split_perm perm = split_perm_loop [] [] perm"

fun flat_perms_to_rules :: "string list \<Rightarrow> string \<Rightarrow> policy_rule list" where
  "flat_perms_to_rules [] eff = []"
| "flat_perms_to_rules (p # ps) eff =
     (case split_perm p of
        [m, r, a] \<Rightarrow>
          \<lparr>pr_modules = [m], pr_resources = [r], pr_actions = [a],
           pr_clusters = [''*''], pr_namespaces = [''*''], pr_effect = eff\<rparr>
          # flat_perms_to_rules ps eff
      | _ \<Rightarrow> flat_perms_to_rules ps eff)"

definition default_roles :: "instant \<Rightarrow> role list" where
  "default_roles now =
     [\<lparr>r_name = role_viewer, r_display_name = ''Viewer'',
       r_description = ''Read-only access to Kubernetes resources'',
       r_rules = flat_perms_to_rules viewer_perms ''allow'', r_is_builtin = True,
       r_created_at = now, r_permissions = viewer_perms\<rparr>,
      \<lparr>r_name = role_operator, r_display_name = ''Operator'',
       r_description = ''Can perform operational actions like restart and scale'',
       r_rules = flat_perms_to_rules operator_perms ''allow'', r_is_builtin = True,
       r_created_at = now, r_permissions = operator_perms\<rparr>,
      \<lparr>r_name = role_admin, r_display_name = ''Admin'',
       r_description = ''Full access to all features'',
       r_rules = flat_perms_to_rules admin_perms ''allow'', r_is_builtin = True,
       r_created_at = now, r_permissions = admin_perms\<rparr>,
      \<lparr>r_name = role_super_admin, r_display_name = ''Super Admin'',
       r_description = ''Super admin: always allowed (config-driven)'',
       r_rules = [\<lparr>pr_modules = [''*''], pr_resources = [''*''], pr_actions = [''*''],
                   pr_clusters = [''*''], pr_namespaces = [''*''], pr_effect = ''allow''\<rparr>],
       r_is_builtin = True, r_created_at = now, r_permissions = admin_perms\<rparr>,
      \<lparr>r_name = role_on_call, r_display_name = ''On-Call'',
       r_description = ''Emergency access: includes rollback and drain; auto-expires'',
       r_rules = flat_perms_to_rules on_call_perms ''allow'', r_is_builtin = True,
       r_created_at = now, r_permissions = on_call_perms\<rparr>]"

section \<open>The repository interface (storage.RBACRepository)\<close>

record 's rbac_repository =
  rp_get_user_role :: "'s \<Rightarrow> user_id \<Rightarrow> string result"
  rp_set_user_role :: "instant \<Rightarrow> 's \<Rightarrow> user_id \<Rightarrow> string \<Rightarrow> 's \<times> unit result"
  rp_create_role :: "'s \<Rightarrow> role \<Rightarrow> 's \<times> unit result"
  rp_get_role :: "'s \<Rightarrow> string \<Rightarrow> role result"
  rp_list_roles :: "'s \<Rightarrow> role list result"
  rp_delete_role :: "'s \<Rightarrow> string \<Rightarrow> 's \<times> unit result"
  rp_create_role_binding :: "string \<Rightarrow> 's \<Rightarrow> user_role_binding \<Rightarrow> 's \<times> unit result"
  rp_get_user_role_bindings :: "'s \<Rightarrow> user_id \<Rightarrow> user_role_binding list result"
  rp_delete_role_binding :: "'s \<Rightarrow> user_id \<Rightarrow> string \<Rightarrow> 's \<times> unit result"
  rp_list_all_bindings :: "'s \<Rightarrow> user_role_binding list result"

definition sqlite_rbac :: "db rbac_repository" where
  "sqlite_rbac =
     \<lparr>rp_get_user_role = get_user_role, rp_set_user_role = set_user_role,
      rp_create_role = create_role, rp_get_role = get_role, rp_list_roles = list_roles,
      rp_delete_role = delete_role, rp_create_role_binding = create_role_binding,
      rp_get_user_role_bindings = get_user_role_bindings,
      rp_delete_role_binding = delete_role_binding,
      rp_list_all_bindings = list_all_bindings\<rparr>"

section \<open>The engine (engine.go)\<close>

record permission_request =
  pq_module :: string
  pq_resource :: string
  pq_action :: string
  pq_cluster :: string
  pq_namespace :: string

definition request_string :: "permission_request \<Rightarrow> string" where
  "request_string p = pq_module p @ ''.'' @ pq_resource p @ ''.'' @ pq_action p @ ''@'' @
     pq_cluster p @ ''/'' @ pq_namespace p"

record engine =
  en_super_admins :: "user_id \<rightharpoonup> bool"
  en_default_role :: string
  en_builtin_roles :: "string \<rightharpoonup> role"
  en_builtin_perms :: "string \<rightharpoonup> (string \<rightharpoonup> bool)"

fun init_default_roles :: "role list \<Rightarrow> engine \<Rightarrow> engine" where
  "init_default_roles [] e = e"
| "init_default_roles (r # rs) e =
     init_default_roles rs
       (e\<lparr>en_builtin_roles := (en_builtin_roles e)(r_name r \<mapsto> r),
          en_builtin_perms :=
            (en_builtin_perms e)(r_name r \<mapsto> mark_all Map.empty (r_permissions r))\<rparr>)"

definition new_engine :: "instant \<Rightarrow> string \<Rightarrow> user_id list \<Rightarrow> engine" where
  "new_engine now default_role admin_ids =
     init_default_roles (default_roles now)
       \<lparr>en_super_admins = mark_all Map.empty admin_ids,
        en_default_role = (if default_role = '''' then role_viewer else default_role),
        en_builtin_roles = Map.empty, en_builtin_perms = Map.empty\<rparr>"

definition is_super_admin :: "engine \<Rightarrow> user_id \<Rightarrow> bool" where
  "is_super_admin e uid = bool_at (en_super_admins e) uid"

definition eng_get_role :: "'s rbac_repository \<Rightarrow> engine \<Rightarrow> 's \<Rightarrow> user_id \<Rightarrow> string result" where
  "eng_get_role R e s uid =
     (if is_super_admin e uid then Inr role_admin
      else (case rp_get_user_role R s uid of
              Inr r \<Rightarrow> Inr r
            | Inl err \<Rightarrow>
                if err = ErrNotFound then Inr (en_default_role e)
                else Inl (ErrWrap ''getting user role'' err)))"

definition has_permission ::
  "'s rbac_repository \<Rightarrow> engine \<Rightarrow> 's \<Rightarrow> user_id \<Rightarrow> string \<Rightarrow> bool result" where
  "has_permission R e s uid perm =
     (if is_super_admin e uid then Inr True
      else (case eng_get_role R e s uid of
              Inl err \<Rightarrow> Inl err
            | Inr r \<Rightarrow>
               (case en_builtin_perms e r of
                  None \<Rightarrow> Inr False
                | Some perms \<Rightarrow> Inr (bool_at perms perm))))"

text \<open>
  The loop over the rules of one role either stops the whole evaluation (a deny rule
  matched) or goes on with the two flags \<open>allowed\<close> and \<open>hasAnyMatch\<close>.
\<close>

datatype auth_flow = DenyNow | Flags bool bool

definition rule_applies :: "permission_request \<Rightarrow> policy_rule \<Rightarrow> bool" where
  "rule_applies q r =
     rule_matches r (pq_module q) (pq_resource q) (pq_action q) (pq_cluster q) (pq_namespace q)"

fun eval_rules :: "permission_request \<Rightarrow> policy_rule list \<Rightarrow> bool \<Rightarrow> bool \<Rightarrow> auth_flow" where
  "eval_rules q [] allowed any = Flags allowed any"
| "eval_rules q (r # rs) allowed any =
     (if \<not> rule_applies q r then eval_rules q rs allowed any
      else if pr_effect r = ''deny'' then DenyNow
      else eval_rules q rs True True)"

fun eval_bindings ::
  "'s rbac_repository \<Rightarrow> 's \<Rightarrow> instant \<Rightarrow> permission_request \<Rightarrow> user_role_binding list \<Rightarrow>
   bool \<Rightarrow> bool \<Rightarrow> auth_flow" where
  "eval_bindings R s now q [] allowed any = Flags allowed any"
| "eval_bindings R s now q (b # bs) allowed any =
     (if binding_is_expired now b then eval_bindings R s now q bs allowed any
      else (case rp_get_role R s (b_role_name b) of
              Inl err \<Rightarrow> eval_bindings R s now q bs allowed any
            | Inr r \<Rightarrow>
               (case eval_rules q (r_rules r) allowed any of
                  DenyNow \<Rightarrow> DenyNow
                | Flags al an \<Rightarrow> eval_bindings R s now q bs al an)))"

definition flat_perm :: "permission_request \<Rightarrow> string" where
  "flat_perm q = pq_module q @ ''.'' @ pq_resource q @ ''.'' @ pq_action q"

definition authorize ::
  "'s rbac_repository \<Rightarrow> engine \<Rightarrow> 's \<Rightarrow> instant \<Rightarrow> user_id \<Rightarrow> permission_request \<Rightarrow> bool result"
where
  "authorize R e s now uid q =
     (if is_super_admin e uid then Inr True
      else
        let flat = has_permission R e s uid (flat_perm q)
        in case rp_get_user_role_bindings R s uid of
             Inl err \<Rightarrow> flat
           | Inr [] \<Rightarrow> flat
           | Inr bs \<Rightarrow>
              (case eval_bindings R s now q bs False False of
                 DenyNow \<Rightarrow> Inr False
               | Flags allowed any \<Rightarrow> if any then Inr allowed else flat))"

definition eng_set_role ::
  "'s rbac_repository \<Rightarrow> instant \<Rightarrow> 's \<Rightarrow> user_id \<Rightarrow> string \<Rightarrow> 's \<times> unit result" where
  "eng_set_role R now s uid r =
     (if \<not> is_valid_role r then (s, Inl (ErrText (''invalid role: '' @ r)))
      else rp_set_user_role R now s uid r)"

definition role_permissions :: "engine \<Rightarrow> string \<Rightarrow> string list" where
  "role_permissions e r =
     (case en_builtin_roles e r of None \<Rightarrow> [] | Some x \<Rightarrow> r_permissions x)"

definition eng_create_role :: "'s rbac_repository \<Rightarrow> 's \<Rightarrow> role \<Rightarrow> 's \<times> unit result" where
  "eng_create_role R s r =
     (if r_name r = '''' then (s, Inl (ErrText ''role name is required''))
      else rp_create_role R s r)"

definition eng_list_roles :: "'s rbac_repository \<Rightarrow> 's \<Rightarrow> role list result" where
  "eng_list_roles R s = rp_list_roles R s"

definition assign_role ::
  "'s rbac_repository \<Rightarrow> string \<Rightarrow> 's \<Rightarrow> user_role_binding \<Rightarrow> 's \<times> unit result" where
  "assign_role R new_id s b =
     (if b_user_id b = 0 then (s, Inl (ErrText ''user_id is required''))
      else if b_role_name b = '''' then (s, Inl (ErrText ''role_name is required''))
      else rp_create_role_binding R new_id s
             (if b_id b = '''' then b\<lparr>b_id := new_id\<rparr> else b))"

definition revoke_role :: "'s rbac_repository \<Rightarrow> 's \<Rightarrow> user_id \<Rightarrow> string \<Rightarrow> 's \<times> unit result" where
  "revoke_role R s uid rn = rp_delete_role_binding R s uid rn"

definition list_user_bindings ::
  "'s rbac_repository \<Rightarrow> 's \<Rightarrow> user_id \<Rightarrow> user_role_binding list result" where
  "list_user_bindings R s uid = rp_get_user_role_bindings R s uid"

definition eng_list_all_bindings ::
  "'s rbac_repository \<Rightarrow> 's \<Rightarrow> user_role_binding list result" where
  "eng_list_all_bindings R s = rp_list_all_bindings R s"

end
