(* ===== verification/RbacSpec.thy ===== *)
theory RbacSpec
  imports RbacEngine
begin

text \<open>
  What the RBAC engine promises: a reference semantics of policy rules that the two nested
  loops of \<open>Authorize\<close> implement, the laws of a role repository as a locale with the
  engine's guarantees proved once from them, its interpretation by the SQLite repository, and
  the properties of the built-in roles.
\<close>

section \<open>Reference semantics of policy evaluation\<close>

text \<open>The rules in force: those of every unexpired binding whose role can be read.\<close>

definition active_rules ::
  "'s rbac_repository \<Rightarrow> 's \<Rightarrow> instant \<Rightarrow> user_role_binding list \<Rightarrow> policy_rule list" where
  "active_rules R s now bs =
     concat (map (\<lambda>b. case rp_get_role R s (b_role_name b) of
                        Inl e \<Rightarrow> [] | Inr r \<Rightarrow> r_rules r)
                 (filter (\<lambda>b. \<not> binding_is_expired now b) bs))"

text \<open>Deny overrides allow; no matching rule leaves the question open.\<close>

definition policy_verdict :: "policy_rule list \<Rightarrow> permission_request \<Rightarrow> bool option" where
  "policy_verdict rules q =
     (if list_ex (\<lambda>r. rule_applies q r \<and> pr_effect r = ''deny'') rules then Some False
      else if list_ex (rule_applies q) rules then Some True
      else None)"

fun flow_of :: "bool option \<Rightarrow> bool \<Rightarrow> bool \<Rightarrow> auth_flow" where
  "flow_of None al an = Flags al an"
| "flow_of (Some True) al an = Flags True True"
| "flow_of (Some False) al an = DenyNow"

lemma policy_verdict_append:
  "policy_verdict (xs @ ys) q =
     (case (policy_verdict xs q, policy_verdict ys q) of
        (Some False, _) \<Rightarrow> Some False
      | (_, Some False) \<Rightarrow> Some False
      | (None, v) \<Rightarrow> v
      | (Some True, _) \<Rightarrow> Some True)"
  by (auto simp: policy_verdict_def list_ex_iff split: if_splits)

lemma policy_verdict_Nil [simp]: "policy_verdict [] q = None"
  by (simp add: policy_verdict_def)

lemma policy_verdict_set_cong: "set xs = set ys \<Longrightarrow> policy_verdict xs q = policy_verdict ys q"
  by (simp add: policy_verdict_def list_ex_iff)

lemma eval_rules_verdict [flow_simps]:
  "eval_rules q rs al an = flow_of (policy_verdict rs q) al an"
proof (induction q rs al an rule: eval_rules.induct)
  case (1 q allowed any)
  then show ?case by simp
next
  case (2 q r rs allowed any)
  then show ?case
    by (auto simp: policy_verdict_def)
qed

lemma active_rules_Cons:
  "active_rules R s now (b # bs) =
     (if binding_is_expired now b then []
      else (case rp_get_role R s (b_role_name b) of Inl e \<Rightarrow> [] | Inr r \<Rightarrow> r_rules r))
     @ active_rules R s now bs"
  by (simp add: active_rules_def)

lemma active_rules_Nil [simp]: "active_rules R s now [] = []"
  by (simp add: active_rules_def)

lemma eval_bindings_verdict [flow_simps]:
  "eval_bindings R s now q bs al an = flow_of (policy_verdict (active_rules R s now bs) q) al an"
proof (induction R s now q bs al an rule: eval_bindings.induct)
  case (1 R s now q allowed any)
  then show ?case by simp
next
  case (2 R s now q b bs allowed any)
  show ?case
  proof (cases "binding_is_expired now b")
    case True
    with 2 show ?thesis by (simp add: active_rules_Cons)
  next
    case False
    show ?thesis
    proof (cases "rp_get_role R s (b_role_name b)")
      case (Inl e)
      with False 2 show ?thesis by (simp add: active_rules_Cons)
    next
      case (Inr r)
      have ih: "eval_bindings R s now q bs al an = flow_of (policy_verdict (active_rules R s now bs) q) al an"
        if "eval_rules q (r_rules r) allowed any = Flags al an" for al an
        using 2(3)[OF False Inr that] .
      consider "policy_verdict (r_rules r) q = None" | "policy_verdict (r_rules r) q = Some True"
        | "policy_verdict (r_rules r) q = Some False"
        by (cases "policy_verdict (r_rules r) q") auto
      then show ?thesis
      proof cases
        case 1
        then show ?thesis
          using False Inr ih [of allowed any]
          by (simp add: active_rules_Cons eval_rules_verdict policy_verdict_append
                   split: option.split bool.split)
      next
        case 2
        then show ?thesis
          using False Inr ih [of True True]
          by (cases "policy_verdict (active_rules R s now bs) q")
             (auto simp add: active_rules_Cons eval_rules_verdict policy_verdict_append
                   split: option.split bool.split)
      next
        case 3
        then show ?thesis
          using False Inr by (simp add: active_rules_Cons eval_rules_verdict policy_verdict_append)
      qed
    qed
  qed
qed

lemma authorize_unfold:
  "\<not> is_super_admin e uid \<Longrightarrow> rp_get_user_role_bindings R s uid = Inr bs \<Longrightarrow>
   authorize R e s now uid q =
     (case policy_verdict (active_rules R s now bs) q of
        Some b \<Rightarrow> Inr b
      | None \<Rightarrow> has_permission R e s uid (flat_perm q))"
proof (cases "policy_verdict (active_rules R s now bs) q")
  case None
  assume "\<not> is_super_admin e uid" "rp_get_user_role_bindings R s uid = Inr bs"
  with None show ?thesis by (cases bs) (auto simp: authorize_def flow_simps)
next
  case (Some b)
  assume "\<not> is_super_admin e uid" "rp_get_user_role_bindings R s uid = Inr bs"
  with Some show ?thesis by (cases bs; cases b) (auto simp: authorize_def flow_simps)
qed

section \<open>What a role repository promises\<close>

text \<open>
  \<open>ok\<close> is the repository's own invariant, \<open>keep_time\<close> how it rounds a stored expiry. The
  laws say what the engine relies on: writes are seen by the matching reads and leave the
  other reads alone.
\<close>

locale rbac_store =
  fixes R :: "'s rbac_repository"
    and ok :: "'s \<Rightarrow> bool"
    and keep_time :: "instant \<Rightarrow> instant"
  assumes keep_time_le: "keep_time t \<le> t"
    and ok_set_role: "ok s \<Longrightarrow> ok (fst (rp_set_user_role R now s u r))"
    and get_set_known: "ok s \<Longrightarrow> rp_get_user_role R s u = Inr r0 \<Longrightarrow>
      rp_set_user_role R now s u r = (s', Inr ()) \<Longrightarrow> rp_get_user_role R s' u = Inr r"
    and get_set_other: "ok s \<Longrightarrow> rp_set_user_role R now s u r = (s', Inr ()) \<Longrightarrow> v \<noteq> u \<Longrightarrow>
      rp_get_user_role R s' v = rp_get_user_role R s v"
    and ok_create_binding: "ok s \<Longrightarrow> ok (fst (rp_create_role_binding R i s b))"
    and bindings_create: "ok s \<Longrightarrow> b_id b \<noteq> '''' \<Longrightarrow>
      rp_create_role_binding R i s b = (s', Inr ()) \<Longrightarrow>
      rp_get_user_role_bindings R s u = Inr bs \<Longrightarrow>
      rp_get_user_role_bindings R s' u =
        Inr (bs @ (if b_user_id b = u
                   then [b\<lparr>b_expires_at := map_option keep_time (b_expires_at b)\<rparr>] else []))"
    and role_create_binding: "ok s \<Longrightarrow> rp_create_role_binding R i s b = (s', Inr ()) \<Longrightarrow>
      rp_get_role R s' n = rp_get_role R s n \<and> rp_get_user_role R s' u = rp_get_user_role R s u"
    and ok_delete_binding: "ok s \<Longrightarrow> ok (fst (rp_delete_role_binding R s u n))"
    and bindings_delete: "ok s \<Longrightarrow> rp_delete_role_binding R s u n = (s', Inr ()) \<Longrightarrow>
      rp_get_user_role_bindings R s v = Inr bs \<Longrightarrow>
      rp_get_user_role_bindings R s' v =
        Inr (filter (\<lambda>b. \<not> (b_user_id b = u \<and> b_role_name b = n)) bs)"
    and role_delete_binding: "ok s \<Longrightarrow> rp_delete_role_binding R s u n = (s', Inr ()) \<Longrightarrow>
      rp_get_role R s' m = rp_get_role R s m \<and> rp_get_user_role R s' v = rp_get_user_role R s v"
    and bindings_owner: "ok s \<Longrightarrow> rp_get_user_role_bindings R s u = Inr bs \<Longrightarrow> b \<in> set bs \<Longrightarrow>
      b_user_id b = u"
begin

lemma has_permission_reads_role_only:
  "rp_get_user_role R s' u = rp_get_user_role R s u \<Longrightarrow>
   has_permission R e s' u p = has_permission R e s u p"
  by (simp add: has_permission_def eng_get_role_def)

lemma active_rules_cong:
  "(\<And>n. rp_get_role R s' n = rp_get_role R s n) \<Longrightarrow>
   active_rules R s' now bs = active_rules R s now bs"
  by (simp add: active_rules_def)

text \<open>A binding that has run out changes no decision: emergency access ends by itself.\<close>

lemma expired_assignment_is_inert:
  assumes "ok s" and bs: "rp_get_user_role_bindings R s uid = Inr bs"
    and a: "assign_role R new_id s b = (s', Inr ())" and "new_id \<noteq> ''''"
    and exp: "b_expires_at b = Some t" "t < now"
  shows "authorize R e s' now uid q = authorize R e s now uid q"
proof -
  define b' where "b' = (if b_id b = '''' then b\<lparr>b_id := new_id\<rparr> else b)"
  define extra where "extra = (if b_user_id b' = uid
                 then [b'\<lparr>b_expires_at := map_option keep_time (b_expires_at b')\<rparr>] else [])"
  from a have cr: "rp_create_role_binding R new_id s b' = (s', Inr ())"
    by (auto simp: assign_role_def b'_def split: if_splits)
  have idb: "b_id b' \<noteq> ''''" using \<open>new_id \<noteq> ''''\<close> by (simp add: b'_def)
  have e': "b_expires_at b' = Some t" using exp by (simp add: b'_def)
  note same = role_create_binding [OF \<open>ok s\<close> cr]
  have bs': "rp_get_user_role_bindings R s' uid = Inr (bs @ extra)"
    unfolding extra_def by (rule bindings_create [OF \<open>ok s\<close> idb cr bs])
  have late: "keep_time t < now" using keep_time_le [of t] exp(2) by simp
  have rules: "active_rules R s' now (bs @ extra) = active_rules R s now bs"
    using late e' same by (simp add: active_rules_def binding_is_expired_def extra_def)
  have flat: "has_permission R e s' uid p = has_permission R e s uid p" for p
    using same by (intro has_permission_reads_role_only) simp
  show ?thesis
  proof (cases "is_super_admin e uid")
    case True
    then show ?thesis by (simp add: authorize_def)
  next
    case False
    then show ?thesis
      by (simp add: authorize_unfold [OF False bs'] authorize_unfold [OF False bs] rules flat
          split: option.split)
  qed
qed

text \<open>After a revocation the role's rules are gone from the decision, and only those.\<close>

lemma authorize_after_revoke:
  assumes "ok s" "\<not> is_super_admin e uid"
    and bs: "rp_get_user_role_bindings R s uid = Inr bs"
    and rv: "revoke_role R s uid n = (s', Inr ())"
  shows "authorize R e s' now uid q =
     (case policy_verdict (active_rules R s now (filter (\<lambda>b. b_role_name b \<noteq> n) bs)) q of
        Some d \<Rightarrow> Inr d
      | None \<Rightarrow> has_permission R e s uid (flat_perm q))"
proof -
  from rv have dl: "rp_delete_role_binding R s uid n = (s', Inr ())"
    by (simp add: revoke_role_def)
  note same = role_delete_binding [OF \<open>ok s\<close> dl]
  have own: "b \<in> set bs \<Longrightarrow> b_user_id b = uid" for b
    using bindings_owner [OF \<open>ok s\<close> bs] .
  have "filter (\<lambda>b. \<not> (b_user_id b = uid \<and> b_role_name b = n)) bs
        = filter (\<lambda>b. b_role_name b \<noteq> n) bs"
    using own by (auto intro: filter_cong)
  then have "rp_get_user_role_bindings R s' uid = Inr (filter (\<lambda>b. b_role_name b \<noteq> n) bs)"
    using bindings_delete [OF \<open>ok s\<close> dl bs] by simp
  moreover have "active_rules R s' now xs = active_rules R s now xs" for xs
    using same by (intro active_rules_cong) simp
  moreover have "has_permission R e s' uid p = has_permission R e s uid p" for p
    using same by (intro has_permission_reads_role_only) simp
  ultimately show ?thesis
    using assms(2) by (simp add: authorize_unfold split: option.split)
qed

end

text \<open>A repository that reports the change of an unknown user's role as an error.\<close>

locale rbac_repo = rbac_store +
  assumes get_set_same: "ok s \<Longrightarrow> rp_set_user_role R now s u r = (s', Inr ()) \<Longrightarrow>
      rp_get_user_role R s' u = Inr r"
begin

lemma set_then_get_role:
  assumes "ok s" "\<not> is_super_admin e u" "eng_set_role R now s u r = (s', Inr ())"
  shows "is_valid_role r" and "eng_get_role R e s' u = Inr r"
    and "v \<noteq> u \<Longrightarrow> eng_get_role R e s' v = eng_get_role R e s v"
  using assms by (auto simp: eng_set_role_def eng_get_role_def get_set_same get_set_other
      split: if_splits)

end

section \<open>The SQLite repository keeps these laws\<close>

definition rbac_ok :: "db \<Rightarrow> bool" where
  "rbac_ok s \<longleftrightarrow> distinct (map u_telegram_id (db_users s)) \<and> distinct (map b_id (db_bindings s))"

lemma keys_ok_rbac_ok: "keys_ok s \<Longrightarrow> rbac_ok s"
  by (simp add: keys_ok_def rbac_ok_def)

lemma find_map_update:
  "find (\<lambda>u. u_telegram_id u = v) (map (\<lambda>u. if u_telegram_id u = t
        then u\<lparr>u_role := r, u_updated_at := n\<rparr> else u) us) =
   map_option (\<lambda>u. if u_telegram_id u = t then u\<lparr>u_role := r, u_updated_at := n\<rparr> else u)
     (find (\<lambda>u. u_telegram_id u = v) us)"
  by (rule find_map_keyed) simp

lemma set_role_frame:
  assumes "set_user_role now s u r = (s', Inr ())"
  shows "get_user_role s' v = (if v = u then Inr r else get_user_role s v)"
proof -
  from assms have nf: "db_fault s = None"
    by (auto simp: set_user_role_def split: option.splits)
  with assms have s': "db_fault s' = None" "db_users s' =
      map (\<lambda>x. if u_telegram_id x = u then x\<lparr>u_role := r, u_updated_at := column_time now\<rparr> else x)
        (db_users s)"
    and ne: "filter (\<lambda>x. u_telegram_id x = u) (db_users s) \<noteq> []"
    by (auto simp: set_user_role_def Let_def split: if_splits)
  from ne obtain x where x: "find (\<lambda>x. u_telegram_id x = u) (db_users s) = Some x"
    by (cases "find (\<lambda>x. u_telegram_id x = u) (db_users s)") (auto simp: find_None_iff_filter)
  show ?thesis
  proof (cases "v = u")
    case True
    with s' x nf find_SomeD [OF x] show ?thesis by (simp add: get_user_role_def find_map_update)
  next
    case False
    then show ?thesis
      using s' nf by (auto simp add: get_user_role_def find_map_update dest: find_SomeD
          split: option.split)
  qed
qed

lemma sqlite_rbac_ops [simp]:
  "rp_get_user_role sqlite_rbac = get_user_role"
  "rp_set_user_role sqlite_rbac = set_user_role"
  "rp_create_role sqlite_rbac = create_role"
  "rp_get_role sqlite_rbac = get_role"
  "rp_list_roles sqlite_rbac = list_roles"
  "rp_delete_role sqlite_rbac = delete_role"
  "rp_create_role_binding sqlite_rbac = create_role_binding"
  "rp_get_user_role_bindings sqlite_rbac = get_user_role_bindings"
  "rp_delete_role_binding sqlite_rbac = delete_role_binding"
  "rp_list_all_bindings sqlite_rbac = list_all_bindings"
  by (simp_all add: sqlite_rbac_def)

interpretation sq: rbac_repo sqlite_rbac rbac_ok column_time
proof
  fix t show "column_time t \<le> t" by (rule column_time_le)
next
  fix s now u r
  assume "rbac_ok s"
  then show "rbac_ok (fst (rp_set_user_role sqlite_rbac now s u r))"
    by (auto simp: rbac_ok_def set_user_role_def Let_def comp_def if_distrib
        cong: if_cong split: option.splits)
next
  fix s now u r s'
  assume "rp_set_user_role sqlite_rbac now s u r = (s', Inr ())"
  then show "rp_get_user_role sqlite_rbac s' u = Inr r"
    by (simp add: set_role_frame)
next
  fix s now u r s' v
  assume "rp_set_user_role sqlite_rbac now s u r = (s', Inr ())" "v \<noteq> u"
  then show "rp_get_user_role sqlite_rbac s' v = rp_get_user_role sqlite_rbac s v"
    by (simp add: set_role_frame)
next
  fix s i b
  assume "rbac_ok s"
  then show "rbac_ok (fst (rp_create_role_binding sqlite_rbac i s b))"
    by (auto simp: rbac_ok_def create_role_binding_def Let_def list_ex_iff
        image_iff split: option.splits if_splits)
next
  fix s i b s' u bs
  assume "b_id b \<noteq> ''''" "rp_create_role_binding sqlite_rbac i s b = (s', Inr ())"
    "rp_get_user_role_bindings sqlite_rbac s u = Inr bs"
  then show "rp_get_user_role_bindings sqlite_rbac s' u =
        Inr (bs @ (if b_user_id b = u
                   then [b\<lparr>b_expires_at := map_option column_time (b_expires_at b)\<rparr>] else []))"
    by (auto simp: create_role_binding_def get_user_role_bindings_def query_def
        Let_def split: option.splits if_splits)
next
  fix s i b s' n u
  assume "rp_create_role_binding sqlite_rbac i s b = (s', Inr ())"
  then show "rp_get_role sqlite_rbac s' n = rp_get_role sqlite_rbac s n \<and>
      rp_get_user_role sqlite_rbac s' u = rp_get_user_role sqlite_rbac s u"
    by (auto simp: create_role_binding_def get_role_def get_user_role_def
        Let_def split: option.splits if_splits)
next
  fix s u n
  assume "rbac_ok s"
  then show "rbac_ok (fst (rp_delete_role_binding sqlite_rbac s u n))"
    by (auto simp: rbac_ok_def delete_role_binding_def exec_sql_def
        distinct_map_filter_keys split: option.splits)
next
  fix s u n s' v bs
  assume "rp_delete_role_binding sqlite_rbac s u n = (s', Inr ())"
    "rp_get_user_role_bindings sqlite_rbac s v = Inr bs"
  then show "rp_get_user_role_bindings sqlite_rbac s' v =
        Inr (filter (\<lambda>b. \<not> (b_user_id b = u \<and> b_role_name b = n)) bs)"
    by (auto simp: delete_role_binding_def get_user_role_bindings_def query_def
        exec_sql_def conj_commute split: option.splits)
next
  fix s u n s' m v
  assume "rp_delete_role_binding sqlite_rbac s u n = (s', Inr ())"
  then show "rp_get_role sqlite_rbac s' m = rp_get_role sqlite_rbac s m \<and>
      rp_get_user_role sqlite_rbac s' v = rp_get_user_role sqlite_rbac s v"
    by (auto simp: delete_role_binding_def get_role_def get_user_role_def
        exec_sql_def split: option.splits)
next
  fix s u bs b
  assume "rp_get_user_role_bindings sqlite_rbac s u = Inr bs" "b \<in> set bs"
  then show "b_user_id b = u"
    by (auto simp: get_user_role_bindings_def query_def split: option.splits)
next
  fix s now u r s'
  assume "rp_set_user_role sqlite_rbac now s u r = (s', Inr ())"
  then show "rp_get_user_role sqlite_rbac s' u = Inr r"
    by (simp add: set_role_frame)
qed

section \<open>Built-in roles\<close>

lemma split_perm_split_all: "split_perm p = split_all CHR ''.'' p"
proof -
  have "split_perm_loop parts seg s = parts @
      (case split_all CHR ''.'' s of [] \<Rightarrow> [] | y # ys \<Rightarrow> (seg @ y) # ys)" for parts seg s
  proof (induction parts seg s rule: split_perm_loop.induct)
    case (1 parts seg)
    then show ?case by simp
  next
    case (2 parts seg c cs)
    then show ?case by (cases "split_all CHR ''.'' cs") auto
  qed
  from this [of "[]" "[]" p] show ?thesis
    by (cases "split_all CHR ''.'' p") (auto simp: split_perm_def)
qed

text \<open>A request whose three names contain no dot, as every caller builds it.\<close>

definition plain_request :: "permission_request \<Rightarrow> bool" where
  "plain_request q \<longleftrightarrow> CHR ''.'' \<notin> set (pq_module q) \<and> CHR ''.'' \<notin> set (pq_resource q) \<and>
     CHR ''.'' \<notin> set (pq_action q)"

lemma split_flat_perm:
  "plain_request q \<Longrightarrow> split_all CHR ''.'' (flat_perm q) = [pq_module q, pq_resource q, pq_action q]"
  by (simp add: plain_request_def flat_perm_def split_all_sep split_all_plain)

lemma split_is_flat_perm:
  "split_all CHR ''.'' p = [pq_module q, pq_resource q, pq_action q] \<Longrightarrow> p = flat_perm q"
  using join_split_all [of "CHR ''.''" p] by (simp add: flat_perm_def)

lemma flat_rules_step:
  assumes "CHR ''*'' \<notin> set p"
  shows "list_ex (rule_applies q) (flat_perms_to_rules (p # ps) eff) \<longleftrightarrow>
    split_all CHR ''.'' p = [pq_module q, pq_resource q, pq_action q] \<or>
    list_ex (rule_applies q) (flat_perms_to_rules ps eff)"
proof (cases "\<exists>m r a. split_all CHR ''.'' p = [m, r, a]")
  case True
  then obtain m r a where e: "split_all CHR ''.'' p = [m, r, a]" by blast
  have "x \<noteq> ''*''" if "x \<in> {m, r, a}" for x
    using assms that split_all_subset [of x "CHR ''.''" p] e by auto
  then show ?thesis
    by (auto simp: split_perm_split_all e rule_applies_def rule_matches_def)
next
  case False
  then show ?thesis by (auto simp: split_perm_split_all split: list.split)
qed

lemma flat_rules_match:
  assumes "plain_request q"
  shows "\<forall>p \<in> set ps. CHR ''*'' \<notin> set p \<Longrightarrow>
    list_ex (rule_applies q) (flat_perms_to_rules ps eff) \<longleftrightarrow> flat_perm q \<in> set ps"
proof (induction ps)
  case Nil
  then show ?case by simp
next
  case (Cons p ps)
  then have "CHR ''*'' \<notin> set p" by simp
  moreover have "split_all CHR ''.'' p = [pq_module q, pq_resource q, pq_action q] \<longleftrightarrow> p = flat_perm q"
    using split_is_flat_perm split_flat_perm [OF assms] by blast
  ultimately show ?case using Cons by (auto simp del: flat_perms_to_rules.simps simp: flat_rules_step)
qed

lemma init_default_roles_frame [simp]:
  "en_super_admins (init_default_roles rs e) = en_super_admins e"
  "en_default_role (init_default_roles rs e) = en_default_role e"
  by (induction rs e rule: init_default_roles.induct) auto

lemma new_engine_perms:
  "en_builtin_perms (new_engine now d ids) =
     [role_viewer \<mapsto> mark_all Map.empty viewer_perms,
      role_operator \<mapsto> mark_all Map.empty operator_perms,
      role_admin \<mapsto> mark_all Map.empty admin_perms,
      role_super_admin \<mapsto> mark_all Map.empty admin_perms,
      role_on_call \<mapsto> mark_all Map.empty on_call_perms]"
  by (simp add: new_engine_def default_roles_def del: flat_perms_to_rules.simps mark_all.simps)

text \<open>The permissions each built-in role carries, as a set.\<close>

definition builtin_perm_set :: "string \<Rightarrow> string set" where
  "builtin_perm_set r =
     (if r = role_viewer then set viewer_perms
      else if r = role_operator then set operator_perms
      else if r = role_admin \<or> r = role_super_admin then set admin_perms
      else if r = role_on_call then set on_call_perms
      else {})"

lemma new_engine_perm_iff:
  "(case en_builtin_perms (new_engine now d ids) r of None \<Rightarrow> False | Some m \<Rightarrow> bool_at m p)
   \<longleftrightarrow> p \<in> builtin_perm_set r"
  by (simp add: new_engine_perms builtin_perm_set_def role_names)

lemma has_permission_new_engine:
  "has_permission R (new_engine now d ids) s u p = Inr True \<longleftrightarrow>
     u \<in> set ids \<or>
     (\<exists>r. eng_get_role R (new_engine now d ids) s u = Inr r \<and> p \<in> builtin_perm_set r)"
proof (cases "u \<in> set ids")
  case True
  then show ?thesis by (simp add: has_permission_def is_super_admin_def new_engine_def)
next
  case False
  then have ns: "\<not> is_super_admin (new_engine now d ids) u"
    by (simp add: is_super_admin_def new_engine_def)
  show ?thesis
  proof (cases "eng_get_role R (new_engine now d ids) s u")
    case (Inl e)
    with ns False show ?thesis by (simp add: has_permission_def)
  next
    case (Inr r)
    with ns False show ?thesis
      using new_engine_perm_iff [where now = now and d = d and ids = ids and r = r and p = p]
      by (auto simp: has_permission_def split: option.splits)
  qed
qed

lemma builtin_perm_chain:
  "builtin_perm_set role_viewer \<subseteq> builtin_perm_set role_operator"
  "builtin_perm_set role_operator \<subseteq> builtin_perm_set role_on_call"
  "builtin_perm_set role_on_call \<subseteq> builtin_perm_set role_admin"
  "builtin_perm_set role_super_admin = builtin_perm_set role_admin"
  by (auto simp: builtin_perm_set_def role_names operator_perms_def on_call_perms_def admin_perms_def)

end
