(* ===== verification/RbacProps.thy ===== *)
theory RbacProps
  imports RbacSpec
begin

text \<open>
  The properties of role-based access control: how a structured request is decided, what the
  flat permission check depends on, and what assigning, revoking and setting roles changes.
  The concrete store of the witnesses is \<open>demo_store\<close>.
\<close>

section \<open>A concrete store\<close>

definition demo_user :: "user_id \<Rightarrow> string \<Rightarrow> user" where
  "demo_user i r = \<lparr>u_telegram_id = i, u_username = ''u'', u_display_name = ''U'', u_role = r,
     u_is_active = True, u_created_at = 0, u_updated_at = 0\<rparr>"

definition demo_rule :: "string \<Rightarrow> string \<Rightarrow> policy_rule" where
  "demo_rule act eff = \<lparr>pr_modules = [''kubernetes''], pr_resources = [''pods''],
     pr_actions = [act], pr_clusters = [''*''], pr_namespaces = [''*''], pr_effect = eff\<rparr>"

definition demo_role_row :: "string \<Rightarrow> policy_rule list \<Rightarrow> role_row" where
  "demo_role_row n rs = \<lparr>rr_name = n, rr_display_name = n, rr_description = '''',
     rr_rules = Some rs, rr_is_builtin = 0, rr_created_at = 0\<rparr>"

definition demo_store :: db where
  "demo_store = new_store
     \<lparr>db_users := [demo_user 1 ''viewer'', demo_user 2 ''admin''],
      db_roles := [demo_role_row ''sre'' [demo_rule ''restart'' ''allow''],
                   demo_role_row ''freeze'' [demo_rule ''restart'' ''deny'']],
      db_bindings := [\<lparr>b_id = ''b1'', b_user_id = 1, b_role_name = ''sre'', b_expires_at = None\<rparr>,
                      \<lparr>b_id = ''b2'', b_user_id = 2, b_role_name = ''freeze'', b_expires_at = None\<rparr>]\<rparr>"

definition demo_request :: permission_request where
  "demo_request = \<lparr>pq_module = ''kubernetes'', pq_resource = ''pods'', pq_action = ''restart'',
     pq_cluster = ''prod'', pq_namespace = ''default''\<rparr>"

lemmas demo_defs = demo_store_def demo_user_def demo_rule_def demo_role_row_def demo_request_def
  new_store_def

lemma demo_bindings:
  "get_user_role_bindings demo_store 1 =
     Inr [\<lparr>b_id = ''b1'', b_user_id = 1, b_role_name = ''sre'', b_expires_at = None\<rparr>]"
  "get_user_role_bindings demo_store 2 =
     Inr [\<lparr>b_id = ''b2'', b_user_id = 2, b_role_name = ''freeze'', b_expires_at = None\<rparr>]"
  by (simp_all add: get_user_role_bindings_def query_def demo_defs)

lemma demo_not_super [simp]: "is_super_admin (new_engine 0 [] []) u \<longleftrightarrow> False"
  by (simp add: is_super_admin_def new_engine_def)

section \<open>Properties\<close>

text \<open>C1: \<open>Authorize\<close> decides exactly as the reference semantics of the active rules: a super
  admin may do everything; for anyone else some active matching rule that denies (whatever its
  position) gives false, else some active matching rule gives true, and only when none matches,
  or the bindings cannot be read, the flat permission of the legacy role decides.\<close>

theorem authorize_refines_policy:
  "authorize R e s now uid q =
     (if is_super_admin e uid then Inr True
      else case (case rp_get_user_role_bindings R s uid of
                   Inl err \<Rightarrow> None
                 | Inr bs \<Rightarrow> policy_verdict (active_rules R s now bs) q) of
             Some b \<Rightarrow> Inr b
           | None \<Rightarrow> has_permission R e s uid (flat_perm q))"
proof (cases "is_super_admin e uid")
  case True
  then show ?thesis by (simp add: authorize_def)
next
  case False
  then show ?thesis
  proof (cases "rp_get_user_role_bindings R s uid")
    case (Inl err)
    with False show ?thesis by (simp add: authorize_def)
  next
    case (Inr bs)
    with False show ?thesis by (simp add: authorize_unfold)
  qed
qed

text \<open>On the demo store the deny rule bound to user 2 and the allow rule of user 1 take effect.\<close>

lemma authorize_demo:
  "authorize sqlite_rbac (new_engine 0 [] []) demo_store 5 2 demo_request = Inr False \<and>
   authorize sqlite_rbac (new_engine 0 [] []) demo_store 5 1 demo_request = Inr True"
proof -
  have "get_role demo_store ''sre'' = Inr (role_of_row (demo_role_row ''sre''
        [demo_rule ''restart'' ''allow'']) [demo_rule ''restart'' ''allow''])"
    "get_role demo_store ''freeze'' = Inr (role_of_row (demo_role_row ''freeze''
        [demo_rule ''restart'' ''deny'']) [demo_rule ''restart'' ''deny''])"
    by (simp_all add: get_role_def demo_defs)
  moreover have "rule_applies demo_request (demo_rule ''restart'' x)" for x
    by (simp add: rule_applies_def rule_matches_def demo_request_def demo_rule_def)
  ultimately show ?thesis
    using authorize_unfold [of "new_engine 0 [] []" 2 sqlite_rbac demo_store, simplified,
        OF demo_bindings(2)]
      authorize_unfold [of "new_engine 0 [] []" 1 sqlite_rbac demo_store, simplified,
        OF demo_bindings(1)]
    by (simp add: active_rules_def binding_is_expired_def role_of_row_def policy_verdict_def
        demo_rule_def)
qed

text \<open>The flat check that the command handlers use succeeds exactly for super admins and
  for users whose legacy role is a built-in role that lists the permission; a user the store
  does not know has the default role, and any other repository error grants nothing.\<close>

theorem has_permission_characterised:
  "has_permission R (new_engine now d ids) s u p = Inr True \<longleftrightarrow>
     u \<in> set ids \<or>
     (\<exists>r. p \<in> builtin_perm_set r \<and>
          (rp_get_user_role R s u = Inr r \<or>
           rp_get_user_role R s u = Inl ErrNotFound \<and> r = (if d = '''' then role_viewer else d)))"
proof -
  have "is_super_admin (new_engine now d ids) u \<longleftrightarrow> u \<in> set ids"
    by (simp add: is_super_admin_def new_engine_def)
  moreover have "en_default_role (new_engine now d ids) = (if d = '''' then role_viewer else d)"
    by (simp add: new_engine_def)
  ultimately show ?thesis
    unfolding has_permission_new_engine
    by (auto simp: eng_get_role_def split: sum.splits if_splits)
qed

text \<open>Role bindings never influence the flat permission check: whatever \<open>AssignRole\<close> or
  \<open>RevokeRole\<close> does to the SQLite store, \<open>HasPermission\<close> answers as before, so a role bound
  to a user (on-call included) grants nothing to the handlers, which only call \<open>HasPermission\<close>.\<close>

theorem bindings_do_not_reach_flat_check:
  "has_permission sqlite_rbac e (fst (assign_role sqlite_rbac i s b)) u p =
     has_permission sqlite_rbac e s u p \<and>
   has_permission sqlite_rbac e (fst (revoke_role sqlite_rbac s v n)) u p =
     has_permission sqlite_rbac e s u p"
proof -
  have "get_user_role (fst (assign_role sqlite_rbac i s b)) u = get_user_role s u"
    by (auto simp: assign_role_def create_role_binding_def get_user_role_def Let_def
        split: option.split)
  moreover have "get_user_role (fst (revoke_role sqlite_rbac s v n)) u = get_user_role s u"
    by (auto simp: revoke_role_def delete_role_binding_def get_user_role_def exec_sql_def
        split: option.split)
  ultimately show ?thesis by (simp add: has_permission_def eng_get_role_def)
qed

text \<open>For a request whose names contain no dot, the structured rules generated for a
  built-in role match it exactly when the role lists the request's flat permission, on every
  cluster and namespace: the two generations of permission checks agree on these roles.\<close>

theorem builtin_rules_agree_with_flat_permissions:
  assumes "plain_request q" and "r \<in> set (default_roles now)" and "r_name r \<noteq> role_super_admin"
  shows "policy_verdict (r_rules r) q = (if flat_perm q \<in> set (r_permissions r) then Some True else None)"
proof -
  have nostar: "\<forall>p \<in> set admin_perms \<union> set on_call_perms. CHR ''*'' \<notin> set p"
    by (simp add: admin_perms_def on_call_perms_def operator_perms_def viewer_perms_def perm_defs)
  have sub: "set viewer_perms \<subseteq> set admin_perms" "set operator_perms \<subseteq> set admin_perms"
    by (auto simp: admin_perms_def operator_perms_def)
  have "\<exists>ps. r_rules r = flat_perms_to_rules ps ''allow'' \<and> r_permissions r = ps \<and>
      set ps \<subseteq> set admin_perms \<union> set on_call_perms"
    using assms(2,3) sub by (auto simp: default_roles_def simp del: flat_perms_to_rules.simps)
  then obtain ps where ps: "r_rules r = flat_perms_to_rules ps ''allow''" "r_permissions r = ps"
    and "\<forall>p \<in> set ps. CHR ''*'' \<notin> set p" using nostar by blast
  moreover have "pr_effect x = ''allow''" if "x \<in> set (flat_perms_to_rules ps' ''allow'')" for x ps'
    using that by (induction ps' "''allow''" rule: flat_perms_to_rules.induct)
      (auto split: list.splits)
  then have "\<not> list_ex (\<lambda>x. rule_applies q x \<and> pr_effect x = ''deny'') (flat_perms_to_rules ps ''allow'')"
    by (force simp: list_ex_iff)
  ultimately show ?thesis
    using flat_rules_match [OF assms(1), of ps "''allow''"] by (simp add: policy_verdict_def)
qed

theorem builtin_rules_agree_witness:
  "policy_verdict (r_rules (default_roles 0 ! 1)) demo_request = Some True \<and>
   policy_verdict (r_rules (default_roles 0 ! 0)) demo_request = None"
proof -
  have p: "plain_request demo_request"
    by (simp add: plain_request_def demo_request_def)
  have m: "default_roles 0 ! 1 \<in> set (default_roles 0)" "default_roles 0 ! 0 \<in> set (default_roles 0)"
    by (simp_all add: default_roles_def del: flat_perms_to_rules.simps)
  have n: "r_name (default_roles 0 ! 1) \<noteq> role_super_admin" "r_name (default_roles 0 ! 0) \<noteq> role_super_admin"
    by (simp_all add: default_roles_def role_names del: flat_perms_to_rules.simps)
  have f: "flat_perm demo_request \<in> set operator_perms" "flat_perm demo_request \<notin> set viewer_perms"
    by (simp_all add: flat_perm_def demo_request_def operator_perms_def viewer_perms_def perm_defs)
  have r: "r_permissions (default_roles 0 ! 1) = operator_perms"
    "r_permissions (default_roles 0 ! 0) = viewer_perms"
    by (simp_all add: default_roles_def del: flat_perms_to_rules.simps)
  show ?thesis
    unfolding builtin_rules_agree_with_flat_permissions [OF p m(1) n(1)]
      builtin_rules_agree_with_flat_permissions [OF p m(2) n(2)]
    using f by (simp only: r) simp
qed

text \<open>The built-in roles form a hierarchy: what a viewer may do an operator may, what an
  operator may do an on-call user may, and what an on-call user may do an admin may.\<close>

theorem builtin_role_hierarchy:
  assumes "rp_get_user_role R s u = Inr r" and "rp_get_user_role R s v = Inr r'"
    and "(r, r') \<in> {(role_viewer, role_operator), (role_operator, role_on_call),
           (role_on_call, role_admin), (role_admin, role_super_admin)}"
    and "u \<notin> set ids"
    and "has_permission R (new_engine now d ids) s u p = Inr True"
  shows "has_permission R (new_engine now d ids) s v p = Inr True"
proof -
  have "p \<in> builtin_perm_set r"
    using assms(1,4,5) unfolding has_permission_new_engine
    by (auto simp: eng_get_role_def is_super_admin_def new_engine_def)
  with assms(3) have "p \<in> builtin_perm_set r'"
    using builtin_perm_chain by auto
  with assms(2) show ?thesis
    unfolding has_permission_new_engine
    by (auto simp: eng_get_role_def is_super_admin_def new_engine_def)
qed

theorem builtin_role_hierarchy_witness:
  "has_permission sqlite_rbac (new_engine 0 [] [])
     (new_store\<lparr>db_users := [demo_user 1 ''viewer'', demo_user 2 ''operator'']\<rparr>) 2
     perm_k8s_pods_logs = Inr True"
proof -
  let ?s = "new_store\<lparr>db_users := [demo_user 1 ''viewer'', demo_user 2 ''operator'']\<rparr>"
  have g: "rp_get_user_role sqlite_rbac ?s 1 = Inr role_viewer"
    "rp_get_user_role sqlite_rbac ?s 2 = Inr role_operator"
    by (simp_all add: get_user_role_def new_store_def demo_user_def role_names)
  have "perm_k8s_pods_logs \<in> builtin_perm_set role_viewer"
    by (simp add: builtin_perm_set_def viewer_perms_def)
  then have "has_permission sqlite_rbac (new_engine 0 [] []) ?s 1 perm_k8s_pods_logs = Inr True"
    unfolding has_permission_new_engine using g(1) by (auto simp: eng_get_role_def)
  then show ?thesis by (intro builtin_role_hierarchy [OF g]) auto
qed

text \<open>\<open>SetRole\<close> accepts the five valid role names only; after it succeeded on the SQLite
  store, \<open>GetRole\<close> returns the role just set for that user and what it returned before for
  every other user.\<close>

theorem set_role_then_get_role:
  assumes "rbac_ok s" and "\<not> is_super_admin e u"
    and "eng_set_role sqlite_rbac now s u r = (s', Inr ())"
  shows "r \<in> set valid_roles \<and> eng_get_role sqlite_rbac e s' u = Inr r \<and>
    (\<forall>v. v \<noteq> u \<longrightarrow> eng_get_role sqlite_rbac e s' v = eng_get_role sqlite_rbac e s v)"
  using sq.set_then_get_role [OF assms] by (auto simp: is_valid_role_iff)

theorem set_role_then_get_role_witness:
  "\<exists>s'. eng_set_role sqlite_rbac 7 demo_store 1 ''operator'' = (s', Inr ()) \<and>
     eng_get_role sqlite_rbac (new_engine 0 [] []) s' 1 = Inr ''operator''"
proof -
  have ok: "rbac_ok demo_store" by (simp add: rbac_ok_def demo_defs)
  obtain s' where s': "eng_set_role sqlite_rbac 7 demo_store 1 ''operator'' = (s', Inr ())"
    by (simp add: eng_set_role_def is_valid_role_iff valid_roles_def role_names set_user_role_def
        demo_defs)
  show ?thesis
    using s' set_role_then_get_role [OF ok _ s', of "new_engine 0 [] []"] by auto
qed

text \<open>Emergency access ends by itself: assigning a role with an expiry that has passed at
  the time of the request leaves every authorization decision as it was before.\<close>

theorem expired_assignment_changes_nothing:
  assumes "rbac_ok s" and "rp_get_user_role_bindings sqlite_rbac s uid = Inr bs"
    and "assign_role sqlite_rbac new_id s b = (s', Inr ())" and "new_id \<noteq> ''''"
    and "b_expires_at b = Some t" and "t < now"
  shows "authorize sqlite_rbac e s' now uid q = authorize sqlite_rbac e s now uid q"
  using assms by (rule sq.expired_assignment_is_inert)

theorem expired_assignment_witness:
  "\<exists>s'. assign_role sqlite_rbac ''b3'' demo_store
      \<lparr>b_id = '''', b_user_id = 1, b_role_name = ''freeze'', b_expires_at = Some 10\<rparr> = (s', Inr ()) \<and>
     authorize sqlite_rbac (new_engine 0 [] []) s' 11 1 demo_request
       = authorize sqlite_rbac (new_engine 0 [] []) demo_store 11 1 demo_request"
proof -
  have ok: "rbac_ok demo_store" by (simp add: rbac_ok_def demo_defs)
  let ?b = "\<lparr>b_id = '''', b_user_id = 1, b_role_name = ''freeze'', b_expires_at = Some 10\<rparr>"
  obtain s' where s': "assign_role sqlite_rbac ''b3'' demo_store ?b = (s', Inr ())"
    by (simp add: assign_role_def create_role_binding_def demo_defs)
  show ?thesis
    using s' expired_assignment_changes_nothing [OF ok _ s', of 1 _ 10 11 "new_engine 0 [] []"
        demo_request] demo_bindings(1) by auto
qed

text \<open>After \<open>RevokeRole\<close> the revoked role's rules take no part in the user's decisions,
  while every other active binding decides as before.\<close>

theorem revoke_removes_exactly_that_role:
  assumes "rbac_ok s" and "\<not> is_super_admin e uid"
    and "rp_get_user_role_bindings sqlite_rbac s uid = Inr bs"
    and "revoke_role sqlite_rbac s uid n = (s', Inr ())"
  shows "authorize sqlite_rbac e s' now uid q =
     (case policy_verdict (active_rules sqlite_rbac s now (filter (\<lambda>b. b_role_name b \<noteq> n) bs)) q of
        Some d \<Rightarrow> Inr d
      | None \<Rightarrow> has_permission sqlite_rbac e s uid (flat_perm q))"
  using assms by (rule sq.authorize_after_revoke)

theorem revoke_removes_exactly_that_role_witness:
  "\<exists>s'. revoke_role sqlite_rbac demo_store 1 ''sre'' = (s', Inr ()) \<and>
     authorize sqlite_rbac (new_engine 0 [] []) s' 5 1 demo_request =
       has_permission sqlite_rbac (new_engine 0 [] []) demo_store 1 (flat_perm demo_request)"
proof -
  have ok: "rbac_ok demo_store" by (simp add: rbac_ok_def demo_defs)
  obtain s' where s': "revoke_role sqlite_rbac demo_store 1 ''sre'' = (s', Inr ())"
    by (simp add: revoke_role_def delete_role_binding_def exec_sql_def demo_defs)
  have bs: "rp_get_user_role_bindings sqlite_rbac demo_store 1 =
      Inr [\<lparr>b_id = ''b1'', b_user_id = 1, b_role_name = ''sre'', b_expires_at = None\<rparr>]"
    using demo_bindings(1) by simp
  show ?thesis
    using s' revoke_removes_exactly_that_role [OF ok _ bs s', of "new_engine 0 [] []" 5 demo_request]
    by simp
qed

end
