(* ===== verification/ApprovalStore.thy ===== *)
theory ApprovalStore
  imports Sqlite
begin

text \<open>
  The approval repository: the interface storage.ApprovalRepository as a record of operations,
  its SQLite implementation (second half of rbac\_repo.go), the laws clients rely on as the
  locale \<open>approval_repo\<close>, the locale \<open>approval_table\<close> of stores that write rows, which gives these laws,
  and the interpretation that shows SQLite is one.
\<close>

section \<open>SQLite operations\<close>

text \<open>
  \<open>Create\<close> writes neither resolution column (they are NULL) and both timestamps to the second;
  \<open>Update\<close> writes status, approvers, resolution and message id, and no other column.
\<close>

definition approval_stored :: "approval_request \<Rightarrow> approval_request" where
  "approval_stored r =
     r\<lparr>ar_created_at := column_time (ar_created_at r), ar_expires_at := column_time (ar_expires_at r),
       ar_resolved_at := None, ar_resolved_by := None\<rparr>"

definition approval_create :: "db \<Rightarrow> approval_request \<Rightarrow> db \<times> unit result" where
  "approval_create s r =
     (if db_fault s = None \<and> list_ex (\<lambda>x. ar_id x = ar_id r) (db_approvals s)
      then (s, Inl (DriverErr ''UNIQUE constraint failed: approval_requests.id''))
      else exec_sql s (s\<lparr>db_approvals := db_approvals s @ [approval_stored r]\<rparr>) ())"

definition approval_get_by_id :: "db \<Rightarrow> string \<Rightarrow> approval_request result" where
  "approval_get_by_id s i =
     (case db_fault s of
        Some e \<Rightarrow> Inl (DriverErr e)
      | None \<Rightarrow>
         (case find (\<lambda>r. ar_id r = i) (db_approvals s) of
            None \<Rightarrow> Inl ErrNotFound
          | Some r \<Rightarrow> Inr r))"

definition approval_updated :: "approval_request \<Rightarrow> approval_request \<Rightarrow> approval_request" where
  "approval_updated r old =
     old\<lparr>ar_status := ar_status r, ar_approvers := ar_approvers r,
         ar_resolved_at := map_option column_time (ar_resolved_at r),
         ar_resolved_by := ar_resolved_by r, ar_message_id := ar_message_id r\<rparr>"

definition approval_update :: "db \<Rightarrow> approval_request \<Rightarrow> db \<times> unit result" where
  "approval_update s r =
     exec_sql s
       (s\<lparr>db_approvals := map (\<lambda>x. if ar_id x = ar_id r then approval_updated r x else x)
                             (db_approvals s)\<rparr>) ()"

definition approval_list_pending :: "db \<Rightarrow> approval_request list result" where
  "approval_list_pending s =
     query s (sort_key ar_created_at
       (filter (\<lambda>r. ar_status r = ApprovalPending) (db_approvals s)))"

definition approval_list_by_requester :: "db \<Rightarrow> user_id \<Rightarrow> approval_request list result" where
  "approval_list_by_requester s u =
     query s (sort_key (\<lambda>r. - ar_created_at r)
       (filter (\<lambda>r. ar_requester_id r = u) (db_approvals s)))"

text \<open>\<open>expires_at < now\<close> compares the RFC3339 texts, that is, whole seconds.\<close>

definition approval_due :: "instant \<Rightarrow> approval_request \<Rightarrow> bool" where
  "approval_due now r \<longleftrightarrow>
     ar_status r = ApprovalPending \<and> rfc3339 (ar_expires_at r) < rfc3339 now"

definition approval_expire_old :: "instant \<Rightarrow> db \<Rightarrow> db \<times> int result" where
  "approval_expire_old now s =
     exec_sql s
       (s\<lparr>db_approvals :=
           map (\<lambda>r. if approval_due now r
                    then r\<lparr>ar_status := ApprovalExpired, ar_resolved_at := Some (column_time now)\<rparr>
                    else r) (db_approvals s)\<rparr>)
       (int (length (filter (approval_due now) (db_approvals s))))"

section \<open>The interface and its laws\<close>

record 's approval_repository =
  ap_create :: "'s \<Rightarrow> approval_request \<Rightarrow> 's \<times> unit result"
  ap_get_by_id :: "'s \<Rightarrow> string \<Rightarrow> approval_request result"
  ap_update :: "'s \<Rightarrow> approval_request \<Rightarrow> 's \<times> unit result"
  ap_list_pending :: "'s \<Rightarrow> approval_request list result"
  ap_list_by_requester :: "'s \<Rightarrow> user_id \<Rightarrow> approval_request list result"
  ap_expire_old :: "instant \<Rightarrow> 's \<Rightarrow> 's \<times> int result"

definition sqlite_approval :: "db approval_repository" where
  "sqlite_approval =
     \<lparr>ap_create = approval_create, ap_get_by_id = approval_get_by_id,
      ap_update = approval_update, ap_list_pending = approval_list_pending,
      ap_list_by_requester = approval_list_by_requester, ap_expire_old = approval_expire_old\<rparr>"

lemma sqlite_approval_ops [simp]:
  "ap_create sqlite_approval = approval_create"
  "ap_get_by_id sqlite_approval = approval_get_by_id"
  "ap_update sqlite_approval = approval_update"
  "ap_list_pending sqlite_approval = approval_list_pending"
  "ap_list_by_requester sqlite_approval = approval_list_by_requester"
  "ap_expire_old sqlite_approval = approval_expire_old"
  by (simp_all add: sqlite_approval_def)

text \<open>
  What every operation does to what \<open>GetByID\<close> sees: \<open>keep\<close> is how the store rounds instants,
  \<open>due\<close> which requests \<open>ExpireOld\<close> closes.
\<close>

locale approval_repo =
  fixes R :: "'s approval_repository"
    and keep :: "instant \<Rightarrow> instant"
    and due :: "instant \<Rightarrow> approval_request \<Rightarrow> bool"
  assumes get_id: "ap_get_by_id R s i = Inr r \<Longrightarrow> ar_id r = i"
    and create_ok: "ap_create R s q = (s', Inr ()) \<Longrightarrow>
      ap_get_by_id R s' i =
        (if i = ar_id q
         then Inr (q\<lparr>ar_created_at := keep (ar_created_at q), ar_expires_at := keep (ar_expires_at q),
                    ar_resolved_at := None, ar_resolved_by := None\<rparr>)
         else ap_get_by_id R s i)"
    and create_fresh: "ap_create R s q = (s', Inr ()) \<Longrightarrow> ap_get_by_id R s (ar_id q) = Inl ErrNotFound"
    and update_ok: "ap_update R s q = (s', Inr ()) \<Longrightarrow> ap_get_by_id R s i = Inr r \<Longrightarrow>
      ap_get_by_id R s' i =
        Inr (if i = ar_id q
             then r\<lparr>ar_status := ar_status q, ar_approvers := ar_approvers q,
                    ar_resolved_at := map_option keep (ar_resolved_at q),
                    ar_resolved_by := ar_resolved_by q, ar_message_id := ar_message_id q\<rparr>
             else r)"
    and update_none: "ap_update R s q = (s', Inr ()) \<Longrightarrow> ap_get_by_id R s i = Inl e \<Longrightarrow>
      ap_get_by_id R s' i = Inl e"
    and expire_ok: "ap_expire_old R now s = (s', Inr n) \<Longrightarrow> ap_get_by_id R s i = Inr r \<Longrightarrow>
      ap_get_by_id R s' i =
        Inr (if due now r
             then r\<lparr>ar_status := ApprovalExpired, ar_resolved_at := Some (keep now)\<rparr> else r)"
    and expire_none: "ap_expire_old R now s = (s', Inr n) \<Longrightarrow> ap_get_by_id R s i = Inl e \<Longrightarrow>
      ap_get_by_id R s' i = Inl e"
    and due_pending: "due now r \<Longrightarrow> ar_status r = ApprovalPending"
    and failed_create: "ap_create R s q = (s', Inl e) \<Longrightarrow> s' = s"
    and failed_update: "ap_update R s q = (s', Inl e) \<Longrightarrow> s' = s"
    and failed_expire: "ap_expire_old R now s = (s', Inl e) \<Longrightarrow> s' = s"
begin

lemma update_sees:
  "ap_update R s q = (s', Inr ()) \<Longrightarrow> ap_get_by_id R s' i = Inr r' \<Longrightarrow>
   \<exists>r. ap_get_by_id R s i = Inr r"
  using update_none by (cases "ap_get_by_id R s i") fastforce+

lemma expire_sees:
  "ap_expire_old R now s = (s', Inr n) \<Longrightarrow> ap_get_by_id R s' i = Inr r' \<Longrightarrow>
   \<exists>r. ap_get_by_id R s i = Inr r"
  using expire_none by (cases "ap_get_by_id R s i") fastforce+

end

lemma find_ar_map:
  "(\<And>r. ar_id (f r) = ar_id r) \<Longrightarrow>
   find (\<lambda>r. ar_id r = i) (map f xs) = map_option f (find (\<lambda>r. ar_id r = i) xs)"
  by (induction xs) auto

lemma approval_get_eqs:
  "db_fault s = None \<Longrightarrow> find (\<lambda>r. ar_id r = i) (db_approvals s) = Some r \<Longrightarrow>
     approval_get_by_id s i = Inr r"
  "approval_get_by_id s i = Inr r \<longleftrightarrow>
     db_fault s = None \<and> find (\<lambda>r. ar_id r = i) (db_approvals s) = Some r"
  by (auto simp: approval_get_by_id_def split: option.splits)

lemma exec_sql_ok: "exec_sql s s1 x = (s', Inr y) \<longleftrightarrow> db_fault s = None \<and> s' = s1 \<and> y = x"
  by (auto simp: exec_sql_def split: option.splits)

lemma exec_sql_err: "exec_sql s s1 x = (s', Inl e) \<Longrightarrow> s' = s"
  by (auto simp: exec_sql_def split: option.splits)

lemma approval_get_update:
  assumes "db_fault s = None" "\<And>r. ar_id (f r) = ar_id r"
  shows "approval_get_by_id (s\<lparr>db_approvals := map f (db_approvals s)\<rparr>) i =
     map_sum id f (approval_get_by_id s i)"
  using assms by (simp add: approval_get_by_id_def find_ar_map split: option.split)

text \<open>
  A store whose requests are the rows of one table: what the statements of its three writing
  operations do to the rows gives the laws of the interface.
\<close>

locale approval_table =
  fixes R :: "db approval_repository"
    and keep :: "instant \<Rightarrow> instant"
    and due :: "instant \<Rightarrow> approval_request \<Rightarrow> bool"
  assumes get_rows: "ap_get_by_id R = approval_get_by_id"
    and create_rows: "ap_create R s q = (s', Inr ()) \<Longrightarrow> db_fault s = None \<and>
      find (\<lambda>x. ar_id x = ar_id q) (db_approvals s) = None \<and>
      s' = s\<lparr>db_approvals := db_approvals s @
        [q\<lparr>ar_created_at := keep (ar_created_at q), ar_expires_at := keep (ar_expires_at q),
           ar_resolved_at := None, ar_resolved_by := None\<rparr>]\<rparr>"
    and update_rows: "ap_update R s q = (s', Inr ()) \<Longrightarrow> db_fault s = None \<and>
      s' = s\<lparr>db_approvals := map (\<lambda>r. if ar_id r = ar_id q
        then r\<lparr>ar_status := ar_status q, ar_approvers := ar_approvers q,
               ar_resolved_at := map_option keep (ar_resolved_at q),
               ar_resolved_by := ar_resolved_by q, ar_message_id := ar_message_id q\<rparr>
        else r) (db_approvals s)\<rparr>"
    and expire_rows: "ap_expire_old R now s = (s', Inr n) \<Longrightarrow> db_fault s = None \<and>
      s' = s\<lparr>db_approvals := map (\<lambda>r. if due now r
        then r\<lparr>ar_status := ApprovalExpired, ar_resolved_at := Some (keep now)\<rparr> else r) (db_approvals s)\<rparr>"
    and pending_rows: "due now r \<Longrightarrow> ar_status r = ApprovalPending"
    and failures: "ap_create R s q = (s', Inl e) \<Longrightarrow> s' = s" "ap_update R s q = (s', Inl e) \<Longrightarrow> s' = s"
      "ap_expire_old R now s = (s', Inl e) \<Longrightarrow> s' = s"

sublocale approval_table \<subseteq> approval_repo R keep due
proof
  fix s i r assume "ap_get_by_id R s i = Inr r"
  then show "ar_id r = i" by (auto simp: get_rows approval_get_eqs dest: find_SomeD)
next
  fix s q s' i assume "ap_create R s q = (s', Inr ())"
  from create_rows [OF this] show "ap_get_by_id R s' i =
        (if i = ar_id q
         then Inr (q\<lparr>ar_created_at := keep (ar_created_at q), ar_expires_at := keep (ar_expires_at q),
                    ar_resolved_at := None, ar_resolved_by := None\<rparr>)
         else ap_get_by_id R s i)"
    by (auto simp: get_rows approval_get_by_id_def find_append split: option.split)
next
  fix s q s' i r
  assume u: "ap_update R s q = (s', Inr ())" and g: "ap_get_by_id R s i = Inr r"
  from g have "ar_id r = i" by (auto simp: get_rows approval_get_eqs dest: find_SomeD)
  with update_rows [OF u] g show "ap_get_by_id R s' i =
        Inr (if i = ar_id q
             then r\<lparr>ar_status := ar_status q, ar_approvers := ar_approvers q,
                    ar_resolved_at := map_option keep (ar_resolved_at q),
                    ar_resolved_by := ar_resolved_by q, ar_message_id := ar_message_id q\<rparr>
             else r)"
    by (auto simp: get_rows approval_get_update)
next
  fix s q s' assume "ap_create R s q = (s', Inr ())"
  from create_rows [OF this] show "ap_get_by_id R s (ar_id q) = Inl ErrNotFound"
    by (simp add: get_rows approval_get_by_id_def)
qed (auto simp: get_rows approval_get_update pending_rows dest: failures dest!: update_rows expire_rows)

interpretation sqa: approval_table sqlite_approval column_time approval_due
  by unfold_locales
    (auto simp: approval_create_def approval_update_def approval_expire_old_def approval_due_def exec_sql_ok
      approval_stored_def approval_updated_def list_ex_iff find_None_iff dest: exec_sql_err split: if_splits)

end
