(* ===== verification/Approval.thy ===== *)
theory Approval
  imports ApprovalStore RbacEngine
begin

text \<open>
  The approval workflow (\<open>internal/module/approval\<close>): the Manager of module.go, the Checker of
  checker.go that other modules call, and the bot handlers of handler.go. Every operation
  takes the repository it works on and the clock readings and identifiers it draws, and
  returns the new store with its Go result. \<open>Decide\<close> and \<open>Cancel\<close> run under the manager's
  mutex, so each is one step; the Checker and the expiry worker do not take it.
\<close>

section \<open>Manager (module.go)\<close>

record approval_rule =
  rl_action :: string
  rl_clusters :: "string list"
  rl_required_approvals :: int
  rl_approver_roles :: "string list"

record approval_config =
  cf_enabled :: bool
  cf_default_expiry :: duration
  cf_rules :: "approval_rule list"

definition new_manager :: "bool \<Rightarrow> duration \<Rightarrow> approval_rule list \<Rightarrow> approval_config" where
  "new_manager enabled expiry rules =
     \<lparr>cf_enabled = enabled,
      cf_default_expiry = (if expiry \<le> 0 then 30 * minute else expiry),
      cf_rules = rules\<rparr>"

fun cluster_listed :: "string list \<Rightarrow> string \<Rightarrow> bool" where
  "cluster_listed [] cl = False"
| "cluster_listed (c # cs) cl = (if c = ''*'' \<or> c = cl then True else cluster_listed cs cl)"

fun first_rule :: "approval_rule list \<Rightarrow> string \<Rightarrow> string \<Rightarrow> approval_rule option" where
  "first_rule [] action cl = None"
| "first_rule (r # rs) action cl =
     (if rl_action r \<noteq> action then first_rule rs action cl
      else if cluster_listed (rl_clusters r) cl then Some r
      else first_rule rs action cl)"

definition requires_approval :: "approval_config \<Rightarrow> string \<Rightarrow> string \<Rightarrow> approval_rule option" where
  "requires_approval cfg action cl =
     (if \<not> cf_enabled cfg then None else first_rule (cf_rules cfg) action cl)"

text \<open>\<open>Submit\<close> fills in the request it was given (a pointer), also when the insert fails.\<close>

definition submit ::
  "'s approval_repository \<Rightarrow> approval_config \<Rightarrow> instant \<Rightarrow> string \<Rightarrow> 's \<Rightarrow> approval_request \<Rightarrow>
   's \<times> approval_request \<times> unit result" where
  "submit R cfg now new_id s q =
     (case requires_approval cfg (ar_action q) (ar_cluster q) of
        None \<Rightarrow> (s, q, Inl (ErrText (''no approval rule matches action '' @ ar_action q
                   @ '' on cluster '' @ ar_cluster q)))
      | Some rule \<Rightarrow>
         (let q' = q\<lparr>ar_id := new_id, ar_status := ApprovalPending,
                     ar_required_approvals := rl_required_approvals rule,
                     ar_created_at := now, ar_expires_at := now + cf_default_expiry cfg\<rparr>;
              (s', e) = ap_create R s q'
          in (s', q', wrap_err ''creating approval request'' e)))"

definition record_approver ::
  "user_id \<Rightarrow> string \<Rightarrow> string \<Rightarrow> instant \<Rightarrow> approver list \<Rightarrow> approver list" where
  "record_approver uid decision comment now as =
     (if list_ex (\<lambda>a. a_user_id a = uid) as
      then update_first (\<lambda>a. a_user_id a = uid)
             (\<lambda>a. a\<lparr>a_decision := decision, a_comment := comment, a_decided_at := Some now\<rparr>) as
      else as @ [\<lparr>a_user_id = uid, a_decision = decision, a_comment = comment,
                  a_decided_at = Some now\<rparr>])"

text \<open>The request after the decision was recorded, and whether the action is now to run.\<close>

definition decided ::
  "user_id \<Rightarrow> string \<Rightarrow> string \<Rightarrow> instant \<Rightarrow> approval_request \<Rightarrow> approval_request \<times> bool" where
  "decided uid decision comment now q =
     (let q1 = q\<lparr>ar_approvers := record_approver uid decision comment now (ar_approvers q)\<rparr>
      in if decision = ''rejected'' \<or> has_rejection q1
         then (q1\<lparr>ar_status := ApprovalRejected, ar_resolved_at := Some now,
                  ar_resolved_by := Some uid\<rparr>, False)
         else if approval_count q1 \<ge> ar_required_approvals q1
         then (q1\<lparr>ar_status := ApprovalApproved, ar_resolved_at := Some now,
                  ar_resolved_by := Some uid\<rparr>, True)
         else (q1, False))"

text \<open>\<open>now1\<close> is the clock at the expiry check, \<open>now2\<close> the one stored with the decision.\<close>

definition decide ::
  "'s approval_repository \<Rightarrow> instant \<Rightarrow> instant \<Rightarrow> 's \<Rightarrow> string \<Rightarrow> user_id \<Rightarrow> string \<Rightarrow> string \<Rightarrow>
   's \<times> bool result" where
  "decide R now1 now2 s rid uid decision comment =
     (case ap_get_by_id R s rid of
        Inl e \<Rightarrow> (s, Inl (ErrWrap ''fetching approval request'' e))
      | Inr q \<Rightarrow>
         if ar_status q \<noteq> ApprovalPending
         then (s, Inl (ErrText (''request '' @ rid @ '' is already '' @ status_text (ar_status q))))
         else if ar_expires_at q < now1
         then (s, Inl (ErrText (''request '' @ rid @ '' has expired'')))
         else if uid = ar_requester_id q
         then (s, Inl (ErrText ''requester cannot approve their own request''))
         else
           (let (q', execute_now) = decided uid decision comment now2 q;
                (s', e) = ap_update R s q'
            in case e of
                 Inl err \<Rightarrow> (s', Inl (ErrWrap ''updating approval request'' err))
               | Inr _ \<Rightarrow> (s', Inr execute_now)))"

definition cancel ::
  "'s approval_repository \<Rightarrow> instant \<Rightarrow> 's \<Rightarrow> string \<Rightarrow> user_id \<Rightarrow> 's \<times> unit result" where
  "cancel R now s rid uid =
     (case ap_get_by_id R s rid of
        Inl e \<Rightarrow> (s, Inl e)
      | Inr q \<Rightarrow>
         if ar_requester_id q \<noteq> uid
         then (s, Inl (ErrText ''only the requester can cancel this request''))
         else if ar_status q \<noteq> ApprovalPending
         then (s, Inl (ErrText ''request is not pending''))
         else ap_update R s (q\<lparr>ar_status := ApprovalCancelled, ar_resolved_at := Some now,
                               ar_resolved_by := Some uid\<rparr>))"

definition manager_get_by_id :: "'s approval_repository \<Rightarrow> 's \<Rightarrow> string \<Rightarrow> approval_request result" where
  "manager_get_by_id R s rid = ap_get_by_id R s rid"

definition manager_list_pending :: "'s approval_repository \<Rightarrow> 's \<Rightarrow> approval_request list result" where
  "manager_list_pending R s = ap_list_pending R s"

text \<open>One tick of the expiry worker; an error is only logged.\<close>

definition expiry_tick :: "'s approval_repository \<Rightarrow> instant \<Rightarrow> 's \<Rightarrow> 's" where
  "expiry_tick R now s = fst (ap_expire_old R now s)"

section \<open>Checker (checker.go)\<close>

record approval_input =
  in_user_id :: user_id
  in_username :: string
  in_action :: string
  in_resource :: string
  in_cluster :: string
  in_namespace :: string
  in_details :: "(string \<times> string) list"
  in_callback_data :: string

datatype approval_checker = NoopChecker | ManagerChecker approval_config

definition new_checker :: "approval_config option \<Rightarrow> approval_checker" where
  "new_checker m =
     (case m of None \<Rightarrow> NoopChecker
      | Some cfg \<Rightarrow> if \<not> cf_enabled cfg then NoopChecker else ManagerChecker cfg)"

definition request_of_input :: "approval_input \<Rightarrow> approval_request" where
  "request_of_input i =
     \<lparr>ar_id = '''', ar_requester_id = in_user_id i, ar_requester_name = in_username i,
      ar_action = in_action i, ar_resource = in_resource i, ar_cluster = in_cluster i,
      ar_namespace = in_namespace i, ar_details = in_details i, ar_status = ApprovalPending,
      ar_approvers = [], ar_required_approvals = 0, ar_created_at = 0, ar_expires_at = 0,
      ar_resolved_at = None, ar_resolved_by = None, ar_chat_id = 0, ar_message_id = 0\<rparr>"

text \<open>
  \<open>CheckAndSubmit\<close> submits, sends the approval message to the chat (\<open>sent\<close> is the message id
  Telegram returned, if it did) and writes the message id back with an \<open>Update\<close> of the request
  it holds in memory, whose result is ignored. The two halves are separate definitions: between
  them the store is free for other users.
\<close>

definition store_message ::
  "'s approval_repository \<Rightarrow> 's \<Rightarrow> approval_request \<Rightarrow> chat_id \<Rightarrow> int \<Rightarrow> 's" where
  "store_message R s q chat mid =
     fst (ap_update R s (q\<lparr>ar_message_id := mid, ar_chat_id := chat\<rparr>))"

definition check_and_submit ::
  "'s approval_repository \<Rightarrow> approval_checker \<Rightarrow> instant \<Rightarrow> string \<Rightarrow> chat_id \<Rightarrow> int option \<Rightarrow>
   's \<Rightarrow> approval_input \<Rightarrow> 's \<times> bool result" where
  "check_and_submit R ck now new_id chat sent s i =
     (case ck of
        NoopChecker \<Rightarrow> (s, Inr False)
      | ManagerChecker cfg \<Rightarrow>
         (case requires_approval cfg (in_action i) (in_cluster i) of
            None \<Rightarrow> (s, Inr False)
          | Some rule \<Rightarrow>
             (let (s', q, e) = submit R cfg now new_id s (request_of_input i)
              in case e of
                   Inl err \<Rightarrow> (s', Inl err)
                 | Inr _ \<Rightarrow>
                    (case sent of
                       None \<Rightarrow> (s', Inr True)
                     | Some mid \<Rightarrow> (store_message R s' q chat mid, Inr True)))))"

section \<open>Bot handlers (handler.go)\<close>

text \<open>
  What a handler does in the chat, without the fixed wording: an alert with the error text, the
  confirmation of a recorded decision (was it a rejection?), the note that the action runs, the
  confirmation of a cancellation, and the edit of the approval message. A button is its unique
  name and its data.
\<close>

datatype resolution_header = HdrApproved | HdrRejected | HdrCancelled | HdrExpired

record resolution_text =
  rt_header :: resolution_header
  rt_id_prefix :: string
  rt_action :: string
  rt_resource :: string
  rt_cluster :: "string option"
  rt_decisions :: "(bool \<times> user_id \<times> string option) list"

text \<open>\<open>req.ID[:8]\<close> panics on an identifier shorter than eight bytes: \<open>None\<close>.\<close>

definition format_resolution_message :: "approval_request \<Rightarrow> resolution_text option" where
  "format_resolution_message q =
     (if length (ar_id q) < 8 then None
      else Some
       \<lparr>rt_header = (case ar_status q of
            ApprovalRejected \<Rightarrow> HdrRejected | ApprovalCancelled \<Rightarrow> HdrCancelled
          | ApprovalExpired \<Rightarrow> HdrExpired | _ \<Rightarrow> HdrApproved),
        rt_id_prefix = take 8 (ar_id q), rt_action = ar_action q, rt_resource = ar_resource q,
        rt_cluster = (if ar_cluster q \<noteq> '''' then Some (ar_cluster q) else None),
        rt_decisions =
          map (\<lambda>a. (a_decision a = ''rejected'', a_user_id a,
                    if a_comment a \<noteq> '''' then Some (a_comment a) else None))
            (filter (\<lambda>a. a_decision a \<noteq> ''pending'') (ar_approvers q))\<rparr>)"

record approval_text =
  at_id_prefix :: string
  at_requester :: string
  at_action :: string
  at_resource :: string
  at_cluster :: "string option"
  at_namespace :: "string option"
  at_required :: int
  at_expires :: instant
  at_remaining :: duration

definition build_approval_message :: "instant \<Rightarrow> approval_request \<Rightarrow> approval_text option" where
  "build_approval_message now q =
     (if length (ar_id q) < 8 then None
      else Some
       \<lparr>at_id_prefix = take 8 (ar_id q), at_requester = ar_requester_name q,
        at_action = ar_action q, at_resource = ar_resource q,
        at_cluster = (if ar_cluster q \<noteq> '''' then Some (ar_cluster q) else None),
        at_namespace = (if ar_namespace q \<noteq> '''' then Some (ar_namespace q) else None),
        at_required = ar_required_approvals q, at_expires = ar_expires_at q,
        at_remaining = ar_expires_at q - now\<rparr>)"

definition approval_keyboard :: "approval_request \<Rightarrow> (string \<times> string) list list" where
  "approval_keyboard q =
     [[(''appr_approve'', ar_id q), (''appr_reject'', ar_id q)], [(''appr_cancel'', ar_id q)]]"

datatype approval_effect =
    AlertError string
  | AlertRecorded bool
  | AlertExecuting
  | AlertCancelled
  | EditApprovalMessage chat_id int "resolution_text option"

definition record_decision ::
  "'s approval_repository \<Rightarrow> instant \<Rightarrow> instant \<Rightarrow> 's \<Rightarrow> user_id \<Rightarrow> string \<Rightarrow> string \<Rightarrow> string \<Rightarrow>
   's \<times> approval_effect list" where
  "record_decision R now1 now2 s sender rid decision comment =
     (let (s', r) = decide R now1 now2 s rid sender decision comment
      in case r of
           Inl e \<Rightarrow> (s', [AlertError (err_text e)])
         | Inr approved \<Rightarrow>
            (let ack = (if approved then AlertExecuting else AlertRecorded (decision = ''rejected''))
             in case manager_get_by_id R s' rid of
                  Inl e \<Rightarrow> (s', [ack])
                | Inr q \<Rightarrow>
                   (s', ack # (if ar_message_id q > 0
                               then [EditApprovalMessage (ar_chat_id q) (ar_message_id q)
                                      (format_resolution_message q)]
                               else []))))"

definition handle_approve ::
  "'s approval_repository \<Rightarrow> instant \<Rightarrow> instant \<Rightarrow> 's \<Rightarrow> user_id \<Rightarrow> string \<Rightarrow> 's \<times> approval_effect list"
where
  "handle_approve R now1 now2 s sender data =
     record_decision R now1 now2 s sender data ''approved'' ''''"

definition handle_reject ::
  "'s approval_repository \<Rightarrow> instant \<Rightarrow> instant \<Rightarrow> 's \<Rightarrow> user_id \<Rightarrow> string \<Rightarrow> 's \<times> approval_effect list"
where
  "handle_reject R now1 now2 s sender data =
     record_decision R now1 now2 s sender data ''rejected'' ''''"

definition handle_cancel ::
  "'s approval_repository \<Rightarrow> instant \<Rightarrow> 's \<Rightarrow> user_id \<Rightarrow> string \<Rightarrow> 's \<times> approval_effect list" where
  "handle_cancel R now s sender data =
     (let (s', r) = cancel R now s data sender
      in case r of Inl e \<Rightarrow> (s', [AlertError (err_text e)]) | Inr _ \<Rightarrow> (s', [AlertCancelled]))"

definition required_permission :: "string \<Rightarrow> string" where
  "required_permission action =
     (if length (split_n 3 CHR ''.'' action) = 3 then action else perm_admin_rbac_manage)"

end
