(* ===== verification/ApprovalSpec.thy ===== *)
theory ApprovalSpec
  imports Approval
begin

text \<open>
  The approval workflow as a state machine: its steps are the operations of the manager, the
  checker and the expiry worker, in any order and from any user. The invariant of a stored
  request is proved for every reachable state, also when the two halves of \<open>CheckAndSubmit\<close>
  interleave with other steps; that an action is handed to execution at most once is proved
  when they do not.
\<close>

section \<open>Recording a decision\<close>

lemma record_approver_ids:
  "map a_user_id (record_approver u d c n as) =
     (if u \<in> a_user_id ` set as then map a_user_id as else map a_user_id as @ [u])"
proof -
  have "map a_user_id (update_first (\<lambda>a. a_user_id a = u) f as) = map a_user_id as"
    if "\<And>a. a_user_id (f a) = a_user_id a" for f
    using that by (intro update_first_map) simp
  then show ?thesis by (auto simp: record_approver_def list_ex_iff image_iff)
qed

lemma record_approver_id_set:
  "a_user_id ` set (record_approver u d c n as) = insert u (a_user_id ` set as)"
proof -
  have "a_user_id ` set (record_approver u d c n as) = set (map a_user_id (record_approver u d c n as))"
    by simp
  also have "\<dots> = insert u (a_user_id ` set as)"
    unfolding record_approver_ids by auto
  finally show ?thesis .
qed

lemma record_approver_distinct:
  "distinct (map a_user_id as) \<Longrightarrow> distinct (map a_user_id (record_approver u d c n as))"
  unfolding record_approver_ids by auto

lemma update_first_hit:
  "list_ex p as \<Longrightarrow> \<exists>a \<in> set as. p a \<and> f a \<in> set (update_first p f as)"
  by (induction as) auto

lemma record_approver_recorded:
  "\<exists>a \<in> set (record_approver u d c n as). a_user_id a = u \<and> a_decision a = d \<and> a_decided_at a = Some n"
proof (cases "list_ex (\<lambda>a. a_user_id a = u) as")
  case True
  let ?f = "\<lambda>a. a\<lparr>a_decision := d, a_comment := c, a_decided_at := Some n\<rparr>"
  obtain a where "a_user_id a = u" "?f a \<in> set (update_first (\<lambda>a. a_user_id a = u) ?f as)"
    using update_first_hit [OF True, of ?f] by blast
  then have "?f a \<in> set (record_approver u d c n as)" "a_user_id (?f a) = u"
    using True by (simp_all add: record_approver_def)
  then show ?thesis by (intro bexI [of _ "?f a"]) simp_all
qed (simp add: record_approver_def)

lemma decided_keeps [simp]:
  "ar_id (fst (decided u d c n q)) = ar_id q"
  "ar_requester_id (fst (decided u d c n q)) = ar_requester_id q"
  "ar_required_approvals (fst (decided u d c n q)) = ar_required_approvals q"
  "ar_approvers (fst (decided u d c n q)) = record_approver u d c n (ar_approvers q)"
  "ar_message_id (fst (decided u d c n q)) = ar_message_id q"
  by (simp_all add: decided_def Let_def)

lemma decided_True_iff: "snd (decided u d c n q) \<longleftrightarrow> ar_status (fst (decided u d c n q)) = ApprovalApproved"
  if "ar_status q = ApprovalPending"
  using that by (simp add: decided_def Let_def)

section \<open>The invariant of a stored request\<close>

text \<open>
  No requester among the approvers, at most one decision per user, and the status agrees with
  the decisions.
\<close>

definition sound_request :: "approval_request \<Rightarrow> bool" where
  "sound_request q \<longleftrightarrow>
     ar_requester_id q \<notin> a_user_id ` set (ar_approvers q) \<and>
     distinct (map a_user_id (ar_approvers q)) \<and>
     (ar_status q = ApprovalApproved \<longrightarrow>
        ar_required_approvals q \<le> approval_count q \<and> \<not> has_rejection q) \<and>
     (ar_status q = ApprovalPending \<longrightarrow> \<not> has_rejection q) \<and>
     (ar_status q = ApprovalRejected \<longrightarrow> has_rejection q)"

lemma sound_decided:
  assumes "sound_request q" "ar_status q = ApprovalPending" "u \<noteq> ar_requester_id q"
  shows "sound_request (fst (decided u d c n q))"
proof -
  define q1 where "q1 = q\<lparr>ar_approvers := record_approver u d c n (ar_approvers q)\<rparr>"
  have req: "ar_requester_id q \<notin> a_user_id ` set (record_approver u d c n (ar_approvers q))"
    using assms by (auto simp: record_approver_id_set sound_request_def)
  have dis: "distinct (map a_user_id (record_approver u d c n (ar_approvers q)))"
    using assms by (intro record_approver_distinct) (simp add: sound_request_def)
  have rej: "d = ''rejected'' \<Longrightarrow> has_rejection q1"
    using record_approver_recorded [of u d c n "ar_approvers q"]
    by (auto simp: has_rejection_def any_rejected_iff q1_def)
  consider "d = ''rejected'' \<or> has_rejection q1"
    | "d \<noteq> ''rejected''" "\<not> has_rejection q1" "ar_required_approvals q1 \<le> approval_count q1"
    | "d \<noteq> ''rejected''" "\<not> has_rejection q1" "\<not> ar_required_approvals q1 \<le> approval_count q1"
    by blast
  then show ?thesis
    by cases (use req dis rej assms in
        \<open>auto simp: sound_request_def decided_def Let_def q1_def has_rejection_def approval_count_def\<close>)
qed

lemma sound_cong:
  assumes "sound_request q"
    and "ar_requester_id r = ar_requester_id q" "ar_approvers r = ar_approvers q"
      "ar_required_approvals r = ar_required_approvals q"
    and "ar_status r = ar_status q \<or> ar_status r \<in> {ApprovalCancelled, ApprovalExpired}"
  shows "sound_request r"
  using assms by (auto simp: sound_request_def has_rejection_def approval_count_def)

lemma sound_frame [simp]:
  "sound_request (q\<lparr>ar_resolved_at := x\<rparr>) \<longleftrightarrow> sound_request q"
  "sound_request (q\<lparr>ar_resolved_by := y\<rparr>) \<longleftrightarrow> sound_request q"
  "sound_request (q\<lparr>ar_message_id := m\<rparr>) \<longleftrightarrow> sound_request q"
  by (simp_all add: sound_request_def has_rejection_def approval_count_def)

lemma sound_closed [simp]:
  "sound_request q \<Longrightarrow> sound_request (q\<lparr>ar_status := ApprovalCancelled\<rparr>)"
  "sound_request q \<Longrightarrow> sound_request (q\<lparr>ar_status := ApprovalExpired\<rparr>)"
  by (simp_all add: sound_request_def has_rejection_def approval_count_def)

lemma sound_fresh: "ar_approvers q = [] \<Longrightarrow> ar_status q = ApprovalPending \<Longrightarrow> sound_request q"
  by (simp add: sound_request_def has_rejection_def)

section \<open>The workflow as a step relation\<close>

text \<open>
  \<open>as_inflight\<close> holds the requests whose message id has not been written back yet, \<open>as_executed\<close>
  the requests whose \<open>Decide\<close> told the caller to run the action. The parameter \<open>il\<close> says
  whether other steps may come between the two halves of \<open>CheckAndSubmit\<close>.
\<close>

record 's approval_sys =
  as_db :: 's
  as_inflight :: "approval_request list"
  as_executed :: "string list"

inductive approval_step ::
  "'s approval_repository \<Rightarrow> approval_config \<Rightarrow> bool \<Rightarrow> 's approval_sys \<Rightarrow> 's approval_sys \<Rightarrow> bool"
  for R :: "'s approval_repository" and cfg :: approval_config and il :: bool where
  step_submit:
    "check_and_submit R (ManagerChecker cfg) now nid chat sent (as_db a) i = (s', r) \<Longrightarrow>
     approval_step R cfg il a (a\<lparr>as_db := s'\<rparr>)"
| step_begin:
    "il \<Longrightarrow> submit R cfg now nid (as_db a) (request_of_input i) = (s', q, Inr ()) \<Longrightarrow>
     approval_step R cfg il a (a\<lparr>as_db := s', as_inflight := as_inflight a @ [q]\<rparr>)"
| step_message:
    "q \<in> set (as_inflight a) \<Longrightarrow>
     approval_step R cfg il a
       (a\<lparr>as_db := store_message R (as_db a) q chat mid, as_inflight := remove1 q (as_inflight a)\<rparr>)"
| step_decide:
    "decide R now1 now2 (as_db a) rid uid decision comment = (s', r) \<Longrightarrow>
     approval_step R cfg il a
       (a\<lparr>as_db := s', as_executed := (if r = Inr True then as_executed a @ [rid] else as_executed a)\<rparr>)"
| step_cancel:
    "cancel R now (as_db a) rid uid = (s', r) \<Longrightarrow> approval_step R cfg il a (a\<lparr>as_db := s'\<rparr>)"
| step_tick:
    "approval_step R cfg il a (a\<lparr>as_db := expiry_tick R now (as_db a)\<rparr>)"

inductive approval_reachable ::
  "'s approval_repository \<Rightarrow> approval_config \<Rightarrow> bool \<Rightarrow> 's \<Rightarrow> 's approval_sys \<Rightarrow> bool"
  for R :: "'s approval_repository" and cfg :: approval_config and il :: bool and s0 :: 's where
  reach_start: "approval_reachable R cfg il s0 \<lparr>as_db = s0, as_inflight = [], as_executed = []\<rparr>"
| reach_step: "approval_reachable R cfg il s0 a \<Longrightarrow> approval_step R cfg il a b \<Longrightarrow>
    approval_reachable R cfg il s0 b"

inductive_cases approval_stepE: "approval_step R cfg il a b"

definition sound_store :: "'s approval_repository \<Rightarrow> 's \<Rightarrow> bool" where
  "sound_store R s \<longleftrightarrow> (\<forall>i q. ap_get_by_id R s i = Inr q \<longrightarrow> sound_request q)"

definition fresh_inflight :: "approval_request list \<Rightarrow> bool" where
  "fresh_inflight qs \<longleftrightarrow> (\<forall>q \<in> set qs. ar_approvers q = [] \<and> ar_status q = ApprovalPending)"

lemma submit_request:
  "submit R cfg now nid s (request_of_input i) = (s', q, Inr ()) \<Longrightarrow>
   ap_create R s q = (s', Inr ()) \<and> ar_approvers q = [] \<and> ar_status q = ApprovalPending \<and> ar_id q = nid"
  by (auto simp: submit_def request_of_input_def Let_def wrap_err_def
      split: option.splits prod.splits sum.splits)

lemma submit_failed:
  "submit R cfg now nid s q0 = (s', q, Inl e) \<Longrightarrow> s' = s \<or> (\<exists>q' e'. ap_create R s q' = (s', Inl e'))"
  by (auto simp: submit_def Let_def wrap_err_def split: option.splits prod.splits sum.splits)

lemma check_and_submit_cases:
  assumes "check_and_submit R (ManagerChecker cfg) now nid chat sent s i = (s', r)"
  obtains "s' = s"
  | q e where "ap_create R s q = (s', Inl e)"
  | q s1 where "submit R cfg now nid s (request_of_input i) = (s1, q, Inr ())"
      "s' = s1 \<or> (\<exists>mid. s' = store_message R s1 q chat mid)"
  using assms submit_failed [of R cfg now nid s "request_of_input i"]
  by (fastforce simp: check_and_submit_def split: option.splits prod.splits sum.splits)

section \<open>Preservation, from the laws of the repository\<close>

context approval_repo
begin

lemma sound_create:
  assumes "sound_store R s" "ap_create R s q = (s', Inr ())"
    "ar_approvers q = []" "ar_status q = ApprovalPending"
  shows "sound_store R s'"
  unfolding sound_store_def
proof (intro allI impI)
  fix i r assume "ap_get_by_id R s' i = Inr r"
  with assms show "sound_request r"
    unfolding create_ok [OF assms(2)]
    by (cases "i = ar_id q") (auto simp: sound_store_def intro: sound_fresh)
qed

lemma sound_update:
  assumes "sound_store R s" "ap_update R s q = (s', e)"
    and "\<And>r. ap_get_by_id R s (ar_id q) = Inr r \<Longrightarrow>
      sound_request (r\<lparr>ar_status := ar_status q, ar_approvers := ar_approvers q\<rparr>)"
  shows "sound_store R s'"
proof (cases e)
  case (Inl err)
  with assms(1,2) failed_update [of s q s' err] show ?thesis by simp
next
  case (Inr u)
  with assms(2) have up: "ap_update R s q = (s', Inr ())" by simp
  show ?thesis unfolding sound_store_def
  proof (intro allI impI)
    fix i r' assume g': "ap_get_by_id R s' i = Inr r'"
    then obtain r where g: "ap_get_by_id R s i = Inr r" using update_sees [OF up] by blast
    show "sound_request r'"
    proof (cases "i = ar_id q")
      case True
      with g' update_ok [OF up g] have
        "r' = r\<lparr>ar_status := ar_status q, ar_approvers := ar_approvers q,
            ar_resolved_at := map_option keep (ar_resolved_at q),
            ar_resolved_by := ar_resolved_by q, ar_message_id := ar_message_id q\<rparr>" by simp
      with assms(3) g True show ?thesis by (auto intro: sound_cong)
    next
      case False
      with g' update_ok [OF up g] assms(1) g show ?thesis by (simp add: sound_store_def)
    qed
  qed
qed

lemma sound_message:
  assumes "sound_store R s" "ar_approvers q = []" "ar_status q = ApprovalPending"
  shows "sound_store R (store_message R s q chat mid)"
proof -
  obtain s' e where u: "ap_update R s (q\<lparr>ar_message_id := mid, ar_chat_id := chat\<rparr>) = (s', e)"
    by (cases "ap_update R s (q\<lparr>ar_message_id := mid, ar_chat_id := chat\<rparr>)")
  then have "sound_store R s'"
    by (rule sound_update [OF assms(1)]) (auto intro!: sound_fresh simp: assms)
  with u show ?thesis by (simp add: store_message_def)
qed

lemma sound_decide:
  assumes "sound_store R s" "decide R n1 n2 s rid uid dec com = (s', r)"
  shows "sound_store R s'"
proof -
  have "s' = s \<or> (\<exists>q e. ap_get_by_id R s rid = Inr q \<and> ar_status q = ApprovalPending \<and>
      uid \<noteq> ar_requester_id q \<and> ap_update R s (fst (decided uid dec com n2 q)) = (s', e))"
    using assms(2) by (auto simp: decide_def split: sum.splits if_splits prod.splits)
  then show ?thesis
  proof (elim disjE exE conjE)
    fix q e assume g: "ap_get_by_id R s rid = Inr q" and st: "ar_status q = ApprovalPending"
      "uid \<noteq> ar_requester_id q" and u: "ap_update R s (fst (decided uid dec com n2 q)) = (s', e)"
    have "ar_id q = rid" using get_id [OF g] .
    moreover have "sound_request (fst (decided uid dec com n2 q))"
      using assms(1) g st by (intro sound_decided) (auto simp: sound_store_def)
    ultimately show ?thesis
      using g by (intro sound_update [OF assms(1) u]) (auto intro: sound_cong)
  qed (use assms in simp)
qed

lemma sound_cancel:
  assumes "sound_store R s" "cancel R now s rid uid = (s', r)"
  shows "sound_store R s'"
proof -
  have "s' = s \<or> (\<exists>q. ap_get_by_id R s rid = Inr q \<and>
      ap_update R s (q\<lparr>ar_status := ApprovalCancelled, ar_resolved_at := Some now,
                       ar_resolved_by := Some uid\<rparr>) = (s', r))"
    using assms(2) by (auto simp: cancel_def split: sum.splits if_splits)
  then show ?thesis
  proof (elim disjE exE conjE)
    fix q assume g: "ap_get_by_id R s rid = Inr q"
      and u: "ap_update R s (q\<lparr>ar_status := ApprovalCancelled, ar_resolved_at := Some now,
                       ar_resolved_by := Some uid\<rparr>) = (s', r)"
    have "ar_id q = rid" using get_id [OF g] .
    then show ?thesis
      using g assms(1)
      by (intro sound_update [OF assms(1) u]) (auto simp: sound_store_def)
  qed (use assms in simp)
qed

lemma sound_tick:
  assumes "sound_store R s" shows "sound_store R (expiry_tick R now s)"
proof -
  obtain s' e where u: "ap_expire_old R now s = (s', e)" by (cases "ap_expire_old R now s")
  have "sound_store R s'"
  proof (cases e)
    case (Inl err)
    with u failed_expire [of now s s' err] assms show ?thesis by simp
  next
    case (Inr n)
    with u have u: "ap_expire_old R now s = (s', Inr n)" by simp
    show ?thesis unfolding sound_store_def
    proof (intro allI impI)
      fix i r' assume g': "ap_get_by_id R s' i = Inr r'"
      then obtain r where g: "ap_get_by_id R s i = Inr r" using expire_sees [OF u] by blast
      with g' expire_ok [OF u g] assms show "sound_request r'"
        by (auto simp: sound_store_def intro: sound_cong split: if_splits)
    qed
  qed
  with u show ?thesis by (simp add: expiry_tick_def)
qed

lemma sound_step:
  assumes "approval_step R cfg il a b" "sound_store R (as_db a)" "fresh_inflight (as_inflight a)"
  shows "sound_store R (as_db b) \<and> fresh_inflight (as_inflight b)"
  using assms(1)
proof (cases rule: approval_step.cases)
  case step_submit
  from step_submit(2) show ?thesis
    using assms(2,3) step_submit(1)
    by (cases rule: check_and_submit_cases)
      (auto dest!: failed_create submit_request intro: sound_create intro!: sound_message)
next
  case step_begin
  with assms(2,3) show ?thesis
    by (auto dest!: submit_request intro: sound_create simp: fresh_inflight_def)
next
  case step_message
  with assms(2,3) show ?thesis
    by (auto simp: fresh_inflight_def intro!: sound_message dest: notin_set_remove1)
next
  case step_decide
  with assms(2,3) show ?thesis by (auto intro: sound_decide)
next
  case step_cancel
  with assms(2,3) show ?thesis by (auto intro: sound_cancel)
next
  case step_tick
  with assms(2,3) show ?thesis by (auto intro: sound_tick)
qed

lemma sound_reachable:
  assumes "approval_reachable R cfg il s0 a" "sound_store R s0"
  shows "sound_store R (as_db a) \<and> fresh_inflight (as_inflight a)"
  using assms(1)
proof (induction rule: approval_reachable.induct)
  case reach_start
  with assms(2) show ?case by (simp add: fresh_inflight_def)
next
  case (reach_step a b)
  then show ?case using sound_step by blast
qed

end

section \<open>A resolved request stays as it is\<close>

context approval_repo
begin

lemma update_other:
  "ap_update R s x = (s', e) \<Longrightarrow> ap_get_by_id R s i = Inr q \<Longrightarrow> ar_id x \<noteq> i \<Longrightarrow>
   ap_get_by_id R s' i = Inr q"
  using failed_update update_ok by (cases e) fastforce+

lemma message_other:
  "ap_get_by_id R s i = Inr q \<Longrightarrow> ar_id x \<noteq> i \<Longrightarrow>
   ap_get_by_id R (store_message R s x chat mid) i = Inr q"
  using update_other [of s "x\<lparr>ar_message_id := mid, ar_chat_id := chat\<rparr>"]
  by (cases "ap_update R s (x\<lparr>ar_message_id := mid, ar_chat_id := chat\<rparr>)")
     (auto simp: store_message_def)

lemma submit_other:
  assumes "submit R cfg now nid s (request_of_input j) = (s', x, Inr ())"
    and "ap_get_by_id R s i = Inr q"
  shows "ap_get_by_id R s' i = Inr q" and "ar_id x \<noteq> i"
proof -
  from assms(1) have c: "ap_create R s x = (s', Inr ())" by (auto dest: submit_request)
  from create_fresh [OF c] assms(2) show "ar_id x \<noteq> i" by auto
  then show "ap_get_by_id R s' i = Inr q" using create_ok [OF c, of i] assms(2) by simp
qed

lemma pending_differs:
  assumes "ap_get_by_id R s j = Inr x" "ar_status x = ApprovalPending"
    and "ap_get_by_id R s i = Inr q" "ar_status q \<noteq> ApprovalPending"
  shows "ar_id x \<noteq> i" and "j \<noteq> i"
  using assms get_id [OF assms(1)] by auto

lemma decide_cases:
  assumes "decide R n1 n2 s rid uid dec com = (s', r)"
  obtains "s' = s" "r \<noteq> Inr True"
  | x e where "ap_get_by_id R s rid = Inr x" "ar_status x = ApprovalPending"
      "ap_update R s (fst (decided uid dec com n2 x)) = (s', e)"
  using assms by (auto simp: decide_def split: sum.splits if_splits prod.splits)

lemma cancel_cases:
  assumes "cancel R now s rid uid = (s', r)"
  obtains "s' = s"
  | x where "ap_get_by_id R s rid = Inr x" "ar_status x = ApprovalPending"
      "ap_update R s (x\<lparr>ar_status := ApprovalCancelled, ar_resolved_at := Some now,
                       ar_resolved_by := Some uid\<rparr>) = (s', r)"
  using assms by (auto simp: cancel_def split: sum.splits if_splits)

lemma decide_resolved:
  assumes d: "decide R n1 n2 s rid uid dec com = (s', r)"
    and q: "ap_get_by_id R s i = Inr q" "ar_status q \<noteq> ApprovalPending"
  shows "ap_get_by_id R s' i = Inr q \<and> (r = Inr True \<longrightarrow> rid \<noteq> i)"
  using d
proof (cases rule: decide_cases)
  case 1
  with q show ?thesis by simp
next
  case (2 x e)
  with update_other [OF 2(3) q(1)] pending_differs [OF 2(1,2) q] show ?thesis by simp
qed

lemma cancel_resolved:
  assumes c: "cancel R now s rid uid = (s', r)"
    and q: "ap_get_by_id R s i = Inr q" "ar_status q \<noteq> ApprovalPending"
  shows "ap_get_by_id R s' i = Inr q"
  using c
proof (cases rule: cancel_cases)
  case 1
  with q show ?thesis by simp
next
  case (2 x)
  with update_other [OF 2(3) q(1)] pending_differs [OF 2(1,2) q] show ?thesis by simp
qed

lemma tick_resolved:
  assumes "ap_get_by_id R s i = Inr q" "ar_status q \<noteq> ApprovalPending"
  shows "ap_get_by_id R (expiry_tick R now s) i = Inr q"
proof -
  obtain s' e where u: "ap_expire_old R now s = (s', e)" by (cases "ap_expire_old R now s")
  have "ap_get_by_id R s' i = Inr q"
  proof (cases e)
    case (Inl err)
    with u assms failed_expire [of now s s' err] show ?thesis by simp
  next
    case (Inr n)
    with u assms expire_ok [of now s s' n i q] due_pending [of now q] show ?thesis by auto
  qed
  with u show ?thesis by (simp add: expiry_tick_def)
qed

lemma resolved_is_final:
  assumes "approval_step R cfg False a b" "as_inflight a = []"
    and q: "ap_get_by_id R (as_db a) i = Inr q" "ar_status q \<noteq> ApprovalPending"
  shows "ap_get_by_id R (as_db b) i = Inr q"
  using assms(1)
proof (cases rule: approval_step.cases)
  case step_submit
  from step_submit(2) show ?thesis
  proof (cases rule: check_and_submit_cases)
    case 1
    with step_submit(1) q show ?thesis by simp
  next
    case (2 x e)
    with step_submit(1) q failed_create [OF 2] show ?thesis by simp
  next
    case (3 x s1)
    with step_submit(1) submit_other [OF 3(1) q(1)] show ?thesis
      by (auto intro: message_other)
  qed
next
  case step_begin
  then show ?thesis by simp
next
  case step_message
  with assms(2) show ?thesis by simp
next
  case step_decide
  with q show ?thesis by (simp add: decide_resolved)
next
  case step_cancel
  with q show ?thesis by (simp add: cancel_resolved)
next
  case step_tick
  with q show ?thesis by (simp add: tick_resolved)
qed

lemma decide_True:
  assumes "decide R n1 n2 s rid uid dec com = (s', Inr True)"
  obtains q where "ap_get_by_id R s rid = Inr q" "ar_status q = ApprovalPending"
    "\<exists>q'. ap_get_by_id R s' rid = Inr q' \<and> ar_status q' = ApprovalApproved"
proof -
  from assms obtain q where g: "ap_get_by_id R s rid = Inr q" and p: "ar_status q = ApprovalPending"
    and u: "ap_update R s (fst (decided uid dec com n2 q)) = (s', Inr ())"
    and t: "snd (decided uid dec com n2 q)"
    by (auto simp: decide_def split: sum.splits if_splits prod.splits)
  have "ar_id q = rid" using get_id [OF g] .
  moreover have "ar_status (fst (decided uid dec com n2 q)) = ApprovalApproved"
    using t decided_True_iff [OF p] by simp
  ultimately show ?thesis using that [OF g p] update_ok [OF u g] by simp
qed

definition executed_ok :: "'s approval_sys \<Rightarrow> bool" where
  "executed_ok a \<longleftrightarrow> as_inflight a = [] \<and> distinct (as_executed a) \<and>
     (\<forall>i \<in> set (as_executed a). \<exists>q. ap_get_by_id R (as_db a) i = Inr q \<and>
        ar_status q = ApprovalApproved)"

lemma executed_ok_step:
  assumes st: "approval_step R cfg False a b" and ok: "executed_ok a"
  shows "executed_ok b"
proof -
  have keep: "\<exists>q. ap_get_by_id R (as_db b) i = Inr q \<and> ar_status q = ApprovalApproved"
    if "i \<in> set (as_executed a)" for i
    using that ok resolved_is_final [OF st, of i] by (fastforce simp: executed_ok_def)
  from st show ?thesis
  proof (cases rule: approval_step.cases)
    case (step_decide n1 n2 rid uid dec com s' r)
    show ?thesis
    proof (cases "r = Inr True")
      case True
      with step_decide have d: "decide R n1 n2 (as_db a) rid uid dec com = (s', Inr True)" by simp
      from decide_True [OF d] obtain q where "ap_get_by_id R (as_db a) rid = Inr q"
        "ar_status q = ApprovalPending"
        "\<exists>q'. ap_get_by_id R s' rid = Inr q' \<and> ar_status q' = ApprovalApproved" .
      moreover from this have "rid \<notin> set (as_executed a)"
        using ok by (force simp: executed_ok_def)
      ultimately show ?thesis
        using keep ok step_decide True by (auto simp: executed_ok_def)
    next
      case False
      with keep ok step_decide show ?thesis by (auto simp: executed_ok_def)
    qed
  qed (use keep ok in \<open>auto simp: executed_ok_def\<close>)
qed

lemma executed_ok_reachable:
  "approval_reachable R cfg False s0 a \<Longrightarrow> executed_ok a"
proof (induction rule: approval_reachable.induct)
  case reach_start
  then show ?case by (simp add: executed_ok_def)
next
  case (reach_step a b)
  then show ?case using executed_ok_step by blast
qed

end

end
