(* ===== verification/ApprovalProps.thy ===== *)
theory ApprovalProps
  imports ApprovalSpec
begin

text \<open>
  The properties of the approval workflow on the SQLite store, with a concrete run for the
  witnesses: user 1 asks to sync an application, users 2 and 3 decide.
\<close>

section \<open>A concrete run\<close>

definition demo_cfg :: approval_config where
  "demo_cfg = new_manager True 0
     [\<lparr>rl_action = ''argocd.apps.sync'', rl_clusters = [''prod''], rl_required_approvals = 1,
       rl_approver_roles = [''admin'']\<rparr>]"

definition demo_input :: approval_input where
  "demo_input = \<lparr>in_user_id = 1, in_username = ''u'', in_action = ''argocd.apps.sync'',
     in_resource = ''shop'', in_cluster = ''prod'', in_namespace = '''', in_details = [],
     in_callback_data = ''prod|shop|sync_now''\<rparr>"

definition demo_sys :: "db approval_sys" where
  "demo_sys = \<lparr>as_db = new_store, as_inflight = [], as_executed = []\<rparr>"

text \<open>The three moments of a run in which the request is decided before its message is stored.\<close>

definition demo_begun :: "db \<times> approval_request \<times> unit result" where
  "demo_begun = submit sqlite_approval demo_cfg 0 ''0123456789'' new_store (request_of_input demo_input)"

definition demo_approved :: "db \<times> bool result" where
  "demo_approved = decide sqlite_approval 5 6 (fst demo_begun) ''0123456789'' 2 ''approved'' ''''"

definition demo_overwritten :: db where
  "demo_overwritten = store_message sqlite_approval (fst demo_approved) (fst (snd demo_begun)) 77 9"

definition demo_again :: "db \<times> bool result" where
  "demo_again = decide sqlite_approval 7 8 demo_overwritten ''0123456789'' 3 ''approved'' ''''"

lemmas demo_run = demo_begun_def demo_approved_def demo_overwritten_def demo_again_def

lemma demo_begun_ok: "snd (snd demo_begun) = Inr ()"
  by code_simp

lemma demo_approved_ok: "snd demo_approved = Inr True"
  by code_simp

lemma demo_again_ok: "snd demo_again = Inr True"
  by code_simp



lemma demo_reach_approved:
  "approval_reachable sqlite_approval demo_cfg False new_store
     \<lparr>as_db = fst demo_approved, as_inflight = [], as_executed = [''0123456789'']\<rparr>"
proof -
  let ?a0 = "\<lparr>as_db = new_store, as_inflight = [], as_executed = []\<rparr>"
  have "check_and_submit sqlite_approval (ManagerChecker demo_cfg) 0 ''0123456789'' 77 None new_store demo_input
      = (fst demo_begun, Inr True)"
  proof -
    obtain rule where "requires_approval demo_cfg (in_action demo_input) (in_cluster demo_input) = Some rule"
      by (simp add: demo_cfg_def demo_input_def new_manager_def requires_approval_def)
    moreover have "submit sqlite_approval demo_cfg 0 ''0123456789'' new_store (request_of_input demo_input)
        = (fst demo_begun, fst (snd demo_begun), Inr ())"
      using demo_begun_ok by (simp add: demo_begun_def prod_eq_iff)
    ultimately show ?thesis by (simp add: check_and_submit_def)
  qed
  then have "approval_step sqlite_approval demo_cfg False ?a0 (?a0\<lparr>as_db := fst demo_begun\<rparr>)"
    by (intro step_submit [where i = demo_input]) simp
  then have r1: "approval_reachable sqlite_approval demo_cfg False new_store (?a0\<lparr>as_db := fst demo_begun\<rparr>)"
    by (intro reach_step [OF reach_start])
  have "decide sqlite_approval 5 6 (fst demo_begun) ''0123456789'' 2 ''approved'' '''' =
      (fst demo_approved, Inr True)"
    using demo_approved_ok by (simp add: demo_approved_def prod_eq_iff)
  from step_decide [of sqlite_approval 5 6 "?a0\<lparr>as_db := fst demo_begun\<rparr>", simplified, OF this]
  show ?thesis by (intro reach_step [OF r1]) simp
qed

section \<open>Properties\<close>




text \<open>C3: As long as the two halves of \<open>CheckAndSubmit\<close> run without another step in between, no
  request is handed to execution twice, and a request handed to execution is and stays approved.\<close>

theorem executed_at_most_once:
  assumes "approval_reachable sqlite_approval cfg False s0 a"
  shows "distinct (as_executed a) \<and>
    (\<forall>i \<in> set (as_executed a). \<exists>q. approval_get_by_id (as_db a) i = Inr q \<and>
        ar_status q = ApprovalApproved)"
  using sqa.executed_ok_reachable [OF assms] by (simp add: sqa.executed_ok_def)

theorem executed_at_most_once_witness:
  "distinct (as_executed \<lparr>as_db = fst demo_approved, as_inflight = [], as_executed = [''0123456789'']\<rparr>)"
  using executed_at_most_once [OF demo_reach_approved] by (rule conjunct1)

text \<open>C4: With the two halves of \<open>CheckAndSubmit\<close> interleaved, the delayed \<open>Update\<close> that stores the
  message id writes the stale pending request over an approval that happened in between, and
  the same request is approved and handed to execution a second time.\<close>

theorem delayed_message_update_reopens_request:
  "\<exists>a. approval_reachable sqlite_approval demo_cfg True new_store a \<and>
     as_executed a = [''0123456789'', ''0123456789'']"
proof -
  let ?a0 = "\<lparr>as_db = new_store, as_inflight = [], as_executed = []\<rparr>"
  let ?q = "fst (snd demo_begun)"
  let ?a1 = "?a0\<lparr>as_db := fst demo_begun, as_inflight := [?q]\<rparr>"
  let ?a2 = "?a1\<lparr>as_db := fst demo_approved, as_executed := [''0123456789'']\<rparr>"
  let ?a3 = "?a2\<lparr>as_db := demo_overwritten, as_inflight := []\<rparr>"
  let ?a4 = "?a3\<lparr>as_db := fst demo_again, as_executed := [''0123456789'', ''0123456789'']\<rparr>"
  have "submit sqlite_approval demo_cfg 0 ''0123456789'' (as_db ?a0) (request_of_input demo_input)
      = (fst demo_begun, ?q, Inr ())"
    using demo_begun_ok by (simp add: demo_begun_def prod_eq_iff)
  from step_begin [where il = True, OF TrueI this]
  have s1: "approval_step sqlite_approval demo_cfg True ?a0 ?a1" by simp
  have "decide sqlite_approval 5 6 (as_db ?a1) ''0123456789'' 2 ''approved'' '''' =
      (fst demo_approved, Inr True)"
    using demo_approved_ok by (simp add: demo_approved_def prod_eq_iff)
  from step_decide [where il = True and cfg = demo_cfg, OF this]
  have s2: "approval_step sqlite_approval demo_cfg True ?a1 ?a2" by simp
  have "?q \<in> set (as_inflight ?a2)" by simp
  from step_message [where il = True and cfg = demo_cfg and R = sqlite_approval and chat = 77 and mid = 9, OF this]
  have s3: "approval_step sqlite_approval demo_cfg True ?a2 ?a3" by (simp add: demo_overwritten_def)
  have "decide sqlite_approval 7 8 (as_db ?a3) ''0123456789'' 3 ''approved'' '''' =
      (fst demo_again, Inr True)"
    using demo_again_ok by (simp add: demo_again_def prod_eq_iff)
  from step_decide [where il = True and cfg = demo_cfg, OF this]
  have s4: "approval_step sqlite_approval demo_cfg True ?a3 ?a4" by simp
  have "approval_reachable sqlite_approval demo_cfg True new_store ?a4"
    by (rule reach_step [OF reach_step [OF reach_step [OF reach_step [OF reach_start s1] s2] s3] s4])
  then show ?thesis by (intro exI [of _ ?a4]) simp
qed

text \<open>C5: A decision is accepted exactly when the request exists, is pending, has not expired and
  comes from somebody other than the requester; the approver roles of the rule play no part.\<close>

theorem decide_accepts_exactly:
  assumes "db_fault s = None"
  shows "(\<exists>b. snd (decide sqlite_approval now1 now2 s rid uid dec com) = Inr b) \<longleftrightarrow>
     (\<exists>q. approval_get_by_id s rid = Inr q \<and> ar_status q = ApprovalPending \<and>
          now1 \<le> ar_expires_at q \<and> uid \<noteq> ar_requester_id q)"
proof (cases "approval_get_by_id s rid")
  case (Inl e)
  then show ?thesis by (simp add: decide_def)
next
  case (Inr q)
  obtain q' b where d: "decided uid dec com now2 q = (q', b)" by (cases "decided uid dec com now2 q")
  obtain s' where u: "approval_update s q' = (s', Inr ())"
    using assms by (simp add: approval_update_def exec_sql_def)
  have "snd (decide sqlite_approval now1 now2 s rid uid dec com) =
     (if ar_status q \<noteq> ApprovalPending
      then Inl (ErrText (''request '' @ rid @ '' is already '' @ status_text (ar_status q)))
      else if ar_expires_at q < now1 then Inl (ErrText (''request '' @ rid @ '' has expired''))
      else if uid = ar_requester_id q
      then Inl (ErrText ''requester cannot approve their own request'')
      else Inr b)"
    by (simp add: decide_def Inr d u)
  with Inr show ?thesis by auto
qed

theorem decide_accepts_exactly_witness:
  "\<exists>b. snd (decide sqlite_approval 5 6 (fst demo_begun) ''0123456789'' 4 ''approved'' '''') = Inr b"
proof -
  have "db_fault (fst demo_begun) = None" by code_simp
  moreover have "(case approval_get_by_id (fst demo_begun) ''0123456789'' of Inl e \<Rightarrow> False
     | Inr q \<Rightarrow> ar_status q = ApprovalPending \<and> 5 \<le> ar_expires_at q \<and> 4 \<noteq> ar_requester_id q)"
    by code_simp
  ultimately show ?thesis
    by (subst decide_accepts_exactly) (auto split: sum.splits)
qed

text \<open>When \<open>Decide\<close> or \<open>Cancel\<close> returns an error, the store is exactly as before.\<close>

theorem refused_decisions_change_nothing:
  "(isl (snd (decide sqlite_approval now1 now2 s rid uid dec com)) \<longrightarrow>
      fst (decide sqlite_approval now1 now2 s rid uid dec com) = s) \<and>
   (isl (snd (cancel sqlite_approval now s rid uid)) \<longrightarrow> fst (cancel sqlite_approval now s rid uid) = s)"
  by (auto simp: decide_def cancel_def approval_update_def exec_sql_def
      split: sum.splits prod.splits option.splits if_splits)

theorem refused_decisions_change_nothing_witness:
  "fst (cancel sqlite_approval 5 (fst demo_begun) ''0123456789'' 2) = fst demo_begun"
proof -
  have "isl (snd (cancel sqlite_approval 5 (fst demo_begun) ''0123456789'' 2))" by code_simp
  then show ?thesis using refused_decisions_change_nothing by blast
qed

text \<open>A tick of the expiry worker closes exactly the pending requests whose expiry second lies
  before the current one, and leaves every other request as it is.\<close>

theorem expiry_tick_closes_exactly_the_due:
  "approval_get_by_id (expiry_tick sqlite_approval now s) i =
     (case approval_get_by_id s i of
        Inl e \<Rightarrow> Inl e
      | Inr q \<Rightarrow> Inr (if ar_status q = ApprovalPending \<and> rfc3339 (ar_expires_at q) < rfc3339 now
                     then q\<lparr>ar_status := ApprovalExpired, ar_resolved_at := Some (column_time now)\<rparr>
                     else q))"
proof (cases "db_fault s")
  case None
  then show ?thesis
    by (simp add: expiry_tick_def approval_expire_old_def exec_sql_def approval_get_update
        approval_due_def split: sum.split)
next
  case (Some e)
  then show ?thesis
    by (simp add: expiry_tick_def approval_expire_old_def exec_sql_def approval_get_by_id_def)
qed

lemma first_rule_find:
  "first_rule rs a c = find (\<lambda>r. rl_action r = a \<and> (''*'' \<in> set (rl_clusters r) \<or> c \<in> set (rl_clusters r))) rs"
proof -
  have "cluster_listed cs c \<longleftrightarrow> ''*'' \<in> set cs \<or> c \<in> set cs" for cs
    by (induction cs) auto
  then show ?thesis by (induction rs) auto
qed

text \<open>The gate other modules use lets an action run at once exactly when approvals are off or no
  configured rule names the action on that cluster or on every cluster.\<close>

theorem gate_opens_exactly_without_rule:
  "snd (check_and_submit R (new_checker m) now nid chat sent s i) = Inr False \<longleftrightarrow>
     (case m of None \<Rightarrow> True
      | Some cfg \<Rightarrow> \<not> (cf_enabled cfg \<and>
          (\<exists>r \<in> set (cf_rules cfg). rl_action r = in_action i \<and>
              (''*'' \<in> set (rl_clusters r) \<or> in_cluster i \<in> set (rl_clusters r)))))"
proof (cases "m = None \<or> \<not> cf_enabled (the m)")
  case True
  then show ?thesis by (auto simp: check_and_submit_def new_checker_def split: option.split)
next
  case False
  then obtain cfg where m: "m = Some cfg" "cf_enabled cfg" by auto
  show ?thesis
  proof (cases "requires_approval cfg (in_action i) (in_cluster i)")
    case None
    then have "\<not> (\<exists>r \<in> set (cf_rules cfg). rl_action r = in_action i \<and>
        (''*'' \<in> set (rl_clusters r) \<or> in_cluster i \<in> set (rl_clusters r)))"
      using m by (auto simp: requires_approval_def first_rule_find find_None_iff)
    with m None show ?thesis by (auto simp: check_and_submit_def new_checker_def)
  next
    case (Some rule)
    then have "rule \<in> set (cf_rules cfg) \<and> rl_action rule = in_action i \<and>
        (''*'' \<in> set (rl_clusters rule) \<or> in_cluster i \<in> set (rl_clusters rule))"
      using m by (auto simp: requires_approval_def first_rule_find dest: find_SomeD)
    with m Some show ?thesis
      by (auto simp: check_and_submit_def new_checker_def split: prod.split sum.split option.split)
  qed
qed

end
