(* ===== verification/Bot.thy ===== *)
theory Bot
  imports Entities
begin

text \<open>
  What the Telegram handlers of the modules share: the effects a handler has on the chat, the
  buttons of inline keyboards, and the standard library's \<open>time.ParseDuration\<close>, which callback
  data and configuration values go through.
\<close>

section \<open>Chat effects\<close>

text \<open>
  A button is its unique name and its callback data (labels are left out); a keyboard is a list
  of rows. A handler answers a callback (\<open>Respond\<close>, with or without an alert), sends a message
  or edits the message the callback came from. The texts themselves are represented per module
  by a datatype of messages with the values they show.
\<close>

type_synonym button = "string \<times> string"
type_synonym keyboard = "button list list"

datatype 'm chat_effect =
    Respond "'m option"
  | SendText 'm keyboard
  | EditText 'm keyboard

text \<open>\<open>sendOrEdit\<close>: edits when the update is a callback, sends otherwise.\<close>

definition send_or_edit :: "bool \<Rightarrow> 'm \<Rightarrow> keyboard \<Rightarrow> 'm chat_effect list" where
  "send_or_edit is_callback m kb = (if is_callback then [EditText m kb] else [SendText m kb])"

fun effect_keyboard :: "'m chat_effect \<Rightarrow> keyboard" where
  "effect_keyboard (Respond m) = []"
| "effect_keyboard (SendText m kb) = kb"
| "effect_keyboard (EditText m kb) = kb"

text \<open>The buttons a list of effects puts on the screen.\<close>

definition shown_buttons :: "'m chat_effect list \<Rightarrow> button set" where
  "shown_buttons es = (\<Union>e \<in> set es. set (concat (effect_keyboard e)))"

section \<open>time.ParseDuration\<close>

text \<open>
  An optional sign and a sequence of decimal integers with unit; \<open>None\<close> where the library
  returns an error. Numbers with a fraction, which the bot never writes, are rejected here.
  Totals beyond \<open>2^63\<close> nanoseconds are an error, as in the library.
\<close>

definition is_digit :: "char \<Rightarrow> bool" where
  "is_digit c \<longleftrightarrow> digit_val c \<noteq> None"

definition unit_ns :: "string \<Rightarrow> nat option" where
  "unit_ns u =
     (if u = ''ns'' then Some 1
      else if u = ''us'' then Some 1000
      else if u = ''ms'' then Some 1000000
      else if u = ''s'' then Some 1000000000
      else if u = ''m'' then Some 60000000000
      else if u = ''h'' then Some 3600000000000
      else None)"

text \<open>One number with its unit: its value and what is left of the string.\<close>

definition parse_chunk :: "string \<Rightarrow> (nat \<times> string) option" where
  "parse_chunk s =
     (let ds = takeWhile is_digit s;
          r = dropWhile is_digit s;
          u = takeWhile (\<lambda>c. \<not> is_digit c \<and> c \<noteq> CHR ''.'') r;
          rest = dropWhile (\<lambda>c. \<not> is_digit c \<and> c \<noteq> CHR ''.'') r
      in if ds = [] then None
         else (case (read_digits 0 ds, unit_ns u) of
                 (Some v, Some k) \<Rightarrow> Some (v * k, rest)
               | _ \<Rightarrow> None))"

lemma parse_chunk_shorter:
  assumes "parse_chunk s = Some (n, rest)" shows "length rest < length s"
proof -
  from assms have ne: "takeWhile is_digit s \<noteq> []"
    and r: "rest = dropWhile (\<lambda>c. \<not> is_digit c \<and> c \<noteq> CHR ''.'') (dropWhile is_digit s)"
    by (auto simp: parse_chunk_def Let_def split: if_splits option.splits)
  have "length rest \<le> length (dropWhile is_digit s)" by (simp add: r length_dropWhile_le)
  also have "\<dots> < length s"
    using ne by (cases s) (auto simp: length_dropWhile_le le_imp_less_Suc split: if_splits)
  finally show ?thesis .
qed

function parse_duration_loop :: "nat \<Rightarrow> string \<Rightarrow> nat option" where
  "parse_duration_loop acc s =
     (if s = [] then Some acc
      else (case parse_chunk s of
              None \<Rightarrow> None
            | Some (n, rest) \<Rightarrow>
                if acc + n > 2 ^ 63 then None else parse_duration_loop (acc + n) rest))"
  by pat_completeness auto
termination
  by (relation "measure (\<lambda>(acc, s). length s)") (auto dest: parse_chunk_shorter)

declare parse_duration_loop.simps [simp del]

definition parse_duration :: "string \<Rightarrow> duration option" where
  "parse_duration s =
     (let neg = (s \<noteq> [] \<and> hd s = CHR ''-'');
          body = (if s \<noteq> [] \<and> (hd s = CHR ''-'' \<or> hd s = CHR ''+'') then tl s else s)
      in if body = ''0'' then Some 0
         else if body = [] then None
         else (case parse_duration_loop 0 body of
                 None \<Rightarrow> None
               | Some d \<Rightarrow>
                   if neg then Some (- int d)
                   else if d > 2 ^ 63 - 1 then None else Some (int d)))"

lemma parse_duration_loop_bound:
  "acc \<le> 2 ^ 63 \<Longrightarrow> parse_duration_loop acc s = Some d \<Longrightarrow> d \<le> 2 ^ 63"
proof (induction acc s rule: parse_duration_loop.induct)
  case (1 acc s)
  show ?case
  proof (cases "s = []")
    case True
    with "1.prems" show ?thesis by (simp add: parse_duration_loop.simps [of acc])
  next
    case False
    with "1.prems"(2) obtain n rest where c: "parse_chunk s = Some (n, rest)"
      "\<not> acc + n > 2 ^ 63" "parse_duration_loop (acc + n) rest = Some d"
      by (subst (asm) parse_duration_loop.simps) (auto split: option.splits if_splits)
    from "1.IH" [OF False c(1) refl c(2)] c(2,3) show ?thesis by simp
  qed
qed

lemma parse_duration_bounds:
  assumes "parse_duration s = Some d" shows "- (2 ^ 63) \<le> d \<and> d < 2 ^ 63"
proof -
  have "x \<le> 2 ^ 63" if "parse_duration_loop 0 t = Some x" for x t
    using parse_duration_loop_bound [OF _ that] by simp
  then show ?thesis
    using assms by (fastforce simp: parse_duration_def Let_def split: if_splits option.splits)
qed

end
