(* ===== verification/FreezeStore.thy ===== *)
theory FreezeStore
  imports Sqlite
begin

text \<open>
  The deployment-freeze repository: storage.FreezeRepository as a record of operations, its
  SQLite implementation (freeze\_repo.go), the laws its clients rely on as the locale
  \<open>freeze_repo\<close> and the interpretation. The driver stores a \<open>time.Time\<close> as text whose order is
  chronological, so \<open>expires_at > ?\<close> compares instants. The tie of two freezes created at the
  same instant, which SQL leaves open, goes to the one inserted first.
\<close>

section \<open>SQLite operations\<close>

definition newest_first :: "deployment_freeze list \<Rightarrow> deployment_freeze list" where
  "newest_first fs = sort_key (\<lambda>f. - f_created_at f) fs"

definition first_row :: "'a list \<Rightarrow> 'a option" where
  "first_row xs = (case xs of [] \<Rightarrow> None | x # _ \<Rightarrow> Some x)"

definition freeze_create :: "db \<Rightarrow> deployment_freeze \<Rightarrow> db \<times> unit result" where
  "freeze_create s f =
     (case db_fault s of
        Some e \<Rightarrow> (s, Inl (ErrWrap ''inserting deployment freeze'' (DriverErr e)))
      | None \<Rightarrow>
         if list_ex (\<lambda>x. f_id x = f_id f) (db_freezes s)
         then (s, Inl (ErrWrap ''inserting deployment freeze''
                    (DriverErr ''UNIQUE constraint failed: deployment_freezes.id'')))
         else (s\<lparr>db_freezes := db_freezes s @ [f\<lparr>f_thawed_at := None, f_thawed_by := None\<rparr>]\<rparr>,
               Inr ()))"

definition freeze_get_active :: "instant \<Rightarrow> db \<Rightarrow> deployment_freeze option result" where
  "freeze_get_active now s =
     (case db_fault s of
        Some e \<Rightarrow> Inl (ErrWrap ''scanning deployment freeze'' (DriverErr e))
      | None \<Rightarrow> Inr (first_row (newest_first
          (filter (\<lambda>f. f_thawed_at f = None \<and> now < f_expires_at f) (db_freezes s)))))"

definition freeze_get_active_for_cluster ::
  "instant \<Rightarrow> db \<Rightarrow> string \<Rightarrow> deployment_freeze option result" where
  "freeze_get_active_for_cluster now s cluster =
     (case db_fault s of
        Some e \<Rightarrow> Inl (ErrWrap ''scanning deployment freeze'' (DriverErr e))
      | None \<Rightarrow> Inr (first_row (newest_first
          (filter (\<lambda>f. f_thawed_at f = None \<and> now < f_expires_at f \<and>
                       (f_scope f = ''all'' \<or> f_scope f = cluster)) (db_freezes s)))))"

definition freeze_thaw :: "instant \<Rightarrow> db \<Rightarrow> string \<Rightarrow> user_id \<Rightarrow> db \<times> unit result" where
  "freeze_thaw now s i uid =
     (case db_fault s of
        Some e \<Rightarrow> (s, Inl (ErrWrap (''thawing freeze '' @ i) (DriverErr e)))
      | None \<Rightarrow>
         (let s' = s\<lparr>db_freezes :=
                map (\<lambda>f. if f_id f = i then f\<lparr>f_thawed_at := Some now, f_thawed_by := Some uid\<rparr>
                         else f) (db_freezes s)\<rparr>;
              n = length (filter (\<lambda>f. f_id f = i) (db_freezes s))
          in if n = 0 then (s', Inl (ErrText (''freeze '' @ i @ '' not found''))) else (s', Inr ())))"

definition freeze_list :: "db \<Rightarrow> int \<Rightarrow> deployment_freeze list result" where
  "freeze_list s limit =
     (case db_fault s of
        Some e \<Rightarrow> Inl (ErrWrap ''listing deployment freezes'' (DriverErr e))
      | None \<Rightarrow> Inr (take (nat (if limit \<le> 0 then 20 else limit)) (newest_first (db_freezes s))))"

section \<open>The interface and its laws\<close>

record 's freeze_repository =
  fz_create :: "'s \<Rightarrow> deployment_freeze \<Rightarrow> 's \<times> unit result"
  fz_get_active :: "instant \<Rightarrow> 's \<Rightarrow> deployment_freeze option result"
  fz_get_active_for_cluster :: "instant \<Rightarrow> 's \<Rightarrow> string \<Rightarrow> deployment_freeze option result"
  fz_thaw :: "instant \<Rightarrow> 's \<Rightarrow> string \<Rightarrow> user_id \<Rightarrow> 's \<times> unit result"
  fz_list :: "'s \<Rightarrow> int \<Rightarrow> deployment_freeze list result"

definition sqlite_freeze :: "db freeze_repository" where
  "sqlite_freeze =
     \<lparr>fz_create = freeze_create, fz_get_active = freeze_get_active,
      fz_get_active_for_cluster = freeze_get_active_for_cluster,
      fz_thaw = freeze_thaw, fz_list = freeze_list\<rparr>"

lemma sqlite_freeze_ops [simp]:
  "fz_create sqlite_freeze = freeze_create"
  "fz_get_active sqlite_freeze = freeze_get_active"
  "fz_get_active_for_cluster sqlite_freeze = freeze_get_active_for_cluster"
  "fz_thaw sqlite_freeze = freeze_thaw"
  "fz_list sqlite_freeze = freeze_list"
  by (simp_all add: sqlite_freeze_def)

text \<open>A freeze is in force for a cluster when it is active and its scope covers the cluster.\<close>

definition in_force :: "instant \<Rightarrow> string \<Rightarrow> deployment_freeze \<Rightarrow> bool" where
  "in_force now cluster f \<longleftrightarrow> freeze_is_active now f \<and> (f_scope f = ''all'' \<or> f_scope f = cluster)"

text \<open>
  \<open>rows\<close> is the set of freezes a store holds, \<open>up\<close> says that it answers and \<open>keep\<close> how it rounds
  instants. Clients rely on \<open>GetActiveForCluster\<close> finding a freeze in force whenever there is one.
\<close>

definition freeze_row :: "(instant \<Rightarrow> instant) \<Rightarrow> deployment_freeze \<Rightarrow> deployment_freeze" where
  "freeze_row keep f =
     f\<lparr>f_created_at := keep (f_created_at f), f_expires_at := keep (f_expires_at f),
       f_thawed_at := None, f_thawed_by := None\<rparr>"

locale freeze_repo =
  fixes F :: "'s freeze_repository"
    and rows :: "'s \<Rightarrow> deployment_freeze set"
    and up :: "'s \<Rightarrow> bool"
    and keep :: "instant \<Rightarrow> instant"
  assumes answers: "up s \<Longrightarrow> \<exists>r. fz_get_active_for_cluster F now s c = Inr r"
    and found: "up s \<Longrightarrow> fz_get_active_for_cluster F now s c = Inr (Some f) \<Longrightarrow>
      f \<in> rows s \<and> in_force now c f"
    and complete: "up s \<Longrightarrow> fz_get_active_for_cluster F now s c = Inr None \<Longrightarrow> f \<in> rows s \<Longrightarrow>
      \<not> in_force now c f"
    and create_rows: "fz_create F s f = (s', Inr ()) \<Longrightarrow>
      rows s' = insert (freeze_row keep f) (rows s) \<and> (up s \<longrightarrow> up s')"
    and thaw_rows: "fz_thaw F now s i u = (s', Inr ()) \<Longrightarrow>
      rows s' = (\<lambda>f. if f_id f = i then f\<lparr>f_thawed_at := Some (keep now), f_thawed_by := Some u\<rparr> else f) ` rows s
      \<and> (up s \<longrightarrow> up s')"
    and create_failed: "fz_create F s f = (s', Inl e) \<Longrightarrow> rows s' = rows s"
    and thaw_failed: "fz_thaw F now s i u = (s', Inl e) \<Longrightarrow> rows s' = rows s"
begin

text \<open>The question every sync and rollback asks has an exact answer.\<close>

lemma blocked_iff:
  assumes "up s"
  shows "(\<exists>f. fz_get_active_for_cluster F now s c = Inr (Some f)) \<longleftrightarrow> (\<exists>f \<in> rows s. in_force now c f)"
proof -
  obtain r where r: "fz_get_active_for_cluster F now s c = Inr r" using answers [OF assms] by blast
  then show ?thesis using found [OF assms] complete [OF assms] by (cases r) fastforce+
qed

lemma create_blocks:
  assumes "up s" "fz_create F s f = (s', Inr ())"
    and "f_scope f = ''all'' \<or> f_scope f = c" "now < keep (f_expires_at f)"
  shows "\<exists>g. fz_get_active_for_cluster F now s' c = Inr (Some g)"
proof -
  have "up s'" "freeze_row keep f \<in> rows s'"
    using create_rows [OF assms(2)] assms(1) by auto
  moreover have "in_force now c (freeze_row keep f)"
    using assms(3,4) by (simp add: in_force_def freeze_is_active_def freeze_row_def)
  ultimately show ?thesis using blocked_iff [OF \<open>up s'\<close>] by blast
qed

lemma thaw_unblocks:
  assumes "up s" "fz_thaw F now s i u = (s', Inr ())"
    and "\<And>f. f \<in> rows s \<Longrightarrow> in_force t c f \<Longrightarrow> f_id f = i"
  shows "fz_get_active_for_cluster F t s' c = Inr None"
proof -
  have up: "up s'" using thaw_rows [OF assms(2)] assms(1) by simp
  have "\<not> in_force t c g" if "g \<in> rows s'" for g
    using that thaw_rows [OF assms(2)] assms(3)
    by (auto simp: in_force_def freeze_is_active_def split: if_splits)
  moreover obtain r where r: "fz_get_active_for_cluster F t s' c = Inr r" using answers [OF up] by blast
  ultimately show ?thesis using found [OF up] by (cases r) fastforce+
qed

end

lemma first_row_Some: "first_row xs = Some x \<Longrightarrow> x \<in> set xs"
  by (auto simp: first_row_def split: list.splits)

lemma first_row_None: "first_row xs = None \<longleftrightarrow> xs = []"
  by (auto simp: first_row_def split: list.splits)

lemma set_newest_first [simp]: "set (newest_first fs) = set fs"
  by (simp add: newest_first_def)

lemma newest_first_Nil [simp]: "newest_first fs = [] \<longleftrightarrow> fs = []"
  by (metis set_newest_first set_empty)

text \<open>The row returned is one created last.\<close>

lemma first_row_newest:
  assumes "first_row (newest_first fs) = Some f" "g \<in> set fs"
  shows "f_created_at g \<le> f_created_at f"
proof -
  obtain fs' where e: "newest_first fs = f # fs'"
    using assms(1) by (auto simp: first_row_def split: list.splits)
  have "sorted (map (\<lambda>f. - f_created_at f) (f # fs'))"
    using sorted_sort_key [of "\<lambda>f. - f_created_at f" fs] e
    by (simp only: newest_first_def)
  moreover have "g \<in> set (f # fs')" using assms(2) e set_newest_first [of fs] by simp
  ultimately show ?thesis by auto
qed

interpretation sqf: freeze_repo sqlite_freeze "\<lambda>s. set (db_freezes s)" "\<lambda>s. db_fault s = None" "\<lambda>t. t"
proof
  fix s :: db and now c assume "db_fault s = None"
  then show "\<exists>r. fz_get_active_for_cluster sqlite_freeze now s c = Inr r"
    by (simp add: freeze_get_active_for_cluster_def)
next
  fix now s c f assume "fz_get_active_for_cluster sqlite_freeze now s c = Inr (Some f)"
  then show "f \<in> set (db_freezes s) \<and> in_force now c f"
    by (auto simp: freeze_get_active_for_cluster_def in_force_def freeze_is_active_def
        split: option.splits dest!: first_row_Some)
next
  fix now s c f
  assume "fz_get_active_for_cluster sqlite_freeze now s c = Inr None" "f \<in> set (db_freezes s)"
  then show "\<not> in_force now c f"
    by (auto simp: freeze_get_active_for_cluster_def in_force_def freeze_is_active_def
        first_row_None filter_empty_conv split: option.splits)
next
  fix s f s' assume "fz_create sqlite_freeze s f = (s', Inr ())"
  then show "set (db_freezes s') = insert (freeze_row (\<lambda>t. t) f) (set (db_freezes s))
      \<and> (db_fault s = None \<longrightarrow> db_fault s' = None)"
    by (auto simp: freeze_create_def freeze_row_def split: option.splits if_splits)
next
  fix now s i u s' assume "fz_thaw sqlite_freeze now s i u = (s', Inr ())"
  then show "set (db_freezes s') = (\<lambda>f. if f_id f = i then f\<lparr>f_thawed_at := Some now, f_thawed_by := Some u\<rparr>
        else f) ` set (db_freezes s) \<and> (db_fault s = None \<longrightarrow> db_fault s' = None)"
    by (auto simp: freeze_thaw_def Let_def split: option.splits if_splits)
next
  fix s f s' e assume "fz_create sqlite_freeze s f = (s', Inl e)"
  then show "set (db_freezes s') = set (db_freezes s)"
    by (auto simp: freeze_create_def split: option.splits if_splits)
next
  fix now s i u s' e assume "fz_thaw sqlite_freeze now s i u = (s', Inl e)"
  then show "set (db_freezes s') = set (db_freezes s)"
    by (auto simp: freeze_thaw_def Let_def filter_empty_conv split: option.splits if_splits)
qed

end
