(* ===== verification/ArgocdModel.thy ===== *)
theory ArgocdModel
  imports Bot FreezeStore ApprovalStore Approval RbacEngine
begin

text \<open>
  The data of the ArgoCD module: the API types and client interface of \<open>pkg/argocd\<close>, the module
  state of \<open>internal/module/argocd/module.go\<close>, the messages its handlers show, and the pure
  formatting and keyboard functions of apps.go, diff.go, sync.go, rollback.go and freeze.go.
  The ArgoCD servers are an abstract remote state \<open>'w\<close> that the client's operations read and
  change. JSON object parsing is a parameter where a formatter needs it.
\<close>

section \<open>API types (pkg/argocd/types.go)\<close>

record sync_opts =
  so_prune :: bool
  so_force :: bool
  so_dry_run :: bool

record application =
  app_name :: string
  app_namespace :: string
  app_project :: string
  app_repo_url :: string
  app_path :: string
  app_target_rev :: string
  app_sync_status :: string
  app_health_status :: string
  app_current_rev :: string
  app_last_sync_at :: "instant option"
  app_last_sync_by :: string

record managed_resource =
  mr_kind :: string
  mr_name :: string
  mr_namespace :: string
  mr_group :: string
  mr_version :: string
  mr_status :: string
  mr_health :: string
  mr_live :: string
  mr_predicted :: string

record application_status =
  st_name :: string
  st_sync_status :: string
  st_health_status :: string
  st_project :: string
  st_repo_url :: string
  st_path :: string
  st_target_rev :: string
  st_current_rev :: string
  st_resources :: "managed_resource list"
  st_last_sync_at :: "instant option"
  st_last_sync_by :: string
  st_message :: string

record resource_result =
  rs_kind :: string
  rs_name :: string
  rs_message :: string
  rs_status :: string

record sync_result =
  sr_phase :: string
  sr_message :: string
  sr_revision :: string
  sr_results :: "resource_result list"

record rollback_result =
  rb_phase :: string
  rb_message :: string

record revision_history =
  rh_id :: int
  rh_revision :: string
  rh_deployed_at :: instant
  rh_deployed_by :: string
  rh_source :: "string \<times> string \<times> string"
record resource_diff =
  rd_kind :: string
  rd_name :: string
  rd_namespace :: string
  rd_diff :: string
  rd_live :: string
  rd_target :: string

record diff_result =
  df_app_name :: string
  df_changed :: int
  df_added :: int
  df_removed :: int
  df_resources :: "resource_diff list"

section \<open>Client interface (pkg/argocd/client.go)\<close>

record 'w argo_client =
  ac_list_applications :: "'w \<Rightarrow> application list result"
  ac_get_application :: "'w \<Rightarrow> string \<Rightarrow> application result"
  ac_get_application_status :: "'w \<Rightarrow> string \<Rightarrow> application_status result"
  ac_sync_application :: "'w \<Rightarrow> string \<Rightarrow> sync_opts \<Rightarrow> 'w \<times> sync_result result"
  ac_rollback_application :: "'w \<Rightarrow> string \<Rightarrow> int \<Rightarrow> 'w \<times> rollback_result result"
  ac_get_application_history :: "'w \<Rightarrow> string \<Rightarrow> revision_history list result"
  ac_get_managed_resources :: "'w \<Rightarrow> string \<Rightarrow> managed_resource list result"
  ac_get_application_diff :: "'w \<Rightarrow> string \<Rightarrow> diff_result result"
  ac_disable_auto_sync :: "'w \<Rightarrow> string \<Rightarrow> 'w \<times> unit result"
  ac_enable_auto_sync :: "'w \<Rightarrow> string \<Rightarrow> 'w \<times> unit result"
  ac_ping :: "'w \<Rightarrow> unit result"

section \<open>Module state (module.go)\<close>

record 'w argo_instance =
  ai_name :: string
  ai_clusters :: "string list"
  ai_client :: "'w argo_client"

record 'w argo_module =
  am_instances :: "'w argo_instance list"
  am_engine :: engine
  am_approval :: "approval_checker option"
  am_healthy :: bool

text \<open>What the handlers read and change: the store, the ArgoCD servers, the audit log.\<close>

record 'w argo_world =
  aw_db :: db
  aw_remote :: 'w
  aw_audit :: "audit_entry list"

fun instance_by_name :: "'w argo_instance list \<Rightarrow> string \<Rightarrow> 'w argo_instance option" where
  "instance_by_name [] n = None"
| "instance_by_name (i # is) n = (if ai_name i = n then Some i else instance_by_name is n)"

definition get_default_instance :: "'w argo_module \<Rightarrow> 'w argo_instance result" where
  "get_default_instance M =
     (case am_instances M of
        [] \<Rightarrow> Inl (ErrText ''no ArgoCD instances configured'')
      | i # _ \<Rightarrow> Inr i)"

definition argo_health :: "'w argo_module \<Rightarrow> health_status" where
  "argo_health M = (if am_healthy M then Healthy else Unhealthy)"

text \<open>\<open>allowed, _ := m.rbac.HasPermission(...)\<close>: an error counts as not allowed.\<close>

definition permitted :: "engine \<Rightarrow> db \<Rightarrow> user_id \<Rightarrow> string \<Rightarrow> bool" where
  "permitted e s u p = (case has_permission sqlite_rbac e s u p of Inl _ \<Rightarrow> False | Inr b \<Rightarrow> b)"

datatype app_emoji = EmojiYellow | EmojiRed | EmojiWhite | EmojiCheck

definition sync_status_emoji :: "string \<Rightarrow> string \<Rightarrow> app_emoji" where
  "sync_status_emoji sync health =
     (if sync = ''OutOfSync'' then EmojiYellow
      else if health = ''Degraded'' \<or> health = ''Missing'' then EmojiRed
      else if health = ''Progressing'' then EmojiWhite
      else if sync = ''Synced'' \<and> health = ''Healthy'' then EmojiCheck
      else EmojiWhite)"

definition resource_status_emoji :: "string \<Rightarrow> string \<Rightarrow> app_emoji" where
  "resource_status_emoji status health =
     (if status = ''OutOfSync'' then EmojiYellow
      else if health = ''Degraded'' \<or> health = ''Missing'' then EmojiRed
      else if status = ''Synced'' then EmojiCheck
      else EmojiWhite)"

definition short_rev :: "string \<Rightarrow> string" where
  "short_rev rv = (if length rv > 7 then take 7 rv else rv)"

section \<open>Messages\<close>

record freeze_line =
  fl_scope :: string
  fl_status :: string
  fl_created :: instant
  fl_expires :: instant
  fl_remaining :: "duration option"

record instance_summary =
  is_name :: string
  is_clusters :: "string list"
  is_total :: nat
  is_healthy :: nat
  is_out_of_sync :: nat
  is_degraded :: nat
  is_out_apps :: "string list"
  is_degraded_apps :: "string list"

datatype diff_line = LineAdded string | LineChanged string | LineRemoved string | LineMore
  | LineRedacted | LineText string

text \<open>
  The messages: a \<open>Notice\<close> is a fixed text of the source (its emoji left out), the others carry the
  values they show.
\<close>

datatype argo_msg =
    Notice string
  | MsgNoPermission string
  | MsgNoApps string
  | MsgApps string "(app_emoji \<times> string \<times> string \<times> string \<times> string) list" nat nat nat
  | MsgAppDetail application_status string "(app_emoji \<times> string \<times> string) list" "nat option"
  | MsgDiff string string "(string \<times> string) list" "nat option"
  | MsgDiffPreview string "(string \<times> string \<times> diff_line list) list"
  | MsgConfirmSync string string
  | MsgNeedsApproval string
  | MsgSyncFailed string string
  | MsgSyncDone bool string sync_result "(bool \<times> string \<times> string) list" string
  | MsgNoHistory string
  | MsgHistory string "(int \<times> string \<times> bool \<times> instant \<times> string) list"
  | MsgConfirmRollback string string string string
  | MsgRollbackFailed string string
  | MsgRollbackDone bool string string string "string option"
  | MsgDashboard "instance_summary list" nat nat nat
  | MsgFiltered string "(string \<times> string \<times> string list) list"
  | MsgFreezeBlocked string duration instant
  | MsgFreezeActive string duration instant
  | MsgFreezeSelectDuration string
  | MsgFreezeConfirm string string instant
  | MsgFreezeCreated string string instant
  | MsgFreezeHistory "freeze_line list"

section \<open>Formatting (apps.go, diff.go, sync.go, rollback.go)\<close>

text \<open>The three-way count that the application list and the dashboard share.\<close>

datatype app_class = ClassOutOfSync | ClassDegraded | ClassHealthy

definition classify_app :: "application \<Rightarrow> app_class" where
  "classify_app a =
     (if app_sync_status a = ''OutOfSync'' then ClassOutOfSync
      else if app_health_status a = ''Degraded'' \<or> app_health_status a = ''Missing''
      then ClassDegraded
      else ClassHealthy)"

fun count_apps :: "application list \<Rightarrow> nat \<times> nat \<times> nat" where
  "count_apps [] = (0, 0, 0)"
| "count_apps (a # as) =
     (case count_apps as of (synced, out, degraded) \<Rightarrow>
        (case classify_app a of
           ClassOutOfSync \<Rightarrow> (synced, Suc out, degraded)
         | ClassDegraded \<Rightarrow> (synced, out, Suc degraded)
         | ClassHealthy \<Rightarrow> (Suc synced, out, degraded)))"

definition app_list_message :: "string \<Rightarrow> application list \<Rightarrow> argo_msg" where
  "app_list_message inst apps =
     (case count_apps apps of (synced, out, degraded) \<Rightarrow>
        MsgApps inst
          (map (\<lambda>a. (sync_status_emoji (app_sync_status a) (app_health_status a), app_name a,
                     app_sync_status a, app_health_status a, short_rev (app_current_rev a))) apps)
          synced out degraded)"

definition app_list_keyboard :: "string \<Rightarrow> application list \<Rightarrow> keyboard" where
  "app_list_keyboard inst apps =
     map (\<lambda>a. [(''argo_app_detail'', inst @ ''|'' @ app_name a)]) apps @
     [[(''argo_apps_refresh'', inst), (''argo_dash_refresh'', '''')]]"

text \<open>At most ten resources are listed, then a count of the others.\<close>

fun detail_lines :: "nat \<Rightarrow> nat \<Rightarrow> managed_resource list \<Rightarrow>
    (app_emoji \<times> string \<times> string) list \<times> nat option" where
  "detail_lines tot shown [] = ([], None)"
| "detail_lines tot shown (r # rs) =
     (if shown \<ge> 10 then ([], Some (tot - shown))
      else (case detail_lines tot (Suc shown) rs of (ls, left) \<Rightarrow>
              ((resource_status_emoji (mr_status r) (mr_health r), mr_kind r, mr_name r) # ls, left)))"

definition format_app_status_detail :: "application_status \<Rightarrow> string \<Rightarrow> argo_msg" where
  "format_app_status_detail a inst =
     (case detail_lines (length (st_resources a)) 0 (st_resources a) of (ls, left) \<Rightarrow>
        MsgAppDetail a inst ls left)"

definition app_detail_keyboard :: "string \<Rightarrow> string \<Rightarrow> keyboard" where
  "app_detail_keyboard inst app =
     (let data = inst @ ''|'' @ app
      in [[(''argo_sync'', data), (''argo_diff'', data), (''argo_rollback'', data)],
          [(''argo_apps_back'', inst)]])"

text \<open>The diff view skips resources without a diff and stops after fifteen; the count it then
  shows is of all resources not shown.\<close>

fun diff_lines :: "nat \<Rightarrow> nat \<Rightarrow> resource_diff list \<Rightarrow> (string \<times> string) list \<times> nat option" where
  "diff_lines tot shown [] = ([], None)"
| "diff_lines tot shown (r # rs) =
     (if rd_diff r = '''' then diff_lines tot shown rs
      else if shown \<ge> 15 then ([], Some (tot - shown))
      else (case diff_lines tot (Suc shown) rs of (ls, left) \<Rightarrow>
              ((rd_kind r, rd_name r) # ls, left)))"

definition format_diff :: "diff_result \<Rightarrow> string \<Rightarrow> argo_msg" where
  "format_diff d inst =
     (if df_changed d = 0 \<and> df_added d = 0 \<and> df_removed d = 0
      then MsgDiff (df_app_name d) inst [] None
      else (case diff_lines (length (df_resources d)) 0 (df_resources d) of (ls, left) \<Rightarrow>
              MsgDiff (df_app_name d) inst ls left))"

text \<open>
  \<open>computeSimpleDiff\<close> ranges over Go maps; the association lists stand for one iteration order.
\<close>

fun diff_targets :: "nat \<Rightarrow> (string \<rightharpoonup> string) \<Rightarrow> (string \<times> string) list \<Rightarrow> diff_line list \<times> nat" where
  "diff_targets n live [] = ([], n)"
| "diff_targets n live ((k, tv) # ts) =
     (if n \<ge> 5 then ([LineMore], n)
      else (case live k of
              None \<Rightarrow> (case diff_targets (Suc n) live ts of (ls, m) \<Rightarrow> (LineAdded k # ls, m))
            | Some lv \<Rightarrow>
                if lv \<noteq> tv
                then (case diff_targets (Suc n) live ts of (ls, m) \<Rightarrow> (LineChanged k # ls, m))
                else diff_targets n live ts))"

fun diff_removed :: "nat \<Rightarrow> (string \<rightharpoonup> string) \<Rightarrow> (string \<times> string) list \<Rightarrow> diff_line list" where
  "diff_removed n target [] = []"
| "diff_removed n target ((k, lv) # ls) =
     (if target k = None \<and> n < 5 then LineRemoved k # diff_removed (Suc n) target ls
      else diff_removed n target ls)"

definition compute_simple_diff ::
  "(string \<times> string) list \<Rightarrow> (string \<times> string) list \<Rightarrow> diff_line list" where
  "compute_simple_diff live target =
     (case diff_targets 0 (map_of live) target of (ls, n) \<Rightarrow>
        ls @ diff_removed n (map_of target) live)"

definition format_resource_diff ::
  "(string \<Rightarrow> (string \<times> string) list option) \<Rightarrow> resource_diff \<Rightarrow> diff_line list" where
  "format_resource_diff parse_object r =
     (if rd_kind r = ''Secret'' then [LineRedacted]
      else if rd_live r \<noteq> '''' \<and> rd_target r \<noteq> ''''
      then (case (parse_object (rd_live r), parse_object (rd_target r)) of
              (Some live, Some target) \<Rightarrow> compute_simple_diff live target
            | _ \<Rightarrow> [LineText (rd_diff r)])
      else [LineText (rd_diff r)])"

definition format_diff_preview ::
  "(string \<Rightarrow> (string \<times> string) list option) \<Rightarrow> diff_result \<Rightarrow> argo_msg" where
  "format_diff_preview parse_object d =
     MsgDiffPreview (df_app_name d)
       (if df_changed d = 0 \<and> df_resources d = [] then []
        else map (\<lambda>r. (rd_kind r, rd_name r, format_resource_diff parse_object r))
               (filter (\<lambda>r. rd_diff r \<noteq> '''') (df_resources d)))"

definition sync_options_keyboard :: "string \<Rightarrow> string \<Rightarrow> keyboard" where
  "sync_options_keyboard inst app =
     (let data = inst @ ''|'' @ app
      in [[(''argo_sync_now'', data), (''argo_sync_prune'', data)], [(''argo_sync_force'', data)],
          [(''argo_sync_cancel'', data)]])"

definition format_sync_result :: "sync_result \<Rightarrow> string \<Rightarrow> string \<Rightarrow> argo_msg" where
  "format_sync_result r app by_user =
     MsgSyncDone
       (\<not> (sr_phase r \<noteq> '''' \<and> sr_phase r \<noteq> ''Succeeded'' \<and> sr_phase r \<noteq> ''Running''))
       app r (map (\<lambda>x. (rs_status x = ''Synced'', rs_kind x, rs_name x)) (sr_results r)) by_user"

definition max_history_items :: nat where "max_history_items = 10"

text \<open>The first entry is the current revision; only the others get a rollback button.\<close>

definition format_rollback_history ::
  "revision_history list \<Rightarrow> string \<Rightarrow> string \<Rightarrow> argo_msg \<times> keyboard" where
  "format_rollback_history history inst app =
     (let hs = take max_history_items history
      in (MsgHistory app
            (map (\<lambda>(i, h). (rh_id h, short_rev (rh_revision h), i = 0, rh_deployed_at h,
                            rh_deployed_by h)) (enumerate 0 hs)),
          map (\<lambda>h. [(''argo_rollback_select'',
                     inst @ ''|'' @ app @ ''|'' @ show_int (rh_id h) @ ''|'' @ rh_revision h)])
            (drop 1 hs) @
          [[(''argo_rollback_cancel'', inst @ ''|'' @ app)]]))"

definition format_rollback_result :: "rollback_result \<Rightarrow> string \<Rightarrow> string \<Rightarrow> string \<Rightarrow> argo_msg" where
  "format_rollback_result r app rv by_user =
     (let bad = (rb_phase r \<noteq> '''' \<and> rb_phase r \<noteq> ''Succeeded'')
      in MsgRollbackDone (\<not> bad) app rv (if bad then rb_phase r else ''succeeded'')
           (if rb_message r \<noteq> '''' then Some (rb_message r) else None))"

text \<open>\<open>fmt.Sscanf(s, "%d", &v)\<close>: leading blanks, a sign, then the longest run of digits, within int64.\<close>

definition sscanf_d :: "string \<Rightarrow> int option" where
  "sscanf_d s =
     (let t = dropWhile (\<lambda>c. c = CHR '' '') s;
          neg = (t \<noteq> [] \<and> hd t = CHR ''-'');
          body = (if t \<noteq> [] \<and> (hd t = CHR ''-'' \<or> hd t = CHR ''+'') then tl t else t);
          ds = takeWhile is_digit body
      in if ds = [] then None
         else (case read_digits 0 ds of
                 None \<Rightarrow> None
               | Some v \<Rightarrow>
                   (let i = (if neg then - int v else int v)
                    in if - (2 ^ 63) \<le> i \<and> i < 2 ^ 63 then Some i else None)))"

definition format_freeze_blocked :: "instant \<Rightarrow> instant \<Rightarrow> deployment_freeze \<Rightarrow> argo_msg" where
  "format_freeze_blocked n1 n2 f =
     MsgFreezeBlocked (if f_scope f = ''all'' then ''all clusters'' else f_scope f)
       (remaining_duration n1 n2 f) (f_expires_at f)"

definition freeze_history_line :: "instant \<Rightarrow> deployment_freeze \<Rightarrow> freeze_line" where
  "freeze_history_line now f =
     \<lparr>fl_scope = (if f_scope f = ''all'' then ''All Clusters'' else f_scope f),
      fl_status = (if freeze_is_active now f then ''Active''
                   else if f_thawed_at f \<noteq> None then ''Thawed'' else ''Expired''),
      fl_created = f_created_at f, fl_expires = f_expires_at f,
      fl_remaining = (if freeze_is_active now f then Some (remaining_duration now now f) else None)\<rparr>"

end
