(* ===== verification/Argocd.thy ===== *)
theory Argocd
  imports ArgocdModel
begin

text \<open>
  The handlers of the ArgoCD module (apps.go, diff.go, sync.go, rollback.go, dashboard.go,
  freeze.go). A handler takes the module, the user the middleware found (or none), the callback
  data, clock readings and identifiers, and the world; it returns the new world and what it does
  in the chat. Handlers that change nothing return the chat effects alone. A handler asks for the
  time more than once: \<open>t1\<close> is the reading of the query, \<open>t2\<close> the one of \<open>IsActive\<close>, \<open>t3\<close> the
  one of the text. Timeouts of the contexts are not modelled: a call that times out is a call
  that returns an error.
\<close>

type_synonym argo_effects = "argo_msg chat_effect list"

section \<open>Applications (apps.go)\<close>

definition send_instance_selector :: "'w argo_module \<Rightarrow> bool \<Rightarrow> argo_effects" where
  "send_instance_selector M cb =
     send_or_edit cb (Notice ''ArgoCD Instances'')
       (map (\<lambda>i. [(''argo_inst_select'', ai_name i)]) (am_instances M))"

definition send_app_list :: "'w argo_module \<Rightarrow> bool \<Rightarrow> string \<Rightarrow> 'w argo_world \<Rightarrow> argo_effects" where
  "send_app_list M cb inst w =
     (case instance_by_name (am_instances M) inst of
        None \<Rightarrow> send_or_edit cb (Notice ''ArgoCD instance not found.'') []
      | Some i \<Rightarrow>
         (case ac_list_applications (ai_client i) (aw_remote w) of
            Inl e \<Rightarrow> send_or_edit cb (Notice ''Failed to list ArgoCD applications.'') []
          | Inr [] \<Rightarrow> send_or_edit cb (MsgNoApps inst) []
          | Inr apps \<Rightarrow>
              send_or_edit cb (app_list_message inst apps) (app_list_keyboard inst apps)))"

definition handle_apps :: "'w argo_module \<Rightarrow> user option \<Rightarrow> 'w argo_world \<Rightarrow> argo_effects" where
  "handle_apps M usr w =
     (case usr of
        None \<Rightarrow> [SendText (Notice ''Could not identify you.'') []]
      | Some u \<Rightarrow>
         if \<not> permitted (am_engine M) (aw_db w) (u_telegram_id u) perm_argocd_apps_list
         then [SendText (MsgNoPermission perm_argocd_apps_list) []]
         else (case am_instances M of
                 [] \<Rightarrow> [SendText (Notice ''No ArgoCD instances configured.'') []]
               | [i] \<Rightarrow> send_app_list M False (ai_name i) w
               | _ \<Rightarrow> send_instance_selector M False))"

definition handle_instance_select :: "'w argo_module \<Rightarrow> string \<Rightarrow> 'w argo_world \<Rightarrow> argo_effects" where
  "handle_instance_select M data w = send_app_list M True data w"

definition handle_apps_refresh :: "'w argo_module \<Rightarrow> string \<Rightarrow> 'w argo_world \<Rightarrow> argo_effects" where
  "handle_apps_refresh M data w = send_app_list M True data w"

definition handle_apps_back :: "'w argo_module \<Rightarrow> 'w argo_world \<Rightarrow> argo_effects" where
  "handle_apps_back M w =
     (case am_instances M of
        [] \<Rightarrow> send_or_edit True (Notice ''No ArgoCD instances configured.'') []
      | [i] \<Rightarrow> send_app_list M True (ai_name i) w
      | _ \<Rightarrow> send_instance_selector M True)"

definition handle_app_detail ::
  "'w argo_module \<Rightarrow> user option \<Rightarrow> string \<Rightarrow> 'w argo_world \<Rightarrow> argo_effects" where
  "handle_app_detail M usr data w =
     (case usr of
        None \<Rightarrow> [Respond (Some (Notice ''Error''))]
      | Some u \<Rightarrow>
         (case split_n 2 (CHR ''|'') data of
            [inst, app] \<Rightarrow>
              if \<not> permitted (am_engine M) (aw_db w) (u_telegram_id u) perm_argocd_apps_view
              then [Respond (Some (MsgNoPermission perm_argocd_apps_view))]
              else (case instance_by_name (am_instances M) inst of
                      None \<Rightarrow> [Respond (Some (Notice ''ArgoCD instance not found.''))]
                    | Some i \<Rightarrow>
                       (case ac_get_application_status (ai_client i) (aw_remote w) app of
                          Inl e \<Rightarrow> [Respond (Some (Notice ''Failed to get application status''))]
                        | Inr st \<Rightarrow> [EditText (format_app_status_detail st inst)
                                      (app_detail_keyboard inst app)]))
          | _ \<Rightarrow> [Respond (Some (Notice ''Invalid data''))]))"

section \<open>Diff (diff.go)\<close>

definition handle_diff ::
  "'w argo_module \<Rightarrow> user option \<Rightarrow> string \<Rightarrow> 'w argo_world \<Rightarrow> argo_effects" where
  "handle_diff M usr data w =
     (case usr of
        None \<Rightarrow> [Respond (Some (Notice ''Error''))]
      | Some u \<Rightarrow>
         (case split_n 2 (CHR ''|'') data of
            [inst, app] \<Rightarrow>
              if \<not> permitted (am_engine M) (aw_db w) (u_telegram_id u) perm_argocd_apps_diff
              then [Respond (Some (MsgNoPermission perm_argocd_apps_diff))]
              else (case instance_by_name (am_instances M) inst of
                      None \<Rightarrow> [Respond (Some (Notice ''ArgoCD instance not found.''))]
                    | Some i \<Rightarrow>
                       (case ac_get_application_diff (ai_client i) (aw_remote w) app of
                          Inl e \<Rightarrow> [Respond (Some (Notice ''Failed to load diff''))]
                        | Inr d \<Rightarrow>
                            [EditText (format_diff d inst)
                              [[(''argo_sync'', inst @ ''|'' @ app)],
                               [(''argo_app_detail'', inst @ ''|'' @ app)]]]))
          | _ \<Rightarrow> [Respond (Some (Notice ''Invalid data''))]))"

section \<open>Sync (sync.go)\<close>

text \<open>
  The freeze question both sync and rollback ask of the store: the freeze that blocks, if any.
  A store error lets the operation through.
\<close>

definition blocking_freeze :: "instant \<Rightarrow> instant \<Rightarrow> db \<Rightarrow> string \<Rightarrow> deployment_freeze option" where
  "blocking_freeze t1 t2 s inst =
     (case fz_get_active_for_cluster sqlite_freeze t1 s inst of
        Inl e \<Rightarrow> None
      | Inr None \<Rightarrow> None
      | Inr (Some f) \<Rightarrow> if freeze_is_active t2 f then Some f else None)"

definition empty_diff :: "string \<Rightarrow> diff_result" where
  "empty_diff app = \<lparr>df_app_name = app, df_changed = 0, df_added = 0, df_removed = 0,
                      df_resources = []\<rparr>"

definition handle_sync ::
  "(string \<Rightarrow> (string \<times> string) list option) \<Rightarrow> 'w argo_module \<Rightarrow> instant \<Rightarrow> instant \<Rightarrow> instant \<Rightarrow>
   user option \<Rightarrow> string \<Rightarrow> 'w argo_world \<Rightarrow> argo_effects" where
  "handle_sync parse_object M t1 t2 t3 usr data w =
     (case usr of
        None \<Rightarrow> [Respond (Some (Notice ''Error''))]
      | Some u \<Rightarrow>
         (case split_n 2 (CHR ''|'') data of
            [inst, app] \<Rightarrow>
              if \<not> permitted (am_engine M) (aw_db w) (u_telegram_id u) perm_argocd_apps_sync
              then [Respond (Some (MsgNoPermission perm_argocd_apps_sync))]
              else (case blocking_freeze t1 t2 (aw_db w) inst of
                      Some f \<Rightarrow> send_or_edit True (format_freeze_blocked t2 t3 f) []
                    | None \<Rightarrow>
                        Respond (Some (Notice ''Fetching diff...'')) #
                        (case instance_by_name (am_instances M) inst of
                           None \<Rightarrow> send_or_edit True (Notice ''ArgoCD instance not found.'') []
                         | Some i \<Rightarrow>
                            (let d = (case ac_get_application_diff (ai_client i) (aw_remote w) app of
                                        Inl e \<Rightarrow> empty_diff app | Inr d \<Rightarrow> d)
                             in [EditText (format_diff_preview parse_object d)
                                   (sync_options_keyboard inst app)])))
          | _ \<Rightarrow> [Respond (Some (Notice ''Invalid data''))]))"

definition initiate_sync_confirm :: "string \<Rightarrow> string \<Rightarrow> argo_effects" where
  "initiate_sync_confirm data mode =
     (case split_n 2 (CHR ''|'') data of
        [inst, app] \<Rightarrow>
          (let confirm = inst @ ''|'' @ app @ ''|'' @ mode
           in [EditText (MsgConfirmSync app mode)
                 [[(''argo_sync_confirm'', confirm), (''argo_sync_cancel'', confirm)]]])
      | _ \<Rightarrow> [Respond (Some (Notice ''Invalid data''))])"

definition handle_sync_now :: "string \<Rightarrow> argo_effects" where
  "handle_sync_now data = initiate_sync_confirm data ''sync_now''"

definition handle_sync_prune :: "string \<Rightarrow> argo_effects" where
  "handle_sync_prune data = initiate_sync_confirm data ''sync_prune''"

definition handle_sync_force :: "string \<Rightarrow> argo_effects" where
  "handle_sync_force data = initiate_sync_confirm data ''sync_force''"

definition handle_sync_cancel ::
  "'w argo_module \<Rightarrow> user option \<Rightarrow> string \<Rightarrow> 'w argo_world \<Rightarrow> argo_effects" where
  "handle_sync_cancel M usr data w =
     (if length (split_n 3 (CHR ''|'') data) < 2 then [Respond (Some (Notice ''Invalid data''))]
      else handle_app_detail M usr data w)"

definition sync_opts_of_mode :: "string \<Rightarrow> sync_opts" where
  "sync_opts_of_mode mode =
     \<lparr>so_prune = (mode = ''sync_prune''), so_force = (mode = ''sync_force''), so_dry_run = False\<rparr>"

text \<open>The audit entry of an action on an application.\<close>

definition app_audit ::
  "string \<Rightarrow> instant \<Rightarrow> user \<Rightarrow> string \<Rightarrow> string \<Rightarrow> string \<Rightarrow> (string \<times> string) list \<Rightarrow>
   go_error option \<Rightarrow> audit_entry" where
  "app_audit new_id now u action app inst details err =
     \<lparr>ae_id = new_id, ae_user_id = u_telegram_id u, ae_username = u_username u,
      ae_action = action, ae_resource = ''app/'' @ app, ae_cluster = inst,
      ae_namespace = '''', ae_chat_id = 0, ae_chat_type = '''',
      ae_status = (case err of None \<Rightarrow> audit_success | Some e \<Rightarrow> audit_error),
      ae_details = details,
      ae_error = (case err of None \<Rightarrow> '''' | Some e \<Rightarrow> err_text e), ae_occurred_at = now\<rparr>"

definition error_of :: "'a result \<Rightarrow> go_error option" where
  "error_of r = (case r of Inl e \<Rightarrow> Some e | Inr x \<Rightarrow> None)"

text \<open>What a confirmation draws from its environment.\<close>

record confirm_env =
  ce_now :: instant
  ce_request_id :: string
  ce_audit_id :: string
  ce_chat :: chat_id
  ce_sent :: "int option"

text \<open>
  The approval gate of both confirmations: the store after it and whether it stops the action.
  The error of a failed check is logged and the action goes on.
\<close>

definition approval_gate ::
  "'w argo_module \<Rightarrow> confirm_env \<Rightarrow> db \<Rightarrow> approval_input \<Rightarrow> db \<times> bool" where
  "approval_gate M env s i =
     (case am_approval M of
        None \<Rightarrow> (s, False)
      | Some ck \<Rightarrow>
         (let (s', r) = check_and_submit sqlite_approval ck (ce_now env) (ce_request_id env)
                          (ce_chat env) (ce_sent env) s i
          in (s', case r of Inl e \<Rightarrow> False | Inr needs \<Rightarrow> needs)))"

definition action_input ::
  "user \<Rightarrow> string \<Rightarrow> string \<Rightarrow> string \<Rightarrow> (string \<times> string) list \<Rightarrow> string \<Rightarrow> approval_input" where
  "action_input u action app inst details data =
     \<lparr>in_user_id = u_telegram_id u, in_username = u_username u, in_action = action,
      in_resource = app, in_cluster = inst, in_namespace = '''', in_details = details,
      in_callback_data = data\<rparr>"

definition handle_sync_confirm ::
  "'w argo_module \<Rightarrow> confirm_env \<Rightarrow> user option \<Rightarrow> string \<Rightarrow> 'w argo_world \<Rightarrow>
   'w argo_world \<times> argo_effects" where
  "handle_sync_confirm M env usr data w =
     (case usr of
        None \<Rightarrow> (w, [Respond (Some (Notice ''Error''))])
      | Some u \<Rightarrow>
         (case split_n 3 (CHR ''|'') data of
            [inst, app, mode] \<Rightarrow>
              (let details = [(''mode'', mode), (''instance'', inst)];
                   (s', stop) = approval_gate M env (aw_db w)
                     (action_input u ''argocd.apps.sync'' app inst details data);
                   w' = w\<lparr>aw_db := s'\<rparr>
               in if stop then (w', send_or_edit True (MsgNeedsApproval app) [])
                  else (case instance_by_name (am_instances M) inst of
                     None \<Rightarrow> (w', Respond (Some (Notice ''Syncing...'')) # send_or_edit True (Notice ''ArgoCD instance not found.'') [])
                   | Some i \<Rightarrow>
                      (let (r', res) = ac_sync_application (ai_client i) (aw_remote w') app
                                         (sync_opts_of_mode mode);
                           entry = app_audit (ce_audit_id env) (ce_now env) u ''argocd.app.sync''
                                     app inst details (error_of res);
                           w'' = w'\<lparr>aw_remote := r', aw_audit := aw_audit w' @ [entry]\<rparr>
                       in (w'', Respond (Some (Notice ''Syncing...'')) #
                            (case res of
                               Inl e \<Rightarrow> send_or_edit True (MsgSyncFailed app (err_text e)) []
                             | Inr x \<Rightarrow>
                                [EditText (format_sync_result x app (u_username u))
                                   [[(''argo_app_detail'', inst @ ''|'' @ app)]]])))))
          | _ \<Rightarrow> (w, [Respond (Some (Notice ''Invalid data''))])))"

section \<open>Rollback (rollback.go)\<close>

definition handle_rollback ::
  "'w argo_module \<Rightarrow> instant \<Rightarrow> instant \<Rightarrow> instant \<Rightarrow> user option \<Rightarrow> string \<Rightarrow> 'w argo_world \<Rightarrow>
   argo_effects" where
  "handle_rollback M t1 t2 t3 usr data w =
     (case usr of
        None \<Rightarrow> [Respond (Some (Notice ''Error''))]
      | Some u \<Rightarrow>
         (case split_n 2 (CHR ''|'') data of
            [inst, app] \<Rightarrow>
              if \<not> permitted (am_engine M) (aw_db w) (u_telegram_id u) perm_argocd_apps_rollback
              then [Respond (Some (MsgNoPermission perm_argocd_apps_rollback))]
              else (case blocking_freeze t1 t2 (aw_db w) inst of
                      Some f \<Rightarrow> send_or_edit True (format_freeze_blocked t2 t3 f) []
                    | None \<Rightarrow>
                        (case instance_by_name (am_instances M) inst of
                           None \<Rightarrow> send_or_edit True (Notice ''ArgoCD instance not found.'') []
                         | Some i \<Rightarrow>
                            (case ac_get_application_history (ai_client i) (aw_remote w) app of
                               Inl e \<Rightarrow> send_or_edit True (Notice ''Failed to get deployment history.'') []
                             | Inr [] \<Rightarrow> send_or_edit True (MsgNoHistory app) []
                             | Inr hs \<Rightarrow>
                                (let (m, kb) = format_rollback_history hs inst app
                                 in [EditText m kb]))))
          | _ \<Rightarrow> [Respond (Some (Notice ''Invalid data''))]))"

definition handle_rollback_select :: "string \<Rightarrow> argo_effects" where
  "handle_rollback_select data =
     (case split_n 4 (CHR ''|'') data of
        [inst, app, rev_id, hash] \<Rightarrow>
          [EditText (MsgConfirmRollback app rev_id (short_rev hash) inst)
             [[(''argo_rollback_confirm'', inst @ ''|'' @ app @ ''|'' @ rev_id),
               (''argo_rollback_cancel'', inst @ ''|'' @ app)]]]
      | _ \<Rightarrow> [Respond (Some (Notice ''Invalid data''))])"

definition handle_rollback_cancel ::
  "'w argo_module \<Rightarrow> user option \<Rightarrow> string \<Rightarrow> 'w argo_world \<Rightarrow> argo_effects" where
  "handle_rollback_cancel M usr data w = handle_app_detail M usr data w"

definition handle_rollback_confirm ::
  "'w argo_module \<Rightarrow> confirm_env \<Rightarrow> user option \<Rightarrow> string \<Rightarrow> 'w argo_world \<Rightarrow>
   'w argo_world \<times> argo_effects" where
  "handle_rollback_confirm M env usr data w =
     (case usr of
        None \<Rightarrow> (w, [Respond (Some (Notice ''Error''))])
      | Some u \<Rightarrow>
         (case split_n 3 (CHR ''|'') data of
            [inst, app, rev_id] \<Rightarrow>
              (let (s', stop) = approval_gate M env (aw_db w)
                     (action_input u ''argocd.apps.rollback'' app inst
                        [(''revision'', rev_id), (''instance'', inst)] data);
                   w' = w\<lparr>aw_db := s'\<rparr>
               in if stop then (w', send_or_edit True (MsgNeedsApproval app) [])
                  else (case sscanf_d rev_id of
                     None \<Rightarrow> (w', [Respond (Some (Notice ''Invalid revision ID''))])
                   | Some rid \<Rightarrow>
                  (case instance_by_name (am_instances M) inst of
                     None \<Rightarrow> (w', Respond (Some (Notice ''Rolling back...'')) #
                               send_or_edit True (Notice ''ArgoCD instance not found.'') [])
                   | Some i \<Rightarrow>
                      (let (r', res) = ac_rollback_application (ai_client i) (aw_remote w') app rid;
                           entry = app_audit (ce_audit_id env) (ce_now env) u ''argocd.app.rollback''
                                     app inst [(''revision'', show_int rid), (''instance'', inst)]
                                     (error_of res);
                           w'' = w'\<lparr>aw_remote := r', aw_audit := aw_audit w' @ [entry]\<rparr>
                       in case res of
                            Inl e \<Rightarrow> (w'', Respond (Some (Notice ''Rolling back...'')) #
                                      send_or_edit True (MsgRollbackFailed app (err_text e)) [])
                          | Inr x \<Rightarrow>
                             (w''\<lparr>aw_remote := fst (ac_disable_auto_sync (ai_client i) r' app)\<rparr>,
                              [Respond (Some (Notice ''Rolling back...'')),
                               EditText (format_rollback_result x app rev_id (u_username u))
                                 [[(''argo_app_detail'', inst @ ''|'' @ app)]]])))))
          | _ \<Rightarrow> (w, [Respond (Some (Notice ''Invalid data''))])))"

section \<open>Dashboard (dashboard.go)\<close>

definition instance_summary_of :: "'w argo_instance \<Rightarrow> application list \<Rightarrow> instance_summary" where
  "instance_summary_of i apps =
     (case count_apps apps of (healthy, out, degraded) \<Rightarrow>
        \<lparr>is_name = ai_name i, is_clusters = ai_clusters i, is_total = length apps,
         is_healthy = healthy, is_out_of_sync = out, is_degraded = degraded,
         is_out_apps = map app_name (filter (\<lambda>a. classify_app a = ClassOutOfSync) apps),
         is_degraded_apps = map app_name (filter (\<lambda>a. classify_app a = ClassDegraded) apps)\<rparr>)"

text \<open>Instances that cannot be listed are left out.\<close>

fun dashboard_summaries :: "'w argo_instance list \<Rightarrow> 'w \<Rightarrow> instance_summary list" where
  "dashboard_summaries [] r = []"
| "dashboard_summaries (i # is) r =
     (case ac_list_applications (ai_client i) r of
        Inl e \<Rightarrow> dashboard_summaries is r
      | Inr apps \<Rightarrow> instance_summary_of i apps # dashboard_summaries is r)"

definition send_dashboard :: "'w argo_module \<Rightarrow> bool \<Rightarrow> 'w argo_world \<Rightarrow> argo_effects" where
  "send_dashboard M cb w =
     (if am_instances M = [] then send_or_edit cb (Notice ''No ArgoCD instances configured.'') []
      else (let sums = dashboard_summaries (am_instances M) (aw_remote w)
            in send_or_edit cb
                 (MsgDashboard sums (sum_list (map is_healthy sums))
                    (sum_list (map is_out_of_sync sums)) (sum_list (map is_degraded sums)))
                 [[(''argo_dash_outofsync'', ''''), (''argo_dash_degraded'', '''')],
                  [(''argo_dash_refresh'', '''')]]))"

definition handle_dashboard :: "'w argo_module \<Rightarrow> user option \<Rightarrow> 'w argo_world \<Rightarrow> argo_effects" where
  "handle_dashboard M usr w =
     (case usr of
        None \<Rightarrow> [SendText (Notice ''Could not identify you.'') []]
      | Some u \<Rightarrow>
         if \<not> permitted (am_engine M) (aw_db w) (u_telegram_id u) perm_argocd_apps_list
         then [SendText (MsgNoPermission perm_argocd_apps_list) []]
         else send_dashboard M False w)"

definition handle_dashboard_refresh :: "'w argo_module \<Rightarrow> 'w argo_world \<Rightarrow> argo_effects" where
  "handle_dashboard_refresh M w = send_dashboard M True w"

definition filter_includes :: "string \<Rightarrow> application \<Rightarrow> bool" where
  "filter_includes status a =
     (if status = ''OutOfSync'' then app_sync_status a = ''OutOfSync''
      else if status = ''Degraded''
      then app_health_status a = ''Degraded'' \<or> app_health_status a = ''Missing''
      else False)"

fun filtered_apps ::
  "string \<Rightarrow> 'w argo_instance list \<Rightarrow> 'w \<Rightarrow> (string \<times> string \<times> string list) list" where
  "filtered_apps status [] r = []"
| "filtered_apps status (i # is) r =
     (case ac_list_applications (ai_client i) r of
        Inl e \<Rightarrow> filtered_apps status is r
      | Inr apps \<Rightarrow> map (\<lambda>a. (app_name a, ai_name i, ai_clusters i))
                      (filter (filter_includes status) apps) @ filtered_apps status is r)"

definition send_filtered_apps :: "'w argo_module \<Rightarrow> string \<Rightarrow> 'w argo_world \<Rightarrow> argo_effects" where
  "send_filtered_apps M status w =
     (let fs = filtered_apps status (am_instances M) (aw_remote w)
      in send_or_edit True (MsgFiltered status fs)
           (map (\<lambda>(app, inst, cls). [(''argo_sync'', inst @ ''|'' @ app)]) fs @
            [[(''argo_dash_refresh'', '''')]]))"

definition handle_dashboard_out_of_sync :: "'w argo_module \<Rightarrow> 'w argo_world \<Rightarrow> argo_effects" where
  "handle_dashboard_out_of_sync M w = send_filtered_apps M ''OutOfSync'' w"

definition handle_dashboard_degraded :: "'w argo_module \<Rightarrow> 'w argo_world \<Rightarrow> argo_effects" where
  "handle_dashboard_degraded M w = send_filtered_apps M ''Degraded'' w"

section \<open>Deployment freeze (freeze.go)\<close>

text \<open>\<open>sendFreezeStatus\<close> is reached from the \<open>/freeze\<close> command only.\<close>

definition send_freeze_status :: "instant \<Rightarrow> instant \<Rightarrow> instant \<Rightarrow> db \<Rightarrow> argo_effects" where
  "send_freeze_status t1 t2 t3 s =
     (case fz_get_active sqlite_freeze t1 s of
        Inl e \<Rightarrow> [SendText (Notice ''Failed to check freeze status.'') []]
      | Inr r \<Rightarrow>
         (let normal = send_or_edit False (Notice ''Deployment Status: Normal'')
                [[(''argo_freeze_create'', ''''), (''argo_freeze_history'', '''')]]
          in case r of
               None \<Rightarrow> normal
             | Some f \<Rightarrow>
                if freeze_is_active t2 f
                then send_or_edit False
                       (MsgFreezeActive (if f_scope f = ''all'' then ''All Clusters'' else f_scope f)
                          (remaining_duration t2 t3 f) (f_expires_at f))
                       [[(''argo_freeze_thaw'', f_id f), (''argo_freeze_history'', '''')]]
                else normal))"

definition handle_freeze ::
  "'w argo_module \<Rightarrow> instant \<Rightarrow> instant \<Rightarrow> instant \<Rightarrow> user option \<Rightarrow> 'w argo_world \<Rightarrow> argo_effects"
where
  "handle_freeze M t1 t2 t3 usr w =
     (case usr of
        None \<Rightarrow> [SendText (Notice ''Could not identify you.'') []]
      | Some u \<Rightarrow>
         if \<not> permitted (am_engine M) (aw_db w) (u_telegram_id u) perm_argocd_freeze_manage
         then [SendText (MsgNoPermission perm_argocd_freeze_manage) []]
         else send_freeze_status t1 t2 t3 (aw_db w))"

definition handle_freeze_create :: "'w argo_module \<Rightarrow> argo_effects" where
  "handle_freeze_create M =
     [Respond None,
      EditText (Notice ''Create Deployment Freeze'')
        ([[(''argo_freeze_scope'', ''all'')]] @
         concat (map (\<lambda>i. map (\<lambda>c. [(''argo_freeze_scope'', c)]) (ai_clusters i)) (am_instances M)) @
         [[(''argo_noop'', '''')]])]"

definition freeze_durations :: "string list" where
  "freeze_durations = [''30m'', ''1h'', ''2h'', ''4h'', ''8h'', ''24h'']"

definition handle_freeze_scope :: "string \<Rightarrow> argo_effects" where
  "handle_freeze_scope scope =
     [Respond None,
      EditText (MsgFreezeSelectDuration (if scope = ''all'' then ''All Clusters'' else scope))
        (map (\<lambda>d. [(''argo_freeze_duration'', scope @ ''|'' @ d)]) freeze_durations @
         [[(''argo_noop'', '''')]])]"

definition handle_freeze_duration :: "instant \<Rightarrow> string \<Rightarrow> argo_effects" where
  "handle_freeze_duration now data =
     (case split_n 2 (CHR ''|'') data of
        [scope, dur] \<Rightarrow>
          (case parse_duration dur of
             None \<Rightarrow> [Respond (Some (Notice ''Invalid duration''))]
           | Some d \<Rightarrow>
              [Respond None,
               EditText (MsgFreezeConfirm (if scope = ''all'' then ''All Clusters'' else scope) dur (now + d))
                 [[(''argo_freeze_confirm'', scope @ ''|'' @ dur), (''argo_noop'', '''')]]])
      | _ \<Rightarrow> [Respond (Some (Notice ''Invalid data''))])"

definition freeze_audit ::
  "string \<Rightarrow> instant \<Rightarrow> user \<Rightarrow> string \<Rightarrow> string \<Rightarrow> string \<Rightarrow> (string \<times> string) list \<Rightarrow> audit_entry"
where
  "freeze_audit new_id now u action fid cl details =
     \<lparr>ae_id = new_id, ae_user_id = u_telegram_id u, ae_username = u_username u,
      ae_action = action, ae_resource = ''freeze/'' @ fid, ae_cluster = cl,
      ae_namespace = '''', ae_chat_id = 0, ae_chat_type = '''', ae_status = audit_success,
      ae_details = details, ae_error = '''', ae_occurred_at = now\<rparr>"

text \<open>
  The expiry in the audit details is a \<open>time.Time\<close> there; here it is its count of nanoseconds.
\<close>

definition handle_freeze_confirm ::
  "instant \<Rightarrow> string \<Rightarrow> string \<Rightarrow> user option \<Rightarrow> string \<Rightarrow> 'w argo_world \<Rightarrow>
   'w argo_world \<times> argo_effects" where
  "handle_freeze_confirm now freeze_id audit_id usr data w =
     (case usr of
        None \<Rightarrow> (w, [Respond (Some (Notice ''Error''))])
      | Some u \<Rightarrow>
         (case split_n 2 (CHR ''|'') data of
            [scope, dur] \<Rightarrow>
              (case parse_duration dur of
                 None \<Rightarrow> (w, [Respond (Some (Notice ''Invalid duration''))])
               | Some d \<Rightarrow>
                  (let f = \<lparr>f_id = freeze_id, f_scope = scope, f_reason = '''',
                            f_created_by = u_telegram_id u, f_created_at = now,
                            f_expires_at = now + d, f_thawed_at = None, f_thawed_by = None\<rparr>;
                       (s', r) = fz_create sqlite_freeze (aw_db w) f
                   in case r of
                        Inl e \<Rightarrow> (w\<lparr>aw_db := s'\<rparr>, [Respond (Some (Notice ''Failed to create freeze''))])
                      | Inr _ \<Rightarrow>
                         (w\<lparr>aw_db := s',
                            aw_audit := aw_audit w @ [freeze_audit audit_id now u ''argocd.freeze.create''
                              freeze_id scope [(''scope'', scope), (''duration'', dur),
                                               (''expires_at'', show_int (now + d))]]\<rparr>,
                          [Respond (Some (Notice ''Freeze created!'')),
                           EditText (MsgFreezeCreated
                               (if scope = ''all'' then ''All Clusters'' else scope) dur (now + d))
                             [[(''argo_freeze_thaw'', freeze_id)]]])))
          | _ \<Rightarrow> (w, [Respond (Some (Notice ''Invalid data''))])))"

definition handle_freeze_thaw ::
  "instant \<Rightarrow> string \<Rightarrow> user option \<Rightarrow> string \<Rightarrow> 'w argo_world \<Rightarrow> 'w argo_world \<times> argo_effects"
where
  "handle_freeze_thaw now audit_id usr fid w =
     (case usr of
        None \<Rightarrow> (w, [Respond (Some (Notice ''Error''))])
      | Some u \<Rightarrow>
         (let (s', r) = fz_thaw sqlite_freeze now (aw_db w) fid (u_telegram_id u)
          in case r of
               Inl e \<Rightarrow> (w\<lparr>aw_db := s'\<rparr>, [Respond (Some (Notice ''Failed to thaw freeze''))])
             | Inr _ \<Rightarrow>
                (w\<lparr>aw_db := s',
                   aw_audit := aw_audit w @ [freeze_audit audit_id now u ''argocd.freeze.thaw'' fid ''''
                     [(''freeze_id'', fid)]]\<rparr>,
                 Respond (Some (Notice ''Freeze removed!'')) #
                 send_or_edit True (Notice ''Deployment Freeze Removed'') [])))"

definition handle_freeze_history :: "instant \<Rightarrow> 'w argo_world \<Rightarrow> argo_effects" where
  "handle_freeze_history now w =
     (case fz_list sqlite_freeze (aw_db w) 10 of
        Inl e \<Rightarrow> send_or_edit True (Notice ''Failed to load freeze history.'') []
      | Inr fs \<Rightarrow>
          Respond None #
          send_or_edit True (MsgFreezeHistory (map (freeze_history_line now) fs))
            [[(''argo_freeze_create'', '''')]])"

definition noop_callback :: argo_effects where
  "noop_callback = [Respond None]"

text \<open>\<open>Start\<close> pings every instance and only logs the outcome: it always succeeds.\<close>

definition argo_start :: "'w argo_module \<Rightarrow> 'w \<Rightarrow> (string \<times> bool) list \<times> unit result" where
  "argo_start M r =
     (map (\<lambda>i. (ai_name i, \<not> isl (ac_ping (ai_client i) r))) (am_instances M), Inr ())"

end
