(* ===== verification/Callback.thy ===== *)
theory Callback
  imports Bot "HOL-Library.Word"
begin

text \<open>
  Callback data of inline buttons: SHA-256 (of Go's \<open>crypto/sha256\<close>, which the store hashes with),
  the callback store (\<open>internal/bot/keyboard/callback_store.go\<close>) and the keyboards of
  builder.go, which pass their data through it.
\<close>

unbundle bit_operations_syntax

section \<open>SHA-256\<close>

type_synonym word32 = "32 word"

text \<open>
  The round constants and the initial hash are what FIPS 180-4 says they are: the first 32 bits of the
  fractional parts of the cube roots of the first 64 primes and of the square roots of the first
  eight. They are computed, in integers: \<open>int_root_from k n b 0\<close> is the integer
  \<open>k\<close>-th root of \<open>n\<close> found bit by bit from bit \<open>b\<close> down.
\<close>

fun int_root_from :: "nat \<Rightarrow> int \<Rightarrow> nat \<Rightarrow> int \<Rightarrow> int" where
  "int_root_from k n 0 r = r"
| "int_root_from k n (Suc b) r =
     int_root_from k n b (if (r + 2 ^ b) ^ k \<le> n then r + 2 ^ b else r)"

definition primes_up_to :: "int \<Rightarrow> int list" where
  "primes_up_to n = filter (\<lambda>p. list_all (\<lambda>q. p mod q \<noteq> 0 \<or> q * q > p) [2..min 17 (p - 1)]) [2..n]"

definition sha_k :: "word32 list" where
  "sha_k = map (\<lambda>p. word_of_int (int_root_from 3 (p * 2 ^ 96) 36 0)) (primes_up_to 311)"

definition sha_h0 :: "word32 list" where
  "sha_h0 = map (\<lambda>p. word_of_int (int_root_from 2 (p * 2 ^ 64) 36 0)) (primes_up_to 19)"

definition big_s0 :: "word32 \<Rightarrow> word32" where
  "big_s0 x = word_rotr 2 x XOR word_rotr 13 x XOR word_rotr 22 x"

definition big_s1 :: "word32 \<Rightarrow> word32" where
  "big_s1 x = word_rotr 6 x XOR word_rotr 11 x XOR word_rotr 25 x"

definition small_s0 :: "word32 \<Rightarrow> word32" where
  "small_s0 x = word_rotr 7 x XOR word_rotr 18 x XOR drop_bit 3 x"

definition small_s1 :: "word32 \<Rightarrow> word32" where
  "small_s1 x = word_rotr 17 x XOR word_rotr 19 x XOR drop_bit 10 x"

definition choose_bits :: "word32 \<Rightarrow> word32 \<Rightarrow> word32 \<Rightarrow> word32" where
  "choose_bits x y z = (x AND y) XOR (NOT x AND z)"

definition majority :: "word32 \<Rightarrow> word32 \<Rightarrow> word32 \<Rightarrow> word32" where
  "majority x y z = (x AND y) XOR (x AND z) XOR (y AND z)"

text \<open>The message schedule, newest word first, extended \<open>n\<close> times.\<close>

fun extend_schedule :: "nat \<Rightarrow> word32 list \<Rightarrow> word32 list" where
  "extend_schedule 0 w = w"
| "extend_schedule (Suc n) w =
     extend_schedule n ((small_s1 (w ! 1) + w ! 6 + small_s0 (w ! 14) + w ! 15) # w)"

fun sha_round :: "word32 list \<Rightarrow> word32 \<times> word32 \<Rightarrow> word32 list" where
  "sha_round [a, b, c, d, e, f, g, h] (k, w) =
     (let t1 = h + big_s1 e + choose_bits e f g + k + w; t2 = big_s0 a + majority a b c
      in [t1 + t2, a, b, c, d + t1, e, f, g])"
| "sha_round st kw = st"

fun word_of_bytes :: "word32 list \<Rightarrow> word32 list" where
  "word_of_bytes (a # b # c # d # r) =
     (push_bit 24 a OR push_bit 16 b OR push_bit 8 c OR d) # word_of_bytes r"
| "word_of_bytes r = []"

definition sha_block :: "word32 list \<Rightarrow> word32 list \<Rightarrow> word32 list" where
  "sha_block h bytes =
     (let w = rev (extend_schedule 48 (rev (word_of_bytes bytes)))
      in map2 (+) h (foldl sha_round h (zip sha_k w)))"

function sha_blocks :: "word32 list \<Rightarrow> word32 list \<Rightarrow> word32 list" where
  "sha_blocks h bytes =
     (if length bytes < 64 then h else sha_blocks (sha_block h (take 64 bytes)) (drop 64 bytes))"
  by pat_completeness auto
termination
  by (relation "measure (\<lambda>(h, bytes). length bytes)") auto

declare sha_blocks.simps [simp del]

definition length_bytes :: "nat \<Rightarrow> word32 list" where
  "length_bytes n = map (\<lambda>i. of_int (8 * int n div 256 ^ i mod 256)) (rev [0..<8])"

definition sha_pad :: "string \<Rightarrow> word32 list" where
  "sha_pad s =
     (let n = length s; zeros = (119 - n mod 64) mod 64
      in map (\<lambda>c. of_nat (of_char c)) s @ [0x80] @ replicate zeros 0 @ length_bytes n)"

definition sha256 :: "string \<Rightarrow> nat list" where
  "sha256 s =
     concat (map (\<lambda>w. map (\<lambda>i. unat (drop_bit (8 * i) w AND 0xff)) [3, 2, 1, 0])
       (sha_blocks sha_h0 (sha_pad s)))"

definition hex_digit :: "nat \<Rightarrow> char" where
  "hex_digit d = (if d < 10 then char_of (48 + d) else char_of (87 + d))"

definition hex_encode :: "nat list \<Rightarrow> string" where
  "hex_encode bs = concat (map (\<lambda>b. [hex_digit (b div 16), hex_digit (b mod 16)]) bs)"

section \<open>The callback store (callback\_store.go)\<close>

type_synonym callback_store = "string \<rightharpoonup> string"

definition max_data_bytes :: nat where "max_data_bytes = 36"

definition callback_key :: "string \<Rightarrow> string" where
  "callback_key d = (if length d \<le> max_data_bytes then d else ''cb_'' @ hex_encode (take 6 (sha256 d)))"

definition store_data :: "callback_store \<Rightarrow> string \<Rightarrow> callback_store \<times> string" where
  "store_data st d =
     (if length d \<le> max_data_bytes then (st, d)
      else (st(callback_key d \<mapsto> d), callback_key d))"

definition resolve :: "callback_store \<Rightarrow> string \<Rightarrow> string" where
  "resolve st key = (case st key of Some full \<Rightarrow> full | None \<Rightarrow> key)"

section \<open>Keyboards (builder.go)\<close>

text \<open>Each keyboard is built against the shared store; labels are left out.\<close>

function rows_of :: "nat \<Rightarrow> 'a list \<Rightarrow> 'a list list" where
  "rows_of n xs = (if xs = [] \<or> n = 0 then [] else take n xs # rows_of n (drop n xs))"
  by pat_completeness auto
termination
  by (relation "measure (\<lambda>(n, xs). length xs)") auto

declare rows_of.simps [simp del]

fun store_all :: "callback_store \<Rightarrow> string list \<Rightarrow> callback_store \<times> string list" where
  "store_all st [] = (st, [])"
| "store_all st (d # ds) =
     (let (st1, k) = store_data st d; (st2, ks) = store_all st1 ds in (st2, k # ks))"

definition cluster_selector :: "cluster_info list \<Rightarrow> keyboard" where
  "cluster_selector cs = rows_of 2 (map (\<lambda>c. (''cluster_select'', ci_name c)) cs)"

definition namespace_columns :: "string list \<Rightarrow> nat" where
  "namespace_columns nss =
     (let m = fold max (map length nss) 0 in if m > 25 then 1 else if m > 15 then 2 else 3)"

definition namespace_selector ::
  "callback_store \<Rightarrow> string list \<Rightarrow> string \<Rightarrow> callback_store \<times> keyboard" where
  "namespace_selector st nss pre =
     (let (st', ks) = store_all st nss
      in (st', rows_of (namespace_columns nss) (map (\<lambda>k. (pre @ ''_ns'', k)) (''_all'' # ks))))"

definition confirmation :: "callback_store \<Rightarrow> string \<Rightarrow> string \<Rightarrow> callback_store \<times> keyboard" where
  "confirmation st pre data =
     (let (st', k) = store_data st data in (st', [[(pre @ ''_confirm'', k), (pre @ ''_cancel'', k)]]))"

definition back_button :: "string \<Rightarrow> keyboard" where
  "back_button pre = [[(pre @ ''_back'', '''')]]"

definition pod_actions ::
  "callback_store \<Rightarrow> string \<Rightarrow> string \<Rightarrow> string \<Rightarrow> callback_store \<times> keyboard" where
  "pod_actions st pod ns cl =
     (let (st1, k) = store_data st (pod @ ''|'' @ ns @ ''|'' @ cl);
          (st2, b) = store_data st1 (ns @ ''|'' @ cl)
      in (st2, [[(''k8s_logs'', k), (''k8s_events'', k)], [(''k8s_restart'', k)],
                [(''k8s_pods_back'', b)]]))"

fun next_tail :: "int list \<Rightarrow> int \<Rightarrow> int option" where
  "next_tail [] cur = None"
| "next_tail (t # ts) cur = (if t > cur then Some t else next_tail ts cur)"

definition log_actions ::
  "callback_store \<Rightarrow> string \<Rightarrow> string \<Rightarrow> string \<Rightarrow> string \<Rightarrow> int \<Rightarrow> callback_store \<times> keyboard" where
  "log_actions st pod ns cl container cur =
     (let data3 = pod @ ''|'' @ ns @ ''|'' @ cl;
          data4 = data3 @ ''|'' @ container;
          (st1, tails) = (case next_tail [100, 200, 500] cur of
             None \<Rightarrow> (st, [])
           | Some t \<Rightarrow> (let (s, k) = store_data st (data4 @ ''|'' @ show_int t)
                       in (s, [(''k8s_logs_more'', k)])));
          (st2, p) = store_data st1 data4;
          (st3, b) = store_data st2 data3
      in (st3, [tails @ [(''k8s_logs_prev'', p)], [(''k8s_pod_detail'', b)]]))"

text \<open>
  What Telegram receives for a button: the form feed telebot prepends, the unique name, and the
  data after a bar. The limit is 64 bytes (both stated in callback\_store.go).
\<close>

definition button_bytes :: "button \<Rightarrow> nat" where
  "button_bytes b = 1 + length (fst b) + (if snd b = [] then 0 else 1 + length (snd b))"

definition telegram_limit :: nat where "telegram_limit = 64"

section \<open>Properties\<close>

lemma length_hex_encode [simp]: "length (hex_encode bs) = 2 * length bs"
  by (induction bs) (simp_all add: hex_encode_def)

lemma callback_key_short: "length (callback_key d) \<le> max_data_bytes"
  by (auto simp: callback_key_def max_data_bytes_def)

lemma store_data_key [simp]: "snd (store_data st d) = callback_key d"
  by (simp add: store_data_def callback_key_def)

lemma resolve_store_data:
  "resolve (fst (store_data st d)) (callback_key e) =
     (if max_data_bytes < length d \<and> callback_key e = callback_key d then d
      else resolve st (callback_key e))"
  by (auto simp: store_data_def resolve_def)

lemma store_all_keys: "snd (store_all st ds) = map callback_key ds"
  by (induction ds arbitrary: st)
    (auto simp: Let_def case_prod_beta store_data_def callback_key_def)

lemma store_all_step: "fst (store_all st (d # ds)) = fst (store_all (fst (store_data st d)) ds)"
  by (simp add: Let_def case_prod_beta)

text \<open>A store in which every key of the data in \<open>D\<close> resolves either to that data or to itself.\<close>

definition store_ok :: "string set \<Rightarrow> callback_store \<Rightarrow> bool" where
  "store_ok D st \<longleftrightarrow> (\<forall>d \<in> D. st (callback_key d) \<in> {None, Some d})"

lemma store_ok_step:
  assumes "store_ok D st" "inj_on callback_key D" "d \<in> D"
  shows "store_ok D (fst (store_data st d))"
  using assms by (auto simp: store_ok_def store_data_def inj_on_def)

lemma resolve_kept:
  assumes "inj_on callback_key D" "set ds \<subseteq> D" "d \<in> D" "store_ok D st"
    and "resolve st (callback_key d) = d"
  shows "resolve (fst (store_all st ds)) (callback_key d) = d"
  using assms(2,4,5)
proof (induction ds arbitrary: st)
  case Nil
  then show ?case by simp
next
  case (Cons e ds)
  have e: "e \<in> D" "set ds \<subseteq> D" using Cons.prems(1) by simp_all
  have "resolve (fst (store_data st e)) (callback_key d) = d"
    using Cons.prems(3) e(1) assms(1,3) by (auto simp: resolve_store_data inj_on_def)
  with Cons.IH [OF e(2) store_ok_step [OF Cons.prems(2) assms(1) e(1)]]
  show ?case by (simp only: store_all_step)
qed

lemma stored_button_resolves:
  assumes "inj_on callback_key (set ds)" "d \<in> set ds" "store_ok (set ds) st"
  shows "resolve (fst (store_all st ds)) (callback_key d) = d"
proof -
  obtain xs ys where ds: "ds = xs @ d # ys" using assms(2) by (meson split_list)
  have app: "fst (store_all st (as @ bs)) = fst (store_all (fst (store_all st as)) bs)" for st as bs
    by (induction "as" arbitrary: st) (simp_all add: store_all_step del: store_all.simps(2))
  have ok: "store_ok (set ds) (fst (store_all st as))" if "set as \<subseteq> set ds" "store_ok (set ds) st" for as st
    using that
    by (induction "as" arbitrary: st)
      (auto simp: store_all_step simp del: store_all.simps(2) intro: store_ok_step [OF _ assms(1)])
  define st1 where "st1 = fst (store_all st xs)"
  have st1: "store_ok (set ds) st1" unfolding st1_def using assms(3) ds by (intro ok) auto
  have "resolve (fst (store_data st1 d)) (callback_key d) = d"
  proof (cases "max_data_bytes < length d")
    case False
    then have "callback_key d = d" by (simp add: callback_key_def)
    moreover have "st1 (callback_key d) \<in> {None, Some d}" using st1 assms(2) by (simp add: store_ok_def)
    ultimately show ?thesis using False by (auto simp: store_data_def resolve_def)
  qed (simp add: resolve_store_data)
  then have "resolve (fst (store_all (fst (store_data st1 d)) ys)) (callback_key d) = d"
    using resolve_kept [OF assms(1) _ assms(2) store_ok_step [OF st1 assms(1,2)]] ds by auto
  then show ?thesis unfolding ds app store_all_step st1_def [symmetric] .
qed

text \<open>C14: Whatever is stored, in any order, button data comes back: as long as no two of the strings
  stored share a key (a truncated SHA-256 for those over 36 bytes, the string itself for the
  others), the key that was put on the button of each resolves to it afterwards; and a key never
  exceeds 36 bytes.\<close>

theorem callback_data_comes_back:
  assumes "inj_on callback_key (set ds)" "d \<in> set ds"
  shows "resolve (fst (store_all Map.empty ds)) (callback_key d) = d \<and>
     set (snd (store_all Map.empty ds)) = callback_key ` set ds \<and> length (callback_key d) \<le> 36"
proof -
  have "store_ok (set ds) Map.empty" by (simp add: store_ok_def)
  with stored_button_resolves [OF assms] callback_key_short [of d] show ?thesis
    by (simp add: store_all_keys max_data_bytes_def)
qed

theorem callback_data_comes_back_witness:
  "resolve (fst (store_all Map.empty [''api|shop|prod'', replicate 40 (CHR ''x'')]))
     (callback_key (replicate 40 (CHR ''x''))) = replicate 40 (CHR ''x'')"
proof -
  have "hd (callback_key (replicate 40 (CHR ''x''))) = CHR ''c''"
    by (simp add: callback_key_def max_data_bytes_def)
  moreover have "hd (callback_key ''api|shop|prod'') = CHR ''a''"
    by (simp add: callback_key_def max_data_bytes_def)
  ultimately have "inj_on callback_key (set [''api|shop|prod'', replicate 40 (CHR ''x'')])"
    by (auto simp: inj_on_def)
  then show ?thesis
    using callback_data_comes_back [of "[''api|shop|prod'', replicate 40 (CHR ''x'')]"
        "replicate 40 (CHR ''x'')"] by simp
qed

end
