(* ===== verification/ArgocdProps.thy ===== *)
theory ArgocdProps
  imports Argocd ApprovalProps Callback
begin

text \<open>
  The properties of the ArgoCD module: who sees the sync and rollback buttons, what the
  confirmations check and record, freezes, and the dashboard. The concrete world of the
  witnesses is \<open>demo_world\<close>: one instance ''prod'' for the cluster ''c1'', user 1 an admin.
\<close>

section \<open>A concrete ArgoCD\<close>

text \<open>Its remote state is the list of operations it was asked for.\<close>

definition demo_client :: "(string \<times> string) list argo_client" where
  "demo_client =
     \<lparr>ac_list_applications = (\<lambda>r. Inr []),
      ac_get_application = (\<lambda>r app. Inl ErrNotFound),
      ac_get_application_status = (\<lambda>r app. Inl ErrNotFound),
      ac_sync_application = (\<lambda>r app o'. (r @ [(''sync'', app)],
        Inr \<lparr>sr_phase = ''Succeeded'', sr_message = '''', sr_revision = ''abc'', sr_results = []\<rparr>)),
      ac_rollback_application = (\<lambda>r app i. (r @ [(''rollback'', app)],
        Inr \<lparr>rb_phase = ''Succeeded'', rb_message = ''''\<rparr>)),
      ac_get_application_history = (\<lambda>r app. Inr
        [\<lparr>rh_id = 2, rh_revision = ''b'', rh_deployed_at = 9, rh_deployed_by = '''', rh_source = ('''', '''', '''')\<rparr>,
         \<lparr>rh_id = 1, rh_revision = ''a'', rh_deployed_at = 5, rh_deployed_by = '''', rh_source = ('''', '''', '''')\<rparr>]),
      ac_get_managed_resources = (\<lambda>r app. Inl ErrNotFound),
      ac_get_application_diff = (\<lambda>r app. Inl ErrNotFound),
      ac_disable_auto_sync = (\<lambda>r app. (r @ [(''manual'', app)], Inr ())),
      ac_enable_auto_sync = (\<lambda>r app. (r @ [(''auto'', app)], Inr ())),
      ac_ping = (\<lambda>r. Inr ())\<rparr>"

definition demo_instance :: "(string \<times> string) list argo_instance" where
  "demo_instance = \<lparr>ai_name = ''prod'', ai_clusters = [''c1''], ai_client = demo_client\<rparr>"

definition demo_module :: "approval_checker option \<Rightarrow> (string \<times> string) list argo_module" where
  "demo_module ck = \<lparr>am_instances = [demo_instance], am_engine = new_engine 0 [] [1],
     am_approval = ck, am_healthy = True\<rparr>"

definition demo_admin :: user where
  "demo_admin = \<lparr>u_telegram_id = 1, u_username = ''u'', u_display_name = ''U'',
     u_role = ''admin'', u_is_active = True, u_created_at = 0, u_updated_at = 0\<rparr>"

definition demo_world :: "(string \<times> string) list argo_world" where
  "demo_world = \<lparr>aw_db = new_store, aw_remote = [], aw_audit = []\<rparr>"

definition demo_env :: confirm_env where
  "demo_env = \<lparr>ce_now = 0, ce_request_id = ''0123456789'', ce_audit_id = ''a'', ce_chat = 7,
     ce_sent = None\<rparr>"

lemma demo_permitted [simp]: "permitted (new_engine 0 [] [1]) s (u_telegram_id demo_admin) p"
  by (simp add: permitted_def has_permission_def is_super_admin_def new_engine_def demo_admin_def
      default_roles_def)

section \<open>Starting a sync or a rollback\<close>

abbreviation bar :: char where "bar \<equiv> CHR ''|''"

lemma shown_simps [simp]:
  "shown_buttons [] = {}"
  "shown_buttons (e # es) = set (concat (effect_keyboard e)) \<union> shown_buttons es"
  "shown_buttons (send_or_edit cb m kb) = set (concat kb)"
  by (auto simp: shown_buttons_def send_or_edit_def)

text \<open>The freeze question, read at one instant, through the laws of the repository.\<close>

lemma blocking_freeze_iff:
  assumes "db_fault s = None"
  shows "blocking_freeze t t s inst = None \<longleftrightarrow> \<not> (\<exists>f \<in> set (db_freezes s). in_force t inst f)"
proof -
  have "(case fz_get_active_for_cluster sqlite_freeze t s inst of Inr (Some f) \<Rightarrow> freeze_is_active t f
         | _ \<Rightarrow> True)"
    using sqf.found [of s t inst] assms by (auto simp: in_force_def split: sum.split option.split)
  then have "blocking_freeze t t s inst = None \<longleftrightarrow>
      \<not> (\<exists>f. fz_get_active_for_cluster sqlite_freeze t s inst = Inr (Some f))"
    by (auto simp: blocking_freeze_def split: sum.splits option.splits)
  then show ?thesis using sqf.blocked_iff [OF assms, of t inst] by blast
qed

lemma sync_options_buttons:
  "(''argo_sync_now'', x) \<in> set (concat (sync_options_keyboard inst app)) \<longleftrightarrow> x = inst @ ''|'' @ app"
  by (simp add: sync_options_keyboard_def Let_def)

lemma rollback_buttons:
  "(\<exists>x. (''argo_rollback_select'', x) \<in> set (concat (snd (format_rollback_history hs inst app))))
     \<longleftrightarrow> length hs \<ge> 2"
proof -
  have "(\<exists>h. h \<in> set (drop 1 (take max_history_items hs))) \<longleftrightarrow> drop 1 (take max_history_items hs) \<noteq> []"
    by (cases "drop 1 (take max_history_items hs)") auto
  also have "\<dots> \<longleftrightarrow> length hs \<ge> 2" by (auto simp: max_history_items_def)
  finally show ?thesis by (auto simp: format_rollback_history_def Let_def)
qed

declare split_n_2 [simp] split_n_3 [simp] split_n_4 [simp]

lemma handle_sync_buttons:
  assumes "bar \<notin> set inst"
  shows "(\<exists>x. (''argo_sync_now'', x) \<in> shown_buttons
            (handle_sync po M t t t' (Some u) (inst @ ''|'' @ app) w)) \<longleftrightarrow>
         permitted (am_engine M) (aw_db w) (u_telegram_id u) perm_argocd_apps_sync \<and>
         blocking_freeze t t (aw_db w) inst = None \<and> instance_by_name (am_instances M) inst \<noteq> None"
  using assms sync_options_buttons [of _ inst app]
  by (auto simp: handle_sync_def Let_def simp del: set_concat split: option.split)

lemma handle_rollback_buttons:
  assumes "bar \<notin> set inst"
  shows "(\<exists>x. (''argo_rollback_select'', x) \<in> shown_buttons
            (handle_rollback M t t t' (Some u) (inst @ ''|'' @ app) w)) \<longleftrightarrow>
         permitted (am_engine M) (aw_db w) (u_telegram_id u) perm_argocd_apps_rollback \<and>
         blocking_freeze t t (aw_db w) inst = None \<and>
         (\<exists>i hs. instance_by_name (am_instances M) inst = Some i \<and>
            ac_get_application_history (ai_client i) (aw_remote w) app = Inr hs \<and> length hs \<ge> 2)"
proof -
  have "(\<exists>x. (''argo_rollback_select'', x) \<in>
      shown_buttons (let (m, kb) = format_rollback_history hs inst app in [EditText m kb])) \<longleftrightarrow>
      length hs \<ge> 2" for hs
    using rollback_buttons [of hs inst app]
    by (cases "format_rollback_history hs inst app") (simp del: set_concat)
  then show ?thesis
    using assms by (auto simp: handle_rollback_def simp del: set_concat
        split: option.split sum.split list.split)
qed

text \<open>C6: On a working store, pressing Sync offers the sync options exactly when the user holds the
  sync permission, no freeze whose scope is ''all'' or the instance is in force, and the instance
  exists; pressing Rollback offers revisions under the same conditions with the rollback
  permission, when the history has an older revision.\<close>

theorem start_needs_permission_and_thaw:
  assumes "db_fault (aw_db w) = None" "bar \<notin> set inst"
  shows "((\<exists>x. (''argo_sync_now'', x) \<in> shown_buttons
            (handle_sync po M t t t' (Some u) (inst @ ''|'' @ app) w)) \<longleftrightarrow>
         permitted (am_engine M) (aw_db w) (u_telegram_id u) perm_argocd_apps_sync \<and>
         \<not> (\<exists>f \<in> set (db_freezes (aw_db w)). in_force t inst f) \<and>
         instance_by_name (am_instances M) inst \<noteq> None) \<and>
       ((\<exists>x. (''argo_rollback_select'', x) \<in> shown_buttons
            (handle_rollback M t t t' (Some u) (inst @ ''|'' @ app) w)) \<longleftrightarrow>
         permitted (am_engine M) (aw_db w) (u_telegram_id u) perm_argocd_apps_rollback \<and>
         \<not> (\<exists>f \<in> set (db_freezes (aw_db w)). in_force t inst f) \<and>
         (\<exists>i hs. instance_by_name (am_instances M) inst = Some i \<and>
            ac_get_application_history (ai_client i) (aw_remote w) app = Inr hs \<and> length hs \<ge> 2))"
  unfolding handle_sync_buttons [OF assms(2)] handle_rollback_buttons [OF assms(2)]
    blocking_freeze_iff [OF assms(1)] by simp

theorem start_needs_permission_and_thaw_witness:
  "\<exists>x. (''argo_sync_now'', x) \<in> shown_buttons
     (handle_sync (\<lambda>j. None) (demo_module None) 5 5 6 (Some demo_admin) (''prod'' @ ''|'' @ ''shop'')
        demo_world)"
  using start_needs_permission_and_thaw [of demo_world "''prod''" "\<lambda>j. None" "demo_module None" 5 6
      demo_admin "''shop''"]
  by (simp add: demo_world_def new_store_def demo_module_def demo_instance_def)

section \<open>The confirmations\<close>

text \<open>The part of the store that holds permissions and freezes; approvals do not look at it.\<close>

abbreviation with_policy ::
  "user list \<Rightarrow> role_row list \<Rightarrow> user_role_binding list \<Rightarrow> deployment_freeze list \<Rightarrow> db \<Rightarrow> db"
where
  "with_policy us rs bs fs s \<equiv>
     s\<lparr>db_users := us, db_roles := rs, db_bindings := bs, db_freezes := fs\<rparr>"

lemma approval_ops_frame:
  "approval_create (with_policy us rs bs fs s) q =
     map_prod (with_policy us rs bs fs) id (approval_create s q)"
  "approval_update (with_policy us rs bs fs s) q =
     map_prod (with_policy us rs bs fs) id (approval_update s q)"
  by (auto simp: approval_create_def approval_update_def exec_sql_def Let_def split: option.split)

lemma check_and_submit_frame:
  "check_and_submit sqlite_approval ck now nid chat sent (with_policy us rs bs fs s) i =
     map_prod (with_policy us rs bs fs) id (check_and_submit sqlite_approval ck now nid chat sent s i)"
  by (simp add: check_and_submit_def submit_def store_message_def approval_ops_frame Let_def
      case_prod_beta split: approval_checker.split option.split sum.split)

lemma approval_gate_frame:
  "approval_gate (M\<lparr>am_engine := e\<rparr>) env (with_policy us rs bs fs s) i =
     map_prod (with_policy us rs bs fs) id (approval_gate M env s i)"
  by (simp add: approval_gate_def check_and_submit_frame case_prod_beta Let_def split: option.split)

text \<open>C7: What a confirmed sync or rollback does to ArgoCD, and what it records in the audit log,
  depends neither on the permissions nor on the freezes of the moment of the confirmation:
  replacing the engine's roles, the users, roles and bindings of the store and its freezes by
  any others changes nothing. Permission and freeze are checked when the dialog is opened only.\<close>

theorem confirmation_ignores_permissions_and_freezes:
  "(let w' = w\<lparr>aw_db := with_policy us rs bs fs (aw_db w)\<rparr>; M' = M\<lparr>am_engine := e\<rparr>;
        r = fst (handle_sync_confirm M env usr data w);
        r' = fst (handle_sync_confirm M' env usr data w')
    in aw_remote r' = aw_remote r \<and> aw_audit r' = aw_audit r) \<and>
   (let w' = w\<lparr>aw_db := with_policy us rs bs fs (aw_db w)\<rparr>; M' = M\<lparr>am_engine := e\<rparr>;
        r = fst (handle_rollback_confirm M env usr data w);
        r' = fst (handle_rollback_confirm M' env usr data w')
    in aw_remote r' = aw_remote r \<and> aw_audit r' = aw_audit r)"
proof -
  have "aw_remote (fst (handle_sync_confirm (M\<lparr>am_engine := e\<rparr>) env usr data
          (w\<lparr>aw_db := with_policy us rs bs fs (aw_db w)\<rparr>))) =
        aw_remote (fst (handle_sync_confirm M env usr data w)) \<and>
      aw_audit (fst (handle_sync_confirm (M\<lparr>am_engine := e\<rparr>) env usr data
          (w\<lparr>aw_db := with_policy us rs bs fs (aw_db w)\<rparr>))) =
        aw_audit (fst (handle_sync_confirm M env usr data w))"
    by (simp add: handle_sync_confirm_def approval_gate_frame case_prod_beta Let_def
        split: option.split list.split)
  moreover have "aw_remote (fst (handle_rollback_confirm (M\<lparr>am_engine := e\<rparr>) env usr data
          (w\<lparr>aw_db := with_policy us rs bs fs (aw_db w)\<rparr>))) =
        aw_remote (fst (handle_rollback_confirm M env usr data w)) \<and>
      aw_audit (fst (handle_rollback_confirm (M\<lparr>am_engine := e\<rparr>) env usr data
          (w\<lparr>aw_db := with_policy us rs bs fs (aw_db w)\<rparr>))) =
        aw_audit (fst (handle_rollback_confirm M env usr data w))"
    by (simp add: handle_rollback_confirm_def approval_gate_frame case_prod_beta Let_def
        split: option.split list.split sum.split)
  ultimately show ?thesis by (simp add: Let_def)
qed

text \<open>
  The effect of a confirmed action on ArgoCD and on the audit log, as the specification the two
  handlers refine: nothing at all, or one call on the named application with one entry.
\<close>

definition audited_call ::
  "'w argo_world \<Rightarrow> 'w argo_world \<Rightarrow> 'w \<times> 'a result \<Rightarrow> ('w \<Rightarrow> 'w) \<Rightarrow> audit_entry \<Rightarrow> bool" where
  "audited_call w w' res follow_up entry \<longleftrightarrow>
     aw_remote w' = (if isl (snd res) then fst res else follow_up (fst res)) \<and>
     aw_audit w' = aw_audit w @ [entry] \<and>
     ae_status entry = (if isl (snd res) then audit_error else audit_success)"

text \<open>The confirmations, once the gate is open and the instance found.\<close>

abbreviation sync_input :: "user \<Rightarrow> string \<Rightarrow> string \<Rightarrow> string \<Rightarrow> string \<Rightarrow> approval_input" where
  "sync_input u inst app mode data \<equiv> action_input u ''argocd.apps.sync'' app inst
     [(''mode'', mode), (''instance'', inst)] data"

abbreviation rollback_input :: "user \<Rightarrow> string \<Rightarrow> string \<Rightarrow> string \<Rightarrow> string \<Rightarrow> approval_input" where
  "rollback_input u inst app rev_id data \<equiv> action_input u ''argocd.apps.rollback'' app inst
     [(''revision'', rev_id), (''instance'', inst)] data"

lemma sync_confirm_stopped:
  assumes "split_n 3 bar data = [inst, app, mode]"
    and "snd (approval_gate M env (aw_db w) (sync_input u inst app mode data)) \<or>
         instance_by_name (am_instances M) inst = None"
  shows "fst (handle_sync_confirm M env (Some u) data w) =
    w\<lparr>aw_db := fst (approval_gate M env (aw_db w) (sync_input u inst app mode data))\<rparr>"
  using assms by (auto simp: handle_sync_confirm_def Let_def case_prod_beta split: option.splits)

lemma sync_confirm_runs:
  assumes "split_n 3 bar data = [inst, app, mode]"
    and "\<not> snd (approval_gate M env (aw_db w) (sync_input u inst app mode data))"
    and "instance_by_name (am_instances M) inst = Some i"
  shows "audited_call w (fst (handle_sync_confirm M env (Some u) data w))
     (ac_sync_application (ai_client i) (aw_remote w) app (sync_opts_of_mode mode)) id
     (app_audit (ce_audit_id env) (ce_now env) u ''argocd.app.sync'' app inst
        [(''mode'', mode), (''instance'', inst)]
        (error_of (snd (ac_sync_application (ai_client i) (aw_remote w) app (sync_opts_of_mode mode)))))"
  using assms by (simp add: handle_sync_confirm_def Let_def case_prod_beta audited_call_def
      app_audit_def error_of_def isl_def split: sum.split)

lemma rollback_confirm_stopped:
  assumes "split_n 3 bar data = [inst, app, rev_id]"
    and "snd (approval_gate M env (aw_db w) (rollback_input u inst app rev_id data)) \<or>
         sscanf_d rev_id = None \<or> instance_by_name (am_instances M) inst = None"
  shows "fst (handle_rollback_confirm M env (Some u) data w) =
    w\<lparr>aw_db := fst (approval_gate M env (aw_db w) (rollback_input u inst app rev_id data))\<rparr>"
  using assms by (auto simp: handle_rollback_confirm_def Let_def case_prod_beta split: option.splits)

lemma rollback_confirm_runs:
  assumes "split_n 3 bar data = [inst, app, rev_id]" "sscanf_d rev_id = Some rid"
    and "\<not> snd (approval_gate M env (aw_db w) (rollback_input u inst app rev_id data))"
    and "instance_by_name (am_instances M) inst = Some i"
  shows "audited_call w (fst (handle_rollback_confirm M env (Some u) data w))
     (ac_rollback_application (ai_client i) (aw_remote w) app rid)
     (\<lambda>r. fst (ac_disable_auto_sync (ai_client i) r app))
     (app_audit (ce_audit_id env) (ce_now env) u ''argocd.app.rollback'' app inst
        [(''revision'', show_int rid), (''instance'', inst)]
        (error_of (snd (ac_rollback_application (ai_client i) (aw_remote w) app rid))))"
  using assms by (simp add: handle_rollback_confirm_def Let_def case_prod_beta audited_call_def
      app_audit_def error_of_def isl_def split: sum.split)

lemma app_audit_fields [simp]:
  "ae_user_id (app_audit a n u act app inst d e) = u_telegram_id u"
  "ae_action (app_audit a n u act app inst d e) = act"
  "ae_resource (app_audit a n u act app inst d e) = ''app/'' @ app"
  "ae_cluster (app_audit a n u act app inst d e) = inst"
  by (simp_all add: app_audit_def)

lemma sync_confirm_audited:
  "let w' = fst (handle_sync_confirm M env usr data w) in
      aw_remote w' = aw_remote w \<and> aw_audit w' = aw_audit w \<or>
      (\<exists>u inst app mode i. usr = Some u \<and> data = inst @ ''|'' @ app @ ''|'' @ mode \<and>
         instance_by_name (am_instances M) inst = Some i \<and>
         (\<exists>entry. ae_user_id entry = u_telegram_id u \<and> ae_action entry = ''argocd.app.sync'' \<and>
           ae_resource entry = ''app/'' @ app \<and> ae_cluster entry = inst \<and>
           audited_call w w' (ac_sync_application (ai_client i) (aw_remote w) app
             (sync_opts_of_mode mode)) id entry))"
proof (cases "\<exists>u inst app mode. usr = Some u \<and> split_n 3 bar data = [inst, app, mode]")
  case False
  then have "fst (handle_sync_confirm M env usr data w) = w"
    by (auto simp: handle_sync_confirm_def split: option.splits list.splits)
  then show ?thesis by simp
next
  case True
  then obtain u inst app mode where u: "usr = Some u" "split_n 3 bar data = [inst, app, mode]" by blast
  note d = split_n_3_inv [OF u(2)]
  show ?thesis
  proof (cases "snd (approval_gate M env (aw_db w) (sync_input u inst app mode data)) \<or>
      instance_by_name (am_instances M) inst = None")
    case True
    then show ?thesis using u(1) sync_confirm_stopped [OF u(2) True] by (simp add: Let_def)
  next
    case False
    then obtain i where i: "instance_by_name (am_instances M) inst = Some i" by blast
    show ?thesis
      unfolding Let_def u(1)
      by (rule disjI2, rule exI [of _ u], rule exI [of _ inst], rule exI [of _ app],
          rule exI [of _ mode], rule exI [of _ i], intro conjI,
          rule refl, use d in simp, rule i, rule exI, intro conjI, (rule app_audit_fields)+,
          rule sync_confirm_runs [OF u(2) _ i], use False in simp)
  qed
qed

lemma rollback_confirm_audited:
  "let w' = fst (handle_rollback_confirm M env usr data w) in
      aw_remote w' = aw_remote w \<and> aw_audit w' = aw_audit w \<or>
      (\<exists>u inst app rev_id rid i. usr = Some u \<and> data = inst @ ''|'' @ app @ ''|'' @ rev_id \<and>
         sscanf_d rev_id = Some rid \<and> instance_by_name (am_instances M) inst = Some i \<and>
         (\<exists>entry. ae_user_id entry = u_telegram_id u \<and> ae_action entry = ''argocd.app.rollback'' \<and>
           ae_resource entry = ''app/'' @ app \<and> ae_cluster entry = inst \<and>
           audited_call w w' (ac_rollback_application (ai_client i) (aw_remote w) app rid)
             (\<lambda>r. fst (ac_disable_auto_sync (ai_client i) r app)) entry))"
proof (cases "\<exists>u inst app mode. usr = Some u \<and> split_n 3 bar data = [inst, app, mode]")
  case False
  then have "fst (handle_rollback_confirm M env usr data w) = w"
    by (auto simp: handle_rollback_confirm_def split: option.splits list.splits)
  then show ?thesis by simp
next
  case True
  then obtain u inst app mode where u: "usr = Some u" "split_n 3 bar data = [inst, app, mode]" by blast
  note d = split_n_3_inv [OF u(2)]
  show ?thesis
  proof (cases "snd (approval_gate M env (aw_db w) (rollback_input u inst app mode data)) \<or>
      sscanf_d mode = None \<or> instance_by_name (am_instances M) inst = None")
    case True
    then show ?thesis using u(1) rollback_confirm_stopped [OF u(2) True] by (simp add: Let_def)
  next
    case False
    then obtain i rid where i: "instance_by_name (am_instances M) inst = Some i"
      and rid: "sscanf_d mode = Some rid" by (auto simp del: split_n.simps)
    show ?thesis
      unfolding Let_def u(1)
      by (rule disjI2, rule exI [of _ u], rule exI [of _ inst], rule exI [of _ app],
          rule exI [of _ mode], rule exI [of _ rid], rule exI [of _ i], intro conjI,
          rule refl, use d in simp, rule rid, rule i, rule exI, intro conjI,
          (rule app_audit_fields)+,
          rule rollback_confirm_runs [OF u(2) rid _ i], use False in simp)
  qed
qed

text \<open>C8: A confirmation either leaves ArgoCD and the audit log alone, or makes exactly one call, for the
  user and the application that the callback data names, and appends exactly one audit entry
  with that user, action, application and instance, whose status says whether the call failed.
  After a rollback that succeeded, and only then, auto-sync is switched off.\<close>

theorem confirmed_actions_are_audited:
  "(let w' = fst (handle_sync_confirm M env usr data w) in
      aw_remote w' = aw_remote w \<and> aw_audit w' = aw_audit w \<or>
      (\<exists>u inst app mode i. usr = Some u \<and> data = inst @ ''|'' @ app @ ''|'' @ mode \<and>
         instance_by_name (am_instances M) inst = Some i \<and>
         (\<exists>entry. ae_user_id entry = u_telegram_id u \<and> ae_action entry = ''argocd.app.sync'' \<and>
           ae_resource entry = ''app/'' @ app \<and> ae_cluster entry = inst \<and>
           audited_call w w' (ac_sync_application (ai_client i) (aw_remote w) app
             (sync_opts_of_mode mode)) id entry))) \<and>
   (let w' = fst (handle_rollback_confirm M env usr data w) in
      aw_remote w' = aw_remote w \<and> aw_audit w' = aw_audit w \<or>
      (\<exists>u inst app rev_id rid i. usr = Some u \<and> data = inst @ ''|'' @ app @ ''|'' @ rev_id \<and>
         sscanf_d rev_id = Some rid \<and> instance_by_name (am_instances M) inst = Some i \<and>
         (\<exists>entry. ae_user_id entry = u_telegram_id u \<and> ae_action entry = ''argocd.app.rollback'' \<and>
           ae_resource entry = ''app/'' @ app \<and> ae_cluster entry = inst \<and>
           audited_call w w' (ac_rollback_application (ai_client i) (aw_remote w) app rid)
             (\<lambda>r. fst (ac_disable_auto_sync (ai_client i) r app)) entry)))"
  by (intro conjI sync_confirm_audited rollback_confirm_audited)

section \<open>The approval gate\<close>

lemma find_snoc_fresh:
  "\<not> list_ex p xs \<Longrightarrow> p x \<Longrightarrow> find p (xs @ [x]) = Some x"
  by (induction xs) auto

text \<open>What a request that reached the store looks like.\<close>

definition filed_request :: "approval_input \<Rightarrow> approval_rule \<Rightarrow> approval_request \<Rightarrow> bool" where
  "filed_request i rule q \<longleftrightarrow>
     ar_status q = ApprovalPending \<and> ar_requester_id q = in_user_id i \<and>
     ar_action q = in_action i \<and> ar_resource q = in_resource i \<and> ar_cluster q = in_cluster i \<and>
     ar_required_approvals q = rl_required_approvals rule \<and> ar_approvers q = []"

lemma gate_files_request:
  assumes "am_approval M = Some (ManagerChecker cfg)"
    and "requires_approval cfg (in_action i) (in_cluster i) = Some rule"
    and "db_fault s = None" "\<not> list_ex (\<lambda>q. ar_id q = ce_request_id env) (db_approvals s)"
  shows "snd (approval_gate M env s i) \<and>
    (\<exists>q. approval_get_by_id (fst (approval_gate M env s i)) (ce_request_id env) = Inr q \<and>
         filed_request i rule q)"
proof -
  have fresh: "\<forall>q \<in> set (db_approvals s). ar_id q \<noteq> ce_request_id env"
    using assms(4) by (auto simp: list_ex_iff)
  then have "map (\<lambda>x. if ar_id x = ce_request_id env then f x else x) (db_approvals s)
      = db_approvals s" for f
    by (intro map_idI) auto
  then show ?thesis
    using assms by (auto simp: approval_gate_def check_and_submit_def submit_def Let_def
        request_of_input_def approval_create_def exec_sql_def store_message_def approval_update_def
        approval_get_by_id_def find_snoc_fresh filed_request_def approval_stored_def
        approval_updated_def split: option.split)
qed

lemma gate_fails_open:
  assumes "am_approval M = Some (ManagerChecker cfg)" "db_fault s \<noteq> None"
  shows "\<not> snd (approval_gate M env s i)"
  using assms by (auto simp: approval_gate_def check_and_submit_def submit_def Let_def
      approval_create_def exec_sql_def split: option.splits sum.splits prod.splits)

text \<open>C9: When a rule requires approval and the store takes the request, confirming a sync or a rollback
  leaves ArgoCD and the audit log alone and files one pending request of that user for that
  action and application, with the rule's number of approvals. When the store fails, the
  approval check lets the action through: the sync then runs unapproved.\<close>

theorem approval_stops_the_action:
  assumes ck: "am_approval M = Some (ManagerChecker cfg)"
    and data: "bar \<notin> set inst" "bar \<notin> set app"
    and i: "instance_by_name (am_instances M) inst = Some i"
    and rules: "requires_approval cfg ''argocd.apps.sync'' inst = Some r1"
      "requires_approval cfg ''argocd.apps.rollback'' inst = Some r2"
    and fresh: "\<not> list_ex (\<lambda>q. ar_id q = ce_request_id env) (db_approvals (aw_db w))"
    and d: "d = inst @ ''|'' @ app @ ''|'' @ x"
  shows "if db_fault (aw_db w) = None
    then (let w' = fst (handle_sync_confirm M env (Some u) d w);
              w'' = fst (handle_rollback_confirm M env (Some u) d w)
          in aw_remote w' = aw_remote w \<and> aw_audit w' = aw_audit w \<and>
             aw_remote w'' = aw_remote w \<and> aw_audit w'' = aw_audit w \<and>
             (\<exists>q. approval_get_by_id (aw_db w') (ce_request_id env) = Inr q \<and>
                filed_request (sync_input u inst app x d) r1 q) \<and>
             (\<exists>q. approval_get_by_id (aw_db w'') (ce_request_id env) = Inr q \<and>
                filed_request (rollback_input u inst app x d) r2 q))
    else aw_remote (fst (handle_sync_confirm M env (Some u) d w)) =
         fst (ac_sync_application (ai_client i) (aw_remote w) app (sync_opts_of_mode x))"
proof -
  have split: "split_n 3 bar d = [inst, app, x]" using data d by simp
  show ?thesis
  proof (cases "db_fault (aw_db w) = None")
    case True
    have s: "requires_approval cfg (in_action (sync_input u inst app x d))
        (in_cluster (sync_input u inst app x d)) = Some r1"
      and rb: "requires_approval cfg (in_action (rollback_input u inst app x d))
        (in_cluster (rollback_input u inst app x d)) = Some r2"
      using rules by (simp_all add: action_input_def)
    note gs = gate_files_request [OF ck s True fresh] and gr = gate_files_request [OF ck rb True fresh]
    show ?thesis
      using True gs gr sync_confirm_stopped [OF split disjI1 [OF conjunct1 [OF gs]]]
        rollback_confirm_stopped [OF split disjI1 [OF conjunct1 [OF gr]]]
      by (simp add: Let_def)
  next
    case False
    have "aw_remote (fst (handle_sync_confirm M env (Some u) d w)) =
        fst (ac_sync_application (ai_client i) (aw_remote w) app (sync_opts_of_mode x))"
      using sync_confirm_runs [OF split gate_fails_open [OF ck False] i] by (simp add: audited_call_def)
    with False show ?thesis by (simp only: if_False)
  qed
qed

definition demo_checker :: approval_checker where
  "demo_checker = ManagerChecker (new_manager True 0
     [\<lparr>rl_action = ''argocd.apps.sync'', rl_clusters = [''*''], rl_required_approvals = 1,
       rl_approver_roles = []\<rparr>,
      \<lparr>rl_action = ''argocd.apps.rollback'', rl_clusters = [''prod''], rl_required_approvals = 2,
       rl_approver_roles = []\<rparr>])"

theorem approval_stops_the_action_witness:
  "aw_remote (fst (handle_sync_confirm (demo_module (Some demo_checker)) demo_env (Some demo_admin)
     (''prod'' @ ''|'' @ ''shop'' @ ''|'' @ ''sync_now'') demo_world)) = []"
  using approval_stops_the_action [of "demo_module (Some demo_checker)", OF _ _ _ _ _ _ _ refl,
      where inst = "''prod''" and app = "''shop''" and i = demo_instance and env = demo_env
        and w = demo_world and x = "''sync_now''" and u = demo_admin]
  by (simp add: demo_module_def demo_checker_def demo_instance_def demo_world_def new_store_def
      requires_approval_def new_manager_def Let_def)

section \<open>Deployment freezes\<close>

text \<open>What creating and thawing do to the freezes of a working store.\<close>

lemma freeze_confirm_rows:
  assumes "db_fault (aw_db w) = None" "\<not> list_ex (\<lambda>f. f_id f = fid) (db_freezes (aw_db w))"
    and "bar \<notin> set scope" "parse_duration dur = Some d"
  shows "\<exists>f. f_id f = fid \<and> f_scope f = scope \<and> f_thawed_at f = None \<and> f_expires_at f = now + d \<and>
      (let s' = aw_db (fst (handle_freeze_confirm now fid aid (Some u) (scope @ ''|'' @ dur) w))
       in db_fault s' = None \<and> set (db_freezes s') = insert f (set (db_freezes (aw_db w))))"
  using assms
  by (intro exI [of _ "\<lparr>f_id = fid, f_scope = scope, f_reason = [], f_created_by = u_telegram_id u,
        f_created_at = now, f_expires_at = now + d, f_thawed_at = None, f_thawed_by = None\<rparr>"])
    (simp add: handle_freeze_confirm_def freeze_create_def Let_def)

lemma freeze_thaw_rows:
  assumes "db_fault (aw_db w) = None" "f \<in> set (db_freezes (aw_db w))" "f_id f = fid"
  shows "let s' = aw_db (fst (handle_freeze_thaw now aid (Some u) fid w))
     in db_fault s' = None \<and> set (db_freezes s') =
        (\<lambda>f. if f_id f = fid then f\<lparr>f_thawed_at := Some now, f_thawed_by := Some (u_telegram_id u)\<rparr>
             else f) ` set (db_freezes (aw_db w))"
  using assms by (auto simp: handle_freeze_thaw_def freeze_thaw_def Let_def filter_empty_conv)

text \<open>The buttons of the duration menu all parse, to the durations their labels name.\<close>

lemma freeze_durations_parse:
  "map parse_duration freeze_durations =
     map Some [30 * minute, hour, 2 * hour, 4 * hour, 8 * hour, 24 * hour]"
  by (simp add: freeze_durations_def parse_duration_def parse_duration_loop.simps parse_chunk_def
      is_digit_def digit_val_def unit_ns_def minute_def hour_def second_def)

text \<open>C10: Confirming a freeze blocks sync and rollback of every instance its scope names (all of them
  for ''all'') at every instant before its expiry and leaves the others as they were; thawing it
  gives every instance back the state it had before the freeze, at every instant.\<close>

theorem freeze_blocks_until_expiry_or_thaw:
  assumes "db_fault (aw_db w) = None" "\<not> list_ex (\<lambda>f. f_id f = fid) (db_freezes (aw_db w))"
    and "bar \<notin> set scope" "parse_duration dur = Some d"
    and "w1 = fst (handle_freeze_confirm now fid aid (Some u) (scope @ ''|'' @ dur) w)"
    and "w2 = fst (handle_freeze_thaw now' aid' (Some v) fid w1)"
  shows "(blocking_freeze t t (aw_db w1) inst = None \<longleftrightarrow>
           blocking_freeze t t (aw_db w) inst = None \<and>
           \<not> ((scope = ''all'' \<or> scope = inst) \<and> t < now + d)) \<and>
         (blocking_freeze t t (aw_db w2) inst = None \<longleftrightarrow> blocking_freeze t t (aw_db w) inst = None)"
proof

  obtain f where f: "f_id f = fid" "f_scope f = scope" "f_thawed_at f = None" "f_expires_at f = now + d"
    and up1: "db_fault (aw_db w1) = None"
    and rows1: "set (db_freezes (aw_db w1)) = insert f (set (db_freezes (aw_db w)))"
    using freeze_confirm_rows [OF assms(1-4), of now aid u] assms(5) by (auto simp: Let_def)
  show "blocking_freeze t t (aw_db w1) inst = None \<longleftrightarrow>
           blocking_freeze t t (aw_db w) inst = None \<and>
           \<not> ((scope = ''all'' \<or> scope = inst) \<and> t < now + d)"
    using f by (auto simp: blocking_freeze_iff up1 rows1 assms(1) in_force_def freeze_is_active_def)
  have "f \<in> set (db_freezes (aw_db w1))" by (simp add: rows1)
  from freeze_thaw_rows [OF up1 this f(1), of now' aid' v] assms(6)
  have up2: "db_fault (aw_db w2) = None"
    and rows2: "set (db_freezes (aw_db w2)) =
        (\<lambda>f. if f_id f = fid then f\<lparr>f_thawed_at := Some now', f_thawed_by := Some (u_telegram_id v)\<rparr>
             else f) ` set (db_freezes (aw_db w1))"
    by (simp_all add: Let_def)
  have others: "\<forall>g \<in> set (db_freezes (aw_db w)). f_id g \<noteq> fid"
    using assms(2) by (auto simp: list_ex_iff)
  have "(\<exists>g \<in> set (db_freezes (aw_db w2)). in_force t inst g) \<longleftrightarrow>
      (\<exists>g \<in> set (db_freezes (aw_db w)). in_force t inst g)"
    using others f(1) by (auto simp: rows1 rows2 in_force_def freeze_is_active_def)
  then show "blocking_freeze t t (aw_db w2) inst = None \<longleftrightarrow> blocking_freeze t t (aw_db w) inst = None"
    by (simp add: blocking_freeze_iff up2 assms(1))
qed

lemma parse_30m: "parse_duration ''30m'' = Some (30 * minute)"
  using freeze_durations_parse by (simp add: freeze_durations_def)

theorem freeze_blocks_until_expiry_or_thaw_witness:
  "blocking_freeze 5 5 (aw_db (fst (handle_freeze_confirm 0 ''f1'' ''a'' (Some demo_admin)
     (''all'' @ ''|'' @ ''30m'') demo_world))) ''prod'' \<noteq> None"
  using freeze_blocks_until_expiry_or_thaw [OF _ _ _ parse_30m refl refl, where w = demo_world
      and fid = "''f1''" and scope = "''all''" and t = 5 and now = 0 and inst = "''prod''"
      and u = demo_admin and aid = "''a''"]
  by (simp add: demo_world_def new_store_def minute_def second_def)

text \<open>The scopes the menu offers, besides all, are the clusters of the instances.\<close>

lemma freeze_scope_buttons:
  "(''argo_freeze_scope'', x) \<in> shown_buttons (handle_freeze_create M) \<longleftrightarrow>
   x = ''all'' \<or> (\<exists>i \<in> set (am_instances M). x \<in> set (ai_clusters i))"
  by (auto simp: handle_freeze_create_def)

text \<open>The freeze menu offers cluster names as scopes, while sync and rollback ask for freezes of the
  instance name: where no cluster is named like an instance, a freeze of a single cluster taken
  from the menu blocks no instance, those that manage the cluster included.\<close>

theorem cluster_freeze_blocks_nothing:
  assumes "(''argo_freeze_scope'', scope) \<in> shown_buttons (handle_freeze_create M)" "scope \<noteq> ''all''"
    and "\<forall>i \<in> set (am_instances M). \<forall>j \<in> set (am_instances M). ai_name i \<notin> set (ai_clusters j)"
    and "i \<in> set (am_instances M)"
    and "db_fault (aw_db w) = None" "\<not> list_ex (\<lambda>f. f_id f = fid) (db_freezes (aw_db w))"
    and "bar \<notin> set scope" "parse_duration dur = Some d"
  shows "blocking_freeze t t
       (aw_db (fst (handle_freeze_confirm now fid aid (Some u) (scope @ ''|'' @ dur) w))) (ai_name i) = None
     \<longleftrightarrow> blocking_freeze t t (aw_db w) (ai_name i) = None"
proof -
  obtain f where f: "f_scope f = scope"
    and up: "db_fault (aw_db (fst (handle_freeze_confirm now fid aid (Some u) (scope @ ''|'' @ dur) w))) = None"
    and rows: "set (db_freezes (aw_db (fst (handle_freeze_confirm now fid aid (Some u)
        (scope @ ''|'' @ dur) w)))) = insert f (set (db_freezes (aw_db w)))"
    using freeze_confirm_rows [OF assms(5-8), of now aid u] by (auto simp: Let_def)
  have "scope \<noteq> ai_name i" using assms(1-4) by (auto simp: freeze_scope_buttons)
  with f assms(2) have "\<not> in_force t (ai_name i) f" by (simp add: in_force_def)
  then show ?thesis
    unfolding blocking_freeze_iff [OF up] blocking_freeze_iff [OF assms(5)] rows by simp
qed

theorem cluster_freeze_blocks_nothing_witness:
  "blocking_freeze 5 5 (aw_db (fst (handle_freeze_confirm 0 ''f1'' ''a'' (Some demo_admin)
     (''c1'' @ ''|'' @ ''30m'') demo_world))) ''prod'' = None"
  using cluster_freeze_blocks_nothing [OF _ _ _ _ _ _ _ parse_30m, where M = "demo_module None"
      and w = demo_world and fid = "''f1''" and scope = "''c1''" and t = 5 and now = 0
      and i = demo_instance and u = demo_admin and aid = "''a''"]
  by (simp add: freeze_scope_buttons demo_module_def demo_instance_def demo_world_def new_store_def
      blocking_freeze_iff)

section \<open>Dialogs\<close>

lemma detail_of_joined:
  "bar \<notin> set inst \<Longrightarrow>
   handle_app_detail M (Some u) (inst @ ''|'' @ app) w =
     (if \<not> permitted (am_engine M) (aw_db w) (u_telegram_id u) perm_argocd_apps_view
      then [Respond (Some (MsgNoPermission perm_argocd_apps_view))]
      else (case instance_by_name (am_instances M) inst of
              None \<Rightarrow> [Respond (Some (Notice ''ArgoCD instance not found.''))]
            | Some i \<Rightarrow>
               (case ac_get_application_status (ai_client i) (aw_remote w) app of
                  Inl e \<Rightarrow> [Respond (Some (Notice ''Failed to get application status''))]
                | Inr st \<Rightarrow> [EditText (format_app_status_detail st inst)
                              (app_detail_keyboard inst app)])))"
  by (simp add: handle_app_detail_def)

text \<open>The sync dialog for an application leads to that application: each mode button puts up a
  dialog with one Confirm and one Cancel button, and Confirm (with no approvals configured) asks
  ArgoCD to sync exactly this application, pruning for the prune button only and forcing for the
  force button only. Its Cancel button, however, goes to the details of an application whose name
  has the mode appended.\<close>

theorem sync_dialog_reaches_the_application:
  assumes "bar \<notin> set inst" "bar \<notin> set app" "am_approval M = None"
    and "instance_by_name (am_instances M) inst = Some i"
    and "(mode, prune, force) \<in> {(''sync_now'', False, False), (''sync_prune'', True, False),
           (''sync_force'', False, True)}"
  shows "\<exists>x. shown_buttons (initiate_sync_confirm (inst @ ''|'' @ app) mode) =
             {(''argo_sync_confirm'', x), (''argo_sync_cancel'', x)} \<and>
           aw_remote (fst (handle_sync_confirm M env (Some u) x w)) =
             fst (ac_sync_application (ai_client i) (aw_remote w) app
               \<lparr>so_prune = prune, so_force = force, so_dry_run = False\<rparr>) \<and>
           handle_sync_cancel M (Some u) x w =
             handle_app_detail M (Some u) (inst @ ''|'' @ (app @ ''|'' @ mode)) w"
proof (intro exI conjI)
  let ?x = "inst @ ''|'' @ app @ ''|'' @ mode"
  have split: "split_n 3 bar ?x = [inst, app, mode]" using assms(1,2) by simp
  show "shown_buttons (initiate_sync_confirm (inst @ ''|'' @ app) mode) =
      {(''argo_sync_confirm'', ?x), (''argo_sync_cancel'', ?x)}"
    using assms(1) by (auto simp: initiate_sync_confirm_def Let_def)
  have "sync_opts_of_mode mode = \<lparr>so_prune = prune, so_force = force, so_dry_run = False\<rparr>"
    using assms(5) by (auto simp: sync_opts_of_mode_def)
  then show "aw_remote (fst (handle_sync_confirm M env (Some u) ?x w)) =
      fst (ac_sync_application (ai_client i) (aw_remote w) app
        \<lparr>so_prune = prune, so_force = force, so_dry_run = False\<rparr>)"
    using sync_confirm_runs [OF split _ assms(4), of env w u] assms(3)
    by (simp add: approval_gate_def audited_call_def)
  show "handle_sync_cancel M (Some u) ?x w = handle_app_detail M (Some u) ?x w"
    using split unfolding handle_sync_cancel_def by simp
qed

theorem sync_dialog_reaches_the_application_witness:
  "\<exists>x. shown_buttons (initiate_sync_confirm (''prod'' @ ''|'' @ ''shop'') ''sync_prune'') =
     {(''argo_sync_confirm'', x), (''argo_sync_cancel'', x)}"
proof -
  have "bar \<notin> set ''prod''" "bar \<notin> set ''shop''" "am_approval (demo_module None) = None"
    "instance_by_name (am_instances (demo_module None)) ''prod'' = Some demo_instance"
    by (simp_all add: demo_module_def demo_instance_def)
  then show ?thesis
    using sync_dialog_reaches_the_application [of "''prod''" "''shop''" "demo_module None"
        demo_instance "''sync_prune''" True False demo_env demo_admin demo_world] by blast
qed

section \<open>Dashboard\<close>

lemma count_apps_lengths:
  "count_apps apps =
     (length (filter (\<lambda>a. classify_app a = ClassHealthy) apps),
      length (filter (\<lambda>a. classify_app a = ClassOutOfSync) apps),
      length (filter (\<lambda>a. classify_app a = ClassDegraded) apps))"
  by (induction apps) (auto split: app_class.split)

lemma app_class_cases: "c = ClassHealthy \<or> c = ClassOutOfSync \<or> c = ClassDegraded"
  by (cases c) auto

lemma out_of_sync_filter: "filter_includes ''OutOfSync'' = (\<lambda>a. classify_app a = ClassOutOfSync)"
  by (rule ext) (simp add: filter_includes_def classify_app_def)

lemma summary_total:
  "is_healthy (instance_summary_of i apps) + is_out_of_sync (instance_summary_of i apps) +
   is_degraded (instance_summary_of i apps) = is_total (instance_summary_of i apps)"
proof -
  have "length (filter (\<lambda>a. classify_app a = ClassHealthy) apps) +
      length (filter (\<lambda>a. classify_app a = ClassOutOfSync) apps) +
      length (filter (\<lambda>a. classify_app a = ClassDegraded) apps) = length apps"
  proof (induction apps)
    case (Cons a apps)
    then show ?case using app_class_cases [of "classify_app a"] by auto
  qed simp
  then show ?thesis by (simp add: instance_summary_of_def count_apps_lengths)
qed

text \<open>On the dashboard every application of an instance that answers is counted in exactly one of
  the three columns, the names listed are those counted, and the overall figures are the sums;
  the ''Show OutOfSync'' list has exactly the applications counted as out of sync, but ''Show
  Degraded'' lists every degraded application, also those counted as out of sync.\<close>

theorem dashboard_counts_every_application_once:
  "list_all (\<lambda>s. is_healthy s + is_out_of_sync s + is_degraded s = is_total s \<and>
      length (is_out_apps s) = is_out_of_sync s \<and> length (is_degraded_apps s) = is_degraded s)
     (dashboard_summaries is r) \<and>
   map fst (filtered_apps ''OutOfSync'' is r) = concat (map is_out_apps (dashboard_summaries is r)) \<and>
   set (concat (map is_degraded_apps (dashboard_summaries is r)))
     \<subseteq> set (map fst (filtered_apps ''Degraded'' is r)) \<and>
   sum_list (map is_total (dashboard_summaries is r)) =
     sum_list (map is_healthy (dashboard_summaries is r)) +
     sum_list (map is_out_of_sync (dashboard_summaries is r)) +
     sum_list (map is_degraded (dashboard_summaries is r))"
proof (induction "is")
  case Nil
  then show ?case by simp
next
  case (Cons i "is")
  show ?case
  proof (cases "ac_list_applications (ai_client i) r")
    case (Inl e)
    with Cons show ?thesis by simp
  next
    case (Inr apps)
    let ?s = "instance_summary_of i apps"
    have names: "length (is_out_apps ?s) = is_out_of_sync ?s" "length (is_degraded_apps ?s) = is_degraded ?s"
      by (simp_all add: instance_summary_of_def count_apps_lengths)
    have out: "map fst (map (\<lambda>a. (app_name a, ai_name i, ai_clusters i))
        (filter (filter_includes ''OutOfSync'') apps)) = is_out_apps ?s"
      by (simp add: instance_summary_of_def count_apps_lengths out_of_sync_filter comp_def)
    have degraded: "set (is_degraded_apps ?s) \<subseteq>
        app_name ` set (filter (filter_includes ''Degraded'') apps)"
      by (auto simp: instance_summary_of_def count_apps_lengths filter_includes_def classify_app_def
          split: if_splits)
    from Cons Inr names out degraded summary_total [of i apps] show ?thesis
      by (auto simp: image_iff)
  qed
qed

section \<open>Button sizes\<close>

lemma length_show_nat_pos [simp]: "0 < length (show_nat n)"
  by simp

lemma length_show_int_pos: "0 < length (show_int i)"
  by (simp add: show_int_def)

text \<open>The rollback buttons carry their data as it is: for any earlier revision that is a full
  40-character commit hash, the button of that revision is over Telegram's 64 bytes, whatever
  the names, so the history message cannot be delivered.\<close>

theorem rollback_buttons_exceed_telegram_limit:
  assumes "inst \<noteq> []" "app \<noteq> []" "length (rh_revision h) = 40"
  shows "\<exists>b. b \<in> set (concat (snd (format_rollback_history (h0 # h # hs) inst app))) \<and>
     telegram_limit < button_bytes b"
proof (intro exI conjI)
  let ?b = "(''argo_rollback_select'', inst @ ''|'' @ app @ ''|'' @ show_int (rh_id h) @ ''|'' @ rh_revision h)"
  show "?b \<in> set (concat (snd (format_rollback_history (h0 # h # hs) inst app)))"
    by (simp add: format_rollback_history_def Let_def max_history_items_def)
  have "0 < length inst" "0 < length app" using assms(1,2) by simp_all
  then show "telegram_limit < button_bytes ?b"
    using assms(3) length_show_int_pos [of "rh_id h"]
    by (simp add: button_bytes_def telegram_limit_def)
qed

theorem rollback_buttons_exceed_telegram_limit_witness:
  "\<exists>b. b \<in> set (concat (snd (format_rollback_history
      [\<lparr>rh_id = 2, rh_revision = ''b'', rh_deployed_at = 9, rh_deployed_by = '''', rh_source = ('''', '''', '''')\<rparr>,
       \<lparr>rh_id = 1, rh_revision = replicate 40 (CHR ''a''), rh_deployed_at = 5, rh_deployed_by = '''', rh_source = ('''', '''', '''')\<rparr>]
      ''prod'' ''shop''))) \<and> telegram_limit < button_bytes b"
  by (rule rollback_buttons_exceed_telegram_limit) simp_all

end
