(* ===== verification/Middleware.thy ===== *)
theory Middleware
  imports Sqlite
begin

text \<open>
  The middleware chain of the bot (\<open>internal/bot/middleware\<close> and \<open>registerMiddleware\<close> of
  \<open>internal/bot/bot.go\<close>): panic recovery, authentication with auto-registration, the per-user
  sliding-window rate limit, and the audit of every interaction. A handler is a function of the
  update, the authenticated user and the state, which returns or panics; a middleware is a
  function from handlers to handlers. The clock is read once per update.
\<close>

section \<open>The user repository the chain relies on\<close>

record 's user_repository =
  us_get :: "'s \<Rightarrow> user_id \<Rightarrow> user result"
  us_upsert :: "instant \<Rightarrow> 's \<Rightarrow> user \<Rightarrow> 's \<times> unit result"
  us_list :: "'s \<Rightarrow> user list result"

definition sqlite_users :: "db user_repository" where
  "sqlite_users = \<lparr>us_get = user_get, us_upsert = user_upsert, us_list = user_list\<rparr>"

lemma sqlite_users_ops [simp]:
  "us_get sqlite_users = user_get" "us_upsert sqlite_users = user_upsert"
  "us_list sqlite_users = user_list"
  by (simp_all add: sqlite_users_def)

text \<open>What \<open>GetByTelegramID\<close> returns for a user after an \<open>Upsert\<close> of it.\<close>

definition upserted :: "instant \<Rightarrow> user result \<Rightarrow> user \<Rightarrow> user" where
  "upserted now old u =
     (case old of
        Inr v \<Rightarrow> v\<lparr>u_username := u_username u, u_display_name := u_display_name u, u_updated_at := now\<rparr>
      | Inl e \<Rightarrow> u\<lparr>u_created_at := now, u_updated_at := now\<rparr>)"

locale user_repo =
  fixes U :: "'s user_repository"
    and keep :: "instant \<Rightarrow> instant"
  assumes get_id: "us_get U s t = Inr u \<Longrightarrow> u_telegram_id u = t"
    and upsert_ok: "us_upsert U now s u = (s', Inr ()) \<Longrightarrow>
      us_get U s' t =
        (if t = u_telegram_id u then Inr (upserted (keep now) (us_get U s t) u) else us_get U s t)"
    and upsert_failed: "us_upsert U now s u = (s', Inl e) \<Longrightarrow> s' = s"

lemma find_user_map:
  "(\<And>v. u_telegram_id (f v) = u_telegram_id v) \<Longrightarrow>
   find (\<lambda>u. u_telegram_id u = t) (map f us) = map_option f (find (\<lambda>u. u_telegram_id u = t) us)"
  by (induction us) auto

lemma find_user_snoc:
  "find p (us @ [u]) = (case find p us of Some v \<Rightarrow> Some v | None \<Rightarrow> if p u then Some u else None)"
  by (induction us) auto

lemma find_user_id: "find (\<lambda>u. u_telegram_id u = t) us = Some v \<Longrightarrow> u_telegram_id v = t"
  by (auto dest: find_SomeD)

lemma sqlite_upsert_get:
  assumes "user_upsert now s u = (s', Inr ())"
  shows "user_get s' t =
     (if t = u_telegram_id u then Inr (upserted now (user_get s t) u) else user_get s t)"
proof -
  have up: "db_fault s = None" using assms by (auto simp: user_upsert_def split: option.splits)
  show ?thesis
  proof (cases "find (\<lambda>v. u_telegram_id v = u_telegram_id u) (db_users s)")
    case None
    then have "\<not> list_ex (\<lambda>v. u_telegram_id v = u_telegram_id u) (db_users s)"
      by (auto simp: list_ex_iff find_None_iff)
    with assms up None show ?thesis
      by (auto simp: user_upsert_def user_get_some upserted_def find_user_snoc
          split: option.split if_splits)
  next
    case (Some v)
    then have "list_ex (\<lambda>v. u_telegram_id v = u_telegram_id u) (db_users s)"
      by (auto simp: list_ex_iff dest: find_SomeD)
    then have s': "db_fault s' = None" "db_users s' = map (\<lambda>v. if u_telegram_id v = u_telegram_id u
        then v\<lparr>u_username := u_username u, u_display_name := u_display_name u, u_updated_at := now\<rparr>
        else v) (db_users s)"
      using assms up by (auto simp: user_upsert_def)
    show ?thesis
    proof (cases "t = u_telegram_id u")
      case True
      with Some find_user_id [OF Some] up s' show ?thesis
        by (simp add: user_get_some upserted_def find_user_map)
    next
      case False
      have "u_telegram_id w \<noteq> u_telegram_id u"
        if "find (\<lambda>u. u_telegram_id u = t) (db_users s) = Some w" for w
        using find_user_id [OF that] False by simp
      with False up s' show ?thesis
        by (simp add: user_get_some find_user_map split: option.split)
    qed
  qed
qed

interpretation sqlu: user_repo sqlite_users "\<lambda>t. t"
proof
  fix s t u assume "us_get sqlite_users s t = Inr u"
  then show "u_telegram_id u = t"
    by (auto simp: user_get_def split: option.splits dest!: find_SomeD)
next
  fix now s u s' t assume "us_upsert sqlite_users now s u = (s', Inr ())"
  then show "us_get sqlite_users s' t =
      (if t = u_telegram_id u then Inr (upserted now (us_get sqlite_users s t) u)
       else us_get sqlite_users s t)"
    by (simp add: sqlite_upsert_get)
next
  fix now s u s' e assume "us_upsert sqlite_users now s u = (s', Inl e)"
  then show "s' = s" by (auto simp: user_upsert_def split: option.splits if_splits)
qed

section \<open>Updates, handlers and the state\<close>

record tg_user =
  tu_id :: user_id
  tu_username :: string
  tu_first_name :: string
  tu_last_name :: string

datatype chat_type = PrivateChat | GroupChat | SuperGroupChat | ChannelChat

record update =
  up_now :: instant
  up_sender :: "tg_user option"
  up_chat :: chat_id
  up_chat_type :: chat_type
  up_callback :: "(string \<times> string) option"
  up_text :: "string option"
  up_audit_id :: string

datatype handler_end = Returned "go_error option" | Panicked

datatype bot_notice = InternalErrorNotice | PanicNotice | SlowDownNotice

type_synonym limiter = "user_id \<rightharpoonup> instant list"

record ('s, 'x) bot_state =
  bs_store :: 's
  bs_limiter :: limiter
  bs_audit :: "audit_entry list"
  bs_notices :: "(chat_id \<times> bot_notice) list"
  bs_app :: 'x

type_synonym ('s, 'x) handler =
  "update \<Rightarrow> user option \<Rightarrow> ('s, 'x) bot_state \<Rightarrow> ('s, 'x) bot_state \<times> handler_end"

definition notify_chat :: "update \<Rightarrow> bot_notice \<Rightarrow> ('s, 'x) bot_state \<Rightarrow> ('s, 'x) bot_state" where
  "notify_chat up n st = st\<lparr>bs_notices := bs_notices st @ [(up_chat up, n)]\<rparr>"

lemma notify_chat_frame [simp]:
  "bs_store (notify_chat up n st) = bs_store st" "bs_limiter (notify_chat up n st) = bs_limiter st"
  "bs_audit (notify_chat up n st) = bs_audit st" "bs_app (notify_chat up n st) = bs_app st"
  by (simp_all add: notify_chat_def)

section \<open>Recovery (recovery.go)\<close>

definition recovery :: "('s, 'x) handler \<Rightarrow> ('s, 'x) handler" where
  "recovery nxt up usr st =
     (case nxt up usr st of
        (st', Panicked) \<Rightarrow> (notify_chat up PanicNotice st', Returned None)
      | (st', Returned e) \<Rightarrow> (st', Returned e))"

section \<open>Authentication (auth.go)\<close>

record telegram_config =
  tc_admin_ids :: "user_id list"
  tc_allowed_chats :: "chat_id list"
  tc_rate_limit :: int

definition display_name :: "tg_user \<Rightarrow> string" where
  "display_name t =
     tu_first_name t @ (if tu_last_name t \<noteq> '''' then '' '' @ tu_last_name t else '''')"

definition chat_allowed :: "telegram_config \<Rightarrow> chat_id \<Rightarrow> tg_user \<Rightarrow> bool" where
  "chat_allowed cfg chat t \<longleftrightarrow>
     (let allowed = mark_all Map.empty (tc_allowed_chats cfg)
      in \<not> (tc_allowed_chats cfg \<noteq> [] \<and> \<not> bool_at allowed chat \<and> chat \<noteq> tu_id t))"

fun initial_role :: "user_id list \<Rightarrow> user_id \<Rightarrow> string" where
  "initial_role [] uid = role_viewer"
| "initial_role (a # as) uid = (if uid = a then role_admin else initial_role as uid)"

definition new_user :: "telegram_config \<Rightarrow> instant \<Rightarrow> tg_user \<Rightarrow> user" where
  "new_user cfg now t =
     \<lparr>u_telegram_id = tu_id t, u_username = tu_username t, u_display_name = display_name t,
      u_role = initial_role (tc_admin_ids cfg) (tu_id t), u_is_active = True,
      u_created_at = now, u_updated_at = now\<rparr>"

text \<open>Finding or registering the sender; the error is reported to the chat by the caller.\<close>

definition find_or_register ::
  "'s user_repository \<Rightarrow> telegram_config \<Rightarrow> instant \<Rightarrow> tg_user \<Rightarrow> 's \<Rightarrow> 's \<times> user result" where
  "find_or_register U cfg now t s =
     (case us_get U s (tu_id t) of
        Inr u \<Rightarrow> (s, Inr u)
      | Inl e \<Rightarrow>
         if e \<noteq> ErrNotFound then (s, Inl e)
         else (case us_upsert U now s (new_user cfg now t) of
                 (s', Inl err) \<Rightarrow> (s', Inl err)
               | (s', Inr _) \<Rightarrow> (s', Inr (new_user cfg now t))))"

definition refresh_names ::
  "'s user_repository \<Rightarrow> instant \<Rightarrow> tg_user \<Rightarrow> 's \<Rightarrow> user \<Rightarrow> 's \<times> user" where
  "refresh_names U now t s u =
     (if u_username u \<noteq> tu_username t \<or> u_display_name u \<noteq> display_name t
      then (let u' = u\<lparr>u_username := tu_username t, u_display_name := display_name t\<rparr>
            in (fst (us_upsert U now s u'), u'))
      else (s, u))"

definition auth ::
  "'s user_repository \<Rightarrow> telegram_config \<Rightarrow> ('s, 'x) handler \<Rightarrow> ('s, 'x) handler" where
  "auth U cfg nxt up usr st =
     (case up_sender up of
        None \<Rightarrow> (st, Returned None)
      | Some t \<Rightarrow>
         if \<not> chat_allowed cfg (up_chat up) t then (st, Returned None)
         else (case find_or_register U cfg (up_now up) t (bs_store st) of
                 (s', Inl e) \<Rightarrow>
                   (notify_chat up InternalErrorNotice (st\<lparr>bs_store := s'\<rparr>), Returned None)
               | (s', Inr u) \<Rightarrow>
                   (case refresh_names U (up_now up) t s' u of
                      (s'', u') \<Rightarrow> nxt up (Some u') (st\<lparr>bs_store := s''\<rparr>))))"

section \<open>Rate limit (ratelimit.go)\<close>

definition effective_limit :: "int \<Rightarrow> int" where
  "effective_limit n = (if n \<le> 0 then 30 else n)"

definition limiter_times :: "limiter \<Rightarrow> user_id \<Rightarrow> instant list" where
  "limiter_times m uid = (case m uid of None \<Rightarrow> [] | Some ts \<Rightarrow> ts)"

definition allow :: "int \<Rightarrow> instant \<Rightarrow> user_id \<Rightarrow> limiter \<Rightarrow> limiter \<times> bool" where
  "allow max_per_min now uid m =
     (let valid = filter (\<lambda>t. now - minute < t) (limiter_times m uid)
      in if int (length valid) \<ge> max_per_min then (m(uid \<mapsto> valid), False)
         else (m(uid \<mapsto> valid @ [now]), True))"

definition rate_limit :: "int \<Rightarrow> ('s, 'x) handler \<Rightarrow> ('s, 'x) handler" where
  "rate_limit n nxt up usr st =
     (case up_sender up of
        None \<Rightarrow> nxt up usr st
      | Some t \<Rightarrow>
         (case allow (effective_limit n) (up_now up) (tu_id t) (bs_limiter st) of
            (m, False) \<Rightarrow> (notify_chat up SlowDownNotice (st\<lparr>bs_limiter := m\<rparr>), Returned None)
          | (m, True) \<Rightarrow> nxt up usr (st\<lparr>bs_limiter := m\<rparr>)))"

section \<open>Audit (audit.go)\<close>

definition rune_count :: "string \<Rightarrow> nat" where
  "rune_count s = length (filter rune_start s)"

fun take_runes :: "nat \<Rightarrow> string \<Rightarrow> string" where
  "take_runes n [] = []"
| "take_runes n (c # cs) =
     (if rune_start c then (case n of 0 \<Rightarrow> [] | Suc m \<Rightarrow> c # take_runes m cs)
      else c # take_runes n cs)"

definition truncate_utf8 :: "string \<Rightarrow> nat \<Rightarrow> string" where
  "truncate_utf8 s n = (if rune_count s \<le> n then s else take_runes n s)"

definition max_action_runes :: nat where "max_action_runes = 100"

definition audit_action :: "update \<Rightarrow> string" where
  "audit_action up =
     (case up_callback up of
        Some (unique, data) \<Rightarrow>
          ''callback:'' @ unique @ (if data \<noteq> '''' then '':'' @ truncate_utf8 data 60 else '''')
      | None \<Rightarrow>
         (case up_text up of
            None \<Rightarrow> ''unknown''
          | Some t \<Rightarrow> if t \<noteq> '''' then truncate_utf8 t max_action_runes else ''unknown''))"

fun audit_chat_type :: "chat_type \<Rightarrow> string" where
  "audit_chat_type GroupChat = ''group''"
| "audit_chat_type SuperGroupChat = ''group''"
| "audit_chat_type ChannelChat = ''channel''"
| "audit_chat_type PrivateChat = ''private''"

definition interaction_entry :: "update \<Rightarrow> user \<Rightarrow> go_error option \<Rightarrow> audit_entry" where
  "interaction_entry up u err =
     \<lparr>ae_id = up_audit_id up, ae_user_id = u_telegram_id u, ae_username = u_username u,
      ae_action = audit_action up, ae_resource = '''', ae_cluster = '''', ae_namespace = '''',
      ae_chat_id = up_chat up, ae_chat_type = audit_chat_type (up_chat_type up),
      ae_status = (case err of None \<Rightarrow> audit_success | Some e \<Rightarrow> audit_error), ae_details = [],
      ae_error = (case err of None \<Rightarrow> '''' | Some e \<Rightarrow> err_text e), ae_occurred_at = up_now up\<rparr>"

text \<open>A panic of the handler passes through the middleware before the entry is written.\<close>

definition audit_mw :: "('s, 'x) handler \<Rightarrow> ('s, 'x) handler" where
  "audit_mw nxt up usr st =
     (case usr of
        None \<Rightarrow> nxt up usr st
      | Some u \<Rightarrow>
         (case nxt up usr st of
            (st', Panicked) \<Rightarrow> (st', Panicked)
          | (st', Returned err) \<Rightarrow>
              (st'\<lparr>bs_audit := bs_audit st' @ [interaction_entry up u err]\<rparr>, Returned err)))"

section \<open>The chain (bot.go)\<close>

definition chain :: "'s user_repository \<Rightarrow> telegram_config \<Rightarrow> ('s, 'x) handler \<Rightarrow> ('s, 'x) handler" where
  "chain U cfg h = recovery (auth U cfg (rate_limit (tc_rate_limit cfg) (audit_mw h)))"

end
