(* ===== verification/MiddlewareProps.thy ===== *)
theory MiddlewareProps
  imports Middleware
begin

text \<open>
  The properties of the middleware chain: the limiter against its specification, who reaches a
  handler, what is audited, and what authentication does to the user table.
\<close>

section \<open>The limiter against its specification\<close>

type_synonym request = "user_id \<times> instant"

fun run_limiter :: "int \<Rightarrow> limiter \<Rightarrow> request list \<Rightarrow> (user_id \<times> instant \<times> bool) list" where
  "run_limiter n m [] = []"
| "run_limiter n m ((u, t) # es) = (case allow n t u m of (m', b) \<Rightarrow> (u, t, b) # run_limiter n m' es)"

text \<open>The admitted requests of a user in the minute that ends at an instant.\<close>

definition admitted_in_minute :: "user_id \<Rightarrow> instant \<Rightarrow> (user_id \<times> instant \<times> bool) list \<Rightarrow> nat" where
  "admitted_in_minute u t hist =
     length (filter (\<lambda>(v, s, b). v = u \<and> b \<and> t - minute < s \<and> s \<le> t) hist)"

text \<open>The specification remembers every decision and counts.\<close>

fun spec_limiter ::
  "int \<Rightarrow> (user_id \<times> instant \<times> bool) list \<Rightarrow> request list \<Rightarrow> (user_id \<times> instant \<times> bool) list" where
  "spec_limiter n hist [] = []"
| "spec_limiter n hist ((u, t) # es) =
     (let d = (u, t, int (admitted_in_minute u t hist) < n)
      in d # spec_limiter n (hist @ [d]) es)"

definition admitted_times :: "user_id \<Rightarrow> (user_id \<times> instant \<times> bool) list \<Rightarrow> instant list" where
  "admitted_times u hist = map (\<lambda>(v, s, b). s) (filter (\<lambda>(v, s, b). v = u \<and> b) hist)"

lemma admitted_times_simps [simp]:
  "admitted_times u [] = []"
  "admitted_times u (hist @ [(v, s, b)]) = admitted_times u hist @ (if v = u \<and> b then [s] else [])"
  by (simp_all add: admitted_times_def)

lemma length_filter_le_filter:
  "(\<And>x. x \<in> set xs \<Longrightarrow> p x \<Longrightarrow> q x) \<Longrightarrow> length (filter p xs) \<le> length (filter q xs)"
  by (induction xs) (auto simp: le_SucI)

lemma admitted_in_minute_times:
  assumes "\<forall>s \<in> set (admitted_times u hist). s \<le> t"
  shows "admitted_in_minute u t hist = length (filter (\<lambda>s. t - minute < s) (admitted_times u hist))"
  using assms
  by (induction hist rule: rev_induct) (auto simp: admitted_in_minute_def split: if_splits)

text \<open>From instant \<open>T\<close> on, the limiter's lists and the full history agree on what counts.\<close>

definition limiter_agrees :: "limiter \<Rightarrow> (user_id \<times> instant \<times> bool) list \<Rightarrow> instant \<Rightarrow> bool" where
  "limiter_agrees m hist T \<longleftrightarrow>
     (\<forall>u. (\<forall>t \<ge> T. filter (\<lambda>s. t - minute < s) (limiter_times m u) =
                   filter (\<lambda>s. t - minute < s) (admitted_times u hist)) \<and>
          (\<forall>s \<in> set (admitted_times u hist). s \<le> T))"

lemma filter_later:
  "(a :: int) \<le> b \<Longrightarrow> filter (\<lambda>s. b < s) (filter (\<lambda>s. a < s) xs) = filter (\<lambda>s. b < s) xs"
  by (induction xs) auto

lemma limiter_times_upd [simp]:
  "limiter_times (m(u \<mapsto> ts)) v = (if v = u then ts else limiter_times m v)"
  by (simp add: limiter_times_def)

lemma allow_agrees:
  assumes "limiter_agrees m hist T" "T \<le> t" "allow n t u m = (m', b)"
  shows "b \<longleftrightarrow> int (admitted_in_minute u t hist) < n"
    and "limiter_agrees m' (hist @ [(u, t, b)]) t"
proof -
  let ?valid = "filter (\<lambda>s. t - minute < s) (limiter_times m u)"
  have valid: "?valid = filter (\<lambda>s. t - minute < s) (admitted_times u hist)"
    and old: "\<And>v s. s \<in> set (admitted_times v hist) \<Longrightarrow> s \<le> t"
    using assms(1,2) by (fastforce simp: limiter_agrees_def)+
  have later: "filter (\<lambda>s. t' - minute < s) ?valid = filter (\<lambda>s. t' - minute < s) (admitted_times u hist)"
    if "t \<le> t'" for t'
    using that unfolding valid by (intro filter_later) simp
  have other: "filter (\<lambda>s. t' - minute < s) (limiter_times m v) =
      filter (\<lambda>s. t' - minute < s) (admitted_times v hist)" if "t \<le> t'" for t' v
    using that assms(1,2) by (simp add: limiter_agrees_def)
  have count: "admitted_in_minute u t hist = length ?valid"
    using valid old by (simp add: admitted_in_minute_times)
  show "b \<longleftrightarrow> int (admitted_in_minute u t hist) < n"
    using assms(3) count by (auto simp: allow_def Let_def split: if_splits)
  show "limiter_agrees m' (hist @ [(u, t, b)]) t"
    using assms(3) later other old
    by (auto simp: limiter_agrees_def allow_def Let_def split: if_splits)
qed

lemma run_refines_spec:
  "limiter_agrees m hist T \<Longrightarrow> sorted (map snd es) \<Longrightarrow> (\<forall>e \<in> set es. T \<le> snd e) \<Longrightarrow>
   run_limiter n m es = spec_limiter n hist es"
proof (induction es arbitrary: m hist T)
  case Nil
  then show ?case by simp
next
  case (Cons e es)
  obtain u t where e: "e = (u, t)" by (cases e)
  obtain m' b where a: "allow n t u m = (m', b)" by (cases "allow n t u m")
  have "T \<le> t" using Cons.prems(3) e by simp
  note step = allow_agrees [OF Cons.prems(1) this a]
  have "run_limiter n m' es = spec_limiter n (hist @ [(u, t, b)]) es"
    using Cons.prems(2,3) e by (intro Cons.IH [OF step(2)]) auto
  with a e step(1) show ?case by (simp add: Let_def)
qed

lemma spec_bounded:
  assumes "0 \<le> n" "\<forall>w. int (admitted_in_minute u w hist) \<le> n"
    and "sorted (map snd es)" "\<forall>d \<in> set hist. \<forall>e \<in> set es. fst (snd d) \<le> snd e"
  shows "int (admitted_in_minute u w (hist @ spec_limiter n hist es)) \<le> n"
  using assms(2-4)
proof (induction n hist es rule: spec_limiter.induct)
  case (1 n hist)
  then show ?case by simp
next
  case (2 n hist v t es)
  let ?d = "(v, t, int (admitted_in_minute v t hist) < n)"
  have "int (admitted_in_minute u x (hist @ [?d])) \<le> n" for x
  proof (cases "v = u \<and> int (admitted_in_minute v t hist) < n \<and> x - minute < t \<and> t \<le> x")
    case False
    then have "admitted_in_minute u x (hist @ [?d]) = admitted_in_minute u x hist"
      by (auto simp: admitted_in_minute_def)
    with "2.prems" show ?thesis by simp
  next
    case True
    then have "admitted_in_minute u x (hist @ [?d]) = Suc (admitted_in_minute u x hist)"
      by (auto simp: admitted_in_minute_def)
    moreover have "admitted_in_minute u x hist \<le> admitted_in_minute v t hist"
      unfolding admitted_in_minute_def using True "2.prems"(3)
      by (intro length_filter_le_filter) fastforce
    ultimately show ?thesis using True by force
  qed
  moreover have "\<forall>d \<in> set (hist @ [?d]). \<forall>e \<in> set es. fst (snd d) \<le> snd e"
    using "2.prems"(2,3) by auto
  ultimately show ?case using "2.IH" [OF refl] "2.prems"(2) by (simp add: Let_def)
qed

text \<open>C11: Fed with requests in the order of their times, the limiter admits a request exactly when it has
  admitted fewer than the limit from this user in the minute before it, whatever the lists it
  prunes; so in no minute does a user get more than the limit through, whatever the others do.\<close>

theorem rate_limit_is_sliding_window:
  assumes "sorted (map snd es)"
  shows "run_limiter (effective_limit n) Map.empty es = spec_limiter (effective_limit n) [] es \<and>
     int (admitted_in_minute u w (run_limiter (effective_limit n) Map.empty es)) \<le> effective_limit n"
proof -
  have run: "run_limiter (effective_limit n) Map.empty es = spec_limiter (effective_limit n) [] es"
  proof (cases es)
    case Nil
    then show ?thesis by simp
  next
    case (Cons e es')
    have "limiter_agrees Map.empty [] (snd e)" by (simp add: limiter_agrees_def limiter_times_def)
    moreover have "\<forall>e' \<in> set es. snd e \<le> snd e'" using assms Cons by auto
    ultimately show ?thesis using run_refines_spec [OF _ assms] by blast
  qed
  have "0 \<le> effective_limit n" by (simp add: effective_limit_def)
  then have "int (admitted_in_minute u w ([] @ spec_limiter (effective_limit n) [] es)) \<le> effective_limit n"
    using assms by (intro spec_bounded) (simp_all add: admitted_in_minute_def)
  with run show ?thesis by simp
qed

theorem rate_limit_is_sliding_window_witness:
  "admitted_in_minute 1 5 (run_limiter (effective_limit 2) Map.empty [(1, 0), (1, 3), (1, 4), (2, 5)]) \<le> 2"
proof -
  have "sorted (map snd [(1 :: user_id, 0 :: instant), (1, 3), (1, 4), (2, 5)])" by simp
  from rate_limit_is_sliding_window [OF this, of 2 1 5] have
    "int (admitted_in_minute 1 5 (run_limiter (effective_limit 2) Map.empty
       [(1, 0), (1, 3), (1, 4), (2, 5)])) \<le> effective_limit 2" by blast
  then show ?thesis by (simp only: effective_limit_def) simp
qed

section \<open>Authentication\<close>

context user_repo
begin

lemma find_or_register_ok:
  assumes "find_or_register U cfg now t s = (s', Inr u)"
  shows "u_telegram_id u = tu_id t"
    and "(\<exists>v. us_get U s (tu_id t) = Inr v \<and> u = v \<and> s' = s) \<or>
         us_get U s (tu_id t) = Inl ErrNotFound \<and> u = new_user cfg now t \<and>
         us_upsert U now s u = (s', Inr ())"
  using assms get_id
  by (auto simp: find_or_register_def new_user_def split: sum.splits prod.splits if_splits)

lemma refresh_names_user:
  "refresh_names U now t s u = (s', u') \<Longrightarrow>
   u' = u\<lparr>u_username := tu_username t, u_display_name := display_name t\<rparr>"
  by (auto simp: refresh_names_def Let_def split: if_splits)

lemma refresh_names_store:
  assumes "refresh_names U now t s u = (s', u')"
  shows "s' = s \<or> (\<exists>e. us_upsert U now s u' = (s', Inl e)) \<or> us_upsert U now s u' = (s', Inr ())"
proof (cases "us_upsert U now s u'")
  case (Pair a b)
  then show ?thesis
    using assms by (cases b) (auto simp: refresh_names_def Let_def split: if_splits)
qed

text \<open>What \<open>Auth\<close> leaves in the store for the sender and for the others.\<close>

lemma authenticated_user:
  assumes reg: "find_or_register U cfg now t s = (s1, Inr u)"
    and names: "refresh_names U now t s1 u = (s2, u2)"
  shows "u_telegram_id u2 = tu_id t \<and> u_username u2 = tu_username t \<and>
     u_display_name u2 = display_name t \<and>
     u_role u2 = (case us_get U s (tu_id t) of Inr v \<Rightarrow> u_role v
                  | Inl e \<Rightarrow> initial_role (tc_admin_ids cfg) (tu_id t)) \<and>
     (\<exists>v. us_get U s2 (tu_id t) = Inr v \<and> u_role v = u_role u2 \<and> u_is_active v = u_is_active u2) \<and>
     (\<forall>i. i \<noteq> tu_id t \<longrightarrow> us_get U s2 i = us_get U s i)"
proof -
  note u = find_or_register_ok [OF reg] and u2 = refresh_names_user [OF names]
  have id2: "u_telegram_id u2 = tu_id t" using u(1) u2 by simp
  have at1: "\<exists>v. us_get U s1 (tu_id t) = Inr v \<and> u_role v = u_role u \<and> u_is_active v = u_is_active u"
    using u upsert_ok [of now s u s1] by (auto simp: upserted_def)
  have others1: "us_get U s1 i = us_get U s i" if "i \<noteq> tu_id t" for i
    using u that upsert_ok [of now s u s1] by auto
  have after: "(\<exists>v. us_get U s2 (tu_id t) = Inr v \<and> u_role v = u_role u2 \<and> u_is_active v = u_is_active u2) \<and>
      (\<forall>i. i \<noteq> tu_id t \<longrightarrow> us_get U s2 i = us_get U s1 i)"
    using refresh_names_store [OF names]
  proof (elim disjE exE)
    fix e assume "us_upsert U now s1 u2 = (s2, Inl e)"
    then have "s2 = s1" by (rule upsert_failed)
    then show ?thesis using at1 u2 by simp
  next
    assume "us_upsert U now s1 u2 = (s2, Inr ())"
    from upsert_ok [OF this] at1 u2 id2 show ?thesis by (auto simp: upserted_def)
  qed (use at1 u2 in simp)
  show ?thesis using id2 u2 u after others1
    by (auto simp: new_user_def split: sum.splits)
qed

end

lemma initial_role_iff:
  "initial_role as u = (if u \<in> set as then role_admin else role_viewer)"
  by (induction "as") auto

lemma chat_allowed_iff:
  "chat_allowed cfg chat t \<longleftrightarrow>
     tc_allowed_chats cfg = [] \<or> chat \<in> set (tc_allowed_chats cfg) \<or> chat = tu_id t"
  by (auto simp: chat_allowed_def Let_def)

lemma sqlite_registers:
  assumes "db_fault s = None"
  obtains s1 u s2 u2 where "find_or_register sqlite_users cfg now t s = (s1, Inr u)"
    "refresh_names sqlite_users now t s1 u = (s2, u2)"
proof -
  have "\<exists>s1 u. find_or_register sqlite_users cfg now t s = (s1, Inr u)"
    using assms by (auto simp: find_or_register_def user_get_some user_upsert_def split: option.split)
  then show ?thesis using that by (metis surj_pair)
qed

text \<open>With a working store, an update of a sender in an allowed chat reaches the next handler with
  the sender's own account carrying the current names. A sender unknown before is registered as
  admin when listed among the admins of the configuration and as viewer otherwise; the role of
  a known account is kept, and no other account is touched.\<close>

theorem auth_registers_once_and_keeps_roles:
  assumes "db_fault (bs_store st) = None" "up_sender up = Some t" "chat_allowed cfg (up_chat up) t"
  shows "\<exists>u s'. auth sqlite_users cfg nxt up usr st = nxt up (Some u) (st\<lparr>bs_store := s'\<rparr>) \<and>
     u_telegram_id u = tu_id t \<and> u_username u = tu_username t \<and> u_display_name u = display_name t \<and>
     u_role u = (case user_get (bs_store st) (tu_id t) of
        Inr v \<Rightarrow> u_role v
      | Inl e \<Rightarrow> if tu_id t \<in> set (tc_admin_ids cfg) then ''admin'' else ''viewer'') \<and>
     (\<exists>v. user_get s' (tu_id t) = Inr v \<and> u_role v = u_role u \<and> u_is_active v = u_is_active u) \<and>
     (\<forall>i. i \<noteq> tu_id t \<longrightarrow> user_get s' i = user_get (bs_store st) i)"
proof -
  obtain s1 u1 s2 u2 where r: "find_or_register sqlite_users cfg (up_now up) t (bs_store st) = (s1, Inr u1)"
    "refresh_names sqlite_users (up_now up) t s1 u1 = (s2, u2)"
    using sqlite_registers [OF assms(1)] by blast
  have "auth sqlite_users cfg nxt up usr st = nxt up (Some u2) (st\<lparr>bs_store := s2\<rparr>)"
    using assms(2,3) r by (simp add: auth_def)
  with sqlu.authenticated_user [OF r, unfolded initial_role_iff role_names sqlite_users_ops]
  show ?thesis by blast
qed

definition demo_update :: update where
  "demo_update = \<lparr>up_now = 5, up_sender = Some \<lparr>tu_id = 7, tu_username = ''ann'',
     tu_first_name = ''Ann'', tu_last_name = ''''\<rparr>, up_chat = 7, up_chat_type = PrivateChat,
     up_callback = None, up_text = Some ''/pods'', up_audit_id = ''x''\<rparr>"

definition demo_bot :: "(db, nat) bot_state" where
  "demo_bot = \<lparr>bs_store = new_store, bs_limiter = Map.empty, bs_audit = [], bs_notices = [], bs_app = 0\<rparr>"

definition demo_tg_cfg :: telegram_config where
  "demo_tg_cfg = \<lparr>tc_admin_ids = [7], tc_allowed_chats = [100], tc_rate_limit = 0\<rparr>"

theorem auth_registers_once_and_keeps_roles_witness:
  "\<exists>v s'. auth sqlite_users demo_tg_cfg (\<lambda>up usr st. (st, Returned None)) demo_update None demo_bot =
     (demo_bot\<lparr>bs_store := s'\<rparr>, Returned None) \<and> user_get s' 7 = Inr v \<and> u_role v = ''admin''"
proof -
  obtain t where t: "up_sender demo_update = Some t" "tu_id t = 7" by (simp add: demo_update_def)
  have hyps: "db_fault (bs_store demo_bot) = None" "chat_allowed demo_tg_cfg (up_chat demo_update) t"
    by (simp_all add: demo_bot_def demo_update_def demo_tg_cfg_def new_store_def chat_allowed_iff t)
  have new: "user_get (bs_store demo_bot) (tu_id t) = Inl ErrNotFound"
    "tu_id t \<in> set (tc_admin_ids demo_tg_cfg)"
    by (simp_all add: demo_bot_def new_store_def user_get_some demo_tg_cfg_def t)
  show ?thesis
    using auth_registers_once_and_keeps_roles [OF hyps(1) t(1) hyps(2),
        of "\<lambda>up usr st. (st, Returned None)" None] new t(2)
    by (elim exE conjE) (intro exI conjI, assumption, simp, simp)
qed

section \<open>The whole chain\<close>

lemma chain_admitted:
  fixes st :: "(db, 'a) bot_state"
  assumes "up_sender up = Some t" "chat_allowed cfg (up_chat up) t"
    and r: "find_or_register sqlite_users cfg (up_now up) t (bs_store st) = (s1, Inr u1)"
      "refresh_names sqlite_users (up_now up) t s1 u1 = (s2, u)"
    and lim: "int (length (filter (\<lambda>s. up_now up - minute < s) (limiter_times (bs_limiter st) (tu_id t))))
             < effective_limit (tc_rate_limit cfg)"
    and st1: "st1 = st\<lparr>bs_store := s2, bs_limiter :=
        fst (allow (effective_limit (tc_rate_limit cfg)) (up_now up) (tu_id t) (bs_limiter st))\<rparr>"
    and h: "h up (Some u) st1 = (st2, res)"
  shows "chain sqlite_users cfg h up usr st =
     (case res of Panicked \<Rightarrow> (notify_chat up PanicNotice st2, Returned None)
      | Returned err \<Rightarrow> (st2\<lparr>bs_audit := bs_audit st2 @ [interaction_entry up u err]\<rparr>, Returned err))"
proof -
  have a: "auth sqlite_users cfg nxt up usr st = nxt up (Some u) (st\<lparr>bs_store := s2\<rparr>)"
    for nxt :: "(db, 'a) handler"
    using assms(1,2) r by (simp add: auth_def)
  have "u_telegram_id u = tu_id t" using sqlu.authenticated_user [OF r] by simp
  then have "chain sqlite_users cfg h up usr st = recovery (\<lambda>up usr st. audit_mw h up (Some u) st1) up usr st"
    using assms(1) a lim st1 by (simp add: chain_def recovery_def rate_limit_def allow_def Let_def)
  also have "\<dots> = (case res of Panicked \<Rightarrow> (notify_chat up PanicNotice st2, Returned None)
      | Returned err \<Rightarrow> (st2\<lparr>bs_audit := bs_audit st2 @ [interaction_entry up u err]\<rparr>, Returned err))"
    using h by (simp add: recovery_def audit_mw_def split: handler_end.split)
  finally show ?thesis .
qed

text \<open>C12: With a working store an update reaches its handler exactly when it has a sender, the chat is
  allowed (or private with the sender) and the sender has had fewer admitted requests than the
  limit in the last minute. Then one audit entry with the handler's outcome is appended, except
  when the handler panics; no panic leaves the chain. A refused update changes neither the
  handlers' state nor the log.\<close>

theorem chain_admits_and_audits:
  assumes "db_fault (bs_store st) = None"
  shows "case chain sqlite_users cfg h up usr st of (st', e) \<Rightarrow> e \<noteq> Panicked \<and>
    (case up_sender up of
       None \<Rightarrow> st' = st
     | Some t \<Rightarrow>
        if (tc_allowed_chats cfg = [] \<or> up_chat up \<in> set (tc_allowed_chats cfg) \<or> up_chat up = tu_id t) \<and>
           int (length (filter (\<lambda>s. up_now up - minute < s) (limiter_times (bs_limiter st) (tu_id t))))
             < effective_limit (tc_rate_limit cfg)
        then (\<exists>u st1 st2 r. u_telegram_id u = tu_id t \<and> bs_app st1 = bs_app st \<and>
                bs_audit st1 = bs_audit st \<and> h up (Some u) st1 = (st2, r) \<and> bs_app st' = bs_app st2 \<and>
                bs_audit st' = bs_audit st2 @
                  (case r of Panicked \<Rightarrow> [] | Returned err \<Rightarrow> [interaction_entry up u err]))
        else bs_app st' = bs_app st \<and> bs_audit st' = bs_audit st)"
proof (cases "up_sender up")
  case None
  then show ?thesis by (simp add: chain_def recovery_def auth_def)
next
  case (Some t)
  show ?thesis
  proof (cases "chat_allowed cfg (up_chat up) t")
    case False
    with Some show ?thesis by (simp add: chain_def recovery_def auth_def chat_allowed_iff)
  next
    case True
    obtain s1 u1 s2 u where r:
      "find_or_register sqlite_users cfg (up_now up) t (bs_store st) = (s1, Inr u1)"
      "refresh_names sqlite_users (up_now up) t s1 u1 = (s2, u)"
      using sqlite_registers [OF assms] by blast
    have id: "u_telegram_id u = tu_id t" using sqlu.authenticated_user [OF r] by simp
    let ?st1 = "st\<lparr>bs_store := s2, bs_limiter :=
        fst (allow (effective_limit (tc_rate_limit cfg)) (up_now up) (tu_id t) (bs_limiter st))\<rparr>"
    obtain st2 res where h: "h up (Some u) ?st1 = (st2, res)" by (cases "h up (Some u) ?st1")
    obtain st' e where e: "chain sqlite_users cfg h up usr st = (st', e)"
      by (cases "chain sqlite_users cfg h up usr st")
    show ?thesis
    proof (cases "int (length (filter (\<lambda>s. up_now up - minute < s) (limiter_times (bs_limiter st) (tu_id t))))
             < effective_limit (tc_rate_limit cfg)")
      case False
      with Some True r id show ?thesis
        by (simp add: chain_def recovery_def auth_def rate_limit_def allow_def Let_def)
    next
      case lim: True
      have "e \<noteq> Panicked \<and> bs_app st' = bs_app st2 \<and> bs_audit st' = bs_audit st2 @
          (case res of Panicked \<Rightarrow> [] | Returned err \<Rightarrow> [interaction_entry up u err])"
        using chain_admitted [where st = st and usr = usr and h = h, OF Some True r lim refl h] e
        by (cases res) auto
      moreover have "bs_app ?st1 = bs_app st" "bs_audit ?st1 = bs_audit st" by simp_all
      ultimately have "\<exists>u st1 st2 r. u_telegram_id u = tu_id t \<and> bs_app st1 = bs_app st \<and>
                bs_audit st1 = bs_audit st \<and> h up (Some u) st1 = (st2, r) \<and> bs_app st' = bs_app st2 \<and>
                bs_audit st' = bs_audit st2 @
                  (case r of Panicked \<Rightarrow> [] | Returned err \<Rightarrow> [interaction_entry up u err])"
        and "e \<noteq> Panicked"
        using id h by blast+
      moreover have "tc_allowed_chats cfg = [] \<or> up_chat up \<in> set (tc_allowed_chats cfg) \<or> up_chat up = tu_id t"
        using True by (simp add: chat_allowed_iff)
      ultimately show ?thesis using Some lim e by simp
    qed
  qed
qed

theorem chain_admits_and_audits_witness:
  "\<exists>st'. chain sqlite_users demo_tg_cfg (\<lambda>up usr st. (st\<lparr>bs_app := 1\<rparr>, Returned None)) demo_update None
     demo_bot = (st', Returned None) \<and> snd (chain sqlite_users demo_tg_cfg
       (\<lambda>up usr st. (st, Panicked)) demo_update None demo_bot) \<noteq> Panicked"
proof -
  have up: "db_fault (bs_store demo_bot) = None" by (simp add: demo_bot_def new_store_def)
  have "snd (chain sqlite_users demo_tg_cfg (\<lambda>up usr st. (st, Panicked)) demo_update None demo_bot) \<noteq> Panicked"
    using chain_admits_and_audits [OF up, where cfg = demo_tg_cfg and h = "\<lambda>up usr st. (st, Panicked)"
        and up = demo_update and usr = None]
    by (simp add: case_prod_beta)
  moreover have "\<exists>st'. chain sqlite_users demo_tg_cfg (\<lambda>up usr st. (st\<lparr>bs_app := 1\<rparr>, Returned None))
      demo_update None demo_bot = (st', Returned None)"
    by (simp add: chain_def recovery_def auth_def demo_update_def demo_tg_cfg_def chat_allowed_iff
        find_or_register_def demo_bot_def new_store_def user_get_some user_upsert_def refresh_names_def
        new_user_def rate_limit_def allow_def limiter_times_def effective_limit_def audit_mw_def)
  ultimately show ?thesis by blast
qed

end
