(* ===== verification/AuditLog.thy ===== *)
theory AuditLog
  imports Sqlite RbacEngine "HOL-Library.Multiset"
begin

text \<open>
  The audit trail: the repository over the \<open>audit_log\<close> table (audit\_repo.go), the buffered
  logger of \<open>internal/audit\<close> as a transition system (callers, the worker goroutine and \<open>Close\<close>
  interleave), and the \<open>/audit\<close> command (\<open>internal/bot/handler/audit.go\<close>).
\<close>

section \<open>Repository (audit\_repo.go)\<close>

record audit_filter =
  af_user_id :: "user_id option"
  af_action :: "string option"
  af_cluster :: "string option"
  af_namespace :: "string option"
  af_status :: "string option"
  af_from :: "instant option"
  af_to :: "instant option"
  af_page :: int
  af_page_size :: int

definition audit_create :: "db \<Rightarrow> audit_entry \<Rightarrow> db \<times> unit result" where
  "audit_create s e =
     (case db_fault s of
        Some err \<Rightarrow> (s, Inl (ErrWrap ''inserting audit entry'' (DriverErr err)))
      | None \<Rightarrow>
         if list_ex (\<lambda>x. ae_id x = ae_id e) (db_audit s)
         then (s, Inl (ErrWrap ''inserting audit entry''
                    (DriverErr ''UNIQUE constraint failed: audit_log.id'')))
         else (s\<lparr>db_audit := db_audit s @ [e]\<rparr>, Inr ()))"

definition opt_is :: "'a option \<Rightarrow> 'a \<Rightarrow> bool" where
  "opt_is f x = (case f of None \<Rightarrow> True | Some y \<Rightarrow> x = y)"

definition audit_matches :: "audit_filter \<Rightarrow> audit_entry \<Rightarrow> bool" where
  "audit_matches f e \<longleftrightarrow>
     opt_is (af_user_id f) (ae_user_id e) \<and> opt_is (af_action f) (ae_action e) \<and>
     opt_is (af_cluster f) (ae_cluster e) \<and> opt_is (af_namespace f) (ae_namespace e) \<and>
     opt_is (af_status f) (ae_status e) \<and>
     (case af_from f of None \<Rightarrow> True | Some t \<Rightarrow> t \<le> ae_occurred_at e) \<and>
     (case af_to f of None \<Rightarrow> True | Some t \<Rightarrow> ae_occurred_at e \<le> t)"

definition effective_page :: "int \<Rightarrow> int" where
  "effective_page p = (if p < 1 then 1 else p)"

definition effective_page_size :: "int \<Rightarrow> int" where
  "effective_page_size n = (let n1 = (if n < 1 then 20 else n) in if n1 > 100 then 100 else n1)"

definition audit_selected :: "db \<Rightarrow> audit_filter \<Rightarrow> audit_entry list" where
  "audit_selected s f =
     sort_key (\<lambda>e. - ae_occurred_at e) (filter (audit_matches f) (db_audit s))"

definition audit_list :: "db \<Rightarrow> audit_filter \<Rightarrow> (audit_entry list \<times> nat) result" where
  "audit_list s f =
     (case db_fault s of
        Some err \<Rightarrow> Inl (ErrWrap ''counting audit entries'' (DriverErr err))
      | None \<Rightarrow>
         (let size = effective_page_size (af_page_size f);
              offset = (effective_page (af_page f) - 1) * size
          in Inr (take (nat size) (drop (nat offset) (audit_selected s f)),
                  length (filter (audit_matches f) (db_audit s)))))"

section \<open>The buffered logger (logger.go)\<close>

definition default_buffer_size :: nat where "default_buffer_size = 1000"
definition flush_batch_size :: nat where "flush_batch_size = 100"

text \<open>
  The channel, the worker's batch, whether the worker runs and whether it has seen \<open>done\<close>, and
  whether \<open>done\<close> is closed. \<open>lg_accepted\<close> and \<open>lg_dropped\<close> (what \<open>Log\<close> sent or gave up) and
  \<open>lg_written\<close> (the calls of \<open>Create\<close> with their success) are a history the code does not keep.
\<close>

record logger_state =
  lg_chan :: "audit_entry list"
  lg_batch :: "audit_entry list"
  lg_running :: bool
  lg_draining :: bool
  lg_done :: bool
  lg_db :: db
  lg_accepted :: "audit_entry list"
  lg_dropped :: "audit_entry list"
  lg_written :: "(audit_entry \<times> bool) list"

definition new_logger :: "db \<Rightarrow> logger_state" where
  "new_logger d =
     \<lparr>lg_chan = [], lg_batch = [], lg_running = True, lg_draining = False, lg_done = False,
      lg_db = d, lg_accepted = [], lg_dropped = [], lg_written = []\<rparr>"

definition log_entry :: "audit_entry \<Rightarrow> logger_state \<Rightarrow> logger_state" where
  "log_entry e l =
     (if length (lg_chan l) < default_buffer_size
      then l\<lparr>lg_chan := lg_chan l @ [e], lg_accepted := lg_accepted l @ [e]\<rparr>
      else l\<lparr>lg_dropped := lg_dropped l @ [e]\<rparr>)"

text \<open>\<open>Create\<close> for one entry; a failure is logged and the entry is gone.\<close>

definition write_entry :: "audit_entry \<Rightarrow> logger_state \<Rightarrow> logger_state" where
  "write_entry e l =
     (case audit_create (lg_db l) e of
        (d, r) \<Rightarrow> l\<lparr>lg_db := d, lg_written := lg_written l @ [(e, \<not> isl r)]\<rparr>)"

fun write_entries :: "audit_entry list \<Rightarrow> logger_state \<Rightarrow> logger_state" where
  "write_entries [] l = l"
| "write_entries (e # es) l = write_entries es (write_entry e l)"

definition write_batch :: "logger_state \<Rightarrow> logger_state" where
  "write_batch l = (write_entries (lg_batch l) l)\<lparr>lg_batch := []\<rparr>"

text \<open>The three cases of the worker's select.\<close>

definition worker_receive :: "logger_state \<Rightarrow> logger_state" where
  "worker_receive l =
     (case lg_chan l of
        [] \<Rightarrow> l
      | e # es \<Rightarrow>
         (let l' = l\<lparr>lg_chan := es, lg_batch := lg_batch l @ [e]\<rparr>
          in if length (lg_batch l') \<ge> flush_batch_size then write_batch l' else l'))"

definition worker_tick :: "logger_state \<Rightarrow> logger_state" where
  "worker_tick l = (if length (lg_batch l) > 0 then write_batch l else l)"

text \<open>One round of the drain loop after \<open>done\<close>: take an entry, or write the batch and return.\<close>

definition worker_drain :: "logger_state \<Rightarrow> logger_state" where
  "worker_drain l =
     (case lg_chan l of
        e # es \<Rightarrow> l\<lparr>lg_chan := es, lg_batch := lg_batch l @ [e]\<rparr>
      | [] \<Rightarrow> (if length (lg_batch l) > 0 then write_batch l else l)\<lparr>lg_running := False\<rparr>)"

text \<open>One round of \<open>Flush\<close>, which \<open>Close\<close> calls once the worker has returned.\<close>

definition flush_round :: "logger_state \<Rightarrow> logger_state" where
  "flush_round l =
     (case lg_chan l of [] \<Rightarrow> l | e # es \<Rightarrow> write_entry e (l\<lparr>lg_chan := es\<rparr>))"

text \<open>
  The interleavings. The rest of the program may change any other table, and the store may fail
  and recover, at any moment.
\<close>

inductive logger_step :: "logger_state \<Rightarrow> logger_state \<Rightarrow> bool" where
  Log: "logger_step l (log_entry e l)"
| Receive: "lg_running l \<Longrightarrow> \<not> lg_draining l \<Longrightarrow> lg_chan l \<noteq> [] \<Longrightarrow> logger_step l (worker_receive l)"
| Tick: "lg_running l \<Longrightarrow> \<not> lg_draining l \<Longrightarrow> logger_step l (worker_tick l)"
| CloseDone: "logger_step l (l\<lparr>lg_done := True\<rparr>)"
| SeeDone: "lg_running l \<Longrightarrow> lg_done l \<Longrightarrow> logger_step l (l\<lparr>lg_draining := True\<rparr>)"
| Drain: "lg_running l \<Longrightarrow> lg_draining l \<Longrightarrow> logger_step l (worker_drain l)"
| Flush: "\<not> lg_running l \<Longrightarrow> lg_chan l \<noteq> [] \<Longrightarrow> logger_step l (flush_round l)"
| Elsewhere: "db_audit d = db_audit (lg_db l) \<Longrightarrow> logger_step l (l\<lparr>lg_db := d\<rparr>)"

inductive logger_reachable :: "db \<Rightarrow> logger_state \<Rightarrow> bool" for d0 where
  Init: "logger_reachable d0 (new_logger d0)"
| Step: "logger_reachable d0 l \<Longrightarrow> logger_step l l' \<Longrightarrow> logger_reachable d0 l'"

inductive_cases logger_stepE: "logger_step l l'"

section \<open>The audit command (handler/audit.go)\<close>

datatype audit_mark = MarkSuccess | MarkDenied | MarkError | MarkInfo

definition action_emoji :: "string \<Rightarrow> audit_mark" where
  "action_emoji st =
     (if st = ''success'' then MarkSuccess else if st = ''denied'' then MarkDenied
      else if st = ''error'' then MarkError else MarkInfo)"

text \<open>The check mark of a success is written ''ok''.\<close>

definition status_label :: "string \<Rightarrow> string" where
  "status_label st =
     (if st = ''success'' then ''ok'' else if st = ''denied'' then ''DENIED''
      else if st = ''error'' then ''ERROR'' else '''')"

record audit_line =
  al_mark :: audit_mark
  al_time :: instant
  al_username :: string
  al_action :: string
  al_cluster :: "string option"
  al_label :: string

definition audit_line_of :: "audit_entry \<Rightarrow> audit_line" where
  "audit_line_of e =
     \<lparr>al_mark = action_emoji (ae_status e), al_time = ae_occurred_at e,
      al_username = (if ae_username e = '''' then ''id:'' @ show_int (ae_user_id e) else ae_username e),
      al_action = (if length (ae_action e) > 40 then take 40 (ae_action e) @ ''...'' else ae_action e),
      al_cluster = (if ae_cluster e \<noteq> '''' then Some (ae_cluster e) else None),
      al_label = (if ae_status e \<noteq> '''' then status_label (ae_status e) else '''')\<rparr>"

datatype audit_reply =
    AuditUnknownUser
  | AuditNoPermission
  | AuditLoadFailed
  | AuditNothing
  | AuditRecent "audit_line list" nat nat

definition audit_log_command :: "engine \<Rightarrow> instant \<Rightarrow> user option \<Rightarrow> db \<Rightarrow> audit_reply" where
  "audit_log_command eng now usr s =
     (case usr of
        None \<Rightarrow> AuditUnknownUser
      | Some u \<Rightarrow>
         (case has_permission sqlite_rbac eng s (u_telegram_id u) perm_admin_audit_view of
            Inl e \<Rightarrow> AuditNoPermission
          | Inr False \<Rightarrow> AuditNoPermission
          | Inr True \<Rightarrow>
             (case audit_list s \<lparr>af_user_id = None, af_action = None, af_cluster = None,
                     af_namespace = None, af_status = None, af_from = Some (now - 24 * hour),
                     af_to = None, af_page = 1, af_page_size = 20\<rparr> of
                Inl e \<Rightarrow> AuditLoadFailed
              | Inr ([], n) \<Rightarrow> AuditNothing
              | Inr (es, n) \<Rightarrow> AuditRecent (map audit_line_of es) (length es) n)))"

section \<open>Properties\<close>

lemma write_entry_frame [simp]:
  "lg_chan (write_entry e l) = lg_chan l" "lg_batch (write_entry e l) = lg_batch l"
  "lg_running (write_entry e l) = lg_running l" "lg_draining (write_entry e l) = lg_draining l"
  "lg_done (write_entry e l) = lg_done l" "lg_accepted (write_entry e l) = lg_accepted l"
  "lg_dropped (write_entry e l) = lg_dropped l"
  "map fst (lg_written (write_entry e l)) = map fst (lg_written l) @ [e]"
  by (simp_all add: write_entry_def split: prod.split)

lemma write_entries_frame [simp]:
  "lg_chan (write_entries es l) = lg_chan l"
  "lg_running (write_entries es l) = lg_running l" "lg_draining (write_entries es l) = lg_draining l"
  "lg_done (write_entries es l) = lg_done l" "lg_accepted (write_entries es l) = lg_accepted l"
  "lg_dropped (write_entries es l) = lg_dropped l"
  "map fst (lg_written (write_entries es l)) = map fst (lg_written l) @ es"
  by (induction es arbitrary: l) simp_all

text \<open>The table holds exactly the entries whose \<open>Create\<close> succeeded, after those it held before.\<close>

definition stored_ok :: "db \<Rightarrow> logger_state \<Rightarrow> bool" where
  "stored_ok d0 l \<longleftrightarrow> db_audit (lg_db l) = db_audit d0 @ map fst (filter snd (lg_written l))"

lemma stored_write_entry: "stored_ok d0 l \<Longrightarrow> stored_ok d0 (write_entry e l)"
  by (auto simp: stored_ok_def write_entry_def audit_create_def split: option.splits prod.splits if_splits)

lemma stored_write_entries: "stored_ok d0 l \<Longrightarrow> stored_ok d0 (write_entries es l)"
  by (induction es arbitrary: l) (auto intro: stored_write_entry)

definition logger_inv :: "db \<Rightarrow> logger_state \<Rightarrow> bool" where
  "logger_inv d0 l \<longleftrightarrow>
     map fst (lg_written l) @ lg_batch l @ lg_chan l = lg_accepted l \<and>
     length (lg_chan l) \<le> default_buffer_size \<and>
     (lg_draining l \<or> length (lg_batch l) < flush_batch_size) \<and>
     (lg_running l \<or> lg_batch l = []) \<and> (lg_draining l \<longrightarrow> lg_done l) \<and>
     (lg_running l \<or> lg_draining l) \<and> stored_ok d0 l"

lemma stored_ok_frame [simp]:
  "stored_ok d0 (l\<lparr>lg_chan := c\<rparr>) = stored_ok d0 l"
  "stored_ok d0 (l\<lparr>lg_batch := b\<rparr>) = stored_ok d0 l"
  "stored_ok d0 (l\<lparr>lg_running := r\<rparr>) = stored_ok d0 l"
  "stored_ok d0 (l\<lparr>lg_draining := r\<rparr>) = stored_ok d0 l"
  "stored_ok d0 (l\<lparr>lg_done := r\<rparr>) = stored_ok d0 l"
  "stored_ok d0 (l\<lparr>lg_chan := c, lg_batch := b\<rparr>) = stored_ok d0 l"
  "stored_ok d0 (l\<lparr>lg_chan := c, lg_accepted := a\<rparr>) = stored_ok d0 l"
  "stored_ok d0 (l\<lparr>lg_dropped := a\<rparr>) = stored_ok d0 l"
  by (simp_all add: stored_ok_def)

text \<open>Writing the batch empties it and appends it to what was written.\<close>

lemma write_batch_facts [simp]:
  "lg_chan (write_batch l) = lg_chan l" "lg_batch (write_batch l) = []"
  "lg_running (write_batch l) = lg_running l" "lg_draining (write_batch l) = lg_draining l"
  "lg_done (write_batch l) = lg_done l" "lg_accepted (write_batch l) = lg_accepted l"
  "map fst (lg_written (write_batch l)) = map fst (lg_written l) @ lg_batch l"
  "stored_ok d0 l \<Longrightarrow> stored_ok d0 (write_batch l)"
  by (simp_all add: write_batch_def stored_write_entries)

lemma inv_log [inv_intros]: "logger_inv d0 l \<Longrightarrow> logger_inv d0 (log_entry e l)"
  by (simp add: logger_inv_def log_entry_def)

lemma inv_receive [inv_intros]:
  assumes "logger_inv d0 l" "lg_running l" "\<not> lg_draining l" shows "logger_inv d0 (worker_receive l)"
proof (cases "lg_chan l")
  case Nil
  with assms show ?thesis by (simp add: worker_receive_def)
next
  case (Cons e es)
  let ?l = "l\<lparr>lg_chan := es, lg_batch := lg_batch l @ [e]\<rparr>"
  have l: "map fst (lg_written ?l) @ lg_batch ?l @ lg_chan ?l = lg_accepted ?l" "stored_ok d0 ?l"
    "lg_running ?l" "length (lg_chan ?l) \<le> default_buffer_size"
    "lg_draining ?l \<longrightarrow> lg_done ?l"
    using assms Cons by (simp_all add: logger_inv_def)
  then show ?thesis
    using Cons by (simp add: worker_receive_def Let_def logger_inv_def flush_batch_size_def)
qed

lemma inv_tick [inv_intros]:
  "logger_inv d0 l \<Longrightarrow> logger_inv d0 (worker_tick l)"
  by (auto simp: worker_tick_def logger_inv_def flush_batch_size_def)

lemma inv_drain [inv_intros]:
  assumes "logger_inv d0 l" "lg_draining l" "lg_running l" shows "logger_inv d0 (worker_drain l)"
  using assms by (cases "lg_chan l") (auto simp: worker_drain_def logger_inv_def)

lemma inv_flush [inv_intros]:
  assumes "logger_inv d0 l" "\<not> lg_running l" shows "logger_inv d0 (flush_round l)"
  using assms by (cases "lg_chan l") (auto simp: flush_round_def logger_inv_def stored_write_entry)

lemma inv_signals [inv_intros]:
  "logger_inv d0 l \<Longrightarrow> logger_inv d0 (l\<lparr>lg_done := True\<rparr>)"
  "logger_inv d0 l \<Longrightarrow> lg_done l \<Longrightarrow> logger_inv d0 (l\<lparr>lg_draining := True\<rparr>)"
  by (simp_all add: logger_inv_def)

lemma logger_inv_step:
  assumes "logger_inv d0 l" "logger_step l l'" shows "logger_inv d0 l'"
  using assms(2,1)
proof cases
  case (Elsewhere d)
  then show ?thesis using assms(1) by (simp add: logger_inv_def stored_ok_def)
qed (auto intro: inv_intros)

lemma logger_inv_reachable: "logger_reachable d0 l \<Longrightarrow> logger_inv d0 l"
proof (induction rule: logger_reachable.induct)
  case Init
  show ?case
    by (simp add: logger_inv_def new_logger_def stored_ok_def flush_batch_size_def)
qed (rule logger_inv_step)

text \<open>C13: In every reachable state of the audit logger the entries written, the worker's batch and the
  channel are, in this order, exactly the entries that \<open>Log\<close> accepted; the table holds the
  written ones whose insert succeeded, in order; the channel never exceeds its 1000 slots and the
  batch never reaches 100 before the drain. Once the worker has returned and the channel is
  empty, no accepted entry is unwritten.\<close>

theorem audit_trail_is_lossless_fifo:
  assumes "logger_reachable d0 l"
  shows "map fst (lg_written l) @ lg_batch l @ lg_chan l = lg_accepted l \<and>
     db_audit (lg_db l) = db_audit d0 @ map fst (filter snd (lg_written l)) \<and>
     length (lg_chan l) \<le> 1000 \<and> (lg_draining l \<or> length (lg_batch l) < 100) \<and>
     (if \<not> lg_running l \<and> lg_chan l = [] then map fst (lg_written l) = lg_accepted l else True)"
  using logger_inv_reachable [OF assms]
  by (auto simp: logger_inv_def stored_ok_def default_buffer_size_def flush_batch_size_def)

definition demo_entry :: audit_entry where
  "demo_entry = \<lparr>ae_id = ''e1'', ae_user_id = 1, ae_username = ''u'', ae_action = ''/pods'',
     ae_resource = '''', ae_cluster = '''', ae_namespace = '''', ae_chat_id = 1,
     ae_chat_type = ''private'', ae_status = audit_success, ae_details = [], ae_error = '''',
     ae_occurred_at = 5\<rparr>"

definition demo_logged :: logger_state where
  "demo_logged = worker_drain (worker_drain
     (((log_entry demo_entry (new_logger new_store))\<lparr>lg_done := True\<rparr>)\<lparr>lg_draining := True\<rparr>))"

lemma demo_logged_reachable: "logger_reachable new_store demo_logged"
proof -
  let ?l1 = "log_entry demo_entry (new_logger new_store)"
  let ?l2 = "?l1\<lparr>lg_done := True\<rparr>"
  let ?l3 = "?l2\<lparr>lg_draining := True\<rparr>"
  have l2: "logger_reachable new_store ?l2"
    by (rule logger_reachable.Step [OF logger_reachable.Step [OF logger_reachable.Init logger_step.Log]
        logger_step.CloseDone])
  have r: "lg_running ?l2" "lg_done ?l2"
    by (simp_all add: log_entry_def new_logger_def default_buffer_size_def)
  have l3: "logger_reachable new_store ?l3"
    by (rule logger_reachable.Step [OF l2 logger_step.SeeDone [OF r]])
  have l4: "logger_reachable new_store (worker_drain ?l3)"
    using r by (intro logger_reachable.Step [OF l3 logger_step.Drain]) simp_all
  have "logger_step (worker_drain ?l3) demo_logged"
    unfolding demo_logged_def
    by (rule logger_step.Drain) (simp_all add: log_entry_def new_logger_def default_buffer_size_def
        worker_drain_def)
  then show ?thesis by (rule logger_reachable.Step [OF l4])
qed

theorem audit_trail_is_lossless_fifo_witness: "map fst (lg_written demo_logged) = [demo_entry]"
proof -
  have "\<not> lg_running demo_logged \<and> lg_chan demo_logged = []" "lg_accepted demo_logged = [demo_entry]"
    by (simp_all add: demo_logged_def log_entry_def new_logger_def default_buffer_size_def
        worker_drain_def)
  with audit_trail_is_lossless_fifo [OF demo_logged_reachable] show ?thesis by (simp split: if_splits)
qed

section \<open>Pagination\<close>

definition page_entries :: "db \<Rightarrow> audit_filter \<Rightarrow> audit_entry list" where
  "page_entries s f = (case audit_list s f of Inl e \<Rightarrow> [] | Inr (es, n) \<Rightarrow> es)"

lemma selected_page_free [simp]:
  "audit_selected s (f\<lparr>af_page := p, af_page_size := n\<rparr>) = audit_selected s f"
proof -
  have "audit_matches (f\<lparr>af_page := p, af_page_size := n\<rparr>) = audit_matches f"
    by (rule ext) (simp add: audit_matches_def)
  then show ?thesis by (simp add: audit_selected_def)
qed

lemma page_is_slice:
  assumes "db_fault s = None" "1 \<le> n" "n \<le> 100"
  shows "page_entries s (f\<lparr>af_page := int (Suc p), af_page_size := int n\<rparr>) =
     take n (drop (p * n) (audit_selected s f))"
proof -
  have size: "effective_page_size (int n) = int n"
    using assms(2,3) by (simp add: effective_page_size_def Let_def)
  have page: "effective_page (int (Suc p)) = int (Suc p)" by (simp add: effective_page_def)
  have off: "nat ((int (Suc p) - 1) * int n) = p * n"
    by (simp add: nat_mult_distrib)
  show ?thesis
    using assms(1) by (simp add: page_entries_def audit_list_def Let_def size page off del: of_nat_Suc)
qed

text \<open>For a page size from 1 to 100, the first k pages of the audit log are together exactly the
  first k times that many entries that match the filter, newest first: no entry is shown on two
  pages or skipped between them, and the total is the number of matching entries.\<close>

theorem audit_pages_partition_the_log:
  assumes "db_fault s = None" "1 \<le> n" "n \<le> 100"
  shows "concat (map (\<lambda>p. page_entries s (f\<lparr>af_page := int (Suc p), af_page_size := int n\<rparr>)) [0..<k]) =
       take (k * n) (audit_selected s f) \<and>
     mset (audit_selected s f) = mset (filter (audit_matches f) (db_audit s)) \<and>
     sorted (map (\<lambda>e. - ae_occurred_at e) (audit_selected s f)) \<and>
     (case audit_list s f of Inl e \<Rightarrow> False | Inr (es, m) \<Rightarrow> m = length (audit_selected s f))"
  by (simp add: page_is_slice [OF assms] slices_concat del: of_nat_Suc)
    (simp add: audit_selected_def audit_list_def assms(1) Let_def)

definition demo_filter :: audit_filter where
  "demo_filter = \<lparr>af_user_id = None, af_action = None, af_cluster = None, af_namespace = None,
     af_status = None, af_from = Some 3, af_to = None, af_page = 1, af_page_size = 20\<rparr>"

theorem audit_pages_partition_the_log_witness:
  "mset (audit_selected (new_store\<lparr>db_audit := [demo_entry]\<rparr>) demo_filter) = {#demo_entry#}"
  using audit_pages_partition_the_log [of "new_store\<lparr>db_audit := [demo_entry]\<rparr>" 1 demo_filter 1]
  by (simp add: new_store_def audit_matches_def opt_is_def demo_filter_def demo_entry_def)

end
