(* ===== verification/TelegramText.thy ===== *)
theory TelegramText
  imports Bot
begin

text \<open>
  Message texts and paging (\<open>pkg/telegram\<close>): markup helpers, truncation, redaction, MarkdownV2
  escaping, the splitting of long messages at line ends with code fences closed and reopened,
  and the paginator. Strings are byte lists; \<open>TrimSpace\<close> and \<open>ToLower\<close> are modelled on ASCII.
\<close>

section \<open>Formatting (format.go)\<close>

abbreviation newline :: char where "newline \<equiv> CHR 0x0A"
abbreviation backslash :: char where "backslash \<equiv> CHR 0x5C"
abbreviation backtick :: char where "backtick \<equiv> CHR 0x60"

definition fence :: string where "fence = [backtick, backtick, backtick]"

definition code_block :: "string \<Rightarrow> string" where
  "code_block t = fence @ [newline] @ t @ [newline] @ fence"

definition inline_code :: "string \<Rightarrow> string" where
  "inline_code t = [backtick] @ t @ [backtick]"

definition bold :: "string \<Rightarrow> string" where "bold t = ''*'' @ t @ ''*''"
definition italic :: "string \<Rightarrow> string" where "italic t = ''_'' @ t @ ''_''"

definition to_lower :: "string \<Rightarrow> string" where
  "to_lower s = map (\<lambda>c. let k = of_char c in if 65 \<le> k \<and> k \<le> (90::nat) then char_of (k + 32) else c) s"

datatype phase_mark = PhaseGreen | PhaseWhite | PhaseYellow | PhaseRed

definition pod_status_emoji :: "string \<Rightarrow> phase_mark" where
  "pod_status_emoji phase =
     (let p = to_lower phase in
      if p = ''running'' then PhaseGreen
      else if p \<in> {''succeeded'', ''completed''} then PhaseWhite
      else if p \<in> {''pending'', ''init'', ''containercreating'', ''terminating''} then PhaseYellow
      else if p \<in> {''failed'', ''error'', ''crashloopbackoff'', ''oomkilled'', ''imagepullbackoff'',
                   ''errimagepull''} then PhaseRed
      else PhaseWhite)"

datatype event_mark = EventNormal | EventWarning | EventOther

definition event_emoji :: "string \<Rightarrow> event_mark" where
  "event_emoji t =
     (if t = ''Normal'' then EventNormal else if t = ''Warning'' then EventWarning else EventOther)"

definition truncate :: "string \<Rightarrow> nat \<Rightarrow> string" where
  "truncate t m =
     (if length t \<le> m then t else if m \<le> 3 then take m t else take (m - 3) t @ ''...'')"

text \<open>
  \<open>strings.ReplaceAll\<close>: leftmost, without overlap; an empty pattern matches before every rune and
  at the end.
\<close>

function replace_all :: "string \<Rightarrow> string \<Rightarrow> string \<Rightarrow> string" where
  "replace_all pat new s =
     (if pat = [] then concat (map (\<lambda>c. if rune_start c then new @ [c] else [c]) s) @ new
      else if s = [] then []
      else if prefix pat s then new @ replace_all pat new (drop (length pat) s)
      else hd s # replace_all pat new (tl s))"
  by pat_completeness auto
termination
  by (relation "measure (\<lambda>(p, n, s). length s)") auto

declare replace_all.simps [simp del]

fun sanitize_logs :: "string \<Rightarrow> string list \<Rightarrow> string" where
  "sanitize_logs t [] = t"
| "sanitize_logs t (p # ps) = sanitize_logs (replace_all p ''[REDACTED]'' t) ps"

definition markdown_specials :: "char set" where
  "markdown_specials = {CHR ''_'', CHR ''*'', CHR ''['', CHR '']'', CHR ''('', CHR '')'', CHR ''~'',
     backtick, CHR ''>'', CHR ''#'', CHR ''+'', CHR ''-'', CHR ''='', CHR ''|'', CHR ''{'',
     CHR ''}'', CHR ''.'', CHR ''!''}"

fun escape_markdown_v2 :: "string \<Rightarrow> string" where
  "escape_markdown_v2 [] = []"
| "escape_markdown_v2 (c # cs) =
     (if c \<in> markdown_specials then backslash # c # escape_markdown_v2 cs
      else c # escape_markdown_v2 cs)"

section \<open>Splitting long messages (format.go)\<close>

definition is_space :: "char \<Rightarrow> bool" where
  "is_space c \<longleftrightarrow> c \<in> {CHR '' '', CHR 0x09, CHR 0x0A, CHR 0x0B, CHR 0x0C, CHR 0x0D}"

definition is_code_fence :: "string \<Rightarrow> bool" where
  "is_code_fence line = prefix fence (dropWhile is_space line)"

text \<open>
  One round of the loop: the part a line may push out, and the part under construction. The
  state is the current part and whether it is inside a code block.
\<close>

definition split_round :: "nat \<Rightarrow> string \<Rightarrow> bool \<Rightarrow> string \<Rightarrow> string option \<times> string \<times> bool" where
  "split_round m cur in_code line =
     (let needed = length line + 1;
          overhead = (if in_code then 4 else 0);
          full = (length cur + needed + overhead > m \<and> length cur > 0);
          out = (if full then Some (if in_code then cur @ newline # fence else cur) else None);
          start = (if full then (if in_code then fence @ [newline] else []) else cur);
          cur' = (if length start > 0 then start @ [newline] else start) @ line
      in (out, cur', if is_code_fence line then \<not> in_code else in_code))"

fun split_loop :: "nat \<Rightarrow> string \<Rightarrow> bool \<Rightarrow> string list \<Rightarrow> string list" where
  "split_loop m cur in_code [] = (if length cur > 0 then [cur] else [])"
| "split_loop m cur in_code (line # lines) =
     (case split_round m cur in_code line of
        (None, cur', in') \<Rightarrow> split_loop m cur' in' lines
      | (Some p, cur', in') \<Rightarrow> p # split_loop m cur' in' lines)"

definition split_message :: "string \<Rightarrow> int \<Rightarrow> string list" where
  "split_message text max_len =
     (let m = (if max_len \<le> 0 then 4096 else nat max_len)
      in if length text \<le> m then [text] else split_loop m [] False (split_all newline text))"

section \<open>Paginator (paginator.go)\<close>

record paginator =
  pg_items :: "string list"
  pg_page_size :: int
  pg_current :: int

definition new_paginator :: "string list \<Rightarrow> int \<Rightarrow> paginator" where
  "new_paginator xs n =
     \<lparr>pg_items = xs, pg_page_size = (if n \<le> 0 then 8 else n), pg_current = 1\<rparr>"

definition total_pages :: "paginator \<Rightarrow> int" where
  "total_pages p =
     (if pg_items p = [] then 1
      else (let n = int (length (pg_items p));
                t = n div pg_page_size p
            in if n mod pg_page_size p > 0 then t + 1 else t))"

text \<open>A start before the first item makes the slice expression panic: \<open>None\<close>.\<close>

definition page_of :: "paginator \<Rightarrow> (string list \<times> bool) option" where
  "page_of p =
     (let n = int (length (pg_items p));
          start = (pg_current p - 1) * pg_page_size p
      in if start \<ge> n then Some ([], False)
         else if start < 0 then None
         else (let end' = (if start + pg_page_size p > n then n else start + pg_page_size p)
               in Some (take (nat (end' - start)) (drop (nat start) (pg_items p)), end' < n)))"

definition pager_keyboard :: "paginator \<Rightarrow> string \<Rightarrow> keyboard" where
  "pager_keyboard p pre =
     [(if pg_current p > 1 then [(pre @ ''_page'', show_int (pg_current p - 1))] else []) @
      [(pre @ ''_info'', '''')] @
      (if pg_current p < total_pages p then [(pre @ ''_page'', show_int (pg_current p + 1))] else [])]"

section \<open>Properties\<close>

lemma split_round_facts:
  assumes "split_round m cur in_code line = (out, cur', in')"
    and "length cur \<le> m" "length line + 9 \<le> m"
  shows "length cur' \<le> m" and "\<And>p. out = Some p \<Longrightarrow> length p \<le> m + (if in_code then 4 else 0)"
  using assms by (auto simp: split_round_def Let_def fence_def split: if_splits)

lemma split_loop_bound:
  "length cur \<le> m \<Longrightarrow> \<forall>l \<in> set lines. length l + 9 \<le> m \<Longrightarrow>
   list_all (\<lambda>p. length p \<le> m + 4) (split_loop m cur in_code lines)"
proof (induction lines arbitrary: cur in_code)
  case Nil
  then show ?case by simp
next
  case (Cons line lines)
  obtain out cur' in' where r: "split_round m cur in_code line = (out, cur', in')"
    by (cases "split_round m cur in_code line")
  have f: "length cur' \<le> m" "\<And>p. out = Some p \<Longrightarrow> length p \<le> m + 4"
    using split_round_facts [OF r] Cons.prems by (force split: if_splits)+
  have "list_all (\<lambda>p. length p \<le> m + 4) (split_loop m cur' in' lines)"
    using Cons.IH [OF f(1)] Cons.prems(2) by simp
  with r f(2) show ?case by (cases out) auto
qed

text \<open>Without fences and empty lines, nothing is lost and no part is too long.\<close>

lemma split_loop_plain:
  "length cur \<le> m \<Longrightarrow> \<forall>l \<in> set lines. length l + 9 \<le> m \<and> l \<noteq> [] \<and> \<not> is_code_fence l \<Longrightarrow>
   list_all (\<lambda>p. length p \<le> m) (split_loop m cur False lines) \<and>
   join_with [newline] (split_loop m cur False lines) =
     join_with [newline] (if cur = [] then lines else cur # lines)"
proof (induction lines arbitrary: cur)
  case Nil
  then show ?case by simp
next
  case (Cons line lines)
  obtain out cur' in' where r: "split_round m cur False line = (out, cur', in')"
    by (cases "split_round m cur False line")
  have in': "in' = False" and cur': "cur' = (if cur \<noteq> [] \<and> out = None then cur @ newline # line else line)"
    and out: "out \<noteq> None \<Longrightarrow> out = Some cur \<and> cur \<noteq> []"
    using r Cons.prems by (auto simp: split_round_def Let_def split: if_splits)
  have ne: "cur' \<noteq> []" using cur' Cons.prems(2) by auto
  have IH: "list_all (\<lambda>p. length p \<le> m) (split_loop m cur' False lines)"
    "join_with [newline] (split_loop m cur' False lines) = join_with [newline] (cur' # lines)"
    using Cons.IH [OF split_round_facts(1) [OF r]] Cons.prems ne by auto
  have join: "join_with [newline] ((a @ newline # b) # xs) = join_with [newline] (a # b # xs)" for a b xs
    by (cases xs) simp_all
  show ?case
  proof (cases out)
    case None
    with r in' IH cur' ne join [of cur line lines] show ?thesis by auto
  next
    case (Some p)
    obtain y ys where "split_loop m cur' False lines = y # ys"
      using ne IH(2) by (cases "split_loop m cur' False lines") (cases lines; auto)+
    with Some r in' IH cur' out Cons.prems(1) show ?thesis by auto
  qed
qed

text \<open>C15: When every line fits with nine bytes to spare, each part a long message is split into exceeds
  the limit by at most the four bytes that close a code block; and a text without code fences
  and empty lines is split within the limit, its parts joined by newlines giving it back.\<close>

theorem split_message_fits:
  assumes "0 < n" "\<forall>l \<in> set (split_all newline text). length l + 9 \<le> nat n"
  shows "list_all (\<lambda>p. length p \<le> nat n + 4) (split_message text n) \<and>
    (if list_all (\<lambda>l. l \<noteq> [] \<and> \<not> is_code_fence l) (split_all newline text)
     then list_all (\<lambda>p. length p \<le> nat n) (split_message text n) \<and>
          join_with [newline] (split_message text n) = text
     else True)"
proof -
  have lines: "list_all (\<lambda>p. length p \<le> nat n + 4) (split_loop (nat n) [] False (split_all newline text))"
    using assms(2) by (intro split_loop_bound) auto
  have plain: "list_all (\<lambda>p. length p \<le> nat n) (split_loop (nat n) [] False (split_all newline text)) \<and>
      join_with [newline] (split_loop (nat n) [] False (split_all newline text)) = text"
    if "list_all (\<lambda>l. l \<noteq> [] \<and> \<not> is_code_fence l) (split_all newline text)"
    using that assms(2) split_loop_plain [of "[]" "nat n" "split_all newline text"]
    by (auto simp: list_all_iff join_split_all)
  show ?thesis using assms(1) lines plain by (auto simp: split_message_def Let_def)
qed

theorem split_message_fits_witness:
  "join_with [newline] (split_message (''abc'' @ newline # ''de'' @ newline # ''0123456'') 16) =
     ''abc'' @ newline # ''de'' @ newline # ''0123456''"
  using split_message_fits [of 16 "''abc'' @ newline # ''de'' @ newline # ''0123456''"]
  by (simp add: is_code_fence_def fence_def is_space_def)

text \<open>The four bytes are really exceeded: a fence opened at the end of a full part.\<close>

lemma split_message_overflows:
  "map length (split_message (replicate 10 (CHR ''a'') @ newline # replicate 5 (CHR ''a'') @ newline #
     fence @ newline # ''x'') 20) = [24, 6]"
  by code_simp

lemma total_pages_bounds:
  assumes "pg_page_size p = int sz" "0 < sz" "pg_items p \<noteq> []"
  obtains pages where "total_pages p = int pages" "0 < pages"
    "(pages - 1) * sz < length (pg_items p)" "length (pg_items p) \<le> pages * sz"
proof -
  let ?n = "length (pg_items p)"
  have n: "?n = ?n div sz * sz + ?n mod sz" "?n mod sz < sz"
    using assms(2) by simp_all
  have "int ?n div int sz = int (?n div sz)" "int ?n mod int sz = int (?n mod sz)"
    by (simp_all only: zdiv_int zmod_int)
  then have t: "total_pages p = (if ?n mod sz > 0 then int (?n div sz) + 1 else int (?n div sz))"
    using assms by (simp add: total_pages_def Let_def)
  show ?thesis
  proof (cases "?n mod sz > 0")
    case True
    have "total_pages p = int (Suc (?n div sz))"
      using True by (simp add: t)
    moreover have "?n div sz * sz < ?n" "?n \<le> Suc (?n div sz) * sz"
      using n True unfolding mult_Suc by linarith+
    ultimately show ?thesis using that [of "Suc (?n div sz)"] by simp
  next
    case False
    with n(1) have q: "?n = ?n div sz * sz" by linarith
    moreover have "0 < ?n" using assms(3) by simp
    ultimately have "0 < ?n div sz * sz" by linarith
    then have "0 < ?n div sz" by (simp only: nat_0_less_mult_iff)
    note q = q this
    have "total_pages p = int (?n div sz)"
      using False by (simp add: t)
    moreover have "(?n div sz - 1) * sz < ?n"
      using q assms(2) by (cases "?n div sz") auto
    ultimately show ?thesis using that [of "?n div sz"] q by simp
  qed
qed

lemma page_of_slice:
  assumes "pg_page_size p = int sz" "pg_current p = int (Suc k)" "k * sz < length (pg_items p)"
  shows "page_of p = Some (take sz (drop (k * sz) (pg_items p)),
           k * sz + sz < length (pg_items p))"
proof -
  define a where "a = k * sz"
  have start: "(pg_current p - 1) * int sz = int a" using assms(1,2) by (simp add: a_def)
  have less: "a < length (pg_items p)" using assms(3) by (simp add: a_def)
  have fin: "(if int a + int sz > int (length (pg_items p)) then int (length (pg_items p)) else int a + int sz)
      = int (min (a + sz) (length (pg_items p)))" by simp
  have len: "nat (int (min (a + sz) (length (pg_items p))) - int a) = min sz (length (pg_items p) - a)"
    using less by simp
  have "page_of p = Some (take (min sz (length (pg_items p) - a)) (drop a (pg_items p)),
      min (a + sz) (length (pg_items p)) < length (pg_items p))"
    using less unfolding page_of_def Let_def assms(1) start fin len by simp
  then show ?thesis by (simp add: a_def [symmetric] min_def)
qed

text \<open>The pages of a paginator, from the first to the last of its page count, are together the items
  in order, and each page but the last announces that there is more.\<close>

theorem paginator_partitions_the_items:
  "concat (map (\<lambda>k. case page_of ((new_paginator xs n)\<lparr>pg_current := int (Suc k)\<rparr>) of
       None \<Rightarrow> [] | Some (es, more_follow) \<Rightarrow> es) [0..<nat (total_pages (new_paginator xs n))]) = xs \<and>
   list_all (\<lambda>k. map_option snd (page_of ((new_paginator xs n)\<lparr>pg_current := int (Suc k)\<rparr>)) =
       Some (int (Suc k) < total_pages (new_paginator xs n)))
     [0..<nat (total_pages (new_paginator xs n))]"
proof (cases "xs = []")
  case True
  then show ?thesis by (simp add: new_paginator_def total_pages_def page_of_def)
next
  case False
  let ?p = "new_paginator xs n"
  have items: "pg_items ?p = xs" by (simp add: new_paginator_def)
  obtain sz where sz: "pg_page_size ?p = int sz" "0 < sz"
  proof -
    have "0 < (if n \<le> 0 then 8 else n)" by simp
    then show ?thesis using that [of "nat (if n \<le> 0 then 8 else n)"]
      by (simp add: new_paginator_def split: if_splits)
  qed
  obtain pages where pages: "total_pages ?p = int pages" "0 < pages"
    "(pages - 1) * sz < length xs" "length xs \<le> pages * sz"
    using total_pages_bounds [OF sz] False items by metis
  have page: "page_of (?p\<lparr>pg_current := int (Suc k)\<rparr>) =
      Some (take sz (drop (k * sz) xs), Suc k < pages)" if "k < pages" for k
  proof -
    have "k * sz \<le> (pages - 1) * sz" using that by (intro mult_le_mono1) simp
    then have "k * sz < length xs" using pages(3) by (rule le_less_trans)
    then have "page_of (?p\<lparr>pg_current := int (Suc k)\<rparr>) =
        Some (take sz (drop (k * sz) xs), k * sz + sz < length xs)"
      using page_of_slice [of "?p\<lparr>pg_current := int (Suc k)\<rparr>" sz k] sz items by simp
    moreover have "k * sz + sz < length xs \<longleftrightarrow> Suc k < pages"
    proof (cases "Suc k < pages")
      case True
      then have "Suc k * sz \<le> (pages - 1) * sz" by (intro mult_le_mono1) simp
      then show ?thesis using True pages(3) by simp
    next
      case False
      with that have "Suc k = pages" by simp
      with pages(4) show ?thesis by auto
    qed
    ultimately show ?thesis by simp
  qed
  have "map (\<lambda>k. case page_of (?p\<lparr>pg_current := int (Suc k)\<rparr>) of None \<Rightarrow> [] | Some (es, m) \<Rightarrow> es)
      [0..<pages] = map (\<lambda>k. take sz (drop (k * sz) xs)) [0..<pages]"
    by (rule map_cong [OF refl]) (simp add: page del: of_nat_Suc)
  then have "concat (map (\<lambda>k. case page_of (?p\<lparr>pg_current := int (Suc k)\<rparr>) of None \<Rightarrow> []
      | Some (es, m) \<Rightarrow> es) [0..<pages]) = xs"
    using pages(4) by (simp only: slices_concat take_all)
  moreover have "int (Suc k) < int pages \<longleftrightarrow> Suc k < pages" for k by (simp only: of_nat_less_iff)
  ultimately show ?thesis
    unfolding pages(1) nat_int by (simp add: page list_all_iff del: of_nat_Suc)
qed

end
