(* ===== verification/Cluster.thy ===== *)
theory Cluster
  imports Callback
begin

text \<open>
  Clusters: the client factory of \<open>pkg/kube/client.go\<close>, the manager of
  \<open>internal/cluster/manager.go\<close> with its lazily created clients and its health check, and the
  per-user selection of \<open>internal/cluster/context.go\<close>. What client-go builds is a parameter: a
  record of its constructors over handles of a type \<open>'c\<close>. Go's map of clusters is a map; where a
  loop ranges over it, the order it happens to take is an argument.
\<close>

section \<open>Client factory (pkg/kube/client.go)\<close>

record kube_client_config =
  kc_kubeconfig :: string
  kc_context :: string
  kc_in_cluster :: bool

record 'c kube_library =
  kl_in_cluster :: "'c result"
  kl_kubeconfig :: "string option \<Rightarrow> string option \<Rightarrow> 'c result"
  kl_tuned :: "int \<Rightarrow> int \<Rightarrow> int \<Rightarrow> 'c \<Rightarrow> 'c"
  kl_clientset :: "'c \<Rightarrow> 'c result"
  kl_metrics :: "'c \<Rightarrow> 'c result"
  kl_dynamic :: "'c \<Rightarrow> 'c result"

record 'c kube_clients =
  kl_set :: 'c
  kl_metrics_client :: 'c
  kl_dynamic_client :: 'c
  kl_rest :: 'c

definition non_empty :: "string \<Rightarrow> string option" where
  "non_empty s = (if s \<noteq> '''' then Some s else None)"

definition build_rest_config :: "'c kube_library \<Rightarrow> kube_client_config \<Rightarrow> 'c result" where
  "build_rest_config L cfg =
     (if kc_in_cluster cfg then wrap_err ''building in-cluster config'' (kl_in_cluster L)
      else wrap_err ''building kubeconfig''
             (kl_kubeconfig L (non_empty (kc_kubeconfig cfg)) (non_empty (kc_context cfg))))"

definition new_clients :: "'c kube_library \<Rightarrow> kube_client_config \<Rightarrow> 'c kube_clients result" where
  "new_clients L cfg =
     (case build_rest_config L cfg of
        Inl e \<Rightarrow> Inl e
      | Inr raw \<Rightarrow>
         (let rest = kl_tuned L (10 * second) 50 100 raw
          in case kl_clientset L rest of
               Inl e \<Rightarrow> Inl (ErrWrap ''creating kubernetes clientset'' e)
             | Inr cs \<Rightarrow>
          (case kl_metrics L rest of
               Inl e \<Rightarrow> Inl (ErrWrap ''creating metrics client'' e)
             | Inr mc \<Rightarrow>
          (case kl_dynamic L rest of
               Inl e \<Rightarrow> Inl (ErrWrap ''creating dynamic client'' e)
             | Inr dc \<Rightarrow> Inr \<lparr>kl_set = cs, kl_metrics_client = mc, kl_dynamic_client = dc,
                              kl_rest = rest\<rparr>))))"

section \<open>Manager (internal/cluster/manager.go)\<close>

record cluster_config =
  cg_name :: string
  cg_display_name :: string
  cg_kubeconfig :: string
  cg_context :: string
  cg_in_cluster :: bool
  cg_default :: bool

record 'c cluster_entry =
  cn_config :: cluster_config
  cn_info :: cluster_info
  cn_clients :: "'c kube_clients option"

record 'c cluster_manager =
  cm_clusters :: "string \<rightharpoonup> 'c cluster_entry"
  cm_default :: string
  cm_closed :: bool

definition entry_of_config :: "cluster_config \<Rightarrow> 'c cluster_entry" where
  "entry_of_config cfg =
     \<lparr>cn_config = cfg,
      cn_info = \<lparr>ci_name = cg_name cfg,
                 ci_display_name = (if cg_display_name cfg = '''' then cg_name cfg
                                    else cg_display_name cfg),
                 ci_in_cluster = cg_in_cluster cfg, ci_is_default = cg_default cfg,
                 ci_status = HealthUnknown\<rparr>,
      cn_clients = None\<rparr>"

fun add_clusters :: "cluster_config list \<Rightarrow> 'c cluster_manager \<Rightarrow> 'c cluster_manager" where
  "add_clusters [] m = m"
| "add_clusters (cfg # cfgs) m =
     add_clusters cfgs
       (m\<lparr>cm_clusters := (cm_clusters m)(cg_name cfg \<mapsto> entry_of_config cfg),
          cm_default := (if cg_default cfg then cg_name cfg else cm_default m)\<rparr>)"

definition mark_default :: "'c cluster_entry \<Rightarrow> 'c cluster_entry" where
  "mark_default e = e\<lparr>cn_info := (cn_info e)\<lparr>ci_is_default := True\<rparr>\<rparr>"

definition set_status :: "health_status \<Rightarrow> 'c cluster_entry \<Rightarrow> 'c cluster_entry" where
  "set_status st e = e\<lparr>cn_info := (cn_info e)\<lparr>ci_status := st\<rparr>\<rparr>"

definition new_cluster_manager :: "cluster_config list \<Rightarrow> 'c cluster_manager" where
  "new_cluster_manager cfgs =
     (let m = add_clusters cfgs \<lparr>cm_clusters = Map.empty, cm_default = '''', cm_closed = False\<rparr>
      in if cm_default m = '''' \<and> cfgs \<noteq> []
         then (let n = cg_name (hd cfgs)
               in m\<lparr>cm_default := n,
                    cm_clusters := (case cm_clusters m n of
                        None \<Rightarrow> cm_clusters m
                      | Some e \<Rightarrow> (cm_clusters m)(n \<mapsto> mark_default e))\<rparr>)
         else m)"

text \<open>\<open>order\<close> is the order in which the range over the map yields its keys.\<close>

definition list_clusters :: "string list \<Rightarrow> 'c cluster_manager \<Rightarrow> cluster_info list" where
  "list_clusters order m = List.map_filter (\<lambda>n. map_option cn_info (cm_clusters m n)) order"

definition get_cluster :: "'c cluster_manager \<Rightarrow> string \<Rightarrow> cluster_info result" where
  "get_cluster m n =
     (case cm_clusters m n of
        None \<Rightarrow> Inl (ErrText (''cluster '' @ n @ '' not found''))
      | Some e \<Rightarrow> Inr (cn_info e))"

definition get_default :: "'c cluster_manager \<Rightarrow> cluster_info result" where
  "get_default m =
     (if cm_default m = '''' then Inl (ErrText ''no default cluster configured'')
      else get_cluster m (cm_default m))"

definition get_or_create_clients ::
  "'c kube_library \<Rightarrow> 'c cluster_manager \<Rightarrow> string \<Rightarrow> 'c cluster_manager \<times> 'c kube_clients result"
where
  "get_or_create_clients L m n =
     (case cm_clusters m n of
        None \<Rightarrow> (m, Inl (ErrText (''cluster '' @ n @ '' not found'')))
      | Some e \<Rightarrow>
         (case cn_clients e of
            Some c \<Rightarrow> (m, Inr c)
          | None \<Rightarrow>
             (case new_clients L \<lparr>kc_kubeconfig = cg_kubeconfig (cn_config e),
                                  kc_context = cg_context (cn_config e),
                                  kc_in_cluster = cg_in_cluster (cn_config e)\<rparr> of
                Inl err \<Rightarrow>
                  (m\<lparr>cm_clusters := (cm_clusters m)(n \<mapsto> set_status Unhealthy e)\<rparr>,
                   Inl (ErrWrap (''creating K8s clients for cluster '' @ n) err))
              | Inr c \<Rightarrow>
                  (m\<lparr>cm_clusters := (cm_clusters m)(n \<mapsto>
                       set_status Healthy (e\<lparr>cn_clients := Some c\<rparr>))\<rparr>,
                   Inr c))))"

definition client_of ::
  "('c kube_clients \<Rightarrow> 'c) \<Rightarrow> 'c kube_library \<Rightarrow> 'c cluster_manager \<Rightarrow> string \<Rightarrow>
   'c cluster_manager \<times> 'c result" where
  "client_of field L m n =
     (case get_or_create_clients L m n of
        (m', Inl e) \<Rightarrow> (m', Inl e)
      | (m', Inr c) \<Rightarrow> (m', Inr (field c)))"

definition client_set :: "'c kube_library \<Rightarrow> 'c cluster_manager \<Rightarrow> string \<Rightarrow> 'c cluster_manager \<times> 'c result"
where "client_set = client_of kl_set"

definition metrics_client :: "'c kube_library \<Rightarrow> 'c cluster_manager \<Rightarrow> string \<Rightarrow> 'c cluster_manager \<times> 'c result"
where "metrics_client = client_of kl_metrics_client"

definition dynamic_client :: "'c kube_library \<Rightarrow> 'c cluster_manager \<Rightarrow> string \<Rightarrow> 'c cluster_manager \<times> 'c result"
where "dynamic_client = client_of kl_dynamic_client"

definition rest_config :: "'c kube_library \<Rightarrow> 'c cluster_manager \<Rightarrow> string \<Rightarrow> 'c cluster_manager \<times> 'c result"
where "rest_config = client_of kl_rest"

text \<open>
  \<open>reach\<close> says which clients answer \<open>ServerVersion\<close>. A cluster without clients is reported as
  unknown and its recorded status is left as it is.
\<close>

definition probe :: "('c \<Rightarrow> bool) \<Rightarrow> 'c cluster_entry \<Rightarrow> health_status" where
  "probe reach e =
     (case cn_clients e of
        None \<Rightarrow> HealthUnknown
      | Some c \<Rightarrow> if reach (kl_set c) then Healthy else Unhealthy)"

definition health_check ::
  "('c \<Rightarrow> bool) \<Rightarrow> 'c cluster_manager \<Rightarrow> 'c cluster_manager \<times> (string \<rightharpoonup> health_status)" where
  "health_check reach m =
     (m\<lparr>cm_clusters := (\<lambda>n. map_option
           (\<lambda>e. if cn_clients e = None then e else set_status (probe reach e) e) (cm_clusters m n))\<rparr>,
      \<lambda>n. map_option (probe reach) (cm_clusters m n))"

text \<open>One turn of the background checker: the warnings it logs.\<close>

definition health_tick ::
  "('c \<Rightarrow> bool) \<Rightarrow> string list \<Rightarrow> 'c cluster_manager \<Rightarrow> 'c cluster_manager \<times> string list" where
  "health_tick reach order m =
     (let (m', st) = health_check reach m in (m', filter (\<lambda>n. st n = Some Unhealthy) order))"

text \<open>\<open>Close\<close> closes a channel; closing it twice panics: \<open>None\<close>.\<close>

definition close_manager :: "'c cluster_manager \<Rightarrow> 'c cluster_manager option" where
  "close_manager m = (if cm_closed m then None else Some (m\<lparr>cm_closed := True\<rparr>))"

section \<open>Per-user selection (internal/cluster/context.go)\<close>

type_synonym user_context = "user_id \<rightharpoonup> string"

definition user_cluster :: "'c cluster_manager \<Rightarrow> user_context \<Rightarrow> user_id \<Rightarrow> string" where
  "user_cluster m uc u =
     (case uc u of
        Some n \<Rightarrow> n
      | None \<Rightarrow> (case get_default m of Inl _ \<Rightarrow> '''' | Inr i \<Rightarrow> ci_name i))"

definition set_cluster :: "user_context \<Rightarrow> user_id \<Rightarrow> string \<Rightarrow> user_context" where
  "set_cluster uc u n = uc(u \<mapsto> n)"

section \<open>Facts\<close>

definition registered :: "'c cluster_manager \<Rightarrow> string set" where
  "registered m = dom (cm_clusters m)"

text \<open>Every entry is filed under the name it shows, and the default cluster is one of them.\<close>

definition manager_ok :: "'c cluster_manager \<Rightarrow> bool" where
  "manager_ok m \<longleftrightarrow>
     (\<forall>n e. cm_clusters m n = Some e \<longrightarrow> ci_name (cn_info e) = n) \<and>
     (cm_default m = '''' \<or> cm_default m \<in> registered m)"

lemma set_status_frame [simp]:
  "ci_name (cn_info (set_status st e)) = ci_name (cn_info e)"
  "cn_clients (set_status st e) = cn_clients e"
  "cn_config (set_status st e) = cn_config e"
  "ci_is_default (cn_info (set_status st e)) = ci_is_default (cn_info e)"
  by (simp_all add: set_status_def)

lemma mark_default_frame [simp]: "ci_name (cn_info (mark_default e)) = ci_name (cn_info e)"
  by (simp add: mark_default_def)

lemma entry_of_config_name [simp]: "ci_name (cn_info (entry_of_config cfg)) = cg_name cfg"
  by (simp add: entry_of_config_def)

lemma manager_ok_add: "manager_ok m \<Longrightarrow> manager_ok (add_clusters cfgs m)"
proof (induction cfgs arbitrary: m)
  case (Cons cfg cfgs)
  have "manager_ok (m\<lparr>cm_clusters := (cm_clusters m)(cg_name cfg \<mapsto> entry_of_config cfg),
          cm_default := (if cg_default cfg then cg_name cfg else cm_default m)\<rparr>)"
    using Cons.prems by (auto simp: manager_ok_def registered_def)
  from Cons.IH [OF this] show ?case by simp
qed simp

lemma registered_add: "registered (add_clusters cfgs m) = registered m \<union> cg_name ` set cfgs"
  by (induction cfgs arbitrary: m) (auto simp: registered_def)

lemma registered_new: "registered (new_cluster_manager cfgs) = cg_name ` set cfgs"
  using registered_add [of cfgs "\<lparr>cm_clusters = Map.empty, cm_default = '''', cm_closed = False\<rparr>"]
  by (auto simp: new_cluster_manager_def Let_def registered_def split: option.splits)

lemma manager_ok_default:
  assumes "manager_ok m" "cm_clusters m n = Some e"
  shows "manager_ok (m\<lparr>cm_default := n, cm_clusters := (cm_clusters m)(n \<mapsto> mark_default e)\<rparr>)"
  using assms by (simp add: manager_ok_def registered_def)

lemma manager_ok_new [inv_intros]: "manager_ok (new_cluster_manager cfgs)"
proof -
  define m :: "'a cluster_manager" where
    "m = add_clusters cfgs \<lparr>cm_clusters = Map.empty, cm_default = '''', cm_closed = False\<rparr>"
  have ok: "manager_ok m" unfolding m_def by (rule manager_ok_add) (simp add: manager_ok_def)
  have reg: "registered m = cg_name ` set cfgs"
    unfolding m_def registered_add by (simp add: registered_def)
  show ?thesis
  proof (cases "cm_default m = '''' \<and> cfgs \<noteq> []")
    case True
    then have "cg_name (hd cfgs) \<in> registered m" by (simp add: reg)
    then obtain e where "cm_clusters m (cg_name (hd cfgs)) = Some e" by (auto simp: registered_def)
    with manager_ok_default [OF ok this] True show ?thesis
      by (simp add: new_cluster_manager_def Let_def flip: m_def)
  qed (use ok in \<open>auto simp add: new_cluster_manager_def Let_def simp flip: m_def\<close>)
qed

lemma get_or_create_keeps [inv_intros]:
  "manager_ok m \<Longrightarrow> manager_ok (fst (get_or_create_clients L m n))"
  by (auto simp: get_or_create_clients_def manager_ok_def registered_def
      split: option.splits sum.splits)

lemma get_or_create_registered [simp]:
  "registered (fst (get_or_create_clients L m n)) = registered m"
  by (auto simp: get_or_create_clients_def registered_def split: option.splits sum.splits)

lemma get_or_create_default [simp]: "cm_default (fst (get_or_create_clients L m n)) = cm_default m"
  by (auto simp: get_or_create_clients_def split: option.splits sum.splits)

lemma health_check_keeps [inv_intros]: "manager_ok m \<Longrightarrow> manager_ok (fst (health_check reach m))"
  by (auto simp: health_check_def manager_ok_def registered_def dom_def split: if_splits)

lemma health_check_registered [simp]: "registered (fst (health_check reach m)) = registered m"
  by (auto simp: health_check_def registered_def dom_def)

lemma health_check_default [simp]: "cm_default (fst (health_check reach m)) = cm_default m"
  by (simp add: health_check_def)

lemma get_cluster_iff: "\<not> is_err (get_cluster m n) \<longleftrightarrow> n \<in> registered m"
  by (auto simp: get_cluster_def registered_def split: option.splits)

end
