(* ===== verification/Registry.thy ===== *)
theory Registry
  imports Cluster ArgocdModel
begin

text \<open>
  The module registry (\<open>internal/module/registry.go\<close>), the wiring of the bot
  (\<open>internal/bot/bot.go\<close>) and the core commands of \<open>internal/bot/handler/start.go\<close>: /start,
  /help, /clusters and the cluster selection button. A module is a record of its methods over a
  run-time state \<open>'x\<close>; registering a module with Telegram (\<open>Register\<close>) is the list of the
  endpoints it claims.
\<close>

section \<open>Modules (module.go)\<close>

record command_info =
  co_command :: string
  co_description :: string
  co_permission :: string
  co_chat_type :: string

record 'x bot_module =
  md_name :: string
  md_description :: string
  md_endpoints :: "string list"
  md_start :: "'x \<Rightarrow> 'x \<times> unit result"
  md_stop :: "'x \<Rightarrow> 'x \<times> unit result"
  md_health :: "'x \<Rightarrow> health_status"
  md_commands :: "command_info list"

section \<open>Registry (registry.go)\<close>

record 'x registry =
  rg_modules :: "string \<rightharpoonup> 'x bot_module"
  rg_order :: "string list"

definition new_registry :: "'x registry" where
  "new_registry = \<lparr>rg_modules = Map.empty, rg_order = []\<rparr>"

definition register_module :: "'x registry \<Rightarrow> 'x bot_module \<Rightarrow> 'x registry \<times> unit result" where
  "register_module R m =
     (case rg_modules R (md_name m) of
        Some _ \<Rightarrow> (R, Inl (ErrText (''module '' @ md_name m @ '' already registered'')))
      | None \<Rightarrow>
         (R\<lparr>rg_modules := (rg_modules R)(md_name m \<mapsto> m), rg_order := rg_order R @ [md_name m]\<rparr>,
          Inr ()))"

text \<open>The loops look each name of the order up in the map.\<close>

definition ordered_modules :: "'x registry \<Rightarrow> 'x bot_module list" where
  "ordered_modules R = List.map_filter (rg_modules R) (rg_order R)"

definition register_all :: "'x registry \<Rightarrow> string list" where
  "register_all R = concat (map md_endpoints (ordered_modules R))"

text \<open>
  \<open>StartAll\<close> and \<open>StopAll\<close> log the outcome of each module and go on; the log is the list of names
  with whether the call succeeded. The result of \<open>StartAll\<close> is always nil.
\<close>

fun run_modules ::
  "('x bot_module \<Rightarrow> 'x \<Rightarrow> 'x \<times> unit result) \<Rightarrow> 'x bot_module list \<Rightarrow> 'x \<Rightarrow> 'x \<times> (string \<times> bool) list"
where
  "run_modules f [] x = (x, [])"
| "run_modules f (m # ms) x =
     (let (x1, r) = f m x; (x2, out) = run_modules f ms x1
      in (x2, (md_name m, \<not> is_err r) # out))"

definition start_all :: "'x registry \<Rightarrow> 'x \<Rightarrow> 'x \<times> (string \<times> bool) list \<times> unit result" where
  "start_all R x = (let (x', out) = run_modules md_start (ordered_modules R) x in (x', out, Inr ()))"

definition stop_all :: "'x registry \<Rightarrow> 'x \<Rightarrow> 'x \<times> (string \<times> bool) list" where
  "stop_all R x = run_modules md_stop (rev (ordered_modules R)) x"

definition registry_get :: "'x registry \<Rightarrow> string \<Rightarrow> 'x bot_module option" where
  "registry_get R n = rg_modules R n"

definition all_commands :: "'x registry \<Rightarrow> command_info list" where
  "all_commands R = concat (map md_commands (ordered_modules R))"

record module_commands =
  mc_name :: string
  mc_description :: string
  mc_commands :: "command_info list"

definition modules_with_commands :: "'x registry \<Rightarrow> module_commands list" where
  "modules_with_commands R =
     map (\<lambda>m. \<lparr>mc_name = md_name m, mc_description = md_description m, mc_commands = md_commands m\<rparr>)
       (filter (\<lambda>m. md_commands m \<noteq> []) (ordered_modules R))"

definition health_all :: "'x registry \<Rightarrow> 'x \<Rightarrow> (string \<rightharpoonup> health_status)" where
  "health_all R x = (\<lambda>n. map_option (\<lambda>m. md_health m x) (rg_modules R n))"

definition registry_names :: "'x registry \<Rightarrow> string list" where
  "registry_names R = rg_order R"

section \<open>Core commands (handler/start.go)\<close>

datatype core_msg =
    CoreNotice string
  | MsgWelcome string string string
  | MsgHelp "(string \<times> (string \<times> string) list) list"
  | MsgClusterList "(status_emoji \<times> string \<times> bool) list"
  | MsgSwitchToast string
  | MsgClusterPicked "(status_emoji option \<times> string) list" string

record core_env =
  ev_engine :: engine
  ev_db :: db
  ev_order :: "string list"

definition role_shown :: "core_env \<Rightarrow> user_id \<Rightarrow> string" where
  "role_shown env u = (case eng_get_role sqlite_rbac (ev_engine env) (ev_db env) u of
     Inl _ \<Rightarrow> '''' | Inr r \<Rightarrow> r)"

definition handle_start ::
  "core_env \<Rightarrow> 'c cluster_manager \<Rightarrow> user_context \<Rightarrow> user option \<Rightarrow> core_msg chat_effect list" where
  "handle_start env m uc usr =
     (case usr of
        None \<Rightarrow> [SendText (CoreNotice ''Could not identify you. Please try again.'') []]
      | Some u \<Rightarrow>
         [SendText (MsgWelcome (u_display_name u) (role_shown env (u_telegram_id u))
                      (user_cluster m uc (u_telegram_id u)))
            (cluster_selector (list_clusters (ev_order env) m))])"

definition section_headers :: "(string \<times> string) list" where
  "section_headers =
     [(''kubernetes'', ''Kubernetes''), (''helm'', ''Helm''), (''incident'', ''Incident''),
      (''notify'', ''Notifications''), (''rbac'', ''RBAC''), (''argocd'', ''ArgoCD''),
      (''approval'', ''Approval''), (''watcher'', ''Watcher''), (''briefing'', ''Briefing'')]"

definition to_upper_char :: "char \<Rightarrow> char" where
  "to_upper_char c =
     (let k = (of_char c :: nat) in if 97 \<le> k \<and> k \<le> 122 then char_of (k - 32) else c)"

definition section_header :: "string \<Rightarrow> string" where
  "section_header n =
     (case map_of section_headers n of
        Some h \<Rightarrow> h
      | None \<Rightarrow> (case n of [] \<Rightarrow> [] | c # cs \<Rightarrow> to_upper_char c # cs))"

definition command_visible :: "core_env \<Rightarrow> user_id \<Rightarrow> command_info \<Rightarrow> bool" where
  "command_visible env u c \<longleftrightarrow>
     (co_permission c \<noteq> '''' \<longrightarrow> permitted (ev_engine env) (ev_db env) u (co_permission c))"

fun help_sections ::
  "core_env \<Rightarrow> user_id \<Rightarrow> module_commands list \<Rightarrow> (string \<times> (string \<times> string) list) list" where
  "help_sections env u [] = []"
| "help_sections env u (mc # mcs) =
     (let visible = filter (command_visible env u) (mc_commands mc)
      in if visible = [] then help_sections env u mcs
         else (section_header (mc_name mc), map (\<lambda>c. (co_command c, co_description c)) visible)
              # help_sections env u mcs)"

definition handle_help ::
  "core_env \<Rightarrow> 'x registry \<Rightarrow> user option \<Rightarrow> core_msg chat_effect list" where
  "handle_help env R usr =
     (case usr of
        None \<Rightarrow> [SendText (CoreNotice ''Could not identify you.'') []]
      | Some u \<Rightarrow>
         [SendText (MsgHelp (help_sections env (u_telegram_id u) (modules_with_commands R))) []])"

definition handle_clusters ::
  "core_env \<Rightarrow> 'c cluster_manager \<Rightarrow> user_context \<Rightarrow> user option \<Rightarrow> core_msg chat_effect list" where
  "handle_clusters env m uc usr =
     (case usr of
        None \<Rightarrow> [SendText (CoreNotice ''Could not identify you.'') []]
      | Some u \<Rightarrow>
         (let cs = list_clusters (ev_order env) m; cur = user_cluster m uc (u_telegram_id u)
          in [SendText (MsgClusterList
                (map (\<lambda>c. (health_emoji (ci_status c), ci_display_name c, ci_name c = cur)) cs))
                (cluster_selector cs)]))"

definition cluster_select ::
  "core_env \<Rightarrow> 'c cluster_manager \<Rightarrow> user option \<Rightarrow> string \<Rightarrow> user_context \<Rightarrow>
   user_context \<times> core_msg chat_effect list" where
  "cluster_select env m usr data uc =
     (case usr of
        None \<Rightarrow> (uc, [Respond (Some (CoreNotice ''Error''))])
      | Some u \<Rightarrow>
         if data = '''' then (uc, [Respond (Some (CoreNotice ''No cluster selected''))])
         else (case get_cluster m data of
            Inl _ \<Rightarrow> (uc, [Respond (Some (CoreNotice ''Cluster not found''))])
          | Inr info \<Rightarrow>
             (let cs = list_clusters (ev_order env) m
              in (set_cluster uc (u_telegram_id u) data,
                  [Respond (Some (MsgSwitchToast (ci_display_name info))),
                   EditText (MsgClusterPicked
                      (map (\<lambda>c. (if ci_name c = data then None else Some (health_emoji (ci_status c)),
                                 ci_display_name c)) cs) (ci_display_name info))
                     (cluster_selector cs)]))))"

section \<open>Wiring (bot/bot.go)\<close>

datatype poller = LongPoll duration | Webhook string

definition poller_of :: "string \<Rightarrow> string \<Rightarrow> poller" where
  "poller_of api_url webhook_url =
     (if webhook_url \<noteq> '''' then Webhook webhook_url
      else LongPoll (if api_url \<noteq> '''' then 0 else 10 * second))"

definition base_endpoints :: "string list" where
  "base_endpoints = [''/start'', ''/help'', ''/clusters'', ''/audit'', ''cluster_select'']"

definition register_handlers :: "'x registry \<Rightarrow> string list" where
  "register_handlers R = base_endpoints @ register_all R"

section \<open>Facts\<close>

definition registry_ok :: "'x registry \<Rightarrow> bool" where
  "registry_ok R \<longleftrightarrow>
     distinct (rg_order R) \<and> set (rg_order R) = dom (rg_modules R) \<and>
     (\<forall>n m. rg_modules R n = Some m \<longrightarrow> md_name m = n)"

lemma registry_ok_new [inv_intros]: "registry_ok new_registry"
  by (simp add: registry_ok_def new_registry_def)

lemma registry_ok_register [inv_intros]: "registry_ok R \<Longrightarrow> registry_ok (fst (register_module R m))"
  by (auto simp: registry_ok_def register_module_def split: option.splits)

lemma ordered_modules_names: "registry_ok R \<Longrightarrow> map md_name (ordered_modules R) = rg_order R"
proof -
  assume ok: "registry_ok R"
  have "map md_name (List.map_filter (rg_modules R) ns) = ns" if "set ns \<subseteq> dom (rg_modules R)" for ns
    using that
  proof (induction ns)
    case (Cons n ns)
    then obtain m where "rg_modules R n = Some m" by auto
    with Cons ok show ?case by (simp add: List.map_filter_simps registry_ok_def)
  qed (simp add: List.map_filter_simps)
  with ok show ?thesis by (simp add: ordered_modules_def registry_ok_def)
qed

lemma run_modules_names: "map fst (snd (run_modules f ms x)) = map md_name ms"
  by (induction ms arbitrary: x) (simp_all add: Let_def case_prod_beta)

fun register_list :: "'x bot_module list \<Rightarrow> 'x registry \<Rightarrow> 'x registry" where
  "register_list [] R = R"
| "register_list (m # ms) R = register_list ms (fst (register_module R m))"

lemma register_list_ok: "registry_ok R \<Longrightarrow> registry_ok (register_list ms R)"
  by (induction ms arbitrary: R) (simp_all add: registry_ok_register)

text \<open>Every registered module is started once, in registration order, and stopped once in the
  reverse order, whatever modules were registered and whichever of them fail.\<close>

lemma lifecycle_order:
  "map fst (fst (snd (start_all (register_list ms new_registry) x))) =
     registry_names (register_list ms new_registry)"
  "map fst (snd (stop_all (register_list ms new_registry) y)) =
     rev (registry_names (register_list ms new_registry))"
  "distinct (registry_names (register_list ms new_registry))"
proof -
  have ok: "registry_ok (register_list ms new_registry)"
    by (rule register_list_ok) (rule registry_ok_new)
  show "map fst (fst (snd (start_all (register_list ms new_registry) x))) =
      registry_names (register_list ms new_registry)"
    by (simp add: start_all_def case_prod_beta run_modules_names ordered_modules_names [OF ok]
        registry_names_def)
  show "map fst (snd (stop_all (register_list ms new_registry) y)) =
      rev (registry_names (register_list ms new_registry))"
    by (simp add: stop_all_def run_modules_names rev_map [symmetric] ordered_modules_names [OF ok]
        registry_names_def)
  show "distinct (registry_names (register_list ms new_registry))"
    using ok by (simp add: registry_ok_def registry_names_def)
qed

end
