(* ===== verification/ClusterProps.thy ===== *)
theory ClusterProps
  imports Registry
begin

text \<open>
  Properties of cluster selection and of /help: users always work on a registered cluster, a
  cluster's clients are created once, and /help shows the commands the user may run.
\<close>

section \<open>The cluster state as it evolves\<close>

text \<open>
  The manager and the selections change when a user presses a selection button, when a handler
  asks for a client and when the health check runs. Nothing else writes them.
\<close>

inductive cluster_step ::
  "'c cluster_manager \<times> user_context \<Rightarrow> 'c cluster_manager \<times> user_context \<Rightarrow> bool" where
  Select: "cluster_step (m, uc) (m, fst (cluster_select env m usr data uc))"
| Client: "cluster_step (m, uc) (fst (get_or_create_clients L m n), uc)"
| Check: "cluster_step (m, uc) (fst (health_check reach m), uc)"

inductive_cases cluster_stepE: "cluster_step s t"

definition selection_ok :: "string set \<Rightarrow> 'c cluster_manager \<times> user_context \<Rightarrow> bool" where
  "selection_ok D s \<longleftrightarrow> manager_ok (fst s) \<and> registered (fst s) = D \<and> cm_default (fst s) \<in> D \<and>
     ran (snd s) \<subseteq> D"

lemma cluster_select_choice:
  "fst (cluster_select env m usr data uc) = uc \<or>
   (\<exists>u. fst (cluster_select env m usr data uc) = uc(u \<mapsto> data)) \<and> data \<in> registered m"
  by (auto simp: cluster_select_def set_cluster_def get_cluster_def registered_def Let_def
      split: option.splits)

lemma ran_update_subset: "ran f \<subseteq> D \<Longrightarrow> d \<in> D \<Longrightarrow> ran (f(u \<mapsto> d)) \<subseteq> D"
  by (auto simp: ran_def)

lemma selection_ok_step [inv_intros]: "cluster_step s t \<Longrightarrow> selection_ok D s \<Longrightarrow> selection_ok D t"
proof (induction rule: cluster_step.induct)
  case (Select m uc env usr data)
  with cluster_select_choice [of env m usr data uc] show ?case
    by (auto simp: selection_ok_def intro: ran_update_subset [THEN subsetD])
next
  case (Client m uc L n)
  then show ?case by (simp add: selection_ok_def get_or_create_keeps)
next
  case (Check m uc reach)
  then show ?case by (simp add: selection_ok_def health_check_keeps)
qed

lemma selection_ok_steps: "cluster_step\<^sup>*\<^sup>* s t \<Longrightarrow> selection_ok D s \<Longrightarrow> selection_ok D t"
  by (induction rule: rtranclp_induct) (auto intro: selection_ok_step)

lemma add_clusters_default:
  "'''' \<notin> cg_name ` set cfgs \<Longrightarrow> cm_default (add_clusters cfgs m) \<in> {cm_default m} \<union> cg_name ` set cfgs"
proof (induction cfgs arbitrary: m)
  case (Cons cfg cfgs)
  then show ?case
    using Cons.IH [of "m\<lparr>cm_clusters := (cm_clusters m)(cg_name cfg \<mapsto> entry_of_config cfg),
          cm_default := (if cg_default cfg then cg_name cfg else cm_default m)\<rparr>"]
    by auto
qed simp

lemma new_manager_default:
  assumes "cfgs \<noteq> []" "'''' \<notin> cg_name ` set cfgs"
  shows "cm_default (new_cluster_manager cfgs :: 'c cluster_manager) \<in> cg_name ` set cfgs"
  using add_clusters_default [OF assms(2),
      of "\<lparr>cm_clusters = Map.empty, cm_default = '''', cm_closed = False\<rparr> :: 'c cluster_manager"] assms(1)
  by (auto simp: new_cluster_manager_def Let_def)

lemma user_cluster_ok: "selection_ok D (m, uc) \<Longrightarrow> '''' \<notin> D \<Longrightarrow> user_cluster m uc u \<in> D"
  by (auto simp: selection_ok_def user_cluster_def get_default_def get_cluster_def manager_ok_def
      registered_def ran_def split: option.splits)

text \<open>Whatever selection buttons are pressed (by anyone, with any data), clients requested and
  health checks run, every user's current cluster is one of the configured clusters, so looking it
  up succeeds.\<close>

theorem users_stay_on_registered_clusters:
  assumes "cfgs \<noteq> []" "'''' \<notin> cg_name ` set cfgs"
    and "cluster_step\<^sup>*\<^sup>* (new_cluster_manager cfgs, Map.empty) (m, uc)"
  shows "user_cluster m uc u \<in> cg_name ` set cfgs \<and> \<not> is_err (get_cluster m (user_cluster m uc u))"
proof -
  have "selection_ok (cg_name ` set cfgs) (new_cluster_manager cfgs, Map.empty)"
    using new_manager_default [OF assms(1,2)]
    by (simp add: selection_ok_def registered_new manager_ok_new)
  from selection_ok_steps [OF assms(3) this]
  have ok: "selection_ok (cg_name ` set cfgs) (m, uc)" .
  show ?thesis
    using user_cluster_ok [OF ok assms(2)] ok by (simp add: get_cluster_iff selection_ok_def)
qed

definition demo_cluster :: "string \<Rightarrow> cluster_config" where
  "demo_cluster n = \<lparr>cg_name = n, cg_display_name = '''', cg_kubeconfig = '''', cg_context = '''',
     cg_in_cluster = False, cg_default = False\<rparr>"

theorem users_stay_on_registered_clusters_witness:
  "user_cluster (new_cluster_manager [demo_cluster ''prod'', demo_cluster ''dev''] :: nat cluster_manager)
     Map.empty 7 \<in> {''prod'', ''dev''}"
  using users_stay_on_registered_clusters
    [of "[demo_cluster ''prod'', demo_cluster ''dev'']" "new_cluster_manager
        [demo_cluster ''prod'', demo_cluster ''dev''] :: nat cluster_manager" Map.empty 7]
  by (simp add: demo_cluster_def)

section \<open>Clients are created once\<close>

lemma cached_step:
  assumes "cluster_step s t" "cm_clusters (fst s) n = Some e" "cn_clients e = Some c"
  shows "\<exists>e'. cm_clusters (fst t) n = Some e' \<and> cn_clients e' = Some c"
  using assms
proof (induction rule: cluster_step.induct)
  case (Client m uc L k)
  then show ?case
    by (cases "k = n") (auto simp: get_or_create_clients_def split: option.splits sum.splits)
next
  case (Check m uc reach)
  then show ?case by (simp add: health_check_def)
qed auto

lemma cached_steps:
  assumes "cluster_step\<^sup>*\<^sup>* s t" "\<exists>e. cm_clusters (fst s) n = Some e \<and> cn_clients e = Some c"
  shows "\<exists>e. cm_clusters (fst t) n = Some e \<and> cn_clients e = Some c"
  using assms by (induction rule: rtranclp_induct) (auto dest: cached_step)

lemma get_or_create_cached:
  "snd (get_or_create_clients L m n) = Inr c \<Longrightarrow>
   \<exists>e. cm_clusters (fst (get_or_create_clients L m n)) n = Some e \<and> cn_clients e = Some c"
  by (auto simp: get_or_create_clients_def split: option.splits sum.splits)

text \<open>Once a cluster's clients have been created they are the ones every later request gets,
  whatever happens in between, without asking client-go again and without changing the manager.\<close>

theorem clients_are_created_once:
  assumes "snd (get_or_create_clients L m n) = Inr c"
    and "cluster_step\<^sup>*\<^sup>* (fst (get_or_create_clients L m n), uc) (m', uc')"
  shows "get_or_create_clients L' m' n = (m', Inr c)"
  using cached_steps [OF assms(2), of n c] get_or_create_cached [OF assms(1)]
  by (auto simp: get_or_create_clients_def)

definition demo_library :: "nat kube_library" where
  "demo_library = \<lparr>kl_in_cluster = Inr 1, kl_kubeconfig = (\<lambda>p c. Inr 2), kl_tuned = (\<lambda>t q b c. c + 1),
     kl_clientset = (\<lambda>r. Inr (10 * r)), kl_metrics = (\<lambda>r. Inr (20 * r)), kl_dynamic = (\<lambda>r. Inr (30 * r))\<rparr>"

theorem clients_are_created_once_witness:
  "snd (get_or_create_clients L' (fst (get_or_create_clients demo_library
     (new_cluster_manager [demo_cluster ''prod'']) ''prod'')) ''prod'') =
   Inr \<lparr>kl_set = 30, kl_metrics_client = 60, kl_dynamic_client = 90, kl_rest = 3\<rparr>"
proof -
  let ?m = "new_cluster_manager [demo_cluster ''prod''] :: nat cluster_manager"
  let ?r = "get_or_create_clients demo_library ?m ''prod''"
  have r: "snd ?r = Inr \<lparr>kl_set = 30, kl_metrics_client = 60, kl_dynamic_client = 90, kl_rest = 3\<rparr>"
    by (simp add: get_or_create_clients_def new_cluster_manager_def demo_cluster_def demo_library_def
        new_clients_def build_rest_config_def entry_of_config_def mark_default_def Let_def
        set_status_def)
  show ?thesis
    using clients_are_created_once [OF r rtranclp.rtrancl_refl, of L'] by simp
qed

section \<open>/help\<close>

lemma help_sections_commands:
  "concat (map snd (help_sections env u mcs)) =
     map (\<lambda>c. (co_command c, co_description c)) (filter (command_visible env u) (concat (map mc_commands mcs)))"
  by (induction mcs) (auto simp: Let_def)

lemma help_sections_nonempty: "list_all (\<lambda>s. snd s \<noteq> []) (help_sections env u mcs)"
  by (induction mcs) (auto simp: Let_def)

lemma modules_with_commands_all:
  "concat (map mc_commands (modules_with_commands R)) = all_commands R"
proof -
  have "concat (map md_commands (filter (\<lambda>m. md_commands m \<noteq> []) ms)) = concat (map md_commands ms)" for ms
    by (induction ms) auto
  then show ?thesis by (simp add: modules_with_commands_def all_commands_def comp_def)
qed

text \<open>/help lists, in registration order, exactly the commands of the registered modules that
  the user may run (those without a permission, and those whose permission the engine grants), and
  never a section without commands.\<close>

theorem help_lists_permitted_commands:
  "handle_help env R (Some usr) =
     [SendText (MsgHelp (help_sections env (u_telegram_id usr) (modules_with_commands R))) []] \<and>
   concat (map snd (help_sections env (u_telegram_id usr) (modules_with_commands R))) =
     map (\<lambda>c. (co_command c, co_description c)) (filter (\<lambda>c. co_permission c = '''' \<or>
       permitted (ev_engine env) (ev_db env) (u_telegram_id usr) (co_permission c)) (all_commands R)) \<and>
   list_all (\<lambda>s. snd s \<noteq> []) (help_sections env (u_telegram_id usr) (modules_with_commands R))"
proof -
  have vis: "command_visible env u = (\<lambda>c. co_permission c = '''' \<or>
      permitted (ev_engine env) (ev_db env) u (co_permission c))" for u
    by (auto simp: command_visible_def)
  show ?thesis
    unfolding help_sections_commands modules_with_commands_all vis
    by (simp add: handle_help_def help_sections_nonempty)
qed

end
