(* ===== verification/GoFloat.thy ===== *)
theory GoFloat
  imports Complex_Main Prelude
begin

text \<open>
  Go's \<open>float64\<close> as the resource views use it: quotients and products of integers, compared with
  decimal constants and truncated to \<open>int\<close>. A value is the rational it stands for and every
  operation rounds its exact result to 53 significant bits, ties to even, as IEEE 754 does;
  the magnitudes involved are far from the limits of the exponent range. Also Kubernetes'
  \<open>resource.Quantity\<close> with the readings the program takes of it, and the formatting of percentages,
  bytes and bars (\<open>internal/module/kubernetes/top.go\<close>, quota.go).
\<close>

section \<open>float64\<close>

text \<open>The integer nearest to \<open>a / b\<close> (\<open>b > 0\<close>), the even one of two equally near.\<close>

definition nearest :: "int \<Rightarrow> int \<Rightarrow> int" where
  "nearest a b =
     (let q = a div b; r = a mod b
      in if 2 * r < b \<or> (2 * r = b \<and> even q) then q else q + 1)"

text \<open>The number of binary digits of a positive integer.\<close>

function bits :: "int \<Rightarrow> nat" where
  "bits a = (if a \<le> 0 then 0 else Suc (bits (a div 2)))"
  by pat_completeness auto
termination
  by (relation "measure nat") auto

declare bits.simps [simp del]

text \<open>For a positive \<open>p / q\<close>: the exponent \<open>e\<close> with \<open>2^e \<le> p / q < 2^(e+1)\<close>.\<close>

definition exponent_of :: "int \<Rightarrow> int \<Rightarrow> int" where
  "exponent_of p q =
     (let e = int (bits p) - int (bits q);
          small = (if e \<ge> 0 then p < q * 2 ^ nat e else p * 2 ^ nat (- e) < q)
      in if small then e - 1 else e)"

definition round_pos :: "int \<Rightarrow> int \<Rightarrow> rat" where
  "round_pos p q =
     (let s = exponent_of p q - 52
      in if s \<ge> 0 then of_int (nearest p (q * 2 ^ nat s) * 2 ^ nat s)
         else of_int (nearest (p * 2 ^ nat (- s)) q) / of_int (2 ^ nat (- s)))"

definition float64 :: "rat \<Rightarrow> rat" where
  "float64 x =
     (case quotient_of x of (p, q) \<Rightarrow>
        if p = 0 then 0 else if p < 0 then - round_pos (- p) q else round_pos p q)"

definition fdiv :: "rat \<Rightarrow> rat \<Rightarrow> rat" where "fdiv x y = float64 (x / y)"
definition fmul :: "rat \<Rightarrow> rat \<Rightarrow> rat" where "fmul x y = float64 (x * y)"
definition fadd :: "rat \<Rightarrow> rat \<Rightarrow> rat" where "fadd x y = float64 (x + y)"
definition of_int64 :: "int \<Rightarrow> rat" where "of_int64 n = float64 (of_int n)"

text \<open>\<open>int(x)\<close> cuts the fraction off.\<close>

definition trunc :: "rat \<Rightarrow> int" where
  "trunc x = (if x < 0 then - \<lfloor>- x\<rfloor> else \<lfloor>x\<rfloor>)"

text \<open>\<open>%.0f\<close> and \<open>%.1f\<close> print the nearest integer and the nearest tenth.\<close>

definition round_units :: "rat \<Rightarrow> int" where
  "round_units x = (case quotient_of x of (p, q) \<Rightarrow> nearest p q)"

definition round_tenths :: "rat \<Rightarrow> int" where
  "round_tenths x = (case quotient_of (10 * x) of (p, q) \<Rightarrow> nearest p q)"

section \<open>Quantities\<close>

text \<open>A quantity counts nano-units; \<open>MilliValue\<close> and \<open>Value\<close> round up.\<close>

type_synonym quantity = int

definition milli_value :: "quantity \<Rightarrow> int" where "milli_value q = - ((- q) div 1000000)"
definition unit_value :: "quantity \<Rightarrow> int" where "unit_value q = - ((- q) div 1000000000)"

section \<open>Formatting (top.go, quota.go)\<close>

definition bar_width :: int where "bar_width = 10"

text \<open>A bar is its numbers of filled and empty cells; \<open>strings.Repeat\<close> panics on a negative count: \<open>None\<close>.\<close>

definition render_bar :: "int \<Rightarrow> int \<Rightarrow> int \<Rightarrow> (nat \<times> nat) option" where
  "render_bar used all width =
     (if all \<le> 0 then (if width < 0 then None else Some (0, nat width))
      else (let ratio = fdiv (of_int64 used) (of_int64 all);
                r = (if ratio > 1 then 1 else ratio);
                filled = trunc (fmul r (of_int64 width))
            in if filled < 0 \<or> width - filled < 0 then None
               else Some (nat filled, nat (width - filled))))"

datatype level_mark = MarkNone | MarkYellow | MarkHigh | MarkCritical

definition threshold_emoji :: "rat \<Rightarrow> bool \<Rightarrow> level_mark" where
  "threshold_emoji ratio is_cpu =
     (if is_cpu then (if ratio \<ge> float64 (9 / 10) then MarkHigh else MarkNone)
      else if ratio \<ge> float64 (95 / 100) then MarkCritical
      else if ratio \<ge> float64 (85 / 100) then MarkYellow
      else MarkNone)"

datatype byte_text = Tenths_Gi int | Whole_Mi int | Whole_Ki int | Whole_B int

text \<open>Go's \<open>/\<close> on \<open>int64\<close> truncates; the operands here are at least the divisor.\<close>

definition format_bytes :: "int \<Rightarrow> byte_text" where
  "format_bytes b =
     (if b \<ge> 1073741824 then Tenths_Gi (round_tenths (fdiv (of_int64 b) (of_int64 1073741824)))
      else if b \<ge> 1048576 then Whole_Mi (b div 1048576)
      else if b \<ge> 1024 then Whole_Ki (b div 1024)
      else Whole_B b)"

datatype cpu_text = Tenths_Cores int | Milli_Cores int

definition format_cpu :: "int \<Rightarrow> cpu_text" where
  "format_cpu m =
     (if m \<ge> 1000 then Tenths_Cores (round_tenths (fdiv (of_int64 m) 1000)) else Milli_Cores m)"

definition percent :: "rat \<Rightarrow> int" where
  "percent ratio = trunc (fmul ratio 100)"


section \<open>Facts\<close>

lemma bits_bounds: "0 < a \<Longrightarrow> 2 ^ (bits a - 1) \<le> a \<and> a < 2 ^ bits a \<and> 0 < bits a"
proof (induction a rule: bits.induct)
  case (1 a)
  show ?case
  proof (cases "a = 1")
    case True
    have "bits 0 = 0" "bits 1 = 1" by (simp_all add: bits.simps [of 0] bits.simps [of 1])
    with True show ?thesis by simp
  next
    case False
    with "1.prems" have pos: "0 < a div 2" by simp
    have b: "bits a = Suc (bits (a div 2))" using "1.prems" by (simp add: bits.simps [of a])
    from "1.IH" [OF _ pos] "1.prems"
    have ih: "2 ^ (bits (a div 2) - 1) \<le> a div 2" "a div 2 < 2 ^ bits (a div 2)" "0 < bits (a div 2)"
      by simp_all
    have "2 ^ bits (a div 2) = 2 * (2::int) ^ (bits (a div 2) - 1)"
      using ih(3) by (cases "bits (a div 2)") simp_all
    moreover define k where "k = (2::int) ^ (bits (a div 2) - 1)"
    ultimately have k: "k \<le> a div 2" "a div 2 < 2 * k" "2 ^ bits (a div 2) = 2 * k"
      using ih by simp_all
    then have "2 * k \<le> a" "a < 2 * (2 * k)" by linarith+
    then show ?thesis using b k(3) by simp
  qed
qed

lemma exponent_small:
  assumes "0 < p" "0 < q" "p < q * 2 ^ 52"
  shows "exponent_of p q < 52"
proof (rule ccontr)
  assume "\<not> exponent_of p q < 52"
  then have ex: "52 \<le> exponent_of p q" by simp
  let ?e = "int (bits p) - int (bits q)"
  have e0: "0 \<le> ?e" and small: "p < q * 2 ^ nat ?e \<Longrightarrow> 53 \<le> ?e" "\<not> p < q * 2 ^ nat ?e \<Longrightarrow> 52 \<le> ?e"
    using ex by (auto simp: exponent_of_def Let_def split: if_splits)
  show False
  proof (cases "p < q * 2 ^ nat ?e")
    case False
    have "(2::int) ^ 52 \<le> 2 ^ nat ?e" using small(2) [OF False] by (intro power_increasing) auto
    then have "q * 2 ^ 52 \<le> q * 2 ^ nat ?e" using assms(2) by simp
    with False assms(3) show False by simp
  next
    case True
    have "bits p - 1 \<ge> bits q + 52" using small(1) [OF True] by simp
    then have "(2::int) ^ (bits q + 52) \<le> 2 ^ (bits p - 1)" by (intro power_increasing) auto
    also have "\<dots> \<le> p" using bits_bounds [OF assms(1)] by simp
    finally have "2 ^ bits q * 2 ^ 52 \<le> p" by (simp add: power_add)
    moreover have "q * 2 ^ 52 < 2 ^ bits q * (2::int) ^ 52" using bits_bounds [OF assms(2)] by simp
    ultimately show False using assms(3) by simp
  qed
qed

lemma nearest_le:
  assumes "0 < b" "a \<le> m * b" shows "nearest a b \<le> m"
proof -
  have q: "a div b \<le> m" using zdiv_mono1 [OF assms(2,1)] assms(1) by simp
  show ?thesis
  proof (cases "a div b = m")
    case True
    have "a mod b = a - m * b" using True by (simp add: minus_div_mult_eq_mod [symmetric])
    then have "a mod b = 0" using assms pos_mod_sign [of b a] by simp
    with True assms(1) show ?thesis by (simp add: nearest_def)
  qed (use q in \<open>auto simp: nearest_def Let_def\<close>)
qed

lemma nearest_nonneg: "0 < b \<Longrightarrow> 0 \<le> a \<Longrightarrow> 0 \<le> nearest a b"
  by (simp add: nearest_def Let_def pos_imp_zdiv_nonneg_iff add_nonneg_nonneg)

lemma round_pos_nonneg: "0 < q \<Longrightarrow> 0 \<le> p \<Longrightarrow> 0 \<le> round_pos p q"
  by (auto simp: round_pos_def Let_def intro!: nearest_nonneg mult_nonneg_nonneg divide_nonneg_nonneg)

lemma round_pos_le:
  assumes "0 < q" "0 < p" "p \<le> n * q" "n < 2 ^ 52"
  shows "round_pos p q \<le> of_int n"
proof -
  have "n * q < 2 ^ 52 * q" using assms(1,4) by (rule mult_strict_right_mono [rotated])
  then have "p < q * 2 ^ 52" using assms(3) by (simp only: mult.commute le_less_trans)
  then have s: "exponent_of p q - 52 < 0" using exponent_small assms by simp
  let ?k = "nat (- (exponent_of p q - 52))"
  have "nearest (p * 2 ^ ?k) q \<le> n * 2 ^ ?k"
    by (rule nearest_le [OF assms(1)]) (use mult_right_mono [OF assms(3), of "2 ^ ?k"] in \<open>simp add: ac_simps\<close>)
  then have "(of_int (nearest (p * 2 ^ ?k) q) :: rat) \<le> of_int n * of_int (2 ^ ?k)"
    by (metis of_int_le_iff of_int_mult)
  moreover have "(0::rat) < of_int (2 ^ ?k)" by simp
  ultimately have "of_int (nearest (p * 2 ^ ?k) q) / of_int (2 ^ ?k) \<le> (of_int n :: rat)"
    by (simp only: pos_divide_le_eq)
  with s show ?thesis by (simp add: round_pos_def Let_def)
qed

lemma float64_nonneg: "0 \<le> x \<Longrightarrow> 0 \<le> float64 x"
proof -
  assume "0 \<le> x"
  obtain p q where pq: "quotient_of x = (p, q)" by (cases "quotient_of x")
  have "0 < q" using quotient_of_denom_pos [OF pq] .
  moreover have "0 \<le> p"
    using \<open>0 \<le> x\<close> quotient_of_div [OF pq] \<open>0 < q\<close> by (simp add: zero_le_divide_iff)
  ultimately show ?thesis using pq by (auto simp: float64_def intro: round_pos_nonneg)
qed

lemma float64_le: "0 \<le> x \<Longrightarrow> x \<le> of_int n \<Longrightarrow> n < 2 ^ 52 \<Longrightarrow> float64 x \<le> of_int n"
proof -
  assume a: "0 \<le> x" "x \<le> of_int n" "n < 2 ^ 52"
  obtain p q where pq: "quotient_of x = (p, q)" by (cases "quotient_of x")
  have q: "0 < q" using quotient_of_denom_pos [OF pq] .
  have x: "x = of_int p / of_int q" using quotient_of_div [OF pq] .
  have p: "0 \<le> p" using a(1) x q by (simp add: zero_le_divide_iff)
  have "(of_int p :: rat) \<le> of_int n * of_int q" using a(2) x q by (simp add: pos_divide_le_eq)
  then have le: "p \<le> n * q" by (metis of_int_le_iff of_int_mult)
  show ?thesis
  proof (cases "p = 0")
    case True
    then have "(0::rat) \<le> of_int n" using a(1,2) by linarith
    with True pq show ?thesis by (simp add: float64_def)
  next
    case False
    with p q le a(3) round_pos_le [of q p n] pq show ?thesis by (simp add: float64_def)
  qed
qed

text \<open>A usage bar always has exactly its ten cells: for any non-negative usage and any total, even
  one exceeded by the usage, \<open>renderBar\<close> returns ten cells and never asks \<open>strings.Repeat\<close> for a
  negative number of them, whatever the rounding of the floating-point ratio.\<close>

theorem usage_bar_has_ten_cells:
  assumes "0 \<le> used"
  shows "\<exists>f e. render_bar used all bar_width = Some (f, e) \<and> f + e = 10"
proof (cases "all \<le> 0")
  case False
  define ratio where "ratio = fdiv (of_int64 used) (of_int64 all)"
  define r where "r = (if ratio > 1 then 1 else ratio)"
  have "0 \<le> ratio" using assms False by (simp add: ratio_def fdiv_def of_int64_def float64_nonneg)
  then have r: "0 \<le> r" "r \<le> 1" by (simp_all add: r_def)
  have w: "0 \<le> of_int64 10" "of_int64 10 \<le> 10"
    using float64_nonneg [of 10] float64_le [of 10 10] by (simp_all add: of_int64_def)
  have "r * of_int64 10 \<le> 1 * 10" using r w by (intro mult_mono) auto
  then have f: "0 \<le> fmul r (of_int64 10)" "fmul r (of_int64 10) \<le> 10"
    using float64_nonneg [of "r * of_int64 10"] float64_le [of "r * of_int64 10" 10] r w
    by (simp_all add: fmul_def)
  define n where "n = trunc (fmul r (of_int64 10))"
  have n: "0 \<le> n" "n \<le> 10"
    using f by (simp_all add: n_def trunc_def floor_le_iff)
  have "render_bar used all bar_width =
      (if n < 0 \<or> 10 - n < 0 then None else Some (nat n, nat (10 - n)))"
    using False unfolding render_bar_def bar_width_def Let_def n_def r_def ratio_def by simp
  then have "render_bar used all bar_width = Some (nat n, nat (10 - n))" using n by simp
  with n show ?thesis by (intro exI [of _ "nat n"] exI [of _ "nat (10 - n)"]) auto
qed (simp add: render_bar_def bar_width_def)

theorem usage_bar_has_ten_cells_witness:
  "\<exists>f e. render_bar 750 500 bar_width = Some (f, e) \<and> f + e = 10"
  by (rule usage_bar_has_ten_cells) simp

end
