(* ===== verification/KubeApi.thy ===== *)
theory KubeApi
  imports Registry Argocd TelegramText GoFloat
begin

text \<open>
  What the Kubernetes-facing modules share: the API objects with the fields the program reads, the
  API itself as a record of calls over an abstract remote state \<open>'w\<close> (client-go and the API server
  are not part of the program), the state of the Kubernetes module
  (\<open>internal/module/kubernetes/module.go\<close>), its namespace cache (namespace.go) and the helpers its
  handlers are written with. Handlers take clock readings as arguments; contexts with a timeout are
  calls that may return an error.
\<close>

section \<open>Go's time and strings\<close>

text \<open>\<open>t.Sub(u)\<close> saturates at the bounds of \<open>int64\<close>.\<close>

definition time_sub :: "instant \<Rightarrow> instant \<Rightarrow> duration" where
  "time_sub t u = max (- (2 ^ 63)) (min (2 ^ 63 - 1) (t - u))"

definition go_quot :: "int \<Rightarrow> int \<Rightarrow> int" where
  "go_quot a b = (if a < 0 then - ((- a) div b) else a div b)"

definition go_rem :: "int \<Rightarrow> int \<Rightarrow> int" where
  "go_rem a b = a - go_quot a b * b"

text \<open>\<open>d.Seconds()\<close>, \<open>d.Minutes()\<close>, \<open>d.Hours()\<close>: whole units plus the rest as a fraction.\<close>

definition in_units :: "duration \<Rightarrow> duration \<Rightarrow> rat" where
  "in_units d u = fadd (of_int64 (go_quot d u)) (fdiv (of_int64 (go_rem d u)) (of_int64 u))"

text \<open>\<open>strings.Fields\<close>: the maximal runs of non-blank characters.\<close>

fun fields_from :: "string \<Rightarrow> string \<Rightarrow> string list" where
  "fields_from cur [] = (if cur = [] then [] else [cur])"
| "fields_from cur (c # cs) =
     (if is_space c then (if cur = [] then [] else [cur]) @ fields_from [] cs
      else fields_from (cur @ [c]) cs)"

definition go_fields :: "string \<Rightarrow> string list" where
  "go_fields s = fields_from [] s"

text \<open>\<open>fmt.Sscanf\<close> into an \<open>int32\<close>.\<close>

definition sscanf_int32 :: "string \<Rightarrow> int option" where
  "sscanf_int32 s =
     (case sscanf_d s of
        None \<Rightarrow> None
      | Some v \<Rightarrow> if - (2 ^ 31) \<le> v \<and> v < 2 ^ 31 then Some v else None)"

section \<open>API objects\<close>

record container_status =
  cs_name :: string
  cs_image :: string
  cs_restarts :: int
  cs_waiting :: "string option"
  cs_terminated :: "(string \<times> int) option"

text \<open>
  Limits and requests are read with accessors that return a zero quantity when the resource is
  not set, never nil.
\<close>

record pod_container =
  ct_name :: string
  ct_image :: string
  ct_limit_cpu :: quantity
  ct_limit_memory :: quantity
  ct_request_cpu :: quantity
  ct_request_memory :: quantity

record kube_pod =
  pd_name :: string
  pd_namespace :: string
  pd_created :: instant
  pd_deletion :: "instant option"
  pd_phase :: string
  pd_reason :: string
  pd_message :: string
  pd_node :: string
  pd_ip :: string
  pd_owners :: "(string \<times> string) list"
  pd_containers :: "pod_container list"
  pd_statuses :: "container_status list"
  pd_init_statuses :: "container_status list"
  pd_claims :: "string list"

record node_condition =
  nc_type :: string
  nc_status :: string
  nc_reason :: string
  nc_message :: string
  nc_since :: instant

record kube_node =
  nd_name :: string
  nd_unschedulable :: bool
  nd_conditions :: "node_condition list"
  nd_cpu :: quantity
  nd_memory :: quantity
  nd_disk :: quantity
  nd_kubelet :: string
  nd_os :: string
  nd_os_image :: string

text \<open>Deployments and stateful sets; an absent replica count is \<open>None\<close>.\<close>

record workload =
  wl_name :: string
  wl_namespace :: string
  wl_replicas :: "int option"
  wl_ready :: int
  wl_available :: int

record kube_namespace =
  ns_name :: string
  ns_phase :: string
  ns_created :: instant

record cron_job =
  cj_name :: string
  cj_namespace :: string
  cj_schedule :: string
  cj_suspend :: "bool option"
  cj_last_schedule :: "instant option"
  cj_last_success :: "instant option"
  cj_active :: nat

record kube_job =
  jb_name :: string
  jb_owners :: "(string \<times> string) list"
  jb_failed :: int
  jb_succeeded :: int
  jb_start :: "instant option"
  jb_completion :: "instant option"

text \<open>The hard limits are ranged over, in the order the association list stands for.\<close>

record resource_quota =
  rq_name :: string
  rq_hard :: "(string \<times> quantity) list"
  rq_used :: "string \<rightharpoonup> quantity"

record kube_event =
  kv_object :: string
  kv_type :: string
  kv_reason :: string
  kv_message :: string
  kv_count :: int
  kv_last :: instant
  kv_time :: instant
  kv_created :: instant

record pod_metrics =
  pm_name :: string
  pm_namespace :: string
  pm_usage :: "(quantity \<times> quantity) list"

record node_metrics =
  nm_name :: string
  nm_cpu :: quantity
  nm_memory :: quantity

record volume_claim =
  pv_name :: string
  pv_phase :: string
  pv_capacity :: quantity
  pv_annotations :: "string \<rightharpoonup> string"

record kube_secret =
  sx_name :: string
  sx_data :: "string \<rightharpoonup> string"
section \<open>The API\<close>

text \<open>
  One record serves as the client set and as the metrics client. A namespace argument of \<open>''''\<close>
  means all namespaces. The logs call returns what the first \<open>Read\<close> of the stream yields.
\<close>

record 'w kube_api =
  ka_namespaces :: "'w \<Rightarrow> kube_namespace list result"
  ka_pods :: "'w \<Rightarrow> string \<Rightarrow> kube_pod list result"
  ka_pods_selected :: "'w \<Rightarrow> string \<Rightarrow> string \<Rightarrow> kube_pod list result"
  ka_pod :: "'w \<Rightarrow> string \<Rightarrow> string \<Rightarrow> kube_pod result"
  ka_delete_pod :: "'w \<Rightarrow> string \<Rightarrow> string \<Rightarrow> 'w \<times> unit result"
  ka_evict :: "'w \<Rightarrow> string \<Rightarrow> string \<Rightarrow> int \<Rightarrow> 'w \<times> unit result"
  ka_logs :: "'w \<Rightarrow> string \<Rightarrow> string \<Rightarrow> string option \<Rightarrow> int \<Rightarrow> bool \<Rightarrow> string result"
  ka_events :: "'w \<Rightarrow> string \<Rightarrow> string \<Rightarrow> kube_event list result"
  ka_nodes :: "'w \<Rightarrow> kube_node list result"
  ka_node :: "'w \<Rightarrow> string \<Rightarrow> kube_node result"
  ka_update_node :: "'w \<Rightarrow> kube_node \<Rightarrow> 'w \<times> unit result"
  ka_deployments :: "'w \<Rightarrow> string \<Rightarrow> workload list result"
  ka_deployment :: "'w \<Rightarrow> string \<Rightarrow> string \<Rightarrow> workload result"
  ka_scale_deployment :: "'w \<Rightarrow> string \<Rightarrow> string \<Rightarrow> int \<Rightarrow> 'w \<times> unit result"
  ka_statefulsets :: "'w \<Rightarrow> string \<Rightarrow> workload list result"
  ka_statefulset :: "'w \<Rightarrow> string \<Rightarrow> string \<Rightarrow> workload result"
  ka_scale_statefulset :: "'w \<Rightarrow> string \<Rightarrow> string \<Rightarrow> int \<Rightarrow> 'w \<times> unit result"
  ka_cron_jobs :: "'w \<Rightarrow> string \<Rightarrow> cron_job list result"
  ka_jobs :: "'w \<Rightarrow> string \<Rightarrow> kube_job list result"
  ka_quotas :: "'w \<Rightarrow> string \<Rightarrow> resource_quota list result"
  ka_claims :: "'w \<Rightarrow> string \<Rightarrow> volume_claim list result"
  ka_tls_secrets :: "'w \<Rightarrow> string \<Rightarrow> kube_secret list result"
  ka_pod_metrics :: "'w \<Rightarrow> string \<Rightarrow> pod_metrics list result"
  ka_node_metrics :: "'w \<Rightarrow> node_metrics list result"
  ka_node_metric :: "'w \<Rightarrow> string \<Rightarrow> node_metrics result"

text \<open>The field selector of \<open>fields.OneTermEqualSelector("spec.nodeName", name)\<close>.\<close>

definition on_node :: "string \<Rightarrow> string" where "on_node n = ''spec.nodeName='' @ n"

section \<open>Module state (module.go)\<close>

record 'w k8s_module =
  km_engine :: engine
  km_approval :: "approval_checker option"
  km_library :: "'w kube_api kube_library"
  km_healthy :: bool

record 'w k8s_world =
  kw_db :: db
  kw_manager :: "'w kube_api cluster_manager"
  kw_selected :: user_context
  kw_store :: callback_store
  kw_ns_cache :: "string \<rightharpoonup> string list \<times> instant"
  kw_remote :: 'w
  kw_audit :: "audit_entry list"

definition new_k8s_module :: "engine \<Rightarrow> 'w kube_api kube_library \<Rightarrow> approval_checker option \<Rightarrow> 'w k8s_module" where
  "new_k8s_module e L ck = \<lparr>km_engine = e, km_approval = ck, km_library = L, km_healthy = True\<rparr>"

definition k8s_health :: "'w k8s_module \<Rightarrow> health_status" where
  "k8s_health M = (if km_healthy M then Healthy else Unhealthy)"

definition k8s_commands :: "command_info list" where
  "k8s_commands = map (\<lambda>(c, d, p). \<lparr>co_command = c, co_description = d, co_permission = p, co_chat_type = ''all''\<rparr>)
     [(''/pods'', ''List pods in a namespace'', perm_k8s_pods_list),
      (''/logs <pod>'', ''View pod logs'', perm_k8s_pods_logs),
      (''/events <pod>'', ''View pod events'', perm_k8s_pods_events),
      (''/top'', ''Show pod/node resource usage'', perm_k8s_metrics_view),
      (''/top nodes'', ''Show node resource usage'', perm_k8s_metrics_view),
      (''/scale'', ''Scale deployment/statefulset replicas'', perm_k8s_deployments_scale),
      (''/nodes'', ''List and manage cluster nodes'', perm_k8s_nodes_view),
      (''/quota'', ''Show namespace resource quotas'', perm_k8s_quota_view),
      (''/restart <pod>'', ''Restart (delete) a pod'', perm_k8s_pods_restart),
      (''/namespaces'', ''List all namespaces'', perm_k8s_namespaces_list),
      (''/deploys'', ''List deployments in a namespace'', perm_k8s_deployments_list),
      (''/cronjobs'', ''List CronJob status'', perm_k8s_cronjobs_list)]"

text \<open>The buttons whose callbacks the module registers, all of them behind \<open>withResolve\<close>, and the
  two that do nothing.\<close>

definition k8s_buttons :: "string list" where
  "k8s_buttons =
     [''k8s_ns'', ''k8s_pod_detail'', ''k8s_pods_page'', ''k8s_pods_back'', ''k8s_pods_refresh'',
      ''k8s_logs'', ''k8s_logs_container'', ''k8s_logs_more'', ''k8s_logs_prev'', ''k8s_events'',
      ''k8s_events_refresh'', ''k8s_restart'', ''k8s_restart_confirm'', ''k8s_restart_cancel'',
      ''k8s_top_ns'', ''k8s_top_page'', ''k8s_top_refresh'', ''k8s_top_nodes'',
      ''k8s_top_nodes_refresh'', ''k8s_top_back'',
      ''k8s_scale_ns'', ''k8s_scale_detail'', ''k8s_scale_set'', ''k8s_scale_confirm'',
      ''k8s_scale_cancel'', ''k8s_scale_back'',
      ''k8s_node_detail'', ''k8s_nodes_refresh'', ''k8s_node_cordon'', ''k8s_node_cordon_confirm'',
      ''k8s_node_uncordon'', ''k8s_node_uncordon_confirm'', ''k8s_node_drain'',
      ''k8s_node_drain_confirm'', ''k8s_node_top_pods'', ''k8s_nodes_back'',
      ''k8s_quota_ns'', ''k8s_quota_refresh'', ''k8s_quota_back'', ''k8s_namespaces_refresh'',
      ''k8s_deploys_ns'', ''k8s_deploys_refresh'', ''k8s_cronjobs_ns'', ''k8s_cronjobs_refresh'']"

definition k8s_info_buttons :: "string list" where
  "k8s_info_buttons = [''k8s_top_info'', ''k8s_pods_info'']"

text \<open>\<open>withResolve\<close>: the handler sees the full data; empty data is left alone.\<close>

definition with_resolve :: "(string \<Rightarrow> 'w k8s_world \<Rightarrow> 'a) \<Rightarrow> string \<Rightarrow> 'w k8s_world \<Rightarrow> 'a" where
  "with_resolve h data w = h (if data = '''' then data else resolve (kw_store w) data) w"

section \<open>Messages and keyboards\<close>

text \<open>
  A notice is a fixed text of the source; the other shared messages name the subject; a view is a
  message of the file that sends it. A button is stored (its data goes through \<open>m.sd\<close>) or raw.
\<close>

datatype 'm k8s_msg =
    KNotice string
  | MsgNotAllowed string
  | MsgSelectNamespace string string
  | MsgNothingIn string string string
  | View 'm

datatype btn = Stored string string | Raw string string

fun lay_row :: "callback_store \<Rightarrow> btn list \<Rightarrow> callback_store \<times> button list" where
  "lay_row st [] = (st, [])"
| "lay_row st (Stored u d # bs) =
     (let (st1, k) = store_data st d; (st2, r) = lay_row st1 bs in (st2, (u, k) # r))"
| "lay_row st (Raw u d # bs) = (let (st2, r) = lay_row st bs in (st2, (u, d) # r))"

fun lay_out :: "callback_store \<Rightarrow> btn list list \<Rightarrow> callback_store \<times> keyboard" where
  "lay_out st [] = (st, [])"
| "lay_out st (r # rs) =
     (let (st1, b) = lay_row st r; (st2, bs) = lay_out st1 rs in (st2, b # bs))"

type_synonym ('w, 'm) k8s_reply = "'w k8s_world \<times> 'm k8s_msg chat_effect list"

definition say :: "'m k8s_msg \<Rightarrow> 'w k8s_world \<Rightarrow> ('w, 'm) k8s_reply" where
  "say m w = (w, [SendText m []])"

definition toast :: "string \<Rightarrow> 'w k8s_world \<Rightarrow> ('w, 'm) k8s_reply" where
  "toast s w = (w, [Respond (Some (KNotice s))])"

definition show_view :: "bool \<Rightarrow> 'm \<Rightarrow> btn list list \<Rightarrow> 'w k8s_world \<Rightarrow> ('w, 'm) k8s_reply" where
  "show_view is_callback v rows w =
     (let (st, kb) = lay_out (kw_store w) rows
      in (w\<lparr>kw_store := st\<rparr>, send_or_edit is_callback (View v) kb))"

section \<open>Cluster access and the namespace cache (namespace.go)\<close>

definition client_for :: "'w k8s_module \<Rightarrow> string \<Rightarrow> 'w k8s_world \<Rightarrow> 'w k8s_world \<times> 'w kube_api result" where
  "client_for M cl w =
     (let (m', r) = client_set (km_library M) (kw_manager w) cl in (w\<lparr>kw_manager := m'\<rparr>, r))"

definition metrics_for :: "'w k8s_module \<Rightarrow> string \<Rightarrow> 'w k8s_world \<Rightarrow> 'w k8s_world \<times> 'w kube_api result" where
  "metrics_for M cl w =
     (let (m', r) = metrics_client (km_library M) (kw_manager w) cl in (w\<lparr>kw_manager := m'\<rparr>, r))"

text \<open>The client, or the handler's early return.\<close>

definition with_client ::
  "'w k8s_module \<Rightarrow> string \<Rightarrow> ('w k8s_world \<Rightarrow> 'a) \<Rightarrow> ('w kube_api \<Rightarrow> 'w k8s_world \<Rightarrow> 'a) \<Rightarrow>
   'w k8s_world \<Rightarrow> 'a" where
  "with_client M cl failed ok w =
     (case client_for M cl w of (w', Inl e) \<Rightarrow> failed w' | (w', Inr api) \<Rightarrow> ok api w')"

definition with_metrics ::
  "'w k8s_module \<Rightarrow> string \<Rightarrow> ('w k8s_world \<Rightarrow> 'a) \<Rightarrow> ('w kube_api \<Rightarrow> 'w k8s_world \<Rightarrow> 'a) \<Rightarrow>
   'w k8s_world \<Rightarrow> 'a" where
  "with_metrics M cl failed ok w =
     (case metrics_for M cl w of (w', Inl e) \<Rightarrow> failed w' | (w', Inr api) \<Rightarrow> ok api w')"

definition selected_cluster :: "'w k8s_world \<Rightarrow> user \<Rightarrow> string" where
  "selected_cluster w u = user_cluster (kw_manager w) (kw_selected w) (u_telegram_id u)"

definition ns_cache_ttl :: duration where "ns_cache_ttl = 60 * second"

definition ns_cache_get :: "instant \<Rightarrow> string \<Rightarrow> 'w k8s_world \<Rightarrow> string list option" where
  "ns_cache_get now cl w =
     (case kw_ns_cache w cl of
        None \<Rightarrow> None
      | Some (ns, t) \<Rightarrow> if time_sub now t > ns_cache_ttl then None else Some ns)"

definition ns_cache_set :: "instant \<Rightarrow> string \<Rightarrow> string list \<Rightarrow> 'w k8s_world \<Rightarrow> 'w k8s_world" where
  "ns_cache_set now cl ns w = w\<lparr>kw_ns_cache := (kw_ns_cache w)(cl \<mapsto> (ns, now))\<rparr>"

definition get_namespaces ::
  "'w k8s_module \<Rightarrow> instant \<Rightarrow> instant \<Rightarrow> string \<Rightarrow> 'w k8s_world \<Rightarrow> 'w k8s_world \<times> string list result" where
  "get_namespaces M t1 t2 cl w =
     (case ns_cache_get t1 cl w of
        Some ns \<Rightarrow> (w, Inr ns)
      | None \<Rightarrow>
         (case client_for M cl w of
            (w', Inl e) \<Rightarrow> (w', Inl e)
          | (w', Inr api) \<Rightarrow>
             (case ka_namespaces api (kw_remote w') of
                Inl e \<Rightarrow> (w', Inl e)
              | Inr nss \<Rightarrow>
                  (ns_cache_set t2 cl (map ns_name nss) w', Inr (map ns_name nss)))))"

text \<open>
  The opening of the commands that ask for a namespace: the user, the permission, the selected
  cluster, its namespaces, the selector. \<open>k\<close> is what a command does between the cluster check and
  the listing (some take a namespace argument).
\<close>

definition choose_namespace ::
  "'w k8s_module \<Rightarrow> instant \<Rightarrow> instant \<Rightarrow> string \<Rightarrow> string \<Rightarrow> string \<Rightarrow> string \<Rightarrow> 'w k8s_world \<Rightarrow>
   ('w, 'm) k8s_reply" where
  "choose_namespace M t1 t2 cl pre title unreachable w =
     (case get_namespaces M t1 t2 cl w of
        (w', Inl e) \<Rightarrow> say (KNotice unreachable) w'
      | (w', Inr nss) \<Rightarrow>
         (let (st, kb) = namespace_selector (kw_store w') nss pre
          in (w'\<lparr>kw_store := st\<rparr>, [SendText (MsgSelectNamespace title cl) kb])))"

definition guarded_command ::
  "'w k8s_module \<Rightarrow> string \<Rightarrow> user option \<Rightarrow> (user \<Rightarrow> 'w k8s_world \<Rightarrow> ('w, 'm) k8s_reply) \<Rightarrow>
   'w k8s_world \<Rightarrow> ('w, 'm) k8s_reply" where
  "guarded_command M perm usr k w =
     (case usr of
        None \<Rightarrow> say (KNotice ''Could not identify you.'') w
      | Some u \<Rightarrow>
         if \<not> permitted (km_engine M) (kw_db w) (u_telegram_id u) perm then say (MsgNotAllowed perm) w
         else k u w)"

definition on_selected_cluster ::
  "user \<Rightarrow> (string \<Rightarrow> 'w k8s_world \<Rightarrow> ('w, 'm) k8s_reply) \<Rightarrow> 'w k8s_world \<Rightarrow> ('w, 'm) k8s_reply" where
  "on_selected_cluster u k w =
     (let cl = selected_cluster w u
      in if cl = '''' then say (KNotice ''No cluster selected. Use /clusters to select one.'') w
         else k cl w)"

section \<open>Audit and approval\<close>

definition k8s_audit ::
  "string \<Rightarrow> instant \<Rightarrow> user \<Rightarrow> string \<Rightarrow> string \<Rightarrow> string \<Rightarrow> string \<Rightarrow> (string \<times> string) list \<Rightarrow>
   string \<Rightarrow> string \<Rightarrow> audit_entry" where
  "k8s_audit new_id now u action resource cl ns details status err =
     \<lparr>ae_id = new_id, ae_user_id = u_telegram_id u, ae_username = u_username u, ae_action = action,
      ae_resource = resource, ae_cluster = cl, ae_namespace = ns, ae_chat_id = 0, ae_chat_type = '''',
      ae_status = status, ae_details = details, ae_error = err, ae_occurred_at = now\<rparr>"

definition log_k8s :: "audit_entry \<Rightarrow> 'w k8s_world \<Rightarrow> 'w k8s_world" where
  "log_k8s e w = w\<lparr>kw_audit := kw_audit w @ [e]\<rparr>"

text \<open>The approval gate of scale and drain: an error is logged and the action goes on.\<close>

definition k8s_gate ::
  "'w k8s_module \<Rightarrow> confirm_env \<Rightarrow> approval_input \<Rightarrow> 'w k8s_world \<Rightarrow> 'w k8s_world \<times> bool" where
  "k8s_gate M env i w =
     (case km_approval M of
        None \<Rightarrow> (w, False)
      | Some ck \<Rightarrow>
         (let (s', r) = check_and_submit sqlite_approval ck (ce_now env) (ce_request_id env)
                          (ce_chat env) (ce_sent env) (kw_db w) i
          in (w\<lparr>kw_db := s'\<rparr>, case r of Inl e \<Rightarrow> False | Inr needs \<Rightarrow> needs)))"

section \<open>Facts\<close>

lemma client_for_frame [simp]:
  "kw_db (fst (client_for M cl w)) = kw_db w"
  "kw_remote (fst (client_for M cl w)) = kw_remote w"
  "kw_audit (fst (client_for M cl w)) = kw_audit w"
  "kw_store (fst (client_for M cl w)) = kw_store w"
  "kw_selected (fst (client_for M cl w)) = kw_selected w"
  "kw_ns_cache (fst (client_for M cl w)) = kw_ns_cache w"
  by (simp_all add: client_for_def case_prod_beta)

lemma metrics_for_frame [simp]:
  "kw_db (fst (metrics_for M cl w)) = kw_db w"
  "kw_remote (fst (metrics_for M cl w)) = kw_remote w"
  "kw_audit (fst (metrics_for M cl w)) = kw_audit w"
  "kw_store (fst (metrics_for M cl w)) = kw_store w"
  by (simp_all add: metrics_for_def case_prod_beta)

lemma show_view_frame [simp]:
  "kw_remote (fst (show_view cb v rows w)) = kw_remote w"
  "kw_audit (fst (show_view cb v rows w)) = kw_audit w"
  "kw_db (fst (show_view cb v rows w)) = kw_db w"
  by (simp_all add: show_view_def case_prod_beta)

lemma say_frame [simp]: "fst (say m w) = w" by (simp add: say_def)
lemma toast_frame [simp]: "fst (toast s w) = w" by (simp add: toast_def)

lemma log_k8s_frame [simp]:
  "kw_remote (log_k8s e w) = kw_remote w" "kw_db (log_k8s e w) = kw_db w"
  "kw_audit (log_k8s e w) = kw_audit w @ [e]" "kw_manager (log_k8s e w) = kw_manager w"
  by (simp_all add: log_k8s_def)

lemma k8s_gate_frame [simp]:
  "kw_remote (fst (k8s_gate M env i w)) = kw_remote w"
  "kw_audit (fst (k8s_gate M env i w)) = kw_audit w"
  "kw_manager (fst (k8s_gate M env i w)) = kw_manager w"
  by (auto simp: k8s_gate_def case_prod_beta split: option.splits)

lemma lay_row_keys:
  "snd (lay_row st bs) = map (\<lambda>b. case b of Stored u d \<Rightarrow> (u, callback_key d) | Raw u d \<Rightarrow> (u, d)) bs"
proof (induction bs arbitrary: st)
  case (Cons b bs)
  then show ?case
    by (cases b) (simp_all add: Let_def case_prod_beta del: split_paired_All)
qed simp

lemma lay_out_keys:
  "snd (lay_out st rows) =
     map (map (\<lambda>b. case b of Stored u d \<Rightarrow> (u, callback_key d) | Raw u d \<Rightarrow> (u, d))) rows"
  by (induction rows arbitrary: st) (simp_all add: Let_def case_prod_beta lay_row_keys)

end
