(* ===== verification/KubePods.thy ===== *)
theory KubePods
  imports KubeApi
begin

text \<open>
  Pods in the Kubernetes module: the paginated list and the detail view (pods.go), logs (logs.go),
  events and the restart of a pod (events.go, restart.go). A result of \<open>None\<close> is a panic, which the
  recovery middleware turns into an error text.
\<close>

section \<open>Status and age (pods.go)\<close>

text \<open>Go's \<open>int32\<close> addition wraps around.\<close>

definition wrap32 :: "int \<Rightarrow> int" where
  "wrap32 x = (x + 2 ^ 31) mod 2 ^ 32 - 2 ^ 31"

fun waiting_reason :: "container_status list \<Rightarrow> string option" where
  "waiting_reason [] = None"
| "waiting_reason (c # cs) =
     (case cs_waiting c of
        Some r \<Rightarrow> if r \<noteq> '''' then Some r else waiting_reason cs
      | None \<Rightarrow> waiting_reason cs)"

definition pod_status :: "kube_pod \<Rightarrow> string" where
  "pod_status p =
     (case waiting_reason (pd_statuses p) of
        Some r \<Rightarrow> r
      | None \<Rightarrow> if pd_deletion p \<noteq> None then ''Terminating'' else pd_phase p)"

datatype age_text = Secs int | Mins int | Hrs int | Days int

definition format_duration :: "duration \<Rightarrow> age_text" where
  "format_duration d =
     (if d < minute then Secs (trunc (in_units d second))
      else if d < hour then Mins (trunc (in_units d minute))
      else if d < 24 * hour then Hrs (trunc (in_units d hour))
      else Days (trunc (fdiv (in_units d hour) 24)))"

record pod_line =
  pl_mark :: phase_mark
  pl_name :: string
  pl_status :: string
  pl_age :: age_text
  pl_restarts :: "int option"

definition format_pod_line :: "instant \<Rightarrow> kube_pod \<Rightarrow> pod_line" where
  "format_pod_line now p =
     (let restarts = foldl (\<lambda>n c. wrap32 (n + cs_restarts c)) 0 (pd_statuses p)
      in \<lparr>pl_mark = pod_status_emoji (pod_status p), pl_name = pd_name p, pl_status = pod_status p,
          pl_age = format_duration (time_sub now (pd_created p)),
          pl_restarts = (if restarts > 0 then Some restarts else None)\<rparr>)"

datatype container_mark = ContGreen | ContRed | ContWhite | ContYellow

definition container_line :: "container_status \<Rightarrow> container_mark \<times> string \<times> string \<times> int option" where
  "container_line c =
     (let (m, s) = (case cs_waiting c of
                      Some r \<Rightarrow> (ContRed, r)
                    | None \<Rightarrow>
                       (case cs_terminated c of
                          Some (r, code) \<Rightarrow>
                            (ContWhite, if r = '''' then ''exit code '' @ show_int code else r)
                        | None \<Rightarrow> (ContGreen, ''Running'')))
      in (m, cs_name c, s, if cs_restarts c > 0 then Some (cs_restarts c) else None))"

definition init_container_line :: "container_status \<Rightarrow> container_mark \<times> string \<times> string" where
  "init_container_line c =
     (case cs_terminated c of
        Some (r, code) \<Rightarrow>
          if code = 0 then (ContWhite, cs_name c, ''Completed'')
          else (ContYellow, cs_name c, case cs_waiting c of Some r \<Rightarrow> r | None \<Rightarrow> ''Init'')
      | None \<Rightarrow> (ContYellow, cs_name c, case cs_waiting c of Some r \<Rightarrow> r | None \<Rightarrow> ''Init''))"

record pod_detail =
  dt_name :: string
  dt_namespace :: string
  dt_mark :: phase_mark
  dt_status :: string
  dt_cluster :: string
  dt_node :: "string option"
  dt_ip :: "string option"
  dt_age :: age_text
  dt_images :: "string list"
  dt_containers :: "(container_mark \<times> string \<times> string \<times> int option) list"
  dt_init :: "(container_mark \<times> string \<times> string) list"

definition format_pod_detail :: "instant \<Rightarrow> kube_pod \<Rightarrow> string \<Rightarrow> pod_detail" where
  "format_pod_detail now p cl =
     \<lparr>dt_name = pd_name p, dt_namespace = pd_namespace p, dt_mark = pod_status_emoji (pod_status p),
      dt_status = pod_status p, dt_cluster = cl, dt_node = non_empty (pd_node p),
      dt_ip = non_empty (pd_ip p), dt_age = format_duration (time_sub now (pd_created p)),
      dt_images = map ct_image (pd_containers p), dt_containers = map container_line (pd_statuses p),
      dt_init = map init_container_line (pd_init_statuses p)\<rparr>"

record event_line =
  el_mark :: event_mark
  el_time :: instant
  el_reason :: string
  el_message :: string
  el_count :: "int option"

datatype pods_view =
    PodList string string "pod_line list" int int nat
  | PodDetail pod_detail
  | SelectContainer
  | LogPart string
  | PodEvents string "event_line list"
  | ConfirmRestart string string string
  | PodRestarted string string instant

type_synonym 'w pods_reply = "('w, pods_view) k8s_reply"

definition ns_label :: "string \<Rightarrow> string" where
  "ns_label ns = (if ns = ''_all'' then ''all namespaces'' else ns)"

definition list_ns :: "string \<Rightarrow> string" where
  "list_ns ns = (if ns = ''_all'' then '''' else ns)"

definition bar3 :: "string \<Rightarrow> string \<Rightarrow> string \<Rightarrow> string" where
  "bar3 a b c = a @ ''|'' @ b @ ''|'' @ c"

section \<open>The pod list (pods.go)\<close>

definition pods_page_size :: int where "pods_page_size = 8"

text \<open>The slice of a list between two indices: out of range or out of order panics.\<close>

definition go_slice :: "int \<Rightarrow> int \<Rightarrow> 'a list \<Rightarrow> 'a list option" where
  "go_slice i j xs =
     (if 0 \<le> i \<and> i \<le> j \<and> j \<le> int (length xs) then Some (take (nat (j - i)) (drop (nat i) xs)) else None)"

definition page_slice :: "int \<Rightarrow> 'a list \<Rightarrow> 'a list option" where
  "page_slice page xs =
     (let start = (page - 1) * pods_page_size;
          end' = (if start + pods_page_size > int (length xs) then int (length xs)
                  else start + pods_page_size)
      in go_slice start end' xs)"

definition page_count :: "'a list \<Rightarrow> int" where
  "page_count xs = total_pages (new_paginator (map (\<lambda>x. []) xs) pods_page_size)"

definition pod_list_rows :: "string \<Rightarrow> string \<Rightarrow> int \<Rightarrow> int \<Rightarrow> kube_pod list \<Rightarrow> btn list list" where
  "pod_list_rows cl ns page pages shown =
     map (\<lambda>p. [Stored ''k8s_pod_detail'' (bar3 (pd_name p) (pd_namespace p) cl)]) shown @
     [Stored ''k8s_pods_refresh'' (bar3 ns cl (show_int page)) #
      (if page > 1 then [Stored ''k8s_pods_page'' (bar3 ns cl (show_int (page - 1)))] else []) @
      (if page < pages then [Stored ''k8s_pods_page'' (bar3 ns cl (show_int (page + 1)))] else []),
      [Raw ''k8s_pods_info'' '''']]"

definition send_pod_list ::
  "'w k8s_module \<Rightarrow> instant \<Rightarrow> bool \<Rightarrow> string \<Rightarrow> string \<Rightarrow> int \<Rightarrow> 'w k8s_world \<Rightarrow> 'w pods_reply option"
where
  "send_pod_list M now cb cl ns page =
     with_client M cl (\<lambda>w. Some (say (KNotice ''Failed to connect to cluster.'') w))
       (\<lambda>api w.
         (case ka_pods api (kw_remote w) (list_ns ns) of
            Inl e \<Rightarrow> Some (say (KNotice ''Failed to list pods.'') w)
          | Inr [] \<Rightarrow> Some (say (MsgNothingIn ''pods'' (ns_label ns) cl) w)
          | Inr pods \<Rightarrow>
             (case page_slice page pods of
                None \<Rightarrow> None
              | Some shown \<Rightarrow>
                 Some (show_view cb
                   (PodList (ns_label ns) cl (map (format_pod_line now) shown) page
                      (page_count pods) (length pods))
                   (pod_list_rows cl ns page (page_count pods) shown) w))))"

definition handle_pods ::
  "'w k8s_module \<Rightarrow> instant \<Rightarrow> instant \<Rightarrow> user option \<Rightarrow> 'w k8s_world \<Rightarrow> 'w pods_reply" where
  "handle_pods M t1 t2 usr =
     guarded_command M perm_k8s_pods_list usr
       (\<lambda>u. on_selected_cluster u (\<lambda>cl. choose_namespace M t1 t2 cl ''k8s'' ''Select namespace''
              ''Failed to connect to cluster. Is it reachable?''))"

definition handle_namespace_select ::
  "'w k8s_module \<Rightarrow> instant \<Rightarrow> user option \<Rightarrow> string \<Rightarrow> 'w k8s_world \<Rightarrow> 'w pods_reply option" where
  "handle_namespace_select M now usr data w =
     (case usr of
        None \<Rightarrow> Some (toast ''Error'' w)
      | Some u \<Rightarrow> send_pod_list M now True (selected_cluster w u) data 1 w)"

text \<open>The page number of a button, at least 1; anything unreadable is page 1.\<close>

definition page_arg :: "string \<Rightarrow> int" where
  "page_arg s = (case sscanf_d s of None \<Rightarrow> 1 | Some p \<Rightarrow> if p < 1 then 1 else p)"

definition handle_pods_page ::
  "'w k8s_module \<Rightarrow> instant \<Rightarrow> string \<Rightarrow> 'w k8s_world \<Rightarrow> 'w pods_reply option" where
  "handle_pods_page M now data w =
     (case split_n 3 (CHR ''|'') data of
        [ns, cl, page] \<Rightarrow> send_pod_list M now True cl ns (page_arg page) w
      | _ \<Rightarrow> Some (toast ''Invalid data'' w))"

definition handle_pods_refresh ::
  "'w k8s_module \<Rightarrow> instant \<Rightarrow> string \<Rightarrow> 'w k8s_world \<Rightarrow> 'w pods_reply option" where
  "handle_pods_refresh M now data w = handle_pods_page M now data w"

definition handle_pods_back ::
  "'w k8s_module \<Rightarrow> instant \<Rightarrow> instant \<Rightarrow> user option \<Rightarrow> string \<Rightarrow> 'w k8s_world \<Rightarrow> 'w pods_reply" where
  "handle_pods_back M t1 t2 usr data w =
     (case usr of
        None \<Rightarrow> toast ''Error'' w
      | Some u \<Rightarrow>
         (let cl = (case split_n 2 (CHR ''|'') data of
                      a # b # r \<Rightarrow> b | _ \<Rightarrow> selected_cluster w u)
          in case get_namespaces M t1 t2 cl w of
               (w', Inl e) \<Rightarrow> toast ''Failed to list namespaces'' w'
             | (w', Inr nss) \<Rightarrow>
                (let (st, kb) = namespace_selector (kw_store w') nss ''k8s''
                 in (w'\<lparr>kw_store := st\<rparr>, [EditText (MsgSelectNamespace ''Select namespace'' cl) kb]))))"

text \<open>The detail view with its action keyboard, as three handlers show it.\<close>

definition edit_pod_detail ::
  "instant \<Rightarrow> kube_pod \<Rightarrow> string \<Rightarrow> string \<Rightarrow> string \<Rightarrow> 'w k8s_world \<Rightarrow> 'w pods_reply" where
  "edit_pod_detail now p name ns cl w =
     (let (st, kb) = pod_actions (kw_store w) name ns cl
      in (w\<lparr>kw_store := st\<rparr>, [EditText (View (PodDetail (format_pod_detail now p cl))) kb]))"

definition pod_detail_reply ::
  "'w k8s_module \<Rightarrow> instant \<Rightarrow> string \<Rightarrow> string \<Rightarrow> string \<Rightarrow> 'w k8s_world \<Rightarrow> 'w pods_reply" where
  "pod_detail_reply M now name ns cl =
     with_client M cl (toast ''Cluster error'')
       (\<lambda>api w. (case ka_pod api (kw_remote w) ns name of
            Inl e \<Rightarrow> toast ''Pod not found'' w
          | Inr p \<Rightarrow> edit_pod_detail now p name ns cl w))"

definition handle_pod_detail ::
  "'w k8s_module \<Rightarrow> instant \<Rightarrow> string \<Rightarrow> 'w k8s_world \<Rightarrow> 'w pods_reply" where
  "handle_pod_detail M now data w =
     (case split_n 3 (CHR ''|'') data of
        [name, ns, cl] \<Rightarrow> pod_detail_reply M now name ns cl w
      | _ \<Rightarrow> toast ''Invalid data'' w)"

section \<open>Logs (logs.go)\<close>

text \<open>The header as UTF-8 bytes: a clipboard, the title, a rule of eighteen heavy dashes.\<close>

definition clipboard_utf8 :: string where
  "clipboard_utf8 = [CHR 0xF0, CHR 0x9F, CHR 0x93, CHR 0x8B]"

definition heavy_rule_utf8 :: string where
  "heavy_rule_utf8 = concat (replicate 18 [CHR 0xE2, CHR 0x94, CHR 0x81])"

definition log_header :: "string \<Rightarrow> string \<Rightarrow> bool \<Rightarrow> int \<Rightarrow> string" where
  "log_header pod container previous tail =
     clipboard_utf8 @ '' *Logs: '' @ pod @ ''/'' @ (if container = '''' then ''default'' else container) @
     ''*'' @ (if previous then '' (previous)'' else '''') @ '' (last '' @ show_int tail @ '' lines)'' @
     [newline] @ heavy_rule_utf8 @ [newline]"

text \<open>Only the last part carries the keyboard; a single part replaces the message of a callback.\<close>

fun log_effects :: "bool \<Rightarrow> bool \<Rightarrow> keyboard \<Rightarrow> string list \<Rightarrow> pods_view k8s_msg chat_effect list" where
  "log_effects cb is_first kb [] = []"
| "log_effects cb is_first kb [p] =
     (if cb \<and> is_first then [EditText (View (LogPart p)) kb] else [SendText (View (LogPart p)) kb])"
| "log_effects cb is_first kb (p # q # ps) =
     SendText (View (LogPart p)) [] # log_effects cb False kb (q # ps)"

definition fetch_and_send_logs ::
  "'w k8s_module \<Rightarrow> bool \<Rightarrow> string \<Rightarrow> string \<Rightarrow> string \<Rightarrow> string \<Rightarrow> int \<Rightarrow> bool \<Rightarrow> 'w k8s_world \<Rightarrow> 'w pods_reply"
where
  "fetch_and_send_logs M cb pod ns cl container tail previous =
     with_client M cl (say (KNotice ''Failed to connect to cluster.''))
       (\<lambda>api w.
         (case ka_logs api (kw_remote w) ns pod (non_empty container) tail previous of
            Inl e \<Rightarrow>
              (let m = (if previous then ''No previous container logs available.'' else ''Failed to get logs.'')
               in if cb then toast m w else say (KNotice m) w)
          | Inr text \<Rightarrow>
              (let body = (if text = '''' then ''(no logs)'' else text);
                   parts = split_message (log_header pod container previous tail @ code_block body) 4000;
                   (st, kb) = log_actions (kw_store w) pod ns cl container tail
               in (w\<lparr>kw_store := st\<rparr>, log_effects cb True kb parts))))"

definition pod_args :: "string \<Rightarrow> (string \<times> string) option" where
  "pod_args text =
     (case go_fields text of
        c # pod # ns # r \<Rightarrow> Some (pod, ns)
      | [c, pod] \<Rightarrow> Some (pod, ''default'')
      | _ \<Rightarrow> None)"

definition handle_logs_command ::
  "'w k8s_module \<Rightarrow> user option \<Rightarrow> string \<Rightarrow> 'w k8s_world \<Rightarrow> 'w pods_reply" where
  "handle_logs_command M usr text =
     guarded_command M perm_k8s_pods_logs usr
       (\<lambda>u w. (case pod_args text of
            None \<Rightarrow> say (KNotice ''Usage: /logs <pod-name> [namespace]'') w
          | Some (pod, ns) \<Rightarrow> fetch_and_send_logs M False pod ns (selected_cluster w u) '''' 50 False w))"

text \<open>A pod without containers makes the index expression panic.\<close>

definition handle_logs :: "'w k8s_module \<Rightarrow> string \<Rightarrow> 'w k8s_world \<Rightarrow> 'w pods_reply option" where
  "handle_logs M data w =
     (case split_n 3 (CHR ''|'') data of
        [pod, ns, cl] \<Rightarrow>
          with_client M cl (\<lambda>w. Some (toast ''Cluster error'' w))
            (\<lambda>api w.
              (case ka_pod api (kw_remote w) ns pod of
                 Inl e \<Rightarrow> Some (toast ''Pod not found'' w)
               | Inr p \<Rightarrow>
                  (case pd_containers p of
                     [] \<Rightarrow> None
                   | [c] \<Rightarrow> Some (fetch_and_send_logs M True pod ns cl (ct_name c) 50 False w)
                   | cs \<Rightarrow>
                      Some (show_view True SelectContainer
                        (map (\<lambda>c. [Stored ''k8s_logs_container'' (bar3 pod ns cl @ ''|'' @ ct_name c)]) cs @
                         [[Stored ''k8s_pod_detail'' (bar3 pod ns cl)]]) w)))) w
      | _ \<Rightarrow> Some (toast ''Invalid data'' w))"

definition handle_logs_container :: "'w k8s_module \<Rightarrow> string \<Rightarrow> 'w k8s_world \<Rightarrow> 'w pods_reply" where
  "handle_logs_container M data w =
     (case split_n 4 (CHR ''|'') data of
        [pod, ns, cl, container] \<Rightarrow> fetch_and_send_logs M True pod ns cl container 50 False w
      | _ \<Rightarrow> toast ''Invalid data'' w)"

definition handle_logs_more :: "'w k8s_module \<Rightarrow> string \<Rightarrow> 'w k8s_world \<Rightarrow> 'w pods_reply" where
  "handle_logs_more M data w =
     (case split_n 5 (CHR ''|'') data of
        [pod, ns, cl, container, n] \<Rightarrow>
          (let tail = (case sscanf_d n of None \<Rightarrow> 100 | Some t \<Rightarrow> if t \<le> 0 then 100 else t)
           in fetch_and_send_logs M True pod ns cl container tail False w)
      | _ \<Rightarrow> toast ''Invalid data'' w)"

definition handle_logs_previous :: "'w k8s_module \<Rightarrow> string \<Rightarrow> 'w k8s_world \<Rightarrow> 'w pods_reply" where
  "handle_logs_previous M data w =
     (case split_n 4 (CHR ''|'') data of
        [pod, ns, cl, container] \<Rightarrow> fetch_and_send_logs M True pod ns cl container 50 True w
      | _ \<Rightarrow> toast ''Invalid data'' w)"

section \<open>Events (events.go)\<close>

definition event_line_of :: "kube_event \<Rightarrow> event_line" where
  "event_line_of e =
     \<lparr>el_mark = event_emoji (kv_type e),
      el_time = (if kv_last e = zero_time then kv_created e else kv_last e),
      el_reason = kv_reason e, el_message = kv_message e,
      el_count = (if kv_count e > 1 then Some (kv_count e) else None)\<rparr>"

definition pod_selector :: "string \<Rightarrow> string \<Rightarrow> string" where
  "pod_selector pod ns = ''involvedObject.name='' @ pod @ '',involvedObject.namespace='' @ ns"

definition fetch_and_send_events ::
  "'w k8s_module \<Rightarrow> bool \<Rightarrow> string \<Rightarrow> string \<Rightarrow> string \<Rightarrow> 'w k8s_world \<Rightarrow> 'w pods_reply" where
  "fetch_and_send_events M cb pod ns cl =
     with_client M cl (say (KNotice ''Failed to connect to cluster.''))
       (\<lambda>api w.
         (case ka_events api (kw_remote w) ns (pod_selector pod ns) of
            Inl e \<Rightarrow> say (KNotice ''Failed to get events.'') w
          | Inr es \<Rightarrow>
              show_view cb (PodEvents pod (map event_line_of es))
                [[Stored ''k8s_events_refresh'' (bar3 pod ns cl),
                  Stored ''k8s_pod_detail'' (bar3 pod ns cl)]] w))"

definition handle_events_command ::
  "'w k8s_module \<Rightarrow> user option \<Rightarrow> string \<Rightarrow> 'w k8s_world \<Rightarrow> 'w pods_reply" where
  "handle_events_command M usr text =
     guarded_command M perm_k8s_pods_events usr
       (\<lambda>u w. (case pod_args text of
            None \<Rightarrow> say (KNotice ''Usage: /events <pod-name> [namespace]'') w
          | Some (pod, ns) \<Rightarrow> fetch_and_send_events M False pod ns (selected_cluster w u) w))"

definition handle_events :: "'w k8s_module \<Rightarrow> string \<Rightarrow> 'w k8s_world \<Rightarrow> 'w pods_reply" where
  "handle_events M data w =
     (case split_n 3 (CHR ''|'') data of
        [pod, ns, cl] \<Rightarrow> fetch_and_send_events M True pod ns cl w
      | _ \<Rightarrow> toast ''Invalid data'' w)"

definition handle_events_refresh :: "'w k8s_module \<Rightarrow> string \<Rightarrow> 'w k8s_world \<Rightarrow> 'w pods_reply" where
  "handle_events_refresh M data w = handle_events M data w"

section \<open>Restart (events.go, restart.go)\<close>

definition restart_audit :: "confirm_env \<Rightarrow> user \<Rightarrow> string \<Rightarrow> string \<Rightarrow> string \<Rightarrow> string \<Rightarrow> string \<Rightarrow> audit_entry"
where
  "restart_audit env u resource cl ns status err =
     k8s_audit (ce_audit_id env) (ce_now env) u ''pod.restart'' resource cl ns [] status err"

definition handle_restart_command ::
  "'w k8s_module \<Rightarrow> confirm_env \<Rightarrow> user option \<Rightarrow> string \<Rightarrow> 'w k8s_world \<Rightarrow> 'w pods_reply" where
  "handle_restart_command M env usr text w =
     (case usr of
        None \<Rightarrow> say (KNotice ''Could not identify you.'') w
      | Some u \<Rightarrow>
         if \<not> permitted (km_engine M) (kw_db w) (u_telegram_id u) perm_k8s_pods_restart
         then say (MsgNotAllowed perm_k8s_pods_restart)
                (log_k8s (restart_audit env u '''' '''' '''' audit_denied '''') w)
         else (case pod_args text of
            None \<Rightarrow> say (KNotice ''Usage: /restart <pod-name> [namespace]'') w
          | Some (pod, ns) \<Rightarrow>
              on_selected_cluster u (\<lambda>cl.
                with_client M cl (say (KNotice ''Failed to connect to cluster.''))
                  (\<lambda>api w.
                    (case ka_pod api (kw_remote w) ns pod of
                       Inl e \<Rightarrow> say (MsgNothingIn pod ns cl) w
                     | Inr p \<Rightarrow>
                         if pd_owners p = []
                         then say (KNotice ''Cannot restart standalone pods (no controller). Use delete instead.'') w
                         else show_view False (ConfirmRestart pod cl ns)
                                [[Raw ''k8s_restart_confirm'' (bar3 pod ns cl),
                                  Raw ''k8s_restart_cancel'' (bar3 pod ns cl)]] w))) w))"

definition handle_restart ::
  "'w k8s_module \<Rightarrow> confirm_env \<Rightarrow> user option \<Rightarrow> string \<Rightarrow> 'w k8s_world \<Rightarrow> 'w pods_reply" where
  "handle_restart M env usr data w =
     (case usr of
        None \<Rightarrow> toast ''Error'' w
      | Some u \<Rightarrow>
         if \<not> permitted (km_engine M) (kw_db w) (u_telegram_id u) perm_k8s_pods_restart
         then (log_k8s (restart_audit env u data '''' '''' audit_denied '''') w,
               [Respond (Some (MsgNotAllowed perm_k8s_pods_restart))])
         else (case split_n 3 (CHR ''|'') data of
            [pod, ns, cl] \<Rightarrow>
              (let (st1, k) = store_data (kw_store w) data;
                   (st2, kb) = confirmation st1 ''k8s_restart'' k
               in (w\<lparr>kw_store := st2\<rparr>, [EditText (View (ConfirmRestart pod cl ns)) kb]))
          | _ \<Rightarrow> toast ''Invalid data'' w))"

text \<open>The confirmation does not check the permission again.\<close>

definition handle_restart_confirm ::
  "'w k8s_module \<Rightarrow> confirm_env \<Rightarrow> user option \<Rightarrow> string \<Rightarrow> 'w k8s_world \<Rightarrow> 'w pods_reply" where
  "handle_restart_confirm M env usr data w =
     (case usr of
        None \<Rightarrow> toast ''Error'' w
      | Some u \<Rightarrow>
         (case split_n 3 (CHR ''|'') data of
            [pod, ns, cl] \<Rightarrow>
              with_client M cl (toast ''Cluster error'')
                (\<lambda>api w.
                  (case ka_pod api (kw_remote w) ns pod of
                     Inl e \<Rightarrow> toast ''Pod not found'' w
                   | Inr p \<Rightarrow>
                       if pd_owners p = []
                       then toast ''Cannot restart standalone pods (no controller). Use delete instead.'' w
                       else (let (r, res) = ka_delete_pod api (kw_remote w) ns pod;
                                 w' = w\<lparr>kw_remote := r\<rparr>
                             in case res of
                                  Inl e \<Rightarrow> toast ''Failed to restart pod''
                                    (log_k8s (restart_audit env u (''pod/'' @ pod) cl ns audit_error (err_text e)) w')
                                | Inr _ \<Rightarrow>
                                    (log_k8s (restart_audit env u (''pod/'' @ pod) cl ns audit_success '''') w',
                                     [EditText (View (PodRestarted pod (u_username u) (ce_now env))) []])))) w
          | _ \<Rightarrow> toast ''Invalid data'' w))"

definition handle_restart_cancel ::
  "'w k8s_module \<Rightarrow> instant \<Rightarrow> string \<Rightarrow> 'w k8s_world \<Rightarrow> 'w pods_reply" where
  "handle_restart_cancel M now data w =
     (case split_n 3 (CHR ''|'') data of
        [pod, ns, cl] \<Rightarrow> pod_detail_reply M now pod ns cl w
      | _ \<Rightarrow> toast ''Cancelled'' w)"

end
