(* ===== verification/KubeScale.thy ===== *)
theory KubeScale
  imports KubePods
begin

text \<open>
  Scaling deployments and stateful sets (\<open>internal/module/kubernetes/scale.go\<close>): the resource list,
  the detail view with its replica buttons, the confirmation dialog, the scale operation behind
  the approval gate, and the goroutine that watches the rollout.
\<close>

definition scale_max :: int where "scale_max = 50"
definition scale_timeout :: duration where "scale_timeout = 120 * second"
definition scale_poll :: duration where "scale_poll = 3 * second"

definition shown_name :: "user option \<Rightarrow> string" where
  "shown_name usr =
     (case usr of
        None \<Rightarrow> ''unknown''
      | Some u \<Rightarrow>
         if u_username u \<noteq> '''' then ''@'' @ u_username u
         else if u_display_name u \<noteq> '''' then u_display_name u
         else ''user_'' @ show_int (u_telegram_id u))"

datatype scale_view =
    ScaleList string string "(string \<times> int \<times> int) list" "(string \<times> int \<times> int) list"
  | ScaleDetail string string int int int string string
  | ScaleConfirm string string int int string string bool
  | ScaleLimit int
  | ScaleNeedsApproval string
  | Scaled string string int string instant
  | ScaleProgress string string int int string
  | ScaleComplete string string int int string

type_synonym 'w scale_reply = "('w, scale_view) k8s_reply"

definition kind_label :: "string \<Rightarrow> string" where
  "kind_label kind = (if kind = ''sts'' then ''StatefulSet'' else ''Deployment'')"

definition bar4 :: "string \<Rightarrow> string \<Rightarrow> string \<Rightarrow> string \<Rightarrow> string" where
  "bar4 a b c d = a @ ''|'' @ b @ ''|'' @ c @ ''|'' @ d"

definition replicas_or :: "int \<Rightarrow> workload \<Rightarrow> int" where
  "replicas_or n x = (case wl_replicas x of None \<Rightarrow> n | Some k \<Rightarrow> k)"

section \<open>The dialog\<close>

definition handle_scale ::
  "'w k8s_module \<Rightarrow> instant \<Rightarrow> instant \<Rightarrow> user option \<Rightarrow> 'w k8s_world \<Rightarrow> 'w scale_reply" where
  "handle_scale M t1 t2 usr =
     guarded_command M perm_k8s_deployments_scale usr
       (\<lambda>u. on_selected_cluster u (\<lambda>cl. choose_namespace M t1 t2 cl ''k8s_scale''
              ''Select namespace to scale resources'' ''Failed to connect to cluster.''))"

definition scale_line :: "workload \<Rightarrow> string \<times> int \<times> int" where
  "scale_line x = (wl_name x, wl_ready x, replicas_or 1 x)"

definition send_scaleable_resources ::
  "'w k8s_module \<Rightarrow> string \<Rightarrow> string \<Rightarrow> 'w k8s_world \<Rightarrow> 'w scale_reply" where
  "send_scaleable_resources M cl ns =
     with_client M cl (say (KNotice ''Failed to connect to cluster.''))
       (\<lambda>api w.
         (case ka_deployments api (kw_remote w) (list_ns ns) of
            Inl e \<Rightarrow> say (KNotice ''Failed to list deployments.'') w
          | Inr ds \<Rightarrow>
         (case ka_statefulsets api (kw_remote w) (list_ns ns) of
            Inl e \<Rightarrow> say (KNotice ''Failed to list statefulsets.'') w
          | Inr ss \<Rightarrow>
              if ds = [] \<and> ss = [] then say (MsgNothingIn ''scaleable resources'' (ns_label ns) cl) w
              else show_view True (ScaleList (ns_label ns) cl (map scale_line ds) (map scale_line ss))
                (map (\<lambda>d. [Stored ''k8s_scale_detail'' (bar4 ''deploy'' (wl_name d) (wl_namespace d) cl)]) ds @
                 map (\<lambda>s. [Stored ''k8s_scale_detail'' (bar4 ''sts'' (wl_name s) (wl_namespace s) cl)]) ss @
                 [[Raw ''k8s_scale_back'' cl]]) w)))"

definition handle_scale_namespace_select ::
  "'w k8s_module \<Rightarrow> user option \<Rightarrow> string \<Rightarrow> 'w k8s_world \<Rightarrow> 'w scale_reply" where
  "handle_scale_namespace_select M usr data w =
     (case usr of
        None \<Rightarrow> toast ''Error'' w
      | Some u \<Rightarrow> send_scaleable_resources M (selected_cluster w u) data w)"

text \<open>The current state of the resource a button names; \<open>None\<close> for an unknown kind.\<close>

definition get_workload ::
  "'w kube_api \<Rightarrow> 'w \<Rightarrow> string \<Rightarrow> string \<Rightarrow> string \<Rightarrow> workload result option" where
  "get_workload api r kind ns name =
     (if kind = ''deploy'' then Some (ka_deployment api r ns name)
      else if kind = ''sts'' then Some (ka_statefulset api r ns name)
      else None)"

definition preset_targets :: "int \<Rightarrow> int list" where
  "preset_targets cur =
     (if cur > 0 then [cur - 1] else []) @ filter (\<lambda>n. n \<noteq> cur) [1, 2, 3, 5, 10] @ [wrap32 (cur + 1)]"

definition scale_rows :: "string \<Rightarrow> string \<Rightarrow> string \<Rightarrow> string \<Rightarrow> int \<Rightarrow> btn list list" where
  "scale_rows kind name ns cl cur =
     rows_of 4 (map (\<lambda>n. Stored ''k8s_scale_set'' (bar4 kind name ns cl @ ''|'' @ show_int n))
                  (preset_targets cur)) @
     [[Stored ''k8s_scale_ns'' (ns @ ''|'' @ cl)]]"

definition handle_scale_detail ::
  "'w k8s_module \<Rightarrow> string \<Rightarrow> 'w k8s_world \<Rightarrow> 'w scale_reply" where
  "handle_scale_detail M data w =
     (case split_n 4 (CHR ''|'') data of
        [kind, name, ns, cl] \<Rightarrow>
          with_client M cl (toast ''Cluster error'')
            (\<lambda>api w.
              (case get_workload api (kw_remote w) kind ns name of
                 None \<Rightarrow> toast ''Unknown resource type'' w
               | Some (Inl e) \<Rightarrow> toast ''Resource not found'' w
               | Some (Inr x) \<Rightarrow>
                   show_view True
                     (ScaleDetail name (kind_label kind) (replicas_or 0 x) (wl_ready x)
                        (if kind = ''sts'' then wl_ready x else wl_available x) cl ns)
                     (scale_rows kind name ns cl (replicas_or 0 x)) w)) w
      | _ \<Rightarrow> toast ''Invalid data'' w)"

text \<open>An unknown kind is not refused here: its current replica count shows as 0.\<close>

definition handle_scale_set ::
  "'w k8s_module \<Rightarrow> user option \<Rightarrow> string \<Rightarrow> 'w k8s_world \<Rightarrow> 'w scale_reply" where
  "handle_scale_set M usr data w =
     (case usr of
        None \<Rightarrow> toast ''Error'' w
      | Some u \<Rightarrow>
     (case split_n 5 (CHR ''|'') data of
        [kind, name, ns, cl, n] \<Rightarrow>
          (case sscanf_int32 n of
             None \<Rightarrow> toast ''Invalid replica count'' w
           | Some target \<Rightarrow>
              if target < 0 then toast ''Cannot scale to negative replicas'' w
              else if target > scale_max then (w, [Respond (Some (View (ScaleLimit scale_max)))])
              else with_client M cl (toast ''Cluster error'')
                (\<lambda>api w.
                  (let dialog = (\<lambda>cur. show_view True
                         (ScaleConfirm (kind_label kind) name cur target cl ns (target = 0))
                         [[Stored ''k8s_scale_confirm'' data,
                           Stored ''k8s_scale_cancel'' (bar4 kind name ns cl)]] w)
                   in case get_workload api (kw_remote w) kind ns name of
                        None \<Rightarrow> dialog 0
                      | Some (Inl e) \<Rightarrow> toast ''Resource not found'' w
                      | Some (Inr x) \<Rightarrow> dialog (replicas_or 0 x))) w)
      | _ \<Rightarrow> toast ''Invalid data'' w))"

definition scale_input :: "user \<Rightarrow> string \<Rightarrow> string \<Rightarrow> string \<Rightarrow> string \<Rightarrow> int \<Rightarrow> string \<Rightarrow> approval_input" where
  "scale_input u kind name ns cl target data =
     \<lparr>in_user_id = u_telegram_id u, in_username = u_username u,
      in_action = ''kubernetes.deployments.scale'', in_resource = name, in_cluster = cl,
      in_namespace = ns, in_details = [(''kind'', kind), (''target_replicas'', show_int target)],
      in_callback_data = data\<rparr>"

definition update_scale ::
  "'w kube_api \<Rightarrow> 'w \<Rightarrow> string \<Rightarrow> string \<Rightarrow> string \<Rightarrow> int \<Rightarrow> 'w \<times> unit result" where
  "update_scale api r kind ns name target =
     (if kind = ''deploy'' then ka_scale_deployment api r ns name target
      else if kind = ''sts'' then ka_scale_statefulset api r ns name target
      else (r, Inr ()))"

definition scale_audit ::
  "confirm_env \<Rightarrow> user \<Rightarrow> string \<Rightarrow> string \<Rightarrow> string \<Rightarrow> string \<Rightarrow> int \<Rightarrow> go_error option \<Rightarrow> audit_entry" where
  "scale_audit env u kind name ns cl target err =
     k8s_audit (ce_audit_id env) (ce_now env) u (kind @ ''.scale'') (kind_label kind @ ''/'' @ name) cl ns
       [(''target_replicas'', show_int target)]
       (case err of None \<Rightarrow> audit_success | Some e \<Rightarrow> audit_error)
       (case err of None \<Rightarrow> '''' | Some e \<Rightarrow> err_text e)"

text \<open>
  The confirmation checks neither the permission nor the limit again. The watch it starts in the
  background is \<open>watch_rollout\<close> below.
\<close>

definition handle_scale_confirm ::
  "'w k8s_module \<Rightarrow> confirm_env \<Rightarrow> user option \<Rightarrow> string \<Rightarrow> 'w k8s_world \<Rightarrow> 'w scale_reply" where
  "handle_scale_confirm M env usr data w =
     (case usr of
        None \<Rightarrow> toast ''Error'' w
      | Some u \<Rightarrow>
     (case split_n 5 (CHR ''|'') data of
        [kind, name, ns, cl, n] \<Rightarrow>
          (case sscanf_int32 n of
             None \<Rightarrow> toast ''Invalid replica count'' w
           | Some target \<Rightarrow>
              (case k8s_gate M env (scale_input u kind name ns cl target data) w of
                 (w1, True) \<Rightarrow> (w1, [Respond (Some (View (ScaleNeedsApproval name)))])
               | (w1, False) \<Rightarrow>
                   with_client M cl (toast ''Cluster error'')
                     (\<lambda>api w.
                       (let (r, res) = update_scale api (kw_remote w) kind ns name target;
                            w' = log_k8s (scale_audit env u kind name ns cl target (error_of res))
                                   (w\<lparr>kw_remote := r\<rparr>)
                        in case res of
                             Inl e \<Rightarrow> toast ''Failed to scale'' w'
                           | Inr _ \<Rightarrow>
                               (w', [EditText (View (Scaled (kind_label kind) name target
                                       (shown_name (Some u)) (ce_now env))) []]))) w1))
      | _ \<Rightarrow> toast ''Invalid data'' w))"

definition handle_scale_cancel ::
  "'w k8s_module \<Rightarrow> string \<Rightarrow> 'w k8s_world \<Rightarrow> 'w scale_reply" where
  "handle_scale_cancel M data w =
     (case split_n 4 (CHR ''|'') data of
        [a, b, c, d] \<Rightarrow> handle_scale_detail M (join_with ''|'' [a, b, c, d]) w
      | _ \<Rightarrow> toast ''Cancelled'' w)"

definition handle_scale_back ::
  "'w k8s_module \<Rightarrow> instant \<Rightarrow> instant \<Rightarrow> user option \<Rightarrow> 'w k8s_world \<Rightarrow> 'w scale_reply" where
  "handle_scale_back M t1 t2 usr w = handle_scale M t1 t2 usr w"

section \<open>Watching the rollout\<close>

text \<open>
  The goroutine polls at every tick until the deadline, a failed read or a complete rollout.
  \<open>ready t\<close> is what the read at \<open>t\<close> after the start returns; a read that loses the race against
  the deadline is an error. The result is the messages it puts in place of the confirmation.
\<close>

definition rollout_reading ::
  "string \<Rightarrow> (duration \<Rightarrow> workload result) \<Rightarrow> duration \<Rightarrow> int result" where
  "rollout_reading kind get t =
     (if kind = ''deploy'' \<or> kind = ''sts''
      then (case get t of Inl e \<Rightarrow> Inl e | Inr x \<Rightarrow> Inr (wl_ready x)) else Inr 0)"

function watch_ticks ::
  "(duration \<Rightarrow> int result) \<Rightarrow> string \<Rightarrow> string \<Rightarrow> int \<Rightarrow> string \<Rightarrow> duration \<Rightarrow> scale_view list" where
  "watch_ticks ready label name target who t =
     (if t > scale_timeout then []
      else (case ready t of
              Inl e \<Rightarrow> []
            | Inr r \<Rightarrow>
                if r \<ge> target then [ScaleComplete label name target r who]
                else ScaleProgress label name target r who #
                     watch_ticks ready label name target who (t + scale_poll)))"
  by pat_completeness auto
termination
  by (relation "measure (\<lambda>(ready, label, name, target, who, t). nat (scale_timeout + 1 - t))")
    (auto simp: scale_poll_def second_def)

declare watch_ticks.simps [simp del]

definition watch_rollout ::
  "user option \<Rightarrow> string \<Rightarrow> string \<Rightarrow> int \<Rightarrow> bool \<Rightarrow> (duration \<Rightarrow> workload result) \<Rightarrow> scale_view list" where
  "watch_rollout usr kind name target reached get =
     (if \<not> reached then []
      else watch_ticks (rollout_reading kind get) (kind_label kind) name target (shown_name usr) scale_poll)"

end
