(* ===== verification/KubeNodes.thy ===== *)
theory KubeNodes
  imports KubeScale
begin

text \<open>
  Nodes (\<open>internal/module/kubernetes/nodes.go\<close>): the list and the detail view with their metrics,
  cordoning and uncordoning, the drain (cordon, then evict every pod that no daemon set manages)
  and the top pods of a node.
\<close>

definition drain_timeout :: duration where "drain_timeout = 5 * minute"
definition drain_grace :: int where "drain_grace = 30"

datatype node_mark = NodeGreen | NodeYellow | NodeRed | NodeWhite

fun ready_condition :: "node_condition list \<Rightarrow> node_mark \<times> string" where
  "ready_condition [] = (NodeWhite, ''Unknown'')"
| "ready_condition (c # cs) =
     (if nc_type c = ''Ready''
      then (if nc_status c = ''True'' then (NodeGreen, ''Ready'')
            else if nc_status c = ''False'' then (NodeRed, ''NotReady'')
            else (NodeRed, ''Unknown''))
      else ready_condition cs)"

definition node_condition_display :: "kube_node \<Rightarrow> node_mark \<times> string" where
  "node_condition_display n =
     (if nd_unschedulable n then (NodeYellow, ''SchedulingDisabled'')
      else ready_condition (nd_conditions n))"

fun owned_by_daemonset :: "(string \<times> string) list \<Rightarrow> bool" where
  "owned_by_daemonset [] = False"
| "owned_by_daemonset ((kind, n) # os) = (if kind = ''DaemonSet'' then True else owned_by_daemonset os)"

definition is_daemonset_pod :: "kube_pod \<Rightarrow> bool" where
  "is_daemonset_pod p = owned_by_daemonset (pd_owners p)"

text \<open>A resource as the views show it: capacity alone, or the usage with its share.\<close>

datatype usage_text =
    CpuCap int | CpuUsed int int int
  | RamCap byte_text | RamUsed int byte_text byte_text

record node_line =
  nl_mark :: node_mark
  nl_name :: string
  nl_status :: string
  nl_pods :: nat
  nl_cpu :: usage_text
  nl_ram :: usage_text
  nl_disk :: byte_text

definition share :: "int \<Rightarrow> int \<Rightarrow> int" where
  "share used cap = percent (fdiv (of_int64 used) (of_int64 cap))"

definition pods_on :: "'w kube_api \<Rightarrow> 'w \<Rightarrow> string \<Rightarrow> kube_pod list result" where
  "pods_on api r node = ka_pods_selected api r '''' (on_node node)"

definition count_pods :: "kube_pod list result \<Rightarrow> nat" where
  "count_pods res = (case res of Inl e \<Rightarrow> 0 | Inr ps \<Rightarrow> length ps)"

definition node_line_of :: "'w kube_api \<Rightarrow> 'w kube_api option \<Rightarrow> 'w \<Rightarrow> kube_node \<Rightarrow> node_line" where
  "node_line_of api metrics r n =
     (let cpu = milli_value (nd_cpu n); ram = unit_value (nd_memory n);
          used = (case metrics of
                    None \<Rightarrow> None
                  | Some m \<Rightarrow> (case ka_node_metric m r (nd_name n) of Inl e \<Rightarrow> None | Inr x \<Rightarrow> Some x))
      in \<lparr>nl_mark = fst (node_condition_display n), nl_name = nd_name n,
          nl_status = snd (node_condition_display n), nl_pods = count_pods (pods_on api r (nd_name n)),
          nl_cpu = (case used of
             Some x \<Rightarrow> if cpu > 0 then CpuUsed (share (milli_value (nm_cpu x)) cpu) (milli_value (nm_cpu x)) cpu
                       else CpuCap cpu
           | None \<Rightarrow> CpuCap cpu),
          nl_ram = (case used of
             Some x \<Rightarrow> if ram > 0 then RamUsed (share (unit_value (nm_memory x)) ram)
                                         (format_bytes (unit_value (nm_memory x))) (format_bytes ram)
                       else RamCap (format_bytes ram)
           | None \<Rightarrow> RamCap (format_bytes ram)),
          nl_disk = format_bytes (unit_value (nd_disk n))\<rparr>)"

text \<open>In the detail view a bar goes with the usage; a capacity that is not positive drops the line.\<close>

datatype gauge =
    CpuGauge "(nat \<times> nat) option" int int int
  | RamGauge "(nat \<times> nat) option" int byte_text byte_text
  | CpuAllocatable int
  | RamAllocatable byte_text
  | DiskAllocatable byte_text

record node_view =
  nv_name :: string
  nv_mark :: node_mark
  nv_status :: string
  nv_pods :: nat
  nv_gauges :: "gauge list"
  nv_kubelet :: string
  nv_os :: string
  nv_os_image :: string

datatype nodes_view =
    NodeList string "node_line list"
  | NodeDetail node_view
  | ConfirmCordon bool string string
  | ConfirmDrain string nat int string
  | NodeNeedsApproval string
  | NodeUpdated bool string string instant
  | Draining string
  | DrainFailed string string
  | DrainProgress string "(string \<times> bool) list"
  | Drained bool string nat nat nat string instant
  | NodeTopPods string string "(string \<times> int \<times> byte_text) list" "int option"

type_synonym 'w nodes_reply = "('w, nodes_view) k8s_reply"

definition bar2 :: "string \<Rightarrow> string \<Rightarrow> string" where
  "bar2 a b = a @ ''|'' @ b"

section \<open>List and detail\<close>

definition metrics_option :: "'w kube_api result \<Rightarrow> 'w kube_api option" where
  "metrics_option r = (case r of Inl e \<Rightarrow> None | Inr m \<Rightarrow> Some m)"

definition send_node_list ::
  "'w k8s_module \<Rightarrow> bool \<Rightarrow> user option \<Rightarrow> 'w k8s_world \<Rightarrow> 'w nodes_reply" where
  "send_node_list M cb usr w =
     (case usr of
        None \<Rightarrow> say (KNotice ''Could not identify you.'') w
      | Some u \<Rightarrow>
          on_selected_cluster u (\<lambda>cl.
            with_client M cl (say (KNotice ''Failed to connect to cluster.''))
              (\<lambda>api w.
                (case ka_nodes api (kw_remote w) of
                   Inl e \<Rightarrow> say (KNotice ''Failed to list nodes.'') w
                 | Inr ns \<Rightarrow>
                    (let (w', m) = metrics_for M cl w
                     in show_view cb
                          (NodeList cl (map (node_line_of api (metrics_option m) (kw_remote w)) ns))
                          (map (\<lambda>n. [Stored ''k8s_node_detail'' (bar2 (nd_name n) cl)]) ns @
                           [[Raw ''k8s_top_nodes'' cl, Raw ''k8s_nodes_refresh'' cl]]) w')))) w)"

definition handle_nodes ::
  "'w k8s_module \<Rightarrow> user option \<Rightarrow> 'w k8s_world \<Rightarrow> 'w nodes_reply" where
  "handle_nodes M usr =
     guarded_command M perm_k8s_nodes_view usr (\<lambda>u. send_node_list M False (Some u))"

definition handle_nodes_refresh ::
  "'w k8s_module \<Rightarrow> user option \<Rightarrow> 'w k8s_world \<Rightarrow> 'w nodes_reply" where
  "handle_nodes_refresh M usr w = send_node_list M True usr w"

definition handle_nodes_back ::
  "'w k8s_module \<Rightarrow> user option \<Rightarrow> 'w k8s_world \<Rightarrow> 'w nodes_reply" where
  "handle_nodes_back M usr w = send_node_list M True usr w"

definition node_gauges :: "node_metrics option \<Rightarrow> kube_node \<Rightarrow> gauge list" where
  "node_gauges metrics n =
     (let cpu = milli_value (nd_cpu n); ram = unit_value (nd_memory n); disk = unit_value (nd_disk n)
      in (case metrics of
            Some x \<Rightarrow>
              (let uc = milli_value (nm_cpu x); ur = unit_value (nm_memory x)
               in (if cpu > 0 then [CpuGauge (render_bar uc cpu bar_width) (share uc cpu) uc cpu] else []) @
                  (if ram > 0 then [RamGauge (render_bar ur ram bar_width) (share ur ram)
                                      (format_bytes ur) (format_bytes ram)] else []))
          | None \<Rightarrow> [CpuAllocatable cpu, RamAllocatable (format_bytes ram)]) @
         (if disk > 0 then [DiskAllocatable (format_bytes disk)] else []))"

definition node_actions :: "'w k8s_module \<Rightarrow> user option \<Rightarrow> kube_node \<Rightarrow> string \<Rightarrow> 'w k8s_world \<Rightarrow> btn list" where
  "node_actions M usr n data w =
     (case usr of
        None \<Rightarrow> []
      | Some u \<Rightarrow>
         (if permitted (km_engine M) (kw_db w) (u_telegram_id u) perm_k8s_nodes_cordon
          then [Stored (if nd_unschedulable n then ''k8s_node_uncordon'' else ''k8s_node_cordon'') data]
          else []) @
         (if permitted (km_engine M) (kw_db w) (u_telegram_id u) perm_k8s_nodes_drain
          then [Stored ''k8s_node_drain'' data] else [])) @
     [Stored ''k8s_node_top_pods'' data]"

definition handle_node_detail ::
  "'w k8s_module \<Rightarrow> user option \<Rightarrow> string \<Rightarrow> 'w k8s_world \<Rightarrow> 'w nodes_reply" where
  "handle_node_detail M usr data w =
     (case split_n 2 (CHR ''|'') data of
        [name, cl] \<Rightarrow>
          with_client M cl (toast ''Cluster error'')
            (\<lambda>api w.
              (case ka_node api (kw_remote w) name of
                 Inl e \<Rightarrow> toast ''Node not found'' w
               | Inr n \<Rightarrow>
                  (let (w', m) = metrics_for M cl w;
                       nm = (case m of Inl e \<Rightarrow> None
                             | Inr api' \<Rightarrow> (case ka_node_metric api' (kw_remote w) name of
                                              Inl e \<Rightarrow> None | Inr x \<Rightarrow> Some x))
                   in show_view True
                        (NodeDetail \<lparr>nv_name = name, nv_mark = fst (node_condition_display n),
                           nv_status = snd (node_condition_display n),
                           nv_pods = count_pods (pods_on api (kw_remote w) name),
                           nv_gauges = node_gauges nm n, nv_kubelet = nd_kubelet n, nv_os = nd_os n,
                           nv_os_image = nd_os_image n\<rparr>)
                        [node_actions M usr n (bar2 name cl) w', [Raw ''k8s_nodes_back'' cl]] w'))) w
      | _ \<Rightarrow> toast ''Invalid data'' w)"

section \<open>Cordon and uncordon\<close>

definition node_dialog :: "bool \<Rightarrow> string \<Rightarrow> string \<Rightarrow> 'w k8s_world \<Rightarrow> 'w nodes_reply" where
  "node_dialog cordon confirm data w =
     (case split_n 2 (CHR ''|'') data of
        [name, cl] \<Rightarrow>
          show_view True (ConfirmCordon cordon name cl)
            [[Stored confirm data, Stored ''k8s_node_detail'' data]] w
      | _ \<Rightarrow> toast ''Invalid data'' w)"

definition handle_node_cordon :: "string \<Rightarrow> 'w k8s_world \<Rightarrow> 'w nodes_reply" where
  "handle_node_cordon = node_dialog True ''k8s_node_cordon_confirm''"

definition handle_node_uncordon :: "string \<Rightarrow> 'w k8s_world \<Rightarrow> 'w nodes_reply" where
  "handle_node_uncordon = node_dialog False ''k8s_node_uncordon_confirm''"

definition done_rows :: "string \<Rightarrow> string \<Rightarrow> btn list list" where
  "done_rows name cl = [[Stored ''k8s_node_detail'' (bar2 name cl), Raw ''k8s_nodes_back'' cl]]"

definition cordon_action :: "bool \<Rightarrow> string" where
  "cordon_action cordon = (if cordon then ''node.cordon'' else ''node.uncordon'')"

definition perform_cordon ::
  "'w k8s_module \<Rightarrow> confirm_env \<Rightarrow> bool \<Rightarrow> user option \<Rightarrow> string \<Rightarrow> 'w k8s_world \<Rightarrow> 'w nodes_reply" where
  "perform_cordon M env cordon usr data w =
     (case usr of
        None \<Rightarrow> toast ''Error'' w
      | Some u \<Rightarrow>
     (case split_n 2 (CHR ''|'') data of
        [name, cl] \<Rightarrow>
          with_client M cl (toast ''Cluster error'')
            (\<lambda>api w.
              (case ka_node api (kw_remote w) name of
                 Inl e \<Rightarrow> toast ''Node not found'' w
               | Inr n \<Rightarrow>
                  (let (r, res) = ka_update_node api (kw_remote w) (n\<lparr>nd_unschedulable := cordon\<rparr>);
                       entry = (\<lambda>status err. k8s_audit (ce_audit_id env) (ce_now env) u
                                  (cordon_action cordon) (''node/'' @ name) cl '''' [] status err)
                   in case res of
                        Inl e \<Rightarrow> toast ''Failed to update node''
                                   (log_k8s (entry audit_error (err_text e)) (w\<lparr>kw_remote := r\<rparr>))
                      | Inr _ \<Rightarrow> show_view True
                                   (NodeUpdated cordon name (shown_name (Some u)) (ce_now env))
                                   (done_rows name cl)
                                   (log_k8s (entry audit_success '''') (w\<lparr>kw_remote := r\<rparr>))))) w
      | _ \<Rightarrow> toast ''Invalid data'' w))"

definition handle_node_cordon_confirm ::
  "'w k8s_module \<Rightarrow> confirm_env \<Rightarrow> user option \<Rightarrow> string \<Rightarrow> 'w k8s_world \<Rightarrow> 'w nodes_reply" where
  "handle_node_cordon_confirm M env usr data w = perform_cordon M env True usr data w"

definition handle_node_uncordon_confirm ::
  "'w k8s_module \<Rightarrow> confirm_env \<Rightarrow> user option \<Rightarrow> string \<Rightarrow> 'w k8s_world \<Rightarrow> 'w nodes_reply" where
  "handle_node_uncordon_confirm M env usr data w = perform_cordon M env False usr data w"

section \<open>Drain\<close>

definition handle_node_drain ::
  "'w k8s_module \<Rightarrow> string \<Rightarrow> 'w k8s_world \<Rightarrow> 'w nodes_reply" where
  "handle_node_drain M data w =
     (case split_n 2 (CHR ''|'') data of
        [name, cl] \<Rightarrow>
          with_client M cl (toast ''Cluster error'')
            (\<lambda>api w.
              (let evictable = (case pods_on api (kw_remote w) name of
                                  Inl e \<Rightarrow> 0
                                | Inr ps \<Rightarrow> length (filter (\<lambda>p. \<not> is_daemonset_pod p) ps))
               in show_view True (ConfirmDrain name evictable drain_grace cl)
                    [[Stored ''k8s_node_drain_confirm'' data, Stored ''k8s_node_detail'' data]] w)) w
      | _ \<Rightarrow> toast ''Invalid data'' w)"

text \<open>
  The eviction loop: every pod that is not a daemon set's is evicted in its namespace; each
  outcome is appended to the log, and after each eviction the log so far is shown.
\<close>

fun evict_pods ::
  "'w kube_api \<Rightarrow> kube_pod list \<Rightarrow> 'w \<Rightarrow> (string \<times> bool) list \<Rightarrow>
   'w \<times> (string \<times> bool) list \<times> (string \<times> bool) list list" where
  "evict_pods api [] r seen = (r, seen, [])"
| "evict_pods api (p # ps) r seen =
     (if is_daemonset_pod p then evict_pods api ps r seen
      else (let (r1, res) = ka_evict api r (pd_namespace p) (pd_name p) drain_grace;
                log1 = seen @ [(pd_name p, \<not> is_err res)];
                (r2, log2, shown) = evict_pods api ps r1 log1
            in (r2, log2, log1 # shown)))"

text \<open>What the background goroutine does: the world after it and the messages it edits in.\<close>

definition perform_drain ::
  "'w k8s_module \<Rightarrow> confirm_env \<Rightarrow> user \<Rightarrow> string \<Rightarrow> string \<Rightarrow> 'w k8s_world \<Rightarrow> 'w nodes_reply" where
  "perform_drain M env u name cl =
     with_client M cl (\<lambda>w. (w, [EditText (View (DrainFailed name ''cluster error'')) []]))
       (\<lambda>api w.
         (case ka_node api (kw_remote w) name of
            Inl e \<Rightarrow> (w, [EditText (View (DrainFailed name ''node not found'')) []])
          | Inr n \<Rightarrow>
             (let (r1, res) = ka_update_node api (kw_remote w) (n\<lparr>nd_unschedulable := True\<rparr>);
                  w1 = w\<lparr>kw_remote := r1\<rparr>
              in case res of
                   Inl e \<Rightarrow> (w1, [EditText (View (DrainFailed name (err_text e))) []])
                 | Inr _ \<Rightarrow>
             (case pods_on api r1 name of
                Inl e \<Rightarrow> (w1, [EditText (View (DrainFailed name (err_text e))) []])
              | Inr ps \<Rightarrow>
                 (let (r2, seen, shown) = evict_pods api ps r1 [];
                      evicted = length (filter snd seen);
                      failed = length (filter (\<lambda>x. \<not> snd x) seen);
                      skipped = length (filter is_daemonset_pod ps);
                      entry = k8s_audit (ce_audit_id env) (ce_now env) u ''node.drain''
                        (''node/'' @ name) cl ''''
                        [(''evicted'', show_nat evicted), (''skipped'', show_nat skipped),
                         (''failed'', show_nat failed)]
                        (if failed > 0 then audit_error else audit_success) '''';
                      (w2, final) = show_view True
                        (Drained (failed = 0) name evicted skipped failed (shown_name (Some u)) (ce_now env))
                        (done_rows name cl) (log_k8s entry (w1\<lparr>kw_remote := r2\<rparr>))
                  in (w2, map (\<lambda>l. EditText (View (DrainProgress name l)) []) shown @ final))))))"

definition drain_input :: "user \<Rightarrow> string \<Rightarrow> string \<Rightarrow> string \<Rightarrow> approval_input" where
  "drain_input u name cl data =
     \<lparr>in_user_id = u_telegram_id u, in_username = u_username u, in_action = ''kubernetes.nodes.drain'',
      in_resource = name, in_cluster = cl, in_namespace = '''', in_details = [(''node'', name)],
      in_callback_data = data\<rparr>"

text \<open>The confirmation answers at once and starts the drain in the background; here the two follow
  each other.\<close>

definition handle_node_drain_confirm ::
  "'w k8s_module \<Rightarrow> confirm_env \<Rightarrow> user option \<Rightarrow> string \<Rightarrow> 'w k8s_world \<Rightarrow> 'w nodes_reply" where
  "handle_node_drain_confirm M env usr data w =
     (case usr of
        None \<Rightarrow> toast ''Error'' w
      | Some u \<Rightarrow>
     (case split_n 2 (CHR ''|'') data of
        [name, cl] \<Rightarrow>
          (case k8s_gate M env (drain_input u name cl data) w of
             (w1, True) \<Rightarrow> (w1, [Respond (Some (View (NodeNeedsApproval name)))])
           | (w1, False) \<Rightarrow>
               (let (w2, es) = perform_drain M env u name cl w1
                in (w2, EditText (View (Draining name)) [] # es)))
      | _ \<Rightarrow> toast ''Invalid data'' w))"

section \<open>Top pods of a node\<close>

definition pod_usage :: "pod_metrics \<Rightarrow> int \<times> int" where
  "pod_usage m =
     (sum_list (map (\<lambda>(c, r). milli_value c) (pm_usage m)), sum_list (map (\<lambda>(c, r). unit_value r) (pm_usage m)))"

text \<open>
  The loop stops at the fifteenth line; the rest it then announces is computed from all pods of
  the cluster, not from those of the node.
\<close>

fun top_lines ::
  "nat \<Rightarrow> nat \<Rightarrow> (string \<times> string) list \<Rightarrow> pod_metrics list \<Rightarrow> (string \<times> int \<times> byte_text) list \<times> int option"
where
  "top_lines all count on_this [] = ([], None)"
| "top_lines all count on_this (m # ms) =
     (if (pm_namespace m, pm_name m) \<notin> set on_this then top_lines all count on_this ms
      else (let line = (pm_name m, fst (pod_usage m), format_bytes (snd (pod_usage m)))
            in if Suc count \<ge> 15 then ([line], Some (int all - 15))
               else (let (ls, left) = top_lines all (Suc count) on_this ms in (line # ls, left))))"

definition handle_node_top_pods ::
  "'w k8s_module \<Rightarrow> string \<Rightarrow> 'w k8s_world \<Rightarrow> 'w nodes_reply" where
  "handle_node_top_pods M data w =
     (case split_n 2 (CHR ''|'') data of
        [name, cl] \<Rightarrow>
          with_metrics M cl (say (KNotice ''Failed to connect to metrics.''))
            (\<lambda>mapi w.
              (case ka_pod_metrics mapi (kw_remote w) '''' of
                 Inl e \<Rightarrow> say (KNotice ''Failed to get pod metrics.'') w
               | Inr ms \<Rightarrow>
                   with_client M cl (say (KNotice ''Failed to connect to cluster.''))
                     (\<lambda>api w.
                       (let here = (case pods_on api (kw_remote w) name of
                                      Inl e \<Rightarrow> []
                                    | Inr ps \<Rightarrow> map (\<lambda>p. (pd_namespace p, pd_name p)) ps);
                            (ls, left) = top_lines (length ms) 0 here ms
                        in show_view True (NodeTopPods name cl ls left)
                             [[Stored ''k8s_node_detail'' (bar2 name cl)]] w)) w)) w
      | _ \<Rightarrow> toast ''Invalid data'' w)"

end
