(* ===== verification/KubeTop.thy ===== *)
theory KubeTop
  imports KubeNodes
begin

text \<open>
  Resource usage (\<open>internal/module/kubernetes/top.go\<close>): pods sorted by CPU and paged, nodes with
  their capacity; resource quotas (quota.go); and the plain lists of namespaces (namespaces.go),
  deployments (deploys.go) and cron jobs (cronjobs.go).
\<close>

definition top_page_size :: int where "top_page_size = 6"

record usage_line =
  ul_name :: string
  ul_cpu :: "(nat \<times> nat) option"
  ul_cpu_pct :: "int option"
  ul_cpu_used :: int
  ul_cpu_cap :: int
  ul_cpu_mark :: level_mark
  ul_ram :: "(nat \<times> nat) option"
  ul_ram_pct :: "int option"
  ul_ram_used :: byte_text
  ul_ram_cap :: byte_text
  ul_ram_mark :: level_mark

datatype quota_amount = CpuAmount cpu_text | ByteAmount byte_text | PlainAmount quantity

datatype quota_level = QuotaOk | QuotaWarning | QuotaCritical

record quota_line =
  ql_label :: string
  ql_bar :: "(nat \<times> nat) option"
  ql_pct :: int
  ql_used :: quota_amount
  ql_hard :: quota_amount
  ql_level :: quota_level

record deploy_line =
  dl_mark :: node_mark
  dl_name :: string
  dl_namespace :: "string option"
  dl_status :: string
  dl_ready :: int
  dl_desired :: int
  dl_available :: int

record cron_line =
  cl_name :: string
  cl_namespace :: "string option"
  cl_suspended :: bool
  cl_schedule :: string
  cl_last_run :: "(instant \<times> age_text) option"
  cl_last_success :: "instant option"
  cl_running :: "nat option"

datatype top_view =
    PodTop string string "usage_line list" int int
  | NodeTop string "(node_mark \<times> string \<times> usage_line) list"
  | QuotaView string string "quota_line list" "(quota_level \<times> string \<times> int) list"
  | NamespaceList string "(bool \<times> string \<times> string \<times> age_text) list" nat nat nat
  | DeployList string string "deploy_line list"
  | CronJobList string string "cron_line list"

type_synonym 'w top_reply = "('w, top_view) k8s_reply"

section \<open>Pod metrics (top.go)\<close>

text \<open>
  The limit a usage is measured against. The accessor of the limits never returns nil, so the
  branch of the source that falls back to the requests is never taken.
\<close>

definition cpu_limit :: "kube_pod result \<Rightarrow> int" where
  "cpu_limit p = (case p of Inl e \<Rightarrow> 0 | Inr x \<Rightarrow> sum_list (map (\<lambda>c. milli_value (ct_limit_cpu c)) (pd_containers x)))"

definition ram_limit :: "kube_pod result \<Rightarrow> int" where
  "ram_limit p = (case p of Inl e \<Rightarrow> 0 | Inr x \<Rightarrow> sum_list (map (\<lambda>c. unit_value (ct_limit_memory c)) (pd_containers x)))"

definition ratio :: "int \<Rightarrow> int \<Rightarrow> rat" where
  "ratio used cap = fdiv (of_int64 used) (of_int64 cap)"

text \<open>A capacity of zero shows the plain usage.\<close>

definition usage_line_of :: "string \<Rightarrow> int \<Rightarrow> int \<Rightarrow> int \<Rightarrow> int \<Rightarrow> usage_line" where
  "usage_line_of name cpu cpu_cap ram ram_cap =
     \<lparr>ul_name = name,
      ul_cpu = (if cpu_cap > 0 then render_bar cpu cpu_cap bar_width else None),
      ul_cpu_pct = (if cpu_cap > 0 then Some (percent (ratio cpu cpu_cap)) else None),
      ul_cpu_used = cpu, ul_cpu_cap = cpu_cap,
      ul_cpu_mark = (if cpu_cap > 0 then threshold_emoji (ratio cpu cpu_cap) True else MarkNone),
      ul_ram = (if ram_cap > 0 then render_bar ram ram_cap bar_width else None),
      ul_ram_pct = (if ram_cap > 0 then Some (percent (ratio ram ram_cap)) else None),
      ul_ram_used = format_bytes ram, ul_ram_cap = format_bytes ram_cap,
      ul_ram_mark = (if ram_cap > 0 then threshold_emoji (ratio ram ram_cap) False else MarkNone)\<rparr>"

definition pod_usage_line :: "'w kube_api \<Rightarrow> 'w \<Rightarrow> pod_metrics \<Rightarrow> usage_line" where
  "pod_usage_line api r m =
     (let p = ka_pod api r (pm_namespace m) (pm_name m)
      in usage_line_of (pm_name m) (fst (pod_usage m)) (cpu_limit p) (snd (pod_usage m)) (ram_limit p))"

text \<open>\<open>sort.Slice\<close> by falling CPU usage; the order of equal pods, which Go leaves open, is kept.\<close>

definition by_cpu :: "pod_metrics list \<Rightarrow> pod_metrics list" where
  "by_cpu ms = sort_key (\<lambda>m. - fst (pod_usage m)) ms"

definition clamp_page :: "int \<Rightarrow> int \<Rightarrow> int" where
  "clamp_page pages page = (let p = (if page < 1 then 1 else page) in if p > pages then pages else p)"

definition top_pages :: "'a list \<Rightarrow> int" where
  "top_pages xs = (int (length xs) + top_page_size - 1) div top_page_size"

definition top_slice :: "int \<Rightarrow> 'a list \<Rightarrow> 'a list option" where
  "top_slice page xs =
     (let start = (page - 1) * top_page_size;
          end' = (if start + top_page_size > int (length xs) then int (length xs) else start + top_page_size)
      in go_slice start end' xs)"

definition nav_buttons :: "string \<Rightarrow> string \<Rightarrow> int \<Rightarrow> int \<Rightarrow> btn list" where
  "nav_buttons ns cl page pages =
     (if page > 1 then [Stored ''k8s_top_page'' (bar3 ns cl (show_int (page - 1)))] else []) @
     (if page < pages then [Stored ''k8s_top_page'' (bar3 ns cl (show_int (page + 1)))] else [])"

definition top_rows :: "string \<Rightarrow> string \<Rightarrow> int \<Rightarrow> int \<Rightarrow> btn list list" where
  "top_rows ns cl page pages =
     [[Stored ''k8s_top_refresh'' (bar3 ns cl (show_int page)), Raw ''k8s_top_nodes'' cl]] @
     (if nav_buttons ns cl page pages \<noteq> [] then [nav_buttons ns cl page pages] else []) @
     [[Raw ''k8s_top_info'' '''']]"

definition send_pod_top ::
  "'w k8s_module \<Rightarrow> bool \<Rightarrow> string \<Rightarrow> string \<Rightarrow> int \<Rightarrow> 'w k8s_world \<Rightarrow> 'w top_reply option" where
  "send_pod_top M cb cl ns page =
     with_metrics M cl (\<lambda>w. Some (say (KNotice ''Failed to connect to cluster metrics. Is Metrics Server installed?'') w))
       (\<lambda>mapi. with_client M cl (\<lambda>w. Some (say (KNotice ''Failed to connect to cluster.'') w))
         (\<lambda>api w.
           (case ka_pod_metrics mapi (kw_remote w) (list_ns ns) of
              Inl e \<Rightarrow> Some (say (KNotice ''Failed to get pod metrics. Is Metrics Server installed?'') w)
            | Inr ms \<Rightarrow>
                if ms = [] then Some (say (MsgNothingIn ''pod metrics'' (ns_label ns) cl) w)
                else (let pages = top_pages ms; p = clamp_page pages page
                      in case top_slice p (by_cpu ms) of
                           None \<Rightarrow> None
                         | Some shown \<Rightarrow>
                            Some (show_view cb
                              (PodTop (ns_label ns) cl (map (pod_usage_line api (kw_remote w)) shown) p pages)
                              (top_rows ns cl p pages) w)))))"

definition send_node_top ::
  "'w k8s_module \<Rightarrow> bool \<Rightarrow> user option \<Rightarrow> 'w k8s_world \<Rightarrow> 'w top_reply" where
  "send_node_top M cb usr w =
     (case usr of
        None \<Rightarrow> if cb then toast ''Error'' w else say (KNotice ''Could not identify you.'') w
      | Some u \<Rightarrow>
          on_selected_cluster u (\<lambda>cl.
            with_metrics M cl (say (KNotice ''Failed to connect to cluster metrics.''))
              (\<lambda>mapi. with_client M cl (say (KNotice ''Failed to connect to cluster.''))
                (\<lambda>api w.
                  (case ka_node_metrics mapi (kw_remote w) of
                     Inl e \<Rightarrow> say (KNotice ''Failed to get node metrics. Is Metrics Server installed?'') w
                   | Inr ms \<Rightarrow>
                  (case ka_nodes api (kw_remote w) of
                     Inl e \<Rightarrow> say (KNotice ''Failed to list nodes.'') w
                   | Inr ns \<Rightarrow>
                      (let ready = (\<lambda>n. foldl (\<lambda>acc c. if nc_type c = ''Ready''
                             then (if nc_status c = ''True'' then ''Ready''
                                   else if nc_status c = ''Unknown'' then ''Unknown'' else ''NotReady'')
                             else acc) ''Unknown'' (nd_conditions n));
                           info = (\<lambda>name. find (\<lambda>n. nd_name n = name) (rev ns));
                           mark = (\<lambda>s. if s = ''Ready'' then NodeGreen else if s = ''NotReady'' then NodeRed
                                       else NodeWhite);
                           line = (\<lambda>m. (case info (nm_name m) of
                             None \<Rightarrow> (NodeWhite, ''Unknown'',
                               usage_line_of (nm_name m) (milli_value (nm_cpu m)) 0 (unit_value (nm_memory m)) 0)
                           | Some n \<Rightarrow> (mark (ready n), ready n,
                               usage_line_of (nm_name m) (milli_value (nm_cpu m)) (milli_value (nd_cpu n))
                                 (unit_value (nm_memory m)) (unit_value (nd_memory n)))))
                       in show_view cb (NodeTop cl (map line ms))
                            [[Raw ''k8s_top_nodes_refresh'' cl, Raw ''k8s_top_back'' cl]] w)))))) w)"

definition handle_top ::
  "'w k8s_module \<Rightarrow> instant \<Rightarrow> instant \<Rightarrow> bool \<Rightarrow> user option \<Rightarrow> string \<Rightarrow> 'w k8s_world \<Rightarrow> 'w top_reply" where
  "handle_top M t1 t2 cb usr text =
     guarded_command M perm_k8s_metrics_view usr
       (\<lambda>u. case go_fields text of
          c # a # r \<Rightarrow>
            if to_lower a = ''nodes'' then send_node_top M cb (Some u)
            else on_selected_cluster u (\<lambda>cl. choose_namespace M t1 t2 cl ''k8s_top''
                   ''Select namespace for metrics'' ''Failed to connect to cluster. Is it reachable?'')
        | _ \<Rightarrow> on_selected_cluster u (\<lambda>cl. choose_namespace M t1 t2 cl ''k8s_top''
                   ''Select namespace for metrics'' ''Failed to connect to cluster. Is it reachable?''))"

definition handle_top_namespace_select ::
  "'w k8s_module \<Rightarrow> user option \<Rightarrow> string \<Rightarrow> 'w k8s_world \<Rightarrow> 'w top_reply option" where
  "handle_top_namespace_select M usr data w =
     (case usr of
        None \<Rightarrow> Some (toast ''Error'' w)
      | Some u \<Rightarrow> send_pod_top M True (selected_cluster w u) data 1 w)"

definition handle_top_page ::
  "'w k8s_module \<Rightarrow> string \<Rightarrow> 'w k8s_world \<Rightarrow> 'w top_reply option" where
  "handle_top_page M data w =
     (case split_n 3 (CHR ''|'') data of
        [ns, cl, page] \<Rightarrow> send_pod_top M True cl ns (page_arg page) w
      | _ \<Rightarrow> Some (toast ''Invalid data'' w))"

definition handle_top_refresh ::
  "'w k8s_module \<Rightarrow> string \<Rightarrow> 'w k8s_world \<Rightarrow> 'w top_reply option" where
  "handle_top_refresh M data w = handle_top_page M data w"

definition handle_top_nodes_callback ::
  "'w k8s_module \<Rightarrow> user option \<Rightarrow> 'w k8s_world \<Rightarrow> 'w top_reply" where
  "handle_top_nodes_callback M usr w = send_node_top M True usr w"

definition handle_top_nodes_refresh ::
  "'w k8s_module \<Rightarrow> user option \<Rightarrow> 'w k8s_world \<Rightarrow> 'w top_reply" where
  "handle_top_nodes_refresh M usr w = send_node_top M True usr w"

definition handle_top_back ::
  "'w k8s_module \<Rightarrow> instant \<Rightarrow> instant \<Rightarrow> user option \<Rightarrow> string \<Rightarrow> 'w k8s_world \<Rightarrow> 'w top_reply" where
  "handle_top_back M t1 t2 usr text w = handle_top M t1 t2 True usr text w"

section \<open>Quotas (quota.go)\<close>

definition handle_quota ::
  "'w k8s_module \<Rightarrow> instant \<Rightarrow> instant \<Rightarrow> user option \<Rightarrow> 'w k8s_world \<Rightarrow> 'w top_reply" where
  "handle_quota M t1 t2 usr =
     guarded_command M perm_k8s_quota_view usr
       (\<lambda>u. on_selected_cluster u (\<lambda>cl. choose_namespace M t1 t2 cl ''k8s_quota''
              ''Select namespace for quotas'' ''Failed to connect to cluster.''))"

definition cpu_resource :: "string \<Rightarrow> bool" where
  "cpu_resource n \<longleftrightarrow> n \<in> {''requests.cpu'', ''limits.cpu'', ''cpu''}"

definition memory_resource :: "string \<Rightarrow> bool" where
  "memory_resource n \<longleftrightarrow> n \<in> {''requests.memory'', ''limits.memory'', ''memory''}"

definition quota_value :: "string \<Rightarrow> quantity \<Rightarrow> int" where
  "quota_value n q = (if cpu_resource n then milli_value q else unit_value q)"

definition quota_amount_of :: "string \<Rightarrow> quantity \<Rightarrow> quota_amount" where
  "quota_amount_of n q =
     (if cpu_resource n then CpuAmount (format_cpu (milli_value q))
      else if memory_resource n then ByteAmount (format_bytes (unit_value q))
      else PlainAmount q)"

definition resource_labels :: "(string \<times> string) list" where
  "resource_labels =
     [(''requests.cpu'', ''CPU Requests''), (''limits.cpu'', ''CPU Limits''),
      (''requests.memory'', ''RAM Requests''), (''limits.memory'', ''RAM Limits''), (''pods'', ''Pods''),
      (''services'', ''Services''), (''persistentvolumeclaims'', ''PVCs''), (''configmaps'', ''ConfigMaps''),
      (''secrets'', ''Secrets'')]"

definition format_resource_name :: "string \<Rightarrow> string" where
  "format_resource_name n = (case map_of resource_labels n of Some l \<Rightarrow> l | None \<Rightarrow> n)"

definition quota_level_of :: "rat \<Rightarrow> quota_level" where
  "quota_level_of x =
     (if x \<ge> float64 (95 / 100) then QuotaCritical
      else if x \<ge> float64 (85 / 100) then QuotaWarning else QuotaOk)"

definition quota_lines_of :: "resource_quota \<Rightarrow> (string \<times> quota_line) list" where
  "quota_lines_of q =
     concat (map (\<lambda>(n, hard). (case rq_used q n of
         None \<Rightarrow> []
       | Some used \<Rightarrow>
           (let h = quota_value n hard; u = quota_value n used
            in if h \<le> 0 then []
               else [(n, \<lparr>ql_label = format_resource_name n, ql_bar = render_bar u h bar_width,
                         ql_pct = percent (ratio u h), ql_used = quota_amount_of n used,
                         ql_hard = quota_amount_of n hard, ql_level = quota_level_of (ratio u h)\<rparr>)])))
       (rq_hard q))"

definition send_quota_view ::
  "'w k8s_module \<Rightarrow> string \<Rightarrow> string \<Rightarrow> 'w k8s_world \<Rightarrow> 'w top_reply" where
  "send_quota_view M cl ns =
     with_client M cl (say (KNotice ''Failed to connect to cluster.''))
       (\<lambda>api w.
         if ns = ''_all'' then say (KNotice ''Please select a specific namespace for quota view.'') w
         else (case ka_quotas api (kw_remote w) ns of
            Inl e \<Rightarrow> say (KNotice ''Failed to get resource quotas.'') w
          | Inr qs \<Rightarrow>
             (let lines = concat (map quota_lines_of qs);
                  warnings = map (\<lambda>(n, l). (ql_level l, n, ql_pct l))
                               (filter (\<lambda>(n, l). ql_level l \<noteq> QuotaOk) lines)
              in show_view True (QuotaView ns cl (map snd lines) warnings)
                   [[Stored ''k8s_quota_refresh'' (bar2 ns cl), Raw ''k8s_quota_back'' cl]] w)))"

definition handle_quota_namespace_select ::
  "'w k8s_module \<Rightarrow> user option \<Rightarrow> string \<Rightarrow> 'w k8s_world \<Rightarrow> 'w top_reply" where
  "handle_quota_namespace_select M usr data w =
     (case usr of
        None \<Rightarrow> toast ''Error'' w
      | Some u \<Rightarrow> send_quota_view M (selected_cluster w u) data w)"

definition handle_quota_refresh ::
  "'w k8s_module \<Rightarrow> string \<Rightarrow> 'w k8s_world \<Rightarrow> 'w top_reply" where
  "handle_quota_refresh M data w =
     (case split_n 2 (CHR ''|'') data of
        [ns, cl] \<Rightarrow> send_quota_view M cl ns w
      | _ \<Rightarrow> toast ''Invalid data'' w)"

definition handle_quota_back ::
  "'w k8s_module \<Rightarrow> instant \<Rightarrow> instant \<Rightarrow> user option \<Rightarrow> 'w k8s_world \<Rightarrow> 'w top_reply" where
  "handle_quota_back M t1 t2 usr w = handle_quota M t1 t2 usr w"

section \<open>Namespaces (namespaces.go)\<close>

definition namespace_view :: "instant \<Rightarrow> string \<Rightarrow> kube_namespace list \<Rightarrow> top_view" where
  "namespace_view now cl nss =
     (let terminating = filter (\<lambda>n. ns_phase n = ''Terminating'') nss
      in NamespaceList cl
           (map (\<lambda>n. (ns_phase n \<noteq> ''Terminating'', ns_name n, ns_phase n,
                      format_duration (time_sub now (ns_created n)))) nss)
           (length nss) (length nss - length terminating) (length terminating))"

definition handle_namespaces_command ::
  "'w k8s_module \<Rightarrow> instant \<Rightarrow> user option \<Rightarrow> 'w k8s_world \<Rightarrow> 'w top_reply" where
  "handle_namespaces_command M now usr =
     guarded_command M perm_k8s_namespaces_list usr
       (\<lambda>u. on_selected_cluster u (\<lambda>cl.
          with_client M cl (say (KNotice ''Failed to connect to cluster. Is it reachable?''))
            (\<lambda>api w.
              (case ka_namespaces api (kw_remote w) of
                 Inl e \<Rightarrow> say (KNotice ''Failed to list namespaces.'') w
               | Inr nss \<Rightarrow>
                  if nss = [] then say (MsgNothingIn ''namespaces'' '''' cl) w
                  else show_view False (namespace_view now cl nss)
                         [[Raw ''k8s_namespaces_refresh'' cl]] w))))"

definition handle_namespaces_refresh ::
  "'w k8s_module \<Rightarrow> instant \<Rightarrow> user option \<Rightarrow> string \<Rightarrow> 'w k8s_world \<Rightarrow> 'w top_reply" where
  "handle_namespaces_refresh M now usr data w =
     (if data = '''' then toast ''Invalid data'' w
      else (case usr of
         None \<Rightarrow> toast ''Error'' w
       | Some u \<Rightarrow>
          with_client M data (toast ''Cluster error'')
            (\<lambda>api w.
              (case ka_namespaces api (kw_remote w) of
                 Inl e \<Rightarrow> toast ''Failed to list namespaces'' w
               | Inr nss \<Rightarrow> show_view True (namespace_view now data nss)
                              [[Raw ''k8s_namespaces_refresh'' data]] w)) w))"

section \<open>Deployments (deploys.go)\<close>

text \<open>\<open>*deploy.Spec.Replicas\<close> panics on a nil pointer: \<open>None\<close>.\<close>

definition deploy_line_of :: "string \<Rightarrow> workload \<Rightarrow> deploy_line option" where
  "deploy_line_of ns d =
     (case wl_replicas d of
        None \<Rightarrow> None
      | Some desired \<Rightarrow>
          (let (m, s) = (if wl_available d = 0 \<and> desired > 0 then (NodeRed, ''Degraded'')
                         else if wl_ready d < desired then (NodeYellow, ''Progressing'')
                         else (NodeGreen, ''Available''))
           in Some \<lparr>dl_mark = m, dl_name = wl_name d,
                    dl_namespace = (if ns = ''_all'' then Some (wl_namespace d) else None),
                    dl_status = s, dl_ready = wl_ready d, dl_desired = desired,
                    dl_available = wl_available d\<rparr>))"

definition send_deploy_list ::
  "'w k8s_module \<Rightarrow> bool \<Rightarrow> string \<Rightarrow> string \<Rightarrow> 'w k8s_world \<Rightarrow> 'w top_reply option" where
  "send_deploy_list M cb cl ns =
     with_client M cl (\<lambda>w. Some (say (KNotice ''Failed to connect to cluster.'') w))
       (\<lambda>api w.
         (case ka_deployments api (kw_remote w) (list_ns ns) of
            Inl e \<Rightarrow> Some (say (KNotice ''Failed to list deployments.'') w)
          | Inr ds \<Rightarrow>
              if ds = [] then Some (say (MsgNothingIn ''deployments'' (ns_label ns) cl) w)
              else (case those (map (deploy_line_of ns) ds) of
                 None \<Rightarrow> None
               | Some ls \<Rightarrow>
                   Some (show_view cb (DeployList (ns_label ns) cl ls)
                     [[Stored ''k8s_deploys_refresh'' (bar2 ns cl)]] w))))"

definition handle_deploys_command ::
  "'w k8s_module \<Rightarrow> instant \<Rightarrow> instant \<Rightarrow> user option \<Rightarrow> string \<Rightarrow> 'w k8s_world \<Rightarrow> 'w top_reply option" where
  "handle_deploys_command M t1 t2 usr text w =
     (case usr of
        None \<Rightarrow> Some (say (KNotice ''Could not identify you.'') w)
      | Some u \<Rightarrow>
         if \<not> permitted (km_engine M) (kw_db w) (u_telegram_id u) perm_k8s_deployments_list
         then Some (say (MsgNotAllowed perm_k8s_deployments_list) w)
         else (let cl = selected_cluster w u
               in if cl = '''' then Some (say (KNotice ''No cluster selected. Use /clusters to select one.'') w)
                  else (case go_fields text of
                     c # ns # r \<Rightarrow> send_deploy_list M False cl ns w
                   | _ \<Rightarrow> Some (choose_namespace M t1 t2 cl ''k8s_deploys'' ''Select namespace for deployments''
                                 ''Failed to connect to cluster. Is it reachable?'' w))))"

definition handle_deploys_namespace_select ::
  "'w k8s_module \<Rightarrow> user option \<Rightarrow> string \<Rightarrow> 'w k8s_world \<Rightarrow> 'w top_reply option" where
  "handle_deploys_namespace_select M usr data w =
     (case usr of
        None \<Rightarrow> Some (toast ''Error'' w)
      | Some u \<Rightarrow> send_deploy_list M True (selected_cluster w u) data w)"

definition handle_deploys_refresh ::
  "'w k8s_module \<Rightarrow> string \<Rightarrow> 'w k8s_world \<Rightarrow> 'w top_reply option" where
  "handle_deploys_refresh M data w =
     (case split_n 2 (CHR ''|'') data of
        [ns, cl] \<Rightarrow> send_deploy_list M True cl ns w
      | _ \<Rightarrow> Some (toast ''Invalid data'' w))"

section \<open>Cron jobs (cronjobs.go)\<close>

definition cron_line_of :: "instant \<Rightarrow> string \<Rightarrow> cron_job \<Rightarrow> cron_line" where
  "cron_line_of now ns j =
     \<lparr>cl_name = cj_name j, cl_namespace = (if ns = ''_all'' then Some (cj_namespace j) else None),
      cl_suspended = (cj_suspend j = Some True), cl_schedule = cj_schedule j,
      cl_last_run = map_option (\<lambda>t. (t, format_duration (time_sub now t))) (cj_last_schedule j),
      cl_last_success = cj_last_success j,
      cl_running = (if cj_active j > 0 then Some (cj_active j) else None)\<rparr>"

definition send_cron_job_list ::
  "'w k8s_module \<Rightarrow> instant \<Rightarrow> bool \<Rightarrow> string \<Rightarrow> string \<Rightarrow> 'w k8s_world \<Rightarrow> 'w top_reply" where
  "send_cron_job_list M now cb cl ns =
     with_client M cl (say (KNotice ''Failed to connect to cluster.''))
       (\<lambda>api w.
         (case ka_cron_jobs api (kw_remote w) (list_ns ns) of
            Inl e \<Rightarrow> say (KNotice ''Failed to list CronJobs.'') w
          | Inr js \<Rightarrow>
              if js = [] then say (MsgNothingIn ''CronJobs'' (ns_label ns) cl) w
              else show_view cb (CronJobList (ns_label ns) cl (map (cron_line_of now ns) js))
                     [[Stored ''k8s_cronjobs_refresh'' (bar2 ns cl)]] w))"

definition handle_cron_jobs_command ::
  "'w k8s_module \<Rightarrow> instant \<Rightarrow> instant \<Rightarrow> user option \<Rightarrow> string \<Rightarrow> 'w k8s_world \<Rightarrow> 'w top_reply" where
  "handle_cron_jobs_command M t1 t2 usr text =
     guarded_command M perm_k8s_cronjobs_list usr
       (\<lambda>u. on_selected_cluster u (\<lambda>cl.
          (case go_fields text of
             c # ns # r \<Rightarrow> send_cron_job_list M t1 False cl ns
           | _ \<Rightarrow> choose_namespace M t1 t2 cl ''k8s_cronjobs'' ''Select namespace for CronJobs''
                    ''Failed to connect to cluster. Is it reachable?'')))"

definition handle_cron_jobs_namespace_select ::
  "'w k8s_module \<Rightarrow> instant \<Rightarrow> user option \<Rightarrow> string \<Rightarrow> 'w k8s_world \<Rightarrow> 'w top_reply" where
  "handle_cron_jobs_namespace_select M now usr data w =
     (case usr of
        None \<Rightarrow> toast ''Error'' w
      | Some u \<Rightarrow> send_cron_job_list M now True (selected_cluster w u) data w)"

definition handle_cron_jobs_refresh ::
  "'w k8s_module \<Rightarrow> instant \<Rightarrow> string \<Rightarrow> 'w k8s_world \<Rightarrow> 'w top_reply" where
  "handle_cron_jobs_refresh M now data w =
     (case split_n 2 (CHR ''|'') data of
        [ns, cl] \<Rightarrow> send_cron_job_list M now True cl ns w
      | _ \<Rightarrow> toast ''Invalid data'' w)"

end
