(* ===== verification/KubeProps.thy ===== *)
theory KubeProps
  imports KubeTop ClusterProps ArgocdProps
begin

text \<open>
  Properties of the Kubernetes module: permissions at the commands and at the confirmations, the
  scale dialog, the rollout watch, the drain, and paging.
\<close>

section \<open>Commands and permissions\<close>

lemmas command_defs =
  handle_pods_def handle_logs_command_def handle_events_command_def handle_top_def handle_scale_def
  handle_nodes_def handle_quota_def handle_namespaces_command_def handle_deploys_command_def
  handle_cron_jobs_command_def guarded_command_def

lemma guarded_denied:
  "\<not> permitted (km_engine M) (kw_db w) (u_telegram_id u) perm \<Longrightarrow>
   guarded_command M perm (Some u) k w = (w, [SendText (MsgNotAllowed perm) []])"
  by (simp add: guarded_command_def say_def)

text \<open>C16: No command of the Kubernetes module does anything for a user without its permission: whatever
  the cluster, the arguments and the state, the reply is the refusal alone and nothing changes -
  except that a refused /restart is recorded in the audit log.\<close>

theorem k8s_commands_need_their_permission:
  assumes "denied = (\<lambda>p. \<not> permitted (km_engine M) (kw_db w) (u_telegram_id u) p)"
  shows "(denied perm_k8s_pods_list \<longrightarrow>
       handle_pods M t1 t2 (Some u) w = (w, [SendText (MsgNotAllowed perm_k8s_pods_list) []])) \<and>
     (denied perm_k8s_pods_logs \<longrightarrow>
       handle_logs_command M (Some u) input w = (w, [SendText (MsgNotAllowed perm_k8s_pods_logs) []])) \<and>
     (denied perm_k8s_pods_events \<longrightarrow>
       handle_events_command M (Some u) input w = (w, [SendText (MsgNotAllowed perm_k8s_pods_events) []])) \<and>
     (denied perm_k8s_metrics_view \<longrightarrow>
       handle_top M t1 t2 cb (Some u) input w = (w, [SendText (MsgNotAllowed perm_k8s_metrics_view) []])) \<and>
     (denied perm_k8s_deployments_scale \<longrightarrow>
       handle_scale M t1 t2 (Some u) w = (w, [SendText (MsgNotAllowed perm_k8s_deployments_scale) []])) \<and>
     (denied perm_k8s_nodes_view \<longrightarrow>
       handle_nodes M (Some u) w = (w, [SendText (MsgNotAllowed perm_k8s_nodes_view) []])) \<and>
     (denied perm_k8s_quota_view \<longrightarrow>
       handle_quota M t1 t2 (Some u) w = (w, [SendText (MsgNotAllowed perm_k8s_quota_view) []])) \<and>
     (denied perm_k8s_namespaces_list \<longrightarrow>
       handle_namespaces_command M t1 (Some u) w = (w, [SendText (MsgNotAllowed perm_k8s_namespaces_list) []])) \<and>
     (denied perm_k8s_deployments_list \<longrightarrow>
       handle_deploys_command M t1 t2 (Some u) input w = Some (w, [SendText (MsgNotAllowed perm_k8s_deployments_list) []])) \<and>
     (denied perm_k8s_cronjobs_list \<longrightarrow>
       handle_cron_jobs_command M t1 t2 (Some u) input w = (w, [SendText (MsgNotAllowed perm_k8s_cronjobs_list) []])) \<and>
     (denied perm_k8s_pods_restart \<longrightarrow>
       handle_restart_command M env (Some u) input w =
         (w\<lparr>kw_audit := kw_audit w @ [restart_audit env u [] [] [] audit_denied []]\<rparr>,
          [SendText (MsgNotAllowed perm_k8s_pods_restart) []]))"
  using assms
  by (simp add: command_defs say_def handle_restart_command_def log_k8s_def)

section \<open>Confirmations\<close>

lemma client_for_engine [simp]: "client_for (M\<lparr>km_engine := e\<rparr>) = client_for M"
  by (simp add: client_for_def fun_eq_iff)

lemma with_client_engine [simp]: "with_client (M\<lparr>km_engine := e\<rparr>) = with_client M"
  by (simp add: with_client_def fun_eq_iff)

lemma k8s_gate_engine [simp]: "k8s_gate (M\<lparr>km_engine := e\<rparr>) = k8s_gate M"
  by (simp add: k8s_gate_def fun_eq_iff)

text \<open>The confirmation buttons of the Kubernetes module check no permission: restarting a pod,
  scaling, cordoning, uncordoning and draining do exactly the same whatever the RBAC engine would
  say, for every user, data and state. Only the commands and the dialogs before them are guarded,
  so whoever sees a confirmation (anyone in a group chat) can press it.\<close>

theorem k8s_confirmations_ignore_permissions:
  "handle_restart_confirm (M\<lparr>km_engine := e\<rparr>) env usr data w = handle_restart_confirm M env usr data w \<and>
   handle_scale_confirm (M\<lparr>km_engine := e\<rparr>) env usr data w = handle_scale_confirm M env usr data w \<and>
   handle_node_cordon_confirm (M\<lparr>km_engine := e\<rparr>) env usr data w = handle_node_cordon_confirm M env usr data w \<and>
   handle_node_uncordon_confirm (M\<lparr>km_engine := e\<rparr>) env usr data w = handle_node_uncordon_confirm M env usr data w \<and>
   handle_node_drain_confirm (M\<lparr>km_engine := e\<rparr>) env usr data w = handle_node_drain_confirm M env usr data w"
  unfolding handle_restart_confirm_def handle_scale_confirm_def handle_node_cordon_confirm_def
    handle_node_uncordon_confirm_def perform_cordon_def handle_node_drain_confirm_def perform_drain_def
    with_client_engine k8s_gate_engine
  by (rule refl conjI)+

section \<open>Scaling\<close>

lemma with_client_ok:
  "client_for M cl w = (w1, Inr api) \<Longrightarrow> with_client M cl failed ok w = ok api w1"
  by (simp add: with_client_def)

text \<open>The dialog a scale button leads to, if it leads to one.\<close>

lemma scale_set_dialog:
  assumes "EditText (View (ScaleConfirm label name cur target cl ns zero)) kb \<in>
             set (snd (handle_scale_set M usr data w))"
  shows "\<exists>kind n. split_n 5 (CHR ''|'') data = [kind, name, ns, cl, n] \<and> sscanf_int32 n = Some target \<and>
     0 \<le> target \<and> target \<le> scale_max \<and> label = kind_label kind \<and> zero = (target = 0) \<and>
     hd (hd kb) = (''k8s_scale_confirm'', callback_key data)"
  using assms
  by (auto simp: handle_scale_set_def toast_def with_client_def show_view_def case_prod_beta
      lay_out_keys send_or_edit_def Let_def
      split: option.splits list.splits if_splits sum.splits prod.splits)

text \<open>C17: What a scale confirmation does is what its dialog showed: if pressing a replica button opened
  the dialog "scale <name> to <target>", then the target is between 0 and 50, the confirm button
  carries the dialog's data, and confirming it (with a reachable cluster and no approval in the
  way) asks the API for exactly that resource, namespace and number and appends one audit entry
  that says so - success or error as the API answered.\<close>

theorem scale_confirms_what_was_shown:
  assumes "EditText (View (ScaleConfirm label name cur target cl ns zero)) kb \<in>
             set (snd (handle_scale_set M usr data w))"
    and "km_approval M' = None" "client_for M' cl w' = (w1, Inr api)"
  shows "0 \<le> target \<and> target \<le> 50 \<and> hd (hd kb) = (''k8s_scale_confirm'', callback_key data) \<and>
     (\<exists>kind. kind = hd (split_n 5 (CHR ''|'') data) \<and> label = kind_label kind \<and>
        kw_remote (fst (handle_scale_confirm M' env (Some u) data w')) =
          fst (update_scale api (kw_remote w') kind ns name target) \<and>
        kw_audit (fst (handle_scale_confirm M' env (Some u) data w')) = kw_audit w' @
          [scale_audit env u kind name ns cl target
             (error_of (snd (update_scale api (kw_remote w') kind ns name target)))])"
proof -
  from scale_set_dialog [OF assms(1)] obtain kind n where d:
    "split_n 5 (CHR ''|'') data = [kind, name, ns, cl, n]" "sscanf_int32 n = Some target"
    "0 \<le> target" "target \<le> scale_max" "label = kind_label kind"
    "hd (hd kb) = (''k8s_scale_confirm'', callback_key data)" by blast
  have w1: "kw_remote w1 = kw_remote w'" "kw_audit w1 = kw_audit w'"
    using client_for_frame [of M' cl w'] assms(3) by simp_all
  have "kw_remote (fst (handle_scale_confirm M' env (Some u) data w')) =
          fst (update_scale api (kw_remote w') kind ns name target) \<and>
        kw_audit (fst (handle_scale_confirm M' env (Some u) data w')) = kw_audit w' @
          [scale_audit env u kind name ns cl target
             (error_of (snd (update_scale api (kw_remote w') kind ns name target)))]"
    using assms(2) w1
    by (simp add: handle_scale_confirm_def d(1,2) k8s_gate_def with_client_ok [OF assms(3)] Let_def
        case_prod_beta split: sum.splits)
  with d show ?thesis by (auto simp: scale_max_def)
qed

section \<open>The rollout watch\<close>

fun is_progress :: "scale_view \<Rightarrow> bool" where
  "is_progress (ScaleProgress a b c d e) = True"
| "is_progress v = False"

lemma watch_ticks_length:
  "0 \<le> t \<Longrightarrow> int (length (watch_ticks ready l n g u t)) * scale_poll \<le> max 0 (scale_timeout + scale_poll - t)"
proof (induction ready l n g u t rule: watch_ticks.induct)
  case (1 ready l n g u t)
  show ?case
  proof (cases "t > scale_timeout \<or> is_err (ready t) \<or> projr (ready t) \<ge> g")
    case True
    then show ?thesis
      using "1.prems" by (subst watch_ticks.simps) (auto simp: scale_poll_def second_def split: sum.splits)
  next
    case False
    then obtain r where r: "ready t = Inr r" "\<not> r \<ge> g" by (cases "ready t") auto
    have "int (length (watch_ticks ready l n g u (t + scale_poll))) * scale_poll
        \<le> max 0 (scale_timeout + scale_poll - (t + scale_poll))"
      using "1.IH" [OF _ r(1) r(2)] False "1.prems" by (simp add: scale_poll_def second_def)
    then show ?thesis
      using False r by (subst watch_ticks.simps) (simp add: algebra_simps max_def split: if_splits)
  qed
qed

lemma watch_ticks_butlast: "list_all is_progress (butlast (watch_ticks ready l n g u t))"
proof (induction ready l n g u t rule: watch_ticks.induct)
  case (1 ready l n g u t)
  then show ?case by (subst watch_ticks.simps) (auto split: sum.splits)
qed

text \<open>C18: The rollout watch always ends: whatever the polls return, it edits the message at most forty
  times (once per three-second tick of the 120-second window), every edit but the last reports
  progress, and an unreachable cluster gives none.\<close>

theorem rollout_watch_ends:
  "length (watch_rollout usr kind name target ok get) \<le> 40 \<and>
   list_all is_progress (butlast (watch_rollout usr kind name target ok get)) \<and>
   watch_rollout usr kind name target False get = []"
proof -
  have "int (length (watch_ticks ready l n g u scale_poll)) \<le> 40" for ready l n g u
    using watch_ticks_length [of scale_poll ready l n g u]
    by (simp add: scale_poll_def scale_timeout_def second_def)
  then show ?thesis
    by (auto simp: watch_rollout_def watch_ticks_butlast)
qed

lemma watch_ticks_complete:
  assumes "t + int k * scale_poll \<le> scale_timeout"
    and "\<And>j. j < k \<Longrightarrow> \<not> is_err (ready (t + int j * scale_poll))"
    and "ready (t + int k * scale_poll) = Inr r" "g \<le> r"
  shows "\<exists>r'. g \<le> r' \<and> watch_ticks ready l n g u t \<noteq> [] \<and>
           last (watch_ticks ready l n g u t) = ScaleComplete l n g r' u"
  using assms
proof (induction k arbitrary: t)
  case 0
  then show ?case by (subst (1 2) watch_ticks.simps) auto
next
  case (Suc k)
  have "t \<le> scale_timeout"
    using Suc.prems(1) by (simp add: scale_poll_def second_def)
  moreover obtain x where x: "ready t = Inr x" using Suc.prems(2) [of 0] by (cases "ready t") auto
  moreover have shift: "t + scale_poll + int j * scale_poll = t + int (Suc j) * scale_poll" for j
    by (simp add: algebra_simps)
  have "\<exists>r'. g \<le> r' \<and> watch_ticks ready l n g u (t + scale_poll) \<noteq> [] \<and>
           last (watch_ticks ready l n g u (t + scale_poll)) = ScaleComplete l n g r' u"
  proof (rule Suc.IH)
    show "\<not> is_err (ready (t + scale_poll + int j * scale_poll))" if "j < k" for j
      unfolding shift using Suc.prems(2) [of "Suc j"] that by simp
    show "ready (t + scale_poll + int k * scale_poll) = Inr r"
      unfolding shift by (rule Suc.prems(3))
    show "t + scale_poll + int k * scale_poll \<le> scale_timeout"
      unfolding shift by (rule Suc.prems(1))
  qed (rule Suc.prems(4))
  ultimately show ?case
    by (cases "g \<le> x") (subst (1 2) watch_ticks.simps; auto)+
qed

text \<open>C19: A rollout that completes in time is reported: if at some poll within the two minutes the
  deployment has the wanted number of ready replicas, and the polls before it succeeded, then the
  last message the watch leaves says that the rollout is complete.\<close>

theorem completed_rollout_is_reported:
  assumes "k < 40" "\<And>j. j < k \<Longrightarrow> \<not> is_err (get (3 * second * (1 + int j)))"
    and "get (3 * second * (1 + int k)) = Inr x" "target \<le> wl_ready x"
  shows "\<exists>r. target \<le> r \<and> watch_rollout usr ''deploy'' name target True get \<noteq> [] \<and>
     last (watch_rollout usr ''deploy'' name target True get) =
       ScaleComplete ''Deployment'' name target r (shown_name usr)"
proof -
  have at: "scale_poll + int j * scale_poll = 3 * second * (1 + int j)" for j
    by (simp add: scale_poll_def algebra_simps)
  have "\<exists>r'. target \<le> r' \<and>
      watch_ticks (rollout_reading ''deploy'' get) ''Deployment'' name target (shown_name usr) scale_poll \<noteq> [] \<and>
      last (watch_ticks (rollout_reading ''deploy'' get) ''Deployment'' name target (shown_name usr) scale_poll)
        = ScaleComplete ''Deployment'' name target r' (shown_name usr)"
  proof (rule watch_ticks_complete)
    show "scale_poll + int k * scale_poll \<le> scale_timeout"
      using assms(1) unfolding at by (simp add: scale_timeout_def second_def)
    show "\<not> is_err (rollout_reading ''deploy'' get (scale_poll + int j * scale_poll))" if "j < k" for j
      using assms(2) [OF that] unfolding at by (auto simp: rollout_reading_def split: sum.splits)
    show "rollout_reading ''deploy'' get (scale_poll + int k * scale_poll) = Inr (wl_ready x)"
      unfolding at by (simp add: rollout_reading_def assms(3))
  qed (rule assms(4))
  then show ?thesis by (simp add: watch_rollout_def kind_label_def)
qed

definition demo_workload :: "int \<Rightarrow> workload" where
  "demo_workload n = \<lparr>wl_name = ''api'', wl_namespace = ''shop'', wl_replicas = Some 3, wl_ready = n,
     wl_available = n\<rparr>"

theorem completed_rollout_is_reported_witness:
  "last (watch_rollout None ''deploy'' ''api'' 3 True
     (\<lambda>t. Inr (demo_workload (if t < 6 * second then 1 else 3)))) \<in> range (\<lambda>r. ScaleComplete ''Deployment'' ''api'' 3 r ''unknown'')"
proof -
  have "\<exists>r. 3 \<le> r \<and> watch_rollout None ''deploy'' ''api'' 3 True
        (\<lambda>t. Inr (demo_workload (if t < 6 * second then 1 else 3))) \<noteq> [] \<and>
      last (watch_rollout None ''deploy'' ''api'' 3 True
        (\<lambda>t. Inr (demo_workload (if t < 6 * second then 1 else 3)))) =
        ScaleComplete ''Deployment'' ''api'' 3 r (shown_name None)"
    by (rule completed_rollout_is_reported [of 1 _ "demo_workload 3"])
      (simp_all add: demo_workload_def second_def)
  then show ?thesis by (auto simp: shown_name_def)
qed


section \<open>Draining a node\<close>

lemma evict_pods_spec:
  "evict_pods api ps r seen =
     (let es = filter (\<lambda>p. \<not> is_daemonset_pod p) ps
      in (foldl (\<lambda>r p. fst (ka_evict api r (pd_namespace p) (pd_name p) drain_grace)) r es,
          fst (snd (evict_pods api ps r seen)), snd (snd (evict_pods api ps r seen)))) \<and>
   length (fst (snd (evict_pods api ps r seen))) =
     length seen + length (filter (\<lambda>p. \<not> is_daemonset_pod p) ps) \<and>
   length (snd (snd (evict_pods api ps r seen))) = length (filter (\<lambda>p. \<not> is_daemonset_pod p) ps)"
proof (induction ps arbitrary: r seen)
  case Nil
  then show ?case by simp
next
  case (Cons p ps)
  show ?case
  proof (cases "is_daemonset_pod p")
    case True
    then show ?thesis using Cons.IH [of r seen] by simp
  next
    case False
    obtain r1 res where e: "ka_evict api r (pd_namespace p) (pd_name p) drain_grace = (r1, res)"
      by fastforce
    show ?thesis
      using Cons.IH [of r1 "seen @ [(pd_name p, \<not> is_err res)]"] False e
      by (auto simp: Let_def case_prod_beta prod_eq_iff)
  qed
qed

text \<open>C20: A drain cordons the node, then evicts the node's pods in order, each once and with the grace
  period, except those of daemon sets, which it leaves alone; every pod listed is counted as
  evicted, failed or skipped, and one audit entry carries the counts, with status error exactly
  when an eviction failed. A failed eviction does not stop the drain.\<close>

theorem drain_evicts_every_pod_once:
  assumes "client_for M cl w = (w1, Inr api)" "ka_node api (kw_remote w1) name = Inr n"
    and "ka_update_node api (kw_remote w1) (n\<lparr>nd_unschedulable := True\<rparr>) = (r1, Inr ())"
    and "ka_pods_selected api r1 [] (on_node name) = Inr ps"
  shows "kw_remote (fst (perform_drain M env u name cl w)) =
           foldl (\<lambda>r p. fst (ka_evict api r (pd_namespace p) (pd_name p) 30)) r1
             (filter (\<lambda>p. \<not> is_daemonset_pod p) ps) \<and>
     (\<exists>evicted failed skipped.
        evicted + failed + skipped = length ps \<and> skipped = length (filter is_daemonset_pod ps) \<and>
        kw_audit (fst (perform_drain M env u name cl w)) = kw_audit w @
          [k8s_audit (ce_audit_id env) (ce_now env) u ''node.drain'' (''node/'' @ name) cl []
             [(''evicted'', show_nat evicted), (''skipped'', show_nat skipped), (''failed'', show_nat failed)]
             (if failed > 0 then audit_error else audit_success) []] \<and>
        (\<exists>kb. last (snd (perform_drain M env u name cl w)) =
           EditText (View (Drained (failed = 0) name evicted skipped failed (shown_name (Some u)) (ce_now env))) kb))"
proof -
  have w1: "kw_audit w1 = kw_audit w"
    using client_for_frame [of M cl w] assms(1) by simp
  obtain r2 seen shown where e: "evict_pods api ps r1 [] = (r2, seen, shown)" by (metis prod_cases3)
  have r2: "r2 = foldl (\<lambda>r p. fst (ka_evict api r (pd_namespace p) (pd_name p) drain_grace)) r1
      (filter (\<lambda>p. \<not> is_daemonset_pod p) ps)"
    and len: "length seen = length (filter (\<lambda>p. \<not> is_daemonset_pod p) ps)"
    using evict_pods_spec [of api ps r1 "[]"] e by (simp_all add: Let_def)
  have count: "length (filter snd seen) + length (filter (\<lambda>x. \<not> snd x) seen) +
      length (filter is_daemonset_pod ps) = length ps"
    using len sum_length_filter_compl [of snd seen] sum_length_filter_compl [of is_daemonset_pod ps]
    by simp
  define ev fl sk where d: "ev = length (filter snd seen)" "fl = length (filter (\<lambda>x. \<not> snd x) seen)"
    "sk = length (filter is_daemonset_pod ps)"
  let ?st = "fst (perform_drain M env u name cl w)" and ?es = "snd (perform_drain M env u name cl w)"
  have "kw_remote ?st = r2"
    and audit: "kw_audit ?st = kw_audit w @
          [k8s_audit (ce_audit_id env) (ce_now env) u ''node.drain'' (''node/'' @ name) cl []
             [(''evicted'', show_nat ev), (''skipped'', show_nat sk), (''failed'', show_nat fl)]
             (if fl > 0 then audit_error else audit_success) []]"
    and final: "\<exists>kb. last ?es =
           EditText (View (Drained (fl = 0) name ev sk fl (shown_name (Some u)) (ce_now env))) kb"
    using assms e w1
    by (simp_all add: perform_drain_def with_client_ok [OF assms(1)] pods_on_def Let_def d
        case_prod_beta show_view_def send_or_edit_def log_k8s_def del: filter_False)
  moreover have "ev + fl + sk = length ps"
    using count by (simp add: d)
  ultimately show ?thesis
    using r2 d(3) unfolding drain_grace_def
    by (intro conjI exI [of _ ev] exI [of _ fl] exI [of _ sk] audit final) simp_all
qed

definition demo_pod :: "string \<Rightarrow> (string \<times> string) list \<Rightarrow> kube_pod" where
  "demo_pod n owners = \<lparr>pd_name = n, pd_namespace = ''shop'', pd_created = 0, pd_deletion = None,
     pd_phase = ''Running'', pd_reason = [], pd_message = [], pd_node = ''n1'', pd_ip = [],
     pd_owners = owners, pd_containers = [], pd_statuses = [], pd_init_statuses = [], pd_claims = []\<rparr>"

definition demo_node :: "string \<Rightarrow> kube_node" where
  "demo_node n = \<lparr>nd_name = n, nd_unschedulable = False, nd_conditions = [], nd_cpu = 0, nd_memory = 0,
     nd_disk = 0, nd_kubelet = [], nd_os = [], nd_os_image = []\<rparr>"

text \<open>A cluster whose remote state is the list of changes it was asked for.\<close>

definition demo_kube :: "string list kube_api" where
  "demo_kube = \<lparr>ka_namespaces = (\<lambda>r. Inr []),
     ka_pods = (\<lambda>r ns. Inr [demo_pod ''api-1'' [], demo_pod ''api-2'' []]),
     ka_pods_selected = (\<lambda>r ns sel. Inr [demo_pod ''api-1'' [(''ReplicaSet'', ''api'')],
       demo_pod ''logs'' [(''DaemonSet'', ''logs'')], demo_pod ''api-2'' [(''ReplicaSet'', ''api'')]]),
     ka_pod = (\<lambda>r ns n. Inr (demo_pod n [])),
     ka_delete_pod = (\<lambda>r ns n. (r @ [n], Inr ())),
     ka_evict = (\<lambda>r ns n g. (r @ [n], Inr ())),
     ka_logs = (\<lambda>r ns n c t p. Inr []), ka_events = (\<lambda>r ns n. Inr []),
     ka_nodes = (\<lambda>r. Inr []), ka_node = (\<lambda>r n. Inr (demo_node n)),
     ka_update_node = (\<lambda>r n. (r @ [nd_name n], Inr ())),
     ka_deployments = (\<lambda>r ns. Inr []), ka_deployment = (\<lambda>r ns n. Inr (demo_workload 3)),
     ka_scale_deployment = (\<lambda>r ns n k. (r @ [n @ ''='' @ show_int k], Inr ())),
     ka_statefulsets = (\<lambda>r ns. Inr []), ka_statefulset = (\<lambda>r ns n. Inl ErrNotFound),
     ka_scale_statefulset = (\<lambda>r ns n k. (r, Inr ())),
     ka_cron_jobs = (\<lambda>r ns. Inr []), ka_jobs = (\<lambda>r ns. Inr []), ka_quotas = (\<lambda>r ns. Inr []),
     ka_claims = (\<lambda>r ns. Inr []), ka_tls_secrets = (\<lambda>r ns. Inr []), ka_pod_metrics = (\<lambda>r ns. Inr []), ka_node_metrics = (\<lambda>r. Inr []),
     ka_node_metric = (\<lambda>r n. Inl ErrNotFound)\<rparr>"

definition demo_kube_library :: "string list kube_api kube_library" where
  "demo_kube_library = \<lparr>kl_in_cluster = Inr demo_kube, kl_kubeconfig = (\<lambda>p c. Inr demo_kube),
     kl_tuned = (\<lambda>t q b c. c), kl_clientset = Inr, kl_metrics = Inr, kl_dynamic = Inr\<rparr>"

definition demo_k8s :: "string list k8s_module" where
  "demo_k8s = new_k8s_module \<lparr>en_super_admins = Map.empty, en_default_role = role_viewer,
     en_builtin_roles = Map.empty, en_builtin_perms = Map.empty\<rparr> demo_kube_library None"

definition demo_k8s_world :: "string list k8s_world" where
  "demo_k8s_world = \<lparr>kw_db = new_store, kw_manager = new_cluster_manager [demo_cluster ''prod''],
     kw_selected = Map.empty, kw_store = Map.empty, kw_ns_cache = Map.empty, kw_remote = [], kw_audit = []\<rparr>"

lemma demo_client_for:
  "client_for demo_k8s ''prod'' demo_k8s_world = (fst (client_for demo_k8s ''prod'' demo_k8s_world), Inr demo_kube)"
  by (simp add: client_for_def client_set_def client_of_def get_or_create_clients_def demo_k8s_def
      demo_k8s_world_def new_k8s_module_def demo_kube_library_def new_cluster_manager_def demo_cluster_def
      new_clients_def build_rest_config_def entry_of_config_def mark_default_def Let_def set_status_def)

lemma demo_remote [simp]: "kw_remote demo_k8s_world = []"
  by (simp add: demo_k8s_world_def)

theorem drain_evicts_every_pod_once_witness:
  "kw_remote (fst (perform_drain demo_k8s demo_env demo_admin ''n1'' ''prod'' demo_k8s_world)) =
     [''n1'', ''api-1'', ''api-2'']"
  using drain_evicts_every_pod_once [OF demo_client_for,
      of "''n1''" "demo_node ''n1''" "[''n1'']"
        "[demo_pod ''api-1'' [(''ReplicaSet'', ''api'')], demo_pod ''logs'' [(''DaemonSet'', ''logs'')],
          demo_pod ''api-2'' [(''ReplicaSet'', ''api'')]]" demo_env demo_admin]
  by (simp add: demo_kube_def demo_node_def demo_pod_def is_daemonset_pod_def)

theorem k8s_commands_need_their_permission_witness:
  "handle_nodes demo_k8s (Some demo_admin) demo_k8s_world =
     (demo_k8s_world, [SendText (MsgNotAllowed perm_k8s_nodes_view) []])"
proof -
  have "\<not> permitted (km_engine demo_k8s) (kw_db demo_k8s_world) (u_telegram_id demo_admin) perm_k8s_nodes_view"
    by (simp add: permitted_def has_permission_def is_super_admin_def demo_k8s_def new_k8s_module_def
        bool_at_def split: sum.splits)
  then show ?thesis
    using k8s_commands_need_their_permission [OF refl, where M = demo_k8s and w = demo_k8s_world and u = demo_admin]
    by simp
qed

section \<open>Pages\<close>

text \<open>The pod list panics exactly on a stale page: when the cluster answers with some pods and the
  requested page starts beyond the end of the list (or before its beginning), the slice is out of
  range; in every other case there is a reply. A page button outlives the pods it counted, so the
  case is reachable.\<close>

theorem pod_list_panics_on_stale_page:
  "send_pod_list M now cb cl ns page w = None \<longleftrightarrow>
     (\<exists>w1 api pods. client_for M cl w = (w1, Inr api) \<and> ka_pods api (kw_remote w1) (list_ns ns) = Inr pods \<and>
        pods \<noteq> [] \<and> (page < 1 \<or> (page - 1) * 8 > int (length pods)))"
proof -
  have slice: "page_slice page pods = None \<longleftrightarrow> page < 1 \<or> (page - 1) * 8 > int (length pods)"
    for pods :: "kube_pod list"
    by (auto simp: page_slice_def go_slice_def Let_def pods_page_size_def)
  show ?thesis
    unfolding slice [symmetric]
    by (cases "client_for M cl w")
      (auto simp: send_pod_list_def with_client_def split: sum.splits list.splits option.splits)
qed

theorem scale_confirms_what_was_shown_witness:
  "kw_remote (fst (handle_scale_confirm demo_k8s demo_env (Some demo_admin) ''deploy|api|shop|prod|5''
     demo_k8s_world)) = [''api=5'']"
proof -
  let ?d = "''deploy|api|shop|prod|5''"
  have parts: "split_n 5 (CHR ''|'') ?d = [''deploy'', ''api'', ''shop'', ''prod'', ''5'']" "sscanf_int32 ''5'' = Some 5"
    by code_simp+
  have "\<exists>kb. EditText (View (ScaleConfirm ''Deployment'' ''api'' 3 5 ''prod'' ''shop'' False)) kb \<in>
      set (snd (handle_scale_set demo_k8s (Some demo_admin) ?d demo_k8s_world))"
    by (simp add: handle_scale_set_def parts with_client_ok [OF demo_client_for] get_workload_def demo_kube_def
        demo_workload_def replicas_or_def show_view_def send_or_edit_def kind_label_def scale_max_def
        case_prod_beta Let_def)
  then obtain kb where "EditText (View (ScaleConfirm ''Deployment'' ''api'' 3 5 ''prod'' ''shop'' False)) kb \<in>
      set (snd (handle_scale_set demo_k8s (Some demo_admin) ?d demo_k8s_world))" ..
  moreover have "km_approval demo_k8s = None" by (simp add: demo_k8s_def new_k8s_module_def)
  ultimately have "kw_remote (fst (handle_scale_confirm demo_k8s demo_env (Some demo_admin) ?d demo_k8s_world)) =
      fst (update_scale demo_kube (kw_remote demo_k8s_world) (hd (split_n 5 (CHR ''|'') ?d)) ''shop'' ''api'' 5)"
    using scale_confirms_what_was_shown [OF _ _ demo_client_for] by blast
  moreover have "show_int 5 = ''5''"
    by (simp add: show_int_def show_nat.simps [of 5] digit_char_def char_of_def bit_simps odd_iff_mod_2_eq_one)
  ultimately show ?thesis
    unfolding parts by (simp add: update_scale_def demo_kube_def)
qed

end
