(* ===== verification/GoTime.thy ===== *)
theory GoTime
  imports KubeApi
begin

text \<open>
  \<open>Round\<close> and \<open>String\<close> of Go's \<open>time.Duration\<close>, which alerts, release lists and timelines print.
\<close>

section \<open>Durations as text\<close>

text \<open>\<open>d.Round(m)\<close> for a positive \<open>m\<close>, halves away from zero; results beyond int64 are not reached here.\<close>

definition duration_round :: "duration \<Rightarrow> duration \<Rightarrow> duration" where
  "duration_round m d =
     (let r = go_rem d m
      in if d < 0 then (if (- r) + (- r) < m then d - r else d - r - m)
         else (if r + r < m then d - r else d - r + m))"

text \<open>\<open>Duration.String\<close>: the fraction is printed without trailing zeros.\<close>

definition fraction_text :: "nat \<Rightarrow> nat \<Rightarrow> string" where
  "fraction_text prec v =
     (let f = show_nat (v mod 10 ^ prec);
          ds = replicate (prec - length f) (CHR ''0'') @ f;
          t = rev (dropWhile (\<lambda>c. c = CHR ''0'') (rev ds))
      in if t = [] then [] else CHR ''.'' # t)"

definition duration_string :: "duration \<Rightarrow> string" where
  "duration_string d =
     (let u = nat \<bar>d\<bar>; t = u div 10 ^ 9; h = t div 3600; m = t div 60 mod 60
      in (if d < 0 then ''-'' else []) @
         (if u = 0 then ''0s''
          else if u < 1000 then show_nat u @ ''ns''
          else if u < 10 ^ 6 then show_nat (u div 1000) @ fraction_text 3 u @ [char_of (194 :: nat), char_of (181 :: nat)] @ ''s''
          else if u < 10 ^ 9 then show_nat (u div 10 ^ 6) @ fraction_text 6 u @ ''ms''
          else (if h > 0 then show_nat h @ ''h'' else []) @
               (if h > 0 \<or> m > 0 then show_nat m @ ''m'' else []) @
               show_nat (t mod 60) @ fraction_text 9 u @ ''s''))"

end
