(* ===== verification/Watcher.thy ===== *)
theory Watcher
  imports GoTime Middleware
begin

text \<open>
  The watcher module, first part (\<open>internal/module/watcher\<close>): the alert cache with its cooldown,
  muting and cleanup, the delivery of alerts, and the pod and node watchers
  (\<open>pod_watcher.go\<close>, \<open>node_watcher.go\<close>), whose informers call \<open>check_pod\<close> and \<open>check_node\<close> with the
  old and the new object. One reading of the clock stands for the readings of one check. Fixed
  wording is left out of the messages, the values they show are kept.
\<close>

section \<open>Alerts\<close>

text \<open>An \<open>AlertSeverity\<close> is a string.\<close>

definition severity_critical :: string where "severity_critical = ''critical''"
definition severity_warning :: string where "severity_warning = ''warning''"

datatype alert_view =
    PodAlert string string string string string string string instant
  | NodeAlert string string string string "instant option" string string nat
  | JobFailedAlert string cron_job "instant option" int string
  | CronJobAlert string cron_job "instant option" string string string
  | CertAlert string string string "string list" string instant string int
  | VolumeAlert string string string string nat int int int string int
  | RuleAlert string string string string string string string string instant

text \<open>
  What \<open>SendAlert\<close> was called with. \<open>sa_key\<close> and \<open>sa_at\<close> are history: the key under which the
  watcher recorded the alert, and when.
\<close>

record sent_alert =
  sa_chat :: chat_id
  sa_view :: alert_view
  sa_keyboard :: keyboard
  sa_key :: string
  sa_at :: instant

record 'w watch_world =
  ww_manager :: "'w kube_api cluster_manager"
  ww_remote :: 'w
  ww_store :: callback_store
  ww_sent :: "sent_alert list"
  ww_audit :: "audit_entry list"

text \<open>
  The fixed surroundings: client-go, the Telegram configuration, the identifiers \<open>ulid.Make()\<close>
  returns (by the number of the audit entry).
\<close>

record 'w watch_env =
  we_library :: "'w kube_api kube_library"
  we_cfg :: telegram_config
  we_ids :: "nat \<Rightarrow> string"

definition watch_client :: "'w watch_env \<Rightarrow> string \<Rightarrow> 'w watch_world \<Rightarrow> 'w watch_world \<times> 'w kube_api result" where
  "watch_client E cl w =
     (let (m, r) = client_set (we_library E) (ww_manager w) cl in (w\<lparr>ww_manager := m\<rparr>, r))"

text \<open>A failed \<open>SendAlert\<close> is logged and the next chat gets the alert all the same.\<close>

definition send_to_chats ::
  "'w watch_env \<Rightarrow> chat_id list \<Rightarrow> string \<Rightarrow> instant \<Rightarrow> alert_view \<Rightarrow> keyboard \<Rightarrow> 'w watch_world \<Rightarrow> 'w watch_world"
where
  "send_to_chats E chats key now v kb w =
     w\<lparr>ww_sent := ww_sent w @
        map (\<lambda>c. \<lparr>sa_chat = c, sa_view = v, sa_keyboard = kb, sa_key = key, sa_at = now\<rparr>) chats\<rparr>"

definition alert_chats :: "'w watch_env \<Rightarrow> chat_id list" where
  "alert_chats E = tc_allowed_chats (we_cfg E) @ tc_admin_ids (we_cfg E)"

definition log_alert ::
  "'w watch_env \<Rightarrow> instant \<Rightarrow> string \<Rightarrow> string \<Rightarrow> string \<Rightarrow> string \<Rightarrow> string \<Rightarrow> (string \<times> string) list \<Rightarrow>
   'w watch_world \<Rightarrow> 'w watch_world" where
  "log_alert E now username action resource cl ns details w =
     w\<lparr>ww_audit := ww_audit w @
        [\<lparr>ae_id = we_ids E (length (ww_audit w)), ae_user_id = 0, ae_username = username,
          ae_action = action, ae_resource = resource, ae_cluster = cl, ae_namespace = ns,
          ae_chat_id = 0, ae_chat_type = '''', ae_status = audit_success, ae_details = details,
          ae_error = '''', ae_occurred_at = now\<rparr>]\<rparr>"

section \<open>The alert cache\<close>

type_synonym alert_cache = "string \<rightharpoonup> instant"
type_synonym 'w watch_state = "alert_cache \<times> 'w watch_world"

definition default_cooldown :: duration where "default_cooldown = 5 * minute"
definition pending_threshold :: duration where "pending_threshold = 5 * minute"
definition restart_threshold :: int where "restart_threshold = 5"

definition in_cooldown :: "duration \<Rightarrow> alert_cache \<Rightarrow> instant \<Rightarrow> string \<Rightarrow> bool" where
  "in_cooldown cd c now k = (case c k of None \<Rightarrow> False | Some t \<Rightarrow> time_sub now t < cd)"

text \<open>The guard every alert passes: the key is marked before the alert is sent.\<close>

definition gated_alert ::
  "duration \<Rightarrow> instant \<Rightarrow> string \<Rightarrow> ('w watch_world \<Rightarrow> 'w watch_world) \<Rightarrow> 'w watch_state \<Rightarrow> 'w watch_state" where
  "gated_alert cd now k fire s =
     (case s of (c, w) \<Rightarrow> if in_cooldown cd c now k then (c, w) else (c(k \<mapsto> now), fire w))"

definition mute_alert :: "duration \<Rightarrow> instant \<Rightarrow> string \<Rightarrow> duration \<Rightarrow> alert_cache \<Rightarrow> alert_cache" where
  "mute_alert cd now k d c = c(k \<mapsto> now + (d - cd))"

text \<open>One tick of \<open>cleanupLoop\<close>.\<close>

definition cleanup_cache :: "duration \<Rightarrow> instant \<Rightarrow> alert_cache \<Rightarrow> alert_cache" where
  "cleanup_cache cd now c =
     (\<lambda>k. case c k of None \<Rightarrow> None | Some t \<Rightarrow> if time_sub now t > cd then None else Some t)"

section \<open>Pods (pod_watcher.go)\<close>

definition pod_key :: "string \<Rightarrow> kube_pod \<Rightarrow> string \<Rightarrow> string" where
  "pod_key cl p cond = cl @ ''/'' @ pd_namespace p @ ''/'' @ pd_name p @ ''/'' @ cond"

definition pod_alert ::
  "'w watch_env \<Rightarrow> instant \<Rightarrow> string \<Rightarrow> kube_pod \<Rightarrow> string \<Rightarrow> string \<Rightarrow> string \<Rightarrow> string \<Rightarrow>
   'w watch_state \<Rightarrow> 'w watch_state" where
  "pod_alert E now cl p cond container sev msg =
     gated_alert default_cooldown now (pod_key cl p cond)
       (\<lambda>w. let d = pd_name p @ ''|'' @ pd_namespace p @ ''|'' @ cl;
                (st, kb) = lay_out (ww_store w)
                  [[Stored ''k8s_logs'' d, Stored ''k8s_events'' d],
                   [Stored ''k8s_restart'' d, Raw ''watcher_mute'' (pod_key cl p cond)]]
            in log_alert E now ''system:watcher'' (''alert.'' @ to_lower cond) (''pod/'' @ pd_name p) cl
                 (pd_namespace p)
                 [(''severity'', sev), (''condition'', cond), (''container'', container), (''message'', msg)]
                 (send_to_chats E (alert_chats E) (pod_key cl p cond) now
                    (PodAlert cl (pd_namespace p) (pd_name p) sev cond container msg now) kb
                    (w\<lparr>ww_store := st\<rparr>)))"

text \<open>The restart count alert looks for the container of the same name in the old pod.\<close>

fun check_restarts ::
  "'w watch_env \<Rightarrow> instant \<Rightarrow> string \<Rightarrow> kube_pod \<Rightarrow> container_status \<Rightarrow> container_status list \<Rightarrow>
   'w watch_state \<Rightarrow> 'w watch_state" where
  "check_restarts E now cl p cs [] s = s"
| "check_restarts E now cl p cs (old # olds) s =
     check_restarts E now cl p cs olds
       (if cs_name old = cs_name cs \<and> cs_restarts cs > cs_restarts old
        then pod_alert E now cl p ''HighRestarts'' (cs_name cs) severity_warning
               (''Container restart count: '' @ show_int (cs_restarts cs)) s
        else s)"

definition check_container ::
  "'w watch_env \<Rightarrow> instant \<Rightarrow> string \<Rightarrow> kube_pod \<Rightarrow> kube_pod \<Rightarrow> container_status \<Rightarrow> 'w watch_state \<Rightarrow> 'w watch_state"
where
  "check_container E now cl old new cs s =
     (let s1 = (case cs_terminated cs of
                  Some (reason, code) \<Rightarrow>
                    if reason = ''OOMKilled''
                    then pod_alert E now cl new ''OOMKilled'' (cs_name cs) severity_critical
                           ''Container exceeded memory limit'' s
                    else s
                | None \<Rightarrow> s);
          s2 = (if cs_waiting cs = Some ''CrashLoopBackOff''
                then pod_alert E now cl new ''CrashLoopBackOff'' (cs_name cs) severity_critical
                       (''Container crashing repeatedly (restarts: '' @ show_int (cs_restarts cs) @ '')'') s1
                else s1);
          s3 = (if cs_waiting cs = Some ''ImagePullBackOff'' \<or> cs_waiting cs = Some ''ErrImagePull''
                then pod_alert E now cl new ''ImagePullBackOff'' (cs_name cs) severity_warning
                       (''Cannot pull image: '' @ cs_image cs) s2
                else s2)
      in if cs_restarts cs \<ge> restart_threshold
         then check_restarts E now cl new cs (pd_statuses old) s3 else s3)"

fun check_containers ::
  "'w watch_env \<Rightarrow> instant \<Rightarrow> string \<Rightarrow> kube_pod \<Rightarrow> kube_pod \<Rightarrow> container_status list \<Rightarrow>
   'w watch_state \<Rightarrow> 'w watch_state" where
  "check_containers E now cl old new [] s = s"
| "check_containers E now cl old new (cs # css) s =
     check_containers E now cl old new css (check_container E now cl old new cs s)"

definition check_pending ::
  "'w watch_env \<Rightarrow> instant \<Rightarrow> string \<Rightarrow> kube_pod \<Rightarrow> 'w watch_state \<Rightarrow> 'w watch_state" where
  "check_pending E now cl new s =
     (if pd_phase new = ''Pending'' \<and> pd_created new \<noteq> zero_time \<and>
         time_sub now (pd_created new) > pending_threshold
      then pod_alert E now cl new ''PendingTooLong'' '''' severity_warning
             (''Pod stuck in Pending for '' @ duration_string (duration_round second (time_sub now (pd_created new)))) s
      else s)"

definition check_evicted ::
  "'w watch_env \<Rightarrow> instant \<Rightarrow> string \<Rightarrow> kube_pod \<Rightarrow> kube_pod \<Rightarrow> 'w watch_state \<Rightarrow> 'w watch_state" where
  "check_evicted E now cl old new s =
     (if pd_phase new = ''Failed'' \<and> pd_reason new = ''Evicted'' \<and> pd_phase old \<noteq> ''Failed''
      then pod_alert E now cl new ''Evicted'' '''' severity_critical (''Pod evicted: '' @ pd_message new) s
      else s)"

definition check_pod ::
  "'w watch_env \<Rightarrow> instant \<Rightarrow> string \<Rightarrow> kube_pod \<Rightarrow> kube_pod \<Rightarrow> 'w watch_state \<Rightarrow> 'w watch_state" where
  "check_pod E now cl old new s =
     check_evicted E now cl old new
       (check_pending E now cl new (check_containers E now cl old new (pd_statuses new) s))"

section \<open>Nodes (node\_watcher.go)\<close>

definition node_key :: "string \<Rightarrow> kube_node \<Rightarrow> string \<Rightarrow> string" where
  "node_key cl n cond = cl @ ''/'' @ nd_name n @ ''/'' @ cond"

definition count_affected_pods ::
  "'w watch_env \<Rightarrow> string \<Rightarrow> string \<Rightarrow> 'w watch_world \<Rightarrow> 'w watch_world \<times> nat" where
  "count_affected_pods E cl node w =
     (case watch_client E cl w of
        (w', Inl e) \<Rightarrow> (w', 0)
      | (w', Inr api) \<Rightarrow>
          (w', case ka_pods_selected api (ww_remote w') '''' (on_node node) of
                 Inl e \<Rightarrow> 0 | Inr ps \<Rightarrow> length ps))"

text \<open>The node data goes onto the buttons as it is, not through the callback store.\<close>

definition node_alert ::
  "'w watch_env \<Rightarrow> instant \<Rightarrow> string \<Rightarrow> kube_node \<Rightarrow> string \<Rightarrow> string \<Rightarrow> node_condition \<Rightarrow>
   'w watch_state \<Rightarrow> 'w watch_state" where
  "node_alert E now cl n cond sev nc =
     gated_alert default_cooldown now (node_key cl n cond)
       (\<lambda>w. let (w1, affected) = count_affected_pods E cl (nd_name n) w;
                d = nd_name n @ ''|'' @ cl;
                kb = [[(''k8s_node_detail'', d), (''k8s_node_cordon'', d)],
                      [(''k8s_node_drain'', d), (''watcher_mute'', node_key cl n cond)]]
            in log_alert E now ''system:watcher'' (''alert.node.'' @ to_lower cond) (''node/'' @ nd_name n) cl ''''
                 [(''severity'', sev), (''condition'', cond), (''reason'', nc_reason nc),
                  (''affected_pods'', show_nat affected)]
                 (send_to_chats E (alert_chats E) (node_key cl n cond) now
                    (NodeAlert sev cl (nd_name n) cond
                       (if nc_since nc = zero_time then None else Some (nc_since nc))
                       (nc_reason nc) (nc_message nc) affected) kb w1))"

text \<open>\<open>oldConditions[t]\<close>: the last entry of a type wins, a missing type reads as the empty string.\<close>

definition old_status :: "kube_node \<Rightarrow> string \<Rightarrow> string" where
  "old_status n t =
     (case map_of (rev (map (\<lambda>c. (nc_type c, nc_status c)) (nd_conditions n))) t of
        None \<Rightarrow> '''' | Some s \<Rightarrow> s)"

definition check_condition ::
  "'w watch_env \<Rightarrow> instant \<Rightarrow> string \<Rightarrow> kube_node \<Rightarrow> kube_node \<Rightarrow> node_condition \<Rightarrow> 'w watch_state \<Rightarrow> 'w watch_state"
where
  "check_condition E now cl old new c s =
     (let was = old_status old (nc_type c); alert = (\<lambda>cond sev. node_alert E now cl new cond sev c)
      in if nc_type c = ''Ready'' then
           (let s1 = (if was = ''True'' \<and> nc_status c = ''False'' then alert ''NotReady'' severity_critical s else s)
            in if was = ''True'' \<and> nc_status c = ''Unknown'' then alert ''Unreachable'' severity_critical s1 else s1)
         else if nc_type c \<in> {''DiskPressure'', ''MemoryPressure'', ''PIDPressure''} then
           (if was \<noteq> ''True'' \<and> nc_status c = ''True'' then alert (nc_type c) severity_warning s else s)
         else s)"

definition check_node ::
  "'w watch_env \<Rightarrow> instant \<Rightarrow> string \<Rightarrow> kube_node \<Rightarrow> kube_node \<Rightarrow> 'w watch_state \<Rightarrow> 'w watch_state" where
  "check_node E now cl old new s = fold (check_condition E now cl old new) (nd_conditions new) s"

section \<open>Facts about the cache\<close>

lemma time_sub_less: "- (2 ^ 63) < d \<Longrightarrow> d < 2 ^ 63 \<Longrightarrow> time_sub a b < d \<longleftrightarrow> a - b < d"
  by (auto simp: time_sub_def)

lemma time_sub_greater: "- (2 ^ 63) < d \<Longrightarrow> d < 2 ^ 63 - 1 \<Longrightarrow> d < time_sub a b \<longleftrightarrow> d < a - b"
  by (auto simp: time_sub_def)

definition cooldown_ok :: "duration \<Rightarrow> bool" where
  "cooldown_ok cd \<longleftrightarrow> 0 < cd \<and> cd \<le> hour * 24"

lemma in_cooldown_iff:
  "cooldown_ok cd \<Longrightarrow> in_cooldown cd c now k \<longleftrightarrow> (\<exists>t. c k = Some t \<and> now - t < cd)"
  by (auto simp: in_cooldown_def cooldown_ok_def time_sub_less hour_def minute_def second_def
      split: option.splits)

lemma cleanup_iff:
  "cooldown_ok cd \<Longrightarrow> cleanup_cache cd now c k = Some t \<longleftrightarrow> c k = Some t \<and> now - t \<le> cd"
  by (auto simp: cleanup_cache_def cooldown_ok_def time_sub_greater not_less [symmetric] hour_def minute_def
      second_def split: option.splits)

lemma default_cooldown_ok [simp]: "cooldown_ok default_cooldown"
  by (simp add: cooldown_ok_def default_cooldown_def hour_def minute_def)

end
