(* ===== verification/WatcherPoll.thy ===== *)
theory WatcherPoll
  imports Watcher
begin

text \<open>
  The polling watchers of \<open>internal/module/watcher\<close>: cron jobs (\<open>cronjob_watcher.go\<close>), volume claims
  (\<open>pvc_watcher.go\<close>) and TLS certificates (\<open>cert_watcher.go\<close>). \<open>wait.UntilWithContext\<close> calls
  \<open>checkCluster\<close> once per interval; a definition below is one such call.
\<close>

fun is_excluded :: "string list \<Rightarrow> string \<Rightarrow> bool" where
  "is_excluded [] ns = False"
| "is_excluded (x # xs) ns = (if x = ns then True else is_excluded xs ns)"

text \<open>
  \<open>checkCluster\<close>, the same in the three watchers: the namespaces are the configured ones or all of
  the cluster, without the excluded ones.
\<close>

definition watched_namespaces ::
  "string list \<Rightarrow> string list \<Rightarrow> 'w kube_api \<Rightarrow> 'w \<Rightarrow> string list option" where
  "watched_namespaces nss excl api r =
     (if nss \<noteq> [] then Some nss
      else (case ka_namespaces api r of
              Inl e \<Rightarrow> None
            | Inr l \<Rightarrow> Some (filter (\<lambda>n. \<not> is_excluded excl n) (map ns_name l))))"

definition poll_cluster ::
  "'w watch_env \<Rightarrow> string list \<Rightarrow> string list \<Rightarrow> string \<Rightarrow>
   ('w kube_api \<Rightarrow> string \<Rightarrow> 'w watch_state \<Rightarrow> 'w watch_state) \<Rightarrow> 'w watch_state \<Rightarrow> 'w watch_state" where
  "poll_cluster E nss excl cl check s =
     (case s of (c, w) \<Rightarrow>
       (case watch_client E cl w of
          (w1, Inl e) \<Rightarrow> (c, w1)
        | (w1, Inr api) \<Rightarrow>
           (case watched_namespaces nss excl api (ww_remote w1) of
              None \<Rightarrow> (c, w1)
            | Some l \<Rightarrow> fold (\<lambda>ns s. if is_excluded excl ns then s else check api ns s) l (c, w1))))"

section \<open>Cron jobs (cronjob\_watcher.go)\<close>

record cron_config =
  cw_interval :: duration
  cw_namespaces :: "string list"
  cw_excluded :: "string list"

definition cron_check_interval :: duration where "cron_check_interval = 5 * minute"
definition suspended_threshold :: duration where "suspended_threshold = 24 * hour"

text \<open>The configuration \<open>NewCronJobWatcher\<close> completes.\<close>

definition new_cron_config :: "cron_config \<Rightarrow> cron_config" where
  "new_cron_config C = (if cw_interval C = 0 then C\<lparr>cw_interval := cron_check_interval\<rparr> else C)"

definition cron_key :: "string \<Rightarrow> cron_job \<Rightarrow> string \<Rightarrow> string" where
  "cron_key cl cj what = ''cronjob/'' @ cl @ ''/'' @ cj_namespace cj @ ''/'' @ cj_name cj @ ''/'' @ what"

definition job_data :: "string \<Rightarrow> string \<Rightarrow> string \<Rightarrow> string" where
  "job_data name ns cl = name @ ''|'' @ ns @ ''|'' @ cl"

definition job_failed_alert ::
  "'w watch_env \<Rightarrow> instant \<Rightarrow> string \<Rightarrow> cron_job \<Rightarrow> kube_job \<Rightarrow> string \<Rightarrow> 'w watch_state \<Rightarrow> 'w watch_state" where
  "job_failed_alert E now cl cj job took =
     (let key = cron_key cl cj (''job/'' @ jb_name job) in
      gated_alert default_cooldown now key
       (\<lambda>w. log_alert E now ''system:watcher'' ''alert.cronjob.failed'' (''cronjob/'' @ cj_name cj) cl
              (cj_namespace cj)
              [(''severity'', severity_critical), (''job'', jb_name job), (''attempts'', show_int (jb_failed job))]
              (send_to_chats E (alert_chats E) key now
                 (JobFailedAlert cl cj (jb_start job) (jb_failed job) took)
                 [[(''cj_job_logs'', job_data (jb_name job) (cj_namespace cj) cl),
                   (''cj_events'', job_data (cj_name cj) (cj_namespace cj) cl)],
                  [(''cj_trigger'', job_data (cj_name cj) (cj_namespace cj) cl), (''watcher_mute'', key)]] w)))"

text \<open>The other cron job alerts are not audited. The time in their message is that of the last run.\<close>

definition cron_alert ::
  "'w watch_env \<Rightarrow> instant \<Rightarrow> string \<Rightarrow> cron_job \<Rightarrow> string \<Rightarrow> string \<Rightarrow> string \<Rightarrow> 'w watch_state \<Rightarrow> 'w watch_state" where
  "cron_alert E now cl cj cond sev msg =
     gated_alert default_cooldown now (cron_key cl cj cond)
       (send_to_chats E (alert_chats E) (cron_key cl cj cond) now
          (CronJobAlert cl cj (cj_last_schedule cj) cond sev msg)
          [[(''cj_events'', job_data (cj_name cj) (cj_namespace cj) cl), (''watcher_mute'', cron_key cl cj cond)]])"

text \<open>How long the job took, as shown.\<close>

definition job_duration :: "instant \<Rightarrow> kube_job \<Rightarrow> string" where
  "job_duration now job =
     (case jb_start job of
        None \<Rightarrow> ''unknown''
      | Some t \<Rightarrow>
          duration_string (duration_round second
            (time_sub (case jb_completion job of None \<Rightarrow> now | Some e \<Rightarrow> e) t)))"

definition check_job ::
  "'w watch_env \<Rightarrow> cron_config \<Rightarrow> instant \<Rightarrow> string \<Rightarrow> cron_job \<Rightarrow> kube_job \<Rightarrow> 'w watch_state \<Rightarrow> 'w watch_state" where
  "check_job E C now cl cj job s =
     (if (''CronJob'', cj_name cj) \<in> set (jb_owners job) \<and> jb_failed job > 0 \<and> jb_succeeded job = 0 \<and>
         \<not> time_sub now (case jb_completion job of None \<Rightarrow> now | Some t \<Rightarrow> t) > cw_interval C * 2
      then job_failed_alert E now cl cj job (job_duration now job) s
      else s)"

definition check_recent_jobs ::
  "'w watch_env \<Rightarrow> cron_config \<Rightarrow> instant \<Rightarrow> string \<Rightarrow> 'w kube_api \<Rightarrow> cron_job \<Rightarrow> 'w watch_state \<Rightarrow> 'w watch_state"
where
  "check_recent_jobs E C now cl api cj s =
     (case ka_jobs api (ww_remote (snd s)) (cj_namespace cj) of
        Inl e \<Rightarrow> s
      | Inr jobs \<Rightarrow> fold (check_job E C now cl cj) jobs s)"

definition check_cron_job ::
  "'w watch_env \<Rightarrow> cron_config \<Rightarrow> instant \<Rightarrow> string \<Rightarrow> 'w kube_api \<Rightarrow> cron_job \<Rightarrow> 'w watch_state \<Rightarrow> 'w watch_state"
where
  "check_cron_job E C now cl api cj s =
     (if cj_suspend cj = Some True then
        (case cj_last_schedule cj of
           None \<Rightarrow> s
         | Some t \<Rightarrow>
             if time_sub now t > suspended_threshold
             then cron_alert E now cl cj ''Suspended'' ''info'' ''CronJob suspended since'' s else s)
      else check_recent_jobs E C now cl api cj s)"

definition check_cron_namespace ::
  "'w watch_env \<Rightarrow> cron_config \<Rightarrow> instant \<Rightarrow> string \<Rightarrow> 'w kube_api \<Rightarrow> string \<Rightarrow> 'w watch_state \<Rightarrow> 'w watch_state" where
  "check_cron_namespace E C now cl api ns s =
     (case ka_cron_jobs api (ww_remote (snd s)) ns of
        Inl e \<Rightarrow> s
      | Inr cjs \<Rightarrow> fold (check_cron_job E C now cl api) cjs s)"

definition check_cron_cluster ::
  "'w watch_env \<Rightarrow> cron_config \<Rightarrow> instant \<Rightarrow> string \<Rightarrow> 'w watch_state \<Rightarrow> 'w watch_state" where
  "check_cron_cluster E C now cl =
     poll_cluster E (cw_namespaces C) (cw_excluded C) cl (check_cron_namespace E C now cl)"

section \<open>Volume claims (pvc\_watcher.go)\<close>

record volume_config =
  vw_interval :: duration
  vw_warning :: rat
  vw_critical :: rat
  vw_namespaces :: "string list"
  vw_excluded :: "string list"

definition new_volume_config :: "volume_config \<Rightarrow> volume_config" where
  "new_volume_config C =
     C\<lparr>vw_interval := (if vw_interval C = 0 then 5 * minute else vw_interval C),
       vw_warning := (if vw_warning C = 0 then 80 else vw_warning C),
       vw_critical := (if vw_critical C = 0 then 90 else vw_critical C)\<rparr>"

definition volume_key :: "string \<Rightarrow> string \<Rightarrow> string \<Rightarrow> string" where
  "volume_key cl ns name = ''pvc/'' @ cl @ ''/'' @ ns @ ''/'' @ name"

text \<open>\<open>float64(used) / float64(capacity) * 100\<close>\<close>

definition usage_pct :: "int \<Rightarrow> int \<Rightarrow> rat" where
  "usage_pct used cap = fmul (fdiv (of_int64 used) (of_int64 cap)) 100"

definition gib_tenths :: "int \<Rightarrow> int" where
  "gib_tenths n = round_tenths (fdiv (of_int64 n) 1073741824)"

definition usage_cells :: "rat \<Rightarrow> nat" where
  "usage_cells pct = nat (min 10 (trunc (fmul (fdiv pct 100) 10)))"

text \<open>A float in the details is written as the fraction it is.\<close>

definition show_rat :: "rat \<Rightarrow> string" where
  "show_rat x = (case quotient_of x of (p, q) \<Rightarrow> show_int p @ ''/'' @ show_int q)"

definition alert_volume_usage ::
  "'w watch_env \<Rightarrow> volume_config \<Rightarrow> instant \<Rightarrow> string \<Rightarrow> string \<Rightarrow> string \<Rightarrow> string \<Rightarrow> int \<Rightarrow> int \<Rightarrow> rat \<Rightarrow> string \<Rightarrow>
   'w watch_state \<Rightarrow> 'w watch_state" where
  "alert_volume_usage E C now cl ns name pod used cap pct sev =
     (let key = volume_key cl ns name in
      gated_alert default_cooldown now key
       (\<lambda>w. log_alert E now ''system:watcher'' ''alert.pvc.high_usage'' (''pvc/'' @ name) cl ns
              [(''severity'', sev), (''usage_pct'', show_rat pct), (''used_bytes'', show_int used),
               (''capacity_bytes'', show_int cap)]
              (send_to_chats E (alert_chats E) key now
                 (VolumeAlert cl ns name pod (usage_cells pct) (round_units pct) (gib_tenths used) (gib_tenths cap)
                    sev (round_units (vw_warning C)))
                 [[(''k8s_top_pods'', ns @ ''|'' @ cl), (''watcher_mute'', key)]] w)))"

text \<open>\<open>AlertPVCUsage\<close>, also the second half of \<open>checkPVCUsageEstimate\<close>.\<close>

definition check_volume_usage ::
  "'w watch_env \<Rightarrow> volume_config \<Rightarrow> instant \<Rightarrow> string \<Rightarrow> string \<Rightarrow> string \<Rightarrow> string \<Rightarrow> int \<Rightarrow> int \<Rightarrow>
   'w watch_state \<Rightarrow> 'w watch_state" where
  "check_volume_usage E C now cl ns name pod used cap s =
     (if cap = 0 then s
      else if usage_pct used cap \<ge> vw_critical C
      then alert_volume_usage E C now cl ns name pod used cap (usage_pct used cap) severity_critical s
      else if usage_pct used cap \<ge> vw_warning C
      then alert_volume_usage E C now cl ns name pod used cap (usage_pct used cap) severity_warning s
      else s)"

text \<open>
  The usage is read from an annotation; without one \<open>checkPVCFromPodMount\<close> looks for a pod that
  mounts the claim and only logs it.
\<close>

definition check_volume ::
  "'w watch_env \<Rightarrow> volume_config \<Rightarrow> instant \<Rightarrow> string \<Rightarrow> string \<Rightarrow> volume_claim \<Rightarrow> 'w watch_state \<Rightarrow> 'w watch_state" where
  "check_volume E C now cl ns v s =
     (if pv_phase v \<noteq> ''Bound'' then s
      else case pv_annotations v ''telekube.io/pvc-usage-bytes'' of
             None \<Rightarrow> s
           | Some t \<Rightarrow>
              (case sscanf_d t of
                 None \<Rightarrow> s
               | Some used \<Rightarrow>
                   check_volume_usage E C now cl ns (pv_name v) '''' used (unit_value (pv_capacity v)) s))"

definition check_volume_namespace ::
  "'w watch_env \<Rightarrow> volume_config \<Rightarrow> instant \<Rightarrow> string \<Rightarrow> 'w kube_api \<Rightarrow> string \<Rightarrow> 'w watch_state \<Rightarrow> 'w watch_state" where
  "check_volume_namespace E C now cl api ns s =
     (case ka_claims api (ww_remote (snd s)) ns of
        Inl e \<Rightarrow> s
      | Inr vs \<Rightarrow> fold (check_volume E C now cl ns) vs s)"

definition check_volume_cluster ::
  "'w watch_env \<Rightarrow> volume_config \<Rightarrow> instant \<Rightarrow> string \<Rightarrow> 'w watch_state \<Rightarrow> 'w watch_state" where
  "check_volume_cluster E C now cl =
     poll_cluster E (vw_namespaces C) (vw_excluded C) cl (check_volume_namespace E C now cl)"

section \<open>Certificates (cert\_watcher.go)\<close>

record certificate =
  xc_not_after :: instant
  xc_dns_names :: "string list"
  xc_common_name :: string
  xc_issuer :: string

record cert_config =
  xw_interval :: duration
  xw_alert_days :: int
  xw_critical_days :: int
  xw_namespaces :: "string list"
  xw_excluded :: "string list"

definition cert_check_interval :: duration where "cert_check_interval = 6 * hour"

definition new_cert_config :: "cert_config \<Rightarrow> cert_config" where
  "new_cert_config C =
     C\<lparr>xw_interval := (if xw_interval C = 0 then cert_check_interval else xw_interval C),
       xw_alert_days := (if xw_alert_days C = 0 then 30 else xw_alert_days C),
       xw_critical_days := (if xw_critical_days C = 0 then 7 else xw_critical_days C)\<rparr>"

definition cert_key :: "string \<Rightarrow> string \<Rightarrow> string \<Rightarrow> string" where
  "cert_key cl ns name = ''cert/'' @ cl @ ''/'' @ ns @ ''/'' @ name"

text \<open>\<open>time.Until(t).Hours() / 24\<close>\<close>

definition days_left :: "instant \<Rightarrow> certificate \<Rightarrow> rat" where
  "days_left now x = fdiv (in_units (time_sub (xc_not_after x) now) hour) 24"

definition alert_cert_expiry ::
  "'w watch_env \<Rightarrow> instant \<Rightarrow> string \<Rightarrow> string \<Rightarrow> string \<Rightarrow> certificate \<Rightarrow> rat \<Rightarrow> string \<Rightarrow> 'w watch_state \<Rightarrow> 'w watch_state"
where
  "alert_cert_expiry E now cl ns name x days sev =
     (let key = cert_key cl ns name; domains = xc_dns_names x @ [xc_common_name x @ '' (CN)''] in
      gated_alert cert_check_interval now key
       (\<lambda>w. log_alert E now ''system:watcher'' ''alert.cert.expiry'' (''secret/'' @ name) cl ns
              [(''severity'', sev), (''days_left'', show_rat days), (''expires_at'', show_int (rfc3339 (xc_not_after x))),
               (''domains'', join_with '','' domains)]
              (send_to_chats E (alert_chats E) key now
                 (CertAlert cl ns name domains (if xc_issuer x = '''' then ''Unknown'' else xc_issuer x)
                    (xc_not_after x) sev (round_units days))
                 [[(''k8s_secret_detail'', job_data name ns cl), (''watcher_mute'', key)]] w)))"

text \<open>
  \<open>parse\<close> stands for \<open>pem.Decode\<close> and \<open>x509.ParseCertificate\<close>: \<open>None\<close> where either fails.
\<close>

definition check_secret ::
  "(string \<Rightarrow> certificate option) \<Rightarrow> 'w watch_env \<Rightarrow> cert_config \<Rightarrow> instant \<Rightarrow> string \<Rightarrow> string \<Rightarrow> kube_secret \<Rightarrow>
   'w watch_state \<Rightarrow> 'w watch_state" where
  "check_secret parse E C now cl ns sec s =
     (case sx_data sec ''tls.crt'' of
        None \<Rightarrow> s
      | Some pem \<Rightarrow>
         if pem = '''' then s
         else (case parse pem of
            None \<Rightarrow> s
          | Some x \<Rightarrow>
              if days_left now x \<le> of_int64 (xw_alert_days C)
              then alert_cert_expiry E now cl ns (sx_name sec) x (days_left now x)
                     (if days_left now x \<le> of_int64 (xw_critical_days C) then severity_critical
                      else severity_warning) s
              else s))"

definition check_cert_namespace ::
  "(string \<Rightarrow> certificate option) \<Rightarrow> 'w watch_env \<Rightarrow> cert_config \<Rightarrow> instant \<Rightarrow> string \<Rightarrow> 'w kube_api \<Rightarrow> string \<Rightarrow>
   'w watch_state \<Rightarrow> 'w watch_state" where
  "check_cert_namespace parse E C now cl api ns s =
     (case ka_tls_secrets api (ww_remote (snd s)) ns of
        Inl e \<Rightarrow> s
      | Inr secs \<Rightarrow> fold (check_secret parse E C now cl ns) secs s)"

definition check_cert_cluster ::
  "(string \<Rightarrow> certificate option) \<Rightarrow> 'w watch_env \<Rightarrow> cert_config \<Rightarrow> instant \<Rightarrow> string \<Rightarrow> 'w watch_state \<Rightarrow> 'w watch_state"
where
  "check_cert_cluster parse E C now cl =
     poll_cluster E (xw_namespaces C) (xw_excluded C) cl (check_cert_namespace parse E C now cl)"

end
