(* ===== verification/CustomRules.thy ===== *)
theory CustomRules
  imports Watcher
begin

text \<open>
  Alert rules from the configuration (\<open>internal/module/watcher/custom_rules.go\<close>): the evaluator
  that checks every rule on every cluster of its scope every thirty seconds. \<open>qtext\<close> is
  \<open>resource.Quantity.String\<close>, which depends on how the quantity was written.
\<close>

definition custom_rule_interval :: duration where "custom_rule_interval = 30 * second"
definition custom_rule_cooldown :: duration where "custom_rule_cooldown = 10 * minute"

definition is_in_cooldown :: "alert_cache \<Rightarrow> instant \<Rightarrow> string \<Rightarrow> bool" where
  "is_in_cooldown c now k = in_cooldown custom_rule_cooldown c now k"

definition mark_fired :: "instant \<Rightarrow> string \<Rightarrow> alert_cache \<Rightarrow> alert_cache" where
  "mark_fired now k c = c(k \<mapsto> now)"

definition map_severity :: "string \<Rightarrow> string" where
  "map_severity s =
     (if to_lower s = ''critical'' then severity_critical
      else if to_lower s = ''warning'' then severity_warning
      else ''info'')"

definition window_or :: "string \<Rightarrow> duration \<Rightarrow> duration" where
  "window_or s d = (if s = '''' then d else case parse_duration s of None \<Rightarrow> d | Some x \<Rightarrow> x)"

definition resolve_namespace_scope :: "string list \<Rightarrow> string list" where
  "resolve_namespace_scope ns = (if ns = [] \<or> ns = [''*''] then [] else ns)"

text \<open>\<open>order\<close> is the order in which the manager lists its clusters.\<close>

definition resolve_cluster_scope :: "string list \<Rightarrow> 'w watch_world \<Rightarrow> string list \<Rightarrow> string list" where
  "resolve_cluster_scope order w cls =
     (if cls = [] \<or> cls = [''*''] then map ci_name (list_clusters order (ww_manager w)) else cls)"

text \<open>The key the alert is remembered under, and the one its mute button carries.\<close>

definition rule_key :: "alert_rule \<Rightarrow> string \<Rightarrow> string \<Rightarrow> string \<Rightarrow> string" where
  "rule_key rule cl ns name = ''custom:'' @ al_name rule @ '':'' @ cl @ ''/'' @ ns @ ''/'' @ name"

definition rule_mute_key :: "alert_rule \<Rightarrow> string \<Rightarrow> string \<Rightarrow> string" where
  "rule_mute_key rule cl ns = ''custom:'' @ al_name rule @ '':'' @ cl @ ''/'' @ ns"

definition rule_chats :: "'w watch_env \<Rightarrow> alert_rule \<Rightarrow> chat_id list" where
  "rule_chats E rule = (if an_chats (al_notify rule) = [] then alert_chats E else an_chats (al_notify rule))"

definition fire_alert ::
  "'w watch_env \<Rightarrow> instant \<Rightarrow> alert_rule \<Rightarrow> string \<Rightarrow> string \<Rightarrow> string \<Rightarrow> string \<Rightarrow> string \<Rightarrow>
   'w watch_world \<Rightarrow> 'w watch_world" where
  "fire_alert E now rule cl ns resource msg key w =
     log_alert E now ''system:custom_rule'' (''alert.custom.'' @ al_name rule) resource cl ns
       [(''severity'', al_severity rule), (''description'', al_description rule), (''message'', msg)]
       (send_to_chats E (rule_chats E rule) key now
          (RuleAlert (al_name rule) (al_description rule) cl ns resource (map_severity (al_severity rule))
             (al_severity rule) msg now)
          [[(''watcher_mute'', rule_mute_key rule cl ns)]] w)"

text \<open>Every evaluator: skip a key in its cooldown, else fire and then mark.\<close>

definition rule_alert ::
  "'w watch_env \<Rightarrow> instant \<Rightarrow> alert_rule \<Rightarrow> string \<Rightarrow> string \<Rightarrow> string \<Rightarrow> string \<Rightarrow> string \<Rightarrow>
   'w watch_state \<Rightarrow> 'w watch_state" where
  "rule_alert E now rule cl ns name resource msg s =
     (case s of (c, w) \<Rightarrow>
        if is_in_cooldown c now (rule_key rule cl ns name) then (c, w)
        else (let w' = fire_alert E now rule cl ns resource msg (rule_key rule cl ns name) w
              in (mark_fired now (rule_key rule cl ns name) c, w')))"

definition with_watch_client ::
  "'w watch_env \<Rightarrow> string \<Rightarrow> ('w kube_api \<Rightarrow> 'w watch_state \<Rightarrow> 'w watch_state) \<Rightarrow> 'w watch_state \<Rightarrow> 'w watch_state"
where
  "with_watch_client E cl f s =
     (case s of (c, w) \<Rightarrow>
       (case watch_client E cl w of (w', Inl e) \<Rightarrow> (c, w') | (w', Inr api) \<Rightarrow> f api (c, w')))"

section \<open>pod\_restart\_count\<close>

definition restart_rule_threshold :: "alert_rule \<Rightarrow> int" where
  "restart_rule_threshold rule =
     (if ac_threshold (al_condition rule) \<le> 0 then 5 else ac_threshold (al_condition rule))"

definition restart_container ::
  "'w watch_env \<Rightarrow> instant \<Rightarrow> alert_rule \<Rightarrow> string \<Rightarrow> kube_pod \<Rightarrow> container_status \<Rightarrow> 'w watch_state \<Rightarrow> 'w watch_state"
where
  "restart_container E now rule cl p cs s =
     (if cs_restarts cs \<ge> restart_rule_threshold rule
      then rule_alert E now rule cl (pd_namespace p) (pd_name p) (''pod/'' @ pd_name p)
             (''Container `'' @ cs_name cs @ ''` restart count: '' @ show_int (cs_restarts cs) @
              '' (threshold: '' @ show_int (restart_rule_threshold rule) @ '')'') s
      else s)"

definition eval_pod_restart_count_in_ns ::
  "'w watch_env \<Rightarrow> instant \<Rightarrow> alert_rule \<Rightarrow> string \<Rightarrow> string \<Rightarrow> 'w watch_state \<Rightarrow> 'w watch_state" where
  "eval_pod_restart_count_in_ns E now rule cl ns =
     with_watch_client E cl (\<lambda>api s.
       case ka_pods api (ww_remote (snd s)) ns of
         Inl e \<Rightarrow> s
       | Inr ps \<Rightarrow> fold (\<lambda>p. fold (restart_container E now rule cl p) (pd_statuses p)) ps s)"

definition eval_pod_restart_count ::
  "'w watch_env \<Rightarrow> instant \<Rightarrow> alert_rule \<Rightarrow> string \<Rightarrow> 'w watch_state \<Rightarrow> 'w watch_state" where
  "eval_pod_restart_count E now rule cl s =
     (let nss = resolve_namespace_scope (as_namespaces (al_scope rule))
      in if nss \<noteq> [] then fold (eval_pod_restart_count_in_ns E now rule cl) nss s
         else eval_pod_restart_count_in_ns E now rule cl '''' s)"

section \<open>pod\_pending\_duration\<close>

text \<open>Only the first namespace of the scope is evaluated.\<close>

definition first_namespace :: "alert_rule \<Rightarrow> string" where
  "first_namespace rule =
     (case resolve_namespace_scope (as_namespaces (al_scope rule)) of [] \<Rightarrow> '''' | n # r \<Rightarrow> n)"

definition pending_pod ::
  "'w watch_env \<Rightarrow> instant \<Rightarrow> alert_rule \<Rightarrow> string \<Rightarrow> kube_pod \<Rightarrow> 'w watch_state \<Rightarrow> 'w watch_state" where
  "pending_pod E now rule cl p s =
     (let limit = window_or (ac_window (al_condition rule)) (10 * minute); d = time_sub now (pd_created p)
      in if pd_created p \<noteq> zero_time \<and> d > limit
         then rule_alert E now rule cl (pd_namespace p) (pd_name p) (''pod/'' @ pd_name p)
                (''Pod stuck in Pending for '' @ duration_string (duration_round second d) @ '' (threshold: '' @
                 duration_string limit @ '')'') s
         else s)"

definition eval_pod_pending_duration ::
  "'w watch_env \<Rightarrow> instant \<Rightarrow> alert_rule \<Rightarrow> string \<Rightarrow> 'w watch_state \<Rightarrow> 'w watch_state" where
  "eval_pod_pending_duration E now rule cl =
     with_watch_client E cl (\<lambda>api s.
       case ka_pods_selected api (ww_remote (snd s)) (first_namespace rule) ''status.phase=Pending'' of
         Inl e \<Rightarrow> s
       | Inr ps \<Rightarrow> fold (pending_pod E now rule cl) ps s)"

section \<open>namespace\_quota\_percentage\<close>

definition quota_threshold :: "alert_rule \<Rightarrow> int" where
  "quota_threshold rule =
     (if ac_threshold (al_condition rule) \<le> 0 then 80 else ac_threshold (al_condition rule))"

definition quota_resource :: "alert_rule \<Rightarrow> string" where
  "quota_resource rule =
     (if ac_resource (al_condition rule) = '''' then ''memory'' else ac_resource (al_condition rule))"

text \<open>The limit of the resource, or else its request: the hard and used amounts.\<close>

definition quota_amounts :: "string \<Rightarrow> resource_quota \<Rightarrow> (quantity \<times> quantity) option" where
  "quota_amounts rt q =
     (let pair = (\<lambda>n. case (map_of (rq_hard q) n, rq_used q n) of (Some h, Some u) \<Rightarrow> Some (h, u) | _ \<Rightarrow> None);
          res = (if rt = ''cpu'' then ''cpu'' else ''memory'')
      in case pair (''limits.'' @ res) of Some x \<Rightarrow> Some x | None \<Rightarrow> pair (''requests.'' @ res))"

definition wrap64 :: "int \<Rightarrow> int" where
  "wrap64 n = (n + 2 ^ 63) mod 2 ^ 64 - 2 ^ 63"

definition check_quota ::
  "(quantity \<Rightarrow> string) \<Rightarrow> 'w watch_env \<Rightarrow> instant \<Rightarrow> alert_rule \<Rightarrow> string \<Rightarrow> string \<Rightarrow> resource_quota \<Rightarrow>
   'w watch_state \<Rightarrow> 'w watch_state" where
  "check_quota qtext E now rule cl ns q s =
     (case quota_amounts (quota_resource rule) q of
        None \<Rightarrow> s
      | Some (hard, used) \<Rightarrow>
         if unit_value hard = 0 then s
         else (let pct = go_quot (wrap64 (unit_value used * 100)) (unit_value hard)
               in if pct \<ge> quota_threshold rule
                  then rule_alert E now rule cl ns (quota_resource rule) (''quota/'' @ rq_name q)
                         (''Namespace '' @ quota_resource rule @ '' quota usage: '' @ show_int pct @
                          ''% (threshold: '' @ show_int (quota_threshold rule) @ ''%)'' @ [CHR 0x0A] @ ''Used: '' @
                          qtext used @ '' / Hard: '' @ qtext hard) s
                  else s))"

definition rule_namespaces :: "alert_rule \<Rightarrow> 'w kube_api \<Rightarrow> 'w \<Rightarrow> string list option" where
  "rule_namespaces rule api r =
     (case resolve_namespace_scope (as_namespaces (al_scope rule)) of
        [] \<Rightarrow> (case ka_namespaces api r of Inl e \<Rightarrow> None | Inr l \<Rightarrow> Some (map ns_name l))
      | nss \<Rightarrow> Some nss)"

definition eval_namespace_quota ::
  "(quantity \<Rightarrow> string) \<Rightarrow> 'w watch_env \<Rightarrow> instant \<Rightarrow> alert_rule \<Rightarrow> string \<Rightarrow> 'w watch_state \<Rightarrow> 'w watch_state" where
  "eval_namespace_quota qtext E now rule cl =
     with_watch_client E cl (\<lambda>api s.
       case rule_namespaces rule api (ww_remote (snd s)) of
         None \<Rightarrow> s
       | Some nss \<Rightarrow>
           fold (\<lambda>ns s. case ka_quotas api (ww_remote (snd s)) ns of
                    Inl e \<Rightarrow> s
                  | Inr qs \<Rightarrow> fold (check_quota qtext E now rule cl ns) qs s) nss s)"

section \<open>deployment\_unavailable\<close>

definition unavailable_deployment ::
  "'w watch_env \<Rightarrow> instant \<Rightarrow> alert_rule \<Rightarrow> string \<Rightarrow> workload \<Rightarrow> 'w watch_state \<Rightarrow> 'w watch_state" where
  "unavailable_deployment E now rule cl d s =
     (case wl_replicas d of
        None \<Rightarrow> s
      | Some n \<Rightarrow>
         if wl_available d = 0 \<and> n > 0
         then rule_alert E now rule cl (wl_namespace d) (wl_name d) (''deployment/'' @ wl_name d)
                (''Deployment has 0 available replicas (desired: '' @ show_int n @ '')'') s
         else s)"

definition eval_deployment_unavailable ::
  "'w watch_env \<Rightarrow> instant \<Rightarrow> alert_rule \<Rightarrow> string \<Rightarrow> 'w watch_state \<Rightarrow> 'w watch_state" where
  "eval_deployment_unavailable E now rule cl =
     with_watch_client E cl (\<lambda>api s.
       case ka_deployments api (ww_remote (snd s)) (first_namespace rule) of
         Inl e \<Rightarrow> s
       | Inr ds \<Rightarrow> fold (unavailable_deployment E now rule cl) ds s)"

section \<open>The evaluation loop\<close>

definition evaluate_rule ::
  "(quantity \<Rightarrow> string) \<Rightarrow> 'w watch_env \<Rightarrow> instant \<Rightarrow> alert_rule \<Rightarrow> string \<Rightarrow> 'w watch_state \<Rightarrow> 'w watch_state" where
  "evaluate_rule qtext E now rule cl s =
     (let t = ac_type (al_condition rule)
      in if t = ''pod_restart_count'' then eval_pod_restart_count E now rule cl s
         else if t = ''pod_pending_duration'' then eval_pod_pending_duration E now rule cl s
         else if t = ''namespace_quota_percentage'' then eval_namespace_quota qtext E now rule cl s
         else if t = ''deployment_unavailable'' then eval_deployment_unavailable E now rule cl s
         else s)"

definition evaluate_rules ::
  "(quantity \<Rightarrow> string) \<Rightarrow> 'w watch_env \<Rightarrow> string list \<Rightarrow> instant \<Rightarrow> alert_rule list \<Rightarrow> 'w watch_state \<Rightarrow> 'w watch_state"
where
  "evaluate_rules qtext E order now =
     fold (\<lambda>rule s. fold (evaluate_rule qtext E now rule)
       (resolve_cluster_scope order (snd s) (as_clusters (al_scope rule))) s)"

end
