(* ===== verification/WatcherModule.thy ===== *)
theory WatcherModule
  imports WatcherPoll CustomRules
begin

text \<open>
  The ArgoCD watcher (\<open>internal/module/watcher/argocd_watcher.go\<close>) and the watcher module that
  owns all watchers (\<open>module.go\<close>): start and stop by the leader, the mute button.
\<close>

section \<open>ArgoCD (argocd\_watcher.go)\<close>

datatype change_mark = MarkOutOfSync | MarkBroken | MarkGood | MarkInfo

definition status_change_mark :: "string \<Rightarrow> string \<Rightarrow> change_mark" where
  "status_change_mark sync health =
     (if sync = ''OutOfSync'' then MarkOutOfSync
      else if health = ''Degraded'' \<or> health = ''Missing'' then MarkBroken
      else if sync = ''Synced'' \<and> health = ''Healthy'' then MarkGood
      else MarkInfo)"

datatype argo_notice =
    NewApp string string string string string
  | StatusChange change_mark string string string "(string \<times> string) option" "(string \<times> string) option"
      "string option" instant
  | RemovedApp string string string

record 'r argo_watch =
  gw_instance :: string
  gw_client :: "'r argo_client"
  gw_interval :: duration
  gw_on_health :: bool
  gw_on_sync :: bool
  gw_last :: "string \<rightharpoonup> application"

definition new_argo_watch :: "string \<Rightarrow> 'r argo_client \<Rightarrow> duration \<Rightarrow> bool \<Rightarrow> bool \<Rightarrow> 'r argo_watch" where
  "new_argo_watch inst client interval on_health on_sync =
     \<lparr>gw_instance = inst, gw_client = client,
      gw_interval = (if interval \<le> 0 then 30 * second else interval),
      gw_on_health = on_health, gw_on_sync = on_sync, gw_last = Map.empty\<rparr>"

fun remember_all :: "(string \<rightharpoonup> application) \<Rightarrow> application list \<Rightarrow> (string \<rightharpoonup> application)" where
  "remember_all m [] = m"
| "remember_all m (a # as) = remember_all (m(app_name a \<mapsto> a)) as"

definition seed_initial_state :: "'r \<Rightarrow> 'r argo_watch \<Rightarrow> 'r argo_watch" where
  "seed_initial_state r W =
     (case ac_list_applications (gw_client W) r of
        Inl e \<Rightarrow> W
      | Inr apps \<Rightarrow> W\<lparr>gw_last := remember_all (gw_last W) apps\<rparr>)"

definition notify_new_app :: "'r argo_watch \<Rightarrow> application \<Rightarrow> argo_notice" where
  "notify_new_app W a =
     NewApp (gw_instance W) (app_name a) (app_project a) (app_sync_status a) (app_health_status a)"

definition notify_status_change :: "'r argo_watch \<Rightarrow> instant \<Rightarrow> application \<Rightarrow> application \<Rightarrow> argo_notice" where
  "notify_status_change W now prev a =
     StatusChange (status_change_mark (app_sync_status a) (app_health_status a))
       (gw_instance W) (app_name a) (app_project a)
       (if app_sync_status prev \<noteq> app_sync_status a then Some (app_sync_status prev, app_sync_status a) else None)
       (if app_health_status prev \<noteq> app_health_status a
        then Some (app_health_status prev, app_health_status a) else None)
       (if app_current_rev a \<noteq> '''' then Some (short_rev (app_current_rev a)) else None) now"

definition notify_deleted_app :: "'r argo_watch \<Rightarrow> application \<Rightarrow> argo_notice" where
  "notify_deleted_app W a = RemovedApp (gw_instance W) (app_name a) (app_project a)"

text \<open>The first loop of a poll: what is remembered, and what is announced.\<close>

definition changed :: "'r argo_watch \<Rightarrow> application \<Rightarrow> application \<Rightarrow> bool" where
  "changed W prev a \<longleftrightarrow>
     (app_health_status prev \<noteq> app_health_status a \<and> gw_on_health W) \<or>
     (app_sync_status prev \<noteq> app_sync_status a \<and> gw_on_sync W)"

definition poll_notice ::
  "'r argo_watch \<Rightarrow> instant \<Rightarrow> (string \<rightharpoonup> application) \<Rightarrow> application \<Rightarrow> argo_notice list" where
  "poll_notice W now m a =
     (case m (app_name a) of
        None \<Rightarrow> [notify_new_app W a]
      | Some prev \<Rightarrow> if changed W prev a then [notify_status_change W now prev a] else [])"

fun poll_apps ::
  "'r argo_watch \<Rightarrow> instant \<Rightarrow> (string \<rightharpoonup> application) \<Rightarrow> application list \<Rightarrow>
   (string \<rightharpoonup> application) \<times> argo_notice list" where
  "poll_apps W now m [] = (m, [])"
| "poll_apps W now m (a # as) =
     (let (m', ns) = poll_apps W now (m(app_name a \<mapsto> a)) as in (m', poll_notice W now m a @ ns))"

text \<open>The second loop ranges over the map; \<open>order\<close> is the order it yields the keys in.\<close>

fun drop_deleted ::
  "'r argo_watch \<Rightarrow> string set \<Rightarrow> string list \<Rightarrow> (string \<rightharpoonup> application) \<Rightarrow>
   (string \<rightharpoonup> application) \<times> argo_notice list" where
  "drop_deleted W current [] m = (m, [])"
| "drop_deleted W current (n # ns) m =
     (case m n of
        None \<Rightarrow> drop_deleted W current ns m
      | Some a \<Rightarrow>
         if n \<in> current then drop_deleted W current ns m
         else (let (m', rest) = drop_deleted W current ns (m(n := None))
               in (m', notify_deleted_app W a # rest)))"

definition argo_poll ::
  "string list \<Rightarrow> instant \<Rightarrow> 'r \<Rightarrow> 'r argo_watch \<Rightarrow> 'r argo_watch \<times> argo_notice list" where
  "argo_poll order now r W =
     (case ac_list_applications (gw_client W) r of
        Inl e \<Rightarrow> (W, [])
      | Inr apps \<Rightarrow>
         (let (m, fresh) = poll_apps W now (gw_last W) apps;
              (m', gone) = drop_deleted W (set (map app_name apps)) order m
          in (W\<lparr>gw_last := m'\<rparr>, fresh @ gone)))"

text \<open>Every notice goes to chat 0, without buttons.\<close>

definition argo_send :: "argo_notice list \<Rightarrow> (chat_id \<times> argo_notice) list" where
  "argo_send ns = map (\<lambda>n. (0, n)) ns"

section \<open>The module (module.go)\<close>

record ('w, 'r) watchers =
  wm_healthy :: bool
  wm_running :: bool
  wm_pods :: "alert_cache option"
  wm_nodes :: "alert_cache option"
  wm_crons :: "alert_cache option"
  wm_certs :: "alert_cache option"
  wm_volumes :: "alert_cache option"
  wm_rules :: "alert_rule list"
  wm_evaluator :: "(alert_rule list \<times> alert_cache) option"
  wm_argo :: "'r argo_watch list"
  wm_world :: "'w watch_world"

definition new_watchers :: "'w watch_world \<Rightarrow> ('w, 'r) watchers" where
  "new_watchers w =
     \<lparr>wm_healthy = True, wm_running = False, wm_pods = None, wm_nodes = None, wm_crons = None,
      wm_certs = None, wm_volumes = None, wm_rules = [], wm_evaluator = None, wm_argo = [], wm_world = w\<rparr>"

definition add_argo_watcher :: "'r argo_watch \<Rightarrow> ('w, 'r) watchers \<Rightarrow> ('w, 'r) watchers" where
  "add_argo_watcher g S = S\<lparr>wm_argo := wm_argo S @ [g]\<rparr>"

definition set_custom_rules :: "alert_rule list \<Rightarrow> ('w, 'r) watchers \<Rightarrow> ('w, 'r) watchers" where
  "set_custom_rules rs S = S\<lparr>wm_rules := rs\<rparr>"

text \<open>
  \<open>StartWatchers\<close>: new Kubernetes watchers with empty caches, while the ArgoCD watchers are kept
  and seed their state again. The evaluator is replaced only when there are rules.
\<close>

definition start_watchers :: "'r \<Rightarrow> ('w, 'r) watchers \<Rightarrow> ('w, 'r) watchers" where
  "start_watchers r S =
     (if wm_running S then S
      else S\<lparr>wm_pods := Some Map.empty, wm_nodes := Some Map.empty, wm_crons := Some Map.empty,
             wm_certs := Some Map.empty, wm_volumes := Some Map.empty,
             wm_argo := map (seed_initial_state r) (wm_argo S),
             wm_evaluator := (if wm_rules S \<noteq> [] then Some (wm_rules S, Map.empty) else wm_evaluator S),
             wm_running := True\<rparr>)"

definition stop_watchers :: "('w, 'r) watchers \<Rightarrow> ('w, 'r) watchers" where
  "stop_watchers S = (if wm_running S then S\<lparr>wm_running := False\<rparr> else S)"

definition watchers_health :: "('w, 'r) watchers \<Rightarrow> health_status" where
  "watchers_health S = (if wm_healthy S then Healthy else Unhealthy)"

text \<open>The configurations \<open>StartWatchers\<close> passes on.\<close>

definition module_cron_config :: cron_config where
  "module_cron_config =
     new_cron_config \<lparr>cw_interval = 0, cw_namespaces = [], cw_excluded = [''kube-system'']\<rparr>"

definition module_cert_config :: cert_config where
  "module_cert_config =
     new_cert_config \<lparr>xw_interval = 0, xw_alert_days = 0, xw_critical_days = 0, xw_namespaces = [],
       xw_excluded = [''kube-system'']\<rparr>"

definition module_volume_config :: volume_config where
  "module_volume_config =
     new_volume_config \<lparr>vw_interval = 0, vw_warning = 0, vw_critical = 0, vw_namespaces = [],
       vw_excluded = [''kube-system'']\<rparr>"

text \<open>The mute button reaches the pod and the node watcher, whatever alert it belongs to.\<close>

definition handle_mute :: "instant \<Rightarrow> string \<Rightarrow> ('w, 'r) watchers \<Rightarrow> ('w, 'r) watchers" where
  "handle_mute now key S =
     S\<lparr>wm_pods := map_option (mute_alert default_cooldown now key hour) (wm_pods S),
       wm_nodes := map_option (mute_alert default_cooldown now key hour) (wm_nodes S)\<rparr>"

end
