(* ===== verification/WatcherProps.thy ===== *)
theory WatcherProps
  imports WatcherModule
begin

text \<open>
  What the watchers guarantee: alerts under one key are at least a cooldown apart, muting
  silences a key for one hour, and the ArgoCD watcher reports exactly the difference between two
  polls. The first two are proved once, in a locale for any check that only sends through the
  alert cache, and interpreted for each of the six watchers.
\<close>

section \<open>Checks that send through the cache\<close>

text \<open>One step of a check: it changes the world without sending, or sends under a free key.\<close>

inductive gated :: "duration \<Rightarrow> instant \<Rightarrow> 'w watch_state \<Rightarrow> 'w watch_state \<Rightarrow> bool" for cd now where
  Keep: "ww_sent w' = ww_sent w \<Longrightarrow> gated cd now (c, w) (c, w')"
| Fire: "\<not> in_cooldown cd c now k \<Longrightarrow> ww_sent w' = ww_sent w @ as \<Longrightarrow>
         \<forall>a \<in> set as. sa_key a = k \<and> sa_at a = now \<Longrightarrow> gated cd now (c, w) (c(k \<mapsto> now), w')"
| Seq: "gated cd now s t \<Longrightarrow> gated cd now t u \<Longrightarrow> gated cd now s u"

named_theorems gated_intros

lemma gated_refl [gated_intros]: "gated cd now s s"
  by (cases s) (simp add: gated.Keep)

lemma sent_frames [simp]:
  "ww_sent (log_alert E now u a r cl ns d w) = ww_sent w"
  "ww_sent (fst (watch_client E cl w)) = ww_sent w"
  "ww_sent (fst (count_affected_pods E cl n w)) = ww_sent w"
  by (simp_all add: log_alert_def watch_client_def count_affected_pods_def case_prod_beta
      split: prod.splits sum.splits)

lemma sent_send [simp]:
  "ww_sent (send_to_chats E chats k now v kb w) = ww_sent w @
     map (\<lambda>c. \<lparr>sa_chat = c, sa_view = v, sa_keyboard = kb, sa_key = k, sa_at = now\<rparr>) chats"
  by (simp add: send_to_chats_def)

lemma gated_gated_alert:
  assumes "\<And>w. \<exists>as. ww_sent (fire w) = ww_sent w @ as \<and> (\<forall>a \<in> set as. sa_key a = k \<and> sa_at a = now)"
  shows "gated cd now s (gated_alert cd now k fire s)"
proof (cases s)
  case (Pair c w)
  from assms [of w] obtain as where "ww_sent (fire w) = ww_sent w @ as"
    "\<forall>a \<in> set as. sa_key a = k \<and> sa_at a = now" by blast
  then show ?thesis
    using gated.Fire [of cd c now k "fire w" w as] by (simp add: Pair gated_alert_def gated_refl)
qed

lemma gated_fold [gated_intros]:
  "(\<And>x s. x \<in> set xs \<Longrightarrow> gated cd now s (f x s)) \<Longrightarrow> gated cd now s (fold f xs s)"
proof (induction xs arbitrary: s)
  case Nil
  show ?case by (simp add: gated_refl)
next
  case (Cons x xs)
  have "gated cd now s (f x s)" using Cons.prems by simp
  moreover have "gated cd now (f x s) (fold f xs (f x s))" using Cons.prems by (intro Cons.IH) simp
  ultimately show ?case by (auto intro: gated.Seq)
qed

lemma gated_if [gated_intros]:
  "(b \<Longrightarrow> gated cd now s t) \<Longrightarrow> (\<not> b \<Longrightarrow> gated cd now s u) \<Longrightarrow> gated cd now s (if b then t else u)"
  by simp

lemma gated_option [gated_intros]:
  "(x = None \<Longrightarrow> gated cd now s t) \<Longrightarrow> (\<And>y. x = Some y \<Longrightarrow> gated cd now s (f y)) \<Longrightarrow>
   gated cd now s (case x of None \<Rightarrow> t | Some y \<Rightarrow> f y)"
  by (cases x) simp_all

lemma gated_sum [gated_intros]:
  "(\<And>e. x = Inl e \<Longrightarrow> gated cd now s (f e)) \<Longrightarrow> (\<And>y. x = Inr y \<Longrightarrow> gated cd now s (g y)) \<Longrightarrow>
   gated cd now s (case x of Inl e \<Rightarrow> f e | Inr y \<Rightarrow> g y)"
  by (cases x) simp_all

lemma gated_client:
  "watch_client E cl w = (w', r) \<Longrightarrow> gated cd now (c, w) (c, w')"
  using sent_frames(2) [of E cl w] by (simp add: gated.Keep)

section \<open>Each watcher's check\<close>

lemma gated_pod_alert [gated_intros]: "gated default_cooldown now s (pod_alert E now cl p cond ct sev msg s)"
  unfolding pod_alert_def by (rule gated_gated_alert) (auto simp: Let_def case_prod_beta)

lemma gated_check_restarts [gated_intros]: "gated default_cooldown now s (check_restarts E now cl p cs olds s)"
proof (induction olds arbitrary: s)
  case (Cons old olds)
  show ?case
    unfolding check_restarts.simps by (rule gated.Seq [OF gated_if [OF gated_pod_alert gated_refl] Cons.IH])
qed (simp add: gated_refl)

lemma gated_check_container [gated_intros]:
  "gated default_cooldown now s (check_container E now cl old new cs s)"
  unfolding check_container_def Let_def
  by (intro gated.Seq [OF _ gated_if [OF gated_check_restarts gated_refl]]
      gated.Seq [OF _ gated_if [OF gated_pod_alert gated_refl]])
    (auto intro: gated_intros split: option.splits)

lemma gated_check_containers [gated_intros]:
  "gated default_cooldown now s (check_containers E now cl old new css s)"
proof (induction css arbitrary: s)
  case (Cons cs css)
  show ?case
    unfolding check_containers.simps by (rule gated.Seq [OF gated_check_container Cons.IH])
qed (simp add: gated_refl)

lemma gated_check_pod: "gated default_cooldown now s (check_pod E now cl old new s)"
proof -
  have "gated default_cooldown now s (check_pending E now cl new s)"
    and "gated default_cooldown now s (check_evicted E now cl old new s)" for s
    by (simp_all add: check_pending_def check_evicted_def gated_intros)
  then show ?thesis
    unfolding check_pod_def by (blast intro: gated_check_containers gated.Seq)
qed

lemma gated_node_alert [gated_intros]: "gated default_cooldown now s (node_alert E now cl n cond sev nc s)"
  unfolding node_alert_def by (rule gated_gated_alert) (auto simp: Let_def case_prod_beta)

lemma gated_check_node: "gated default_cooldown now s (check_node E now cl old new s)"
  unfolding check_node_def check_condition_def Let_def
  by (intro gated_intros gated.Seq [OF _ gated_if [OF gated_node_alert gated_refl]])

lemma gated_poll_cluster:
  assumes "\<And>api ns s. gated cd now s (check api ns s)"
  shows "gated cd now s (poll_cluster E nss excl cl check s)"
proof (cases s)
  case (Pair c w)
  obtain w1 r where w1: "watch_client E cl w = (w1, r)" by fastforce
  have "gated cd now (c, w1) (fold (\<lambda>ns s. if is_excluded excl ns then s else check api ns s) l (c, w1))" for api l
    by (intro gated_intros assms)
  then show ?thesis
    using gated_client [OF w1, of cd now c]
    by (auto simp: Pair poll_cluster_def w1 intro: gated.Seq split: sum.splits option.splits)
qed

lemma gated_check_cron: "gated default_cooldown now s (check_cron_cluster E C now cl s)"
proof -
  have "gated default_cooldown now s (job_failed_alert E now cl cj job took s)"
    and "gated default_cooldown now s (cron_alert E now cl cj cond sev msg s)" for s cj job took cond sev msg
    unfolding job_failed_alert_def cron_alert_def Let_def
    by (rule gated_gated_alert; auto)+
  then have "gated default_cooldown now s (check_cron_job E C now cl api cj s)" for s api cj
    unfolding check_cron_job_def check_recent_jobs_def check_job_def
    by (intro gated_intros gated_option gated_sum) simp_all
  then show ?thesis
    unfolding check_cron_cluster_def check_cron_namespace_def
    by (intro gated_poll_cluster gated_intros gated_sum) simp_all
qed

lemma gated_check_volume: "gated default_cooldown now s (check_volume_cluster E C now cl s)"
proof -
  have "gated default_cooldown now s (alert_volume_usage E C now cl ns name pod used cap pct sev s)"
    for s ns name pod used cap pct sev
    unfolding alert_volume_usage_def Let_def by (rule gated_gated_alert) auto
  then have "gated default_cooldown now s (check_volume E C now cl ns v s)" for s ns v
    unfolding check_volume_def check_volume_usage_def
    by (auto intro: gated_intros split: option.splits)
  then show ?thesis
    unfolding check_volume_cluster_def check_volume_namespace_def
    by (intro gated_poll_cluster) (auto intro: gated_intros split: sum.splits)
qed

lemma gated_check_cert: "gated cert_check_interval now s (check_cert_cluster parse E C now cl s)"
proof -
  have "gated cert_check_interval now s (alert_cert_expiry E now cl ns name x days sev s)"
    for s ns name x days sev
    unfolding alert_cert_expiry_def Let_def by (rule gated_gated_alert) auto
  then have "gated cert_check_interval now s (check_secret parse E C now cl ns sec s)" for s ns sec
    unfolding check_secret_def by (auto intro: gated_intros split: option.splits)
  then show ?thesis
    unfolding check_cert_cluster_def check_cert_namespace_def
    by (intro gated_poll_cluster) (auto intro: gated_intros split: sum.splits)
qed

lemma gated_rule_alert [gated_intros]:
  "gated custom_rule_cooldown now s (rule_alert E now rule cl ns name res msg s)"
proof (cases s)
  case (Pair c w)
  then show ?thesis
    using gated.Fire [of custom_rule_cooldown c now "rule_key rule cl ns name"
        "fire_alert E now rule cl ns res msg (rule_key rule cl ns name) w" w]
    by (auto simp: rule_alert_def is_in_cooldown_def mark_fired_def fire_alert_def gated_refl)
qed

lemma gated_with_client:
  assumes "\<And>api s. gated cd now s (f api s)"
  shows "gated cd now s (with_watch_client E cl f s)"
proof (cases s)
  case (Pair c w)
  obtain w1 r where w1: "watch_client E cl w = (w1, r)" by fastforce
  show ?thesis
    using gated_client [OF w1, of cd now c] assms
    by (auto simp: Pair with_watch_client_def w1 intro: gated.Seq split: sum.splits)
qed

lemma gated_evaluate_rule: "gated custom_rule_cooldown now s (evaluate_rule qtext E now rule cl s)"
proof -
  have "gated custom_rule_cooldown now s (eval_pod_restart_count_in_ns E now rule cl ns s)" for s ns
    unfolding eval_pod_restart_count_in_ns_def restart_container_def
    by (rule gated_with_client) (auto intro!: gated_intros split: sum.splits)
  then have "gated custom_rule_cooldown now s (eval_pod_restart_count E now rule cl s)" for s
    by (auto simp: eval_pod_restart_count_def Let_def intro: gated_intros)
  moreover have "gated custom_rule_cooldown now s (eval_pod_pending_duration E now rule cl s)" for s
    unfolding eval_pod_pending_duration_def pending_pod_def Let_def
    by (rule gated_with_client) (auto intro!: gated_intros split: sum.splits)
  moreover have "gated custom_rule_cooldown now s (eval_namespace_quota qtext E now rule cl s)" for s
    unfolding eval_namespace_quota_def check_quota_def Let_def
    by (rule gated_with_client) (auto intro!: gated_intros split: sum.splits option.splits)
  moreover have "gated custom_rule_cooldown now s (eval_deployment_unavailable E now rule cl s)" for s
    unfolding eval_deployment_unavailable_def unavailable_deployment_def
    by (rule gated_with_client) (auto intro!: gated_intros split: sum.splits option.splits)
  ultimately show ?thesis by (simp add: evaluate_rule_def Let_def gated_refl)
qed

lemma gated_evaluate_rules: "gated custom_rule_cooldown now s (evaluate_rules qtext E order now rules s)"
  unfolding evaluate_rules_def by (intro gated_fold gated_evaluate_rule)


section \<open>Runs of a watcher\<close>

text \<open>
  What happens to one watcher over time: its own checks, a press of a mute button that reaches
  it, a tick of the cleanup loop, and whatever the rest of the program and the clusters do to the
  world, save that only its own alerts are counted.
\<close>

datatype ('e, 'w) watch_event = Check 'e | Mute string | Cleanup | Elsewhere "'w watch_world"

definition watch_event_step ::
  "duration \<Rightarrow> bool \<Rightarrow> (instant \<Rightarrow> 'e \<Rightarrow> 'w watch_state \<Rightarrow> 'w watch_state) \<Rightarrow>
   instant \<times> ('e, 'w) watch_event \<Rightarrow> 'w watch_state \<Rightarrow> 'w watch_state" where
  "watch_event_step cd mutable check ev s =
     (case ev of (now, e) \<Rightarrow>
        (case e of
           Check x \<Rightarrow> check now x s
         | Mute k \<Rightarrow> if mutable then (mute_alert cd now k hour (fst s), snd s) else s
         | Cleanup \<Rightarrow> (cleanup_cache cd now (fst s), snd s)
         | Elsewhere w \<Rightarrow> (fst s, w\<lparr>ww_sent := ww_sent (snd s)\<rparr>)))"

definition watch_run ::
  "duration \<Rightarrow> bool \<Rightarrow> (instant \<Rightarrow> 'e \<Rightarrow> 'w watch_state \<Rightarrow> 'w watch_state) \<Rightarrow>
   (instant \<times> ('e, 'w) watch_event) list \<Rightarrow> 'w watch_state \<Rightarrow> 'w watch_state" where
  "watch_run cd mutable check evs s = fold (watch_event_step cd mutable check) evs s"

text \<open>
  The invariant: of every alert sent, the cache still holds a time no earlier, or the cooldown is
  over.
\<close>

definition remembered :: "duration \<Rightarrow> instant \<Rightarrow> 'w watch_state \<Rightarrow> bool" where
  "remembered cd now s \<longleftrightarrow>
     (\<forall>a \<in> set (ww_sent (snd s)). sa_at a \<le> now \<and>
        ((\<exists>t. fst s (sa_key a) = Some t \<and> sa_at a \<le> t) \<or> sa_at a + cd \<le> now))"

definition spaced :: "duration \<Rightarrow> sent_alert list \<Rightarrow> bool" where
  "spaced cd as \<longleftrightarrow>
     (\<forall>a \<in> set as. \<forall>b \<in> set as. sa_key a = sa_key b \<longrightarrow> sa_at a = sa_at b \<or> cd \<le> \<bar>sa_at a - sa_at b\<bar>)"

definition quiet_until :: "instant \<Rightarrow> string \<Rightarrow> duration \<Rightarrow> alert_cache \<Rightarrow> bool" where
  "quiet_until end' k cd c \<longleftrightarrow> (\<exists>t. c k = Some t \<and> end' \<le> t + cd)"

lemma remembered_later: "remembered cd now s \<Longrightarrow> now \<le> now' \<Longrightarrow> remembered cd now' s"
  by (fastforce simp: remembered_def)

lemma gated_invariant:
  assumes "gated cd now s t" "cooldown_ok cd" "remembered cd now s" "spaced cd (ww_sent (snd s))"
  shows "remembered cd now t \<and> spaced cd (ww_sent (snd t))"
  using assms
proof (induction rule: gated.induct)
  case (Keep w' w c)
  then show ?case by (simp add: remembered_def)
next
  case (Fire c k w' w as)
  have old: "sa_at a + cd \<le> now" if "a \<in> set (ww_sent w)" "sa_key a = k" for a
    using Fire.prems(2) that Fire.hyps(1) in_cooldown_iff [OF Fire.prems(1)]
    by (fastforce simp: remembered_def)
  have "remembered cd now (c(k \<mapsto> now), w')"
    using Fire.prems(2) Fire.hyps(2,3) old by (auto simp: remembered_def)
  moreover have "sa_at a = sa_at b \<or> cd \<le> \<bar>sa_at a - sa_at b\<bar>"
    if "a \<in> set (ww_sent w')" "b \<in> set (ww_sent w')" "sa_key a = sa_key b" for a b
  proof -
    have new: "sa_key x = k \<and> sa_at x = now" if "x \<in> set as" for x using Fire.hyps(3) that by simp
    consider "a \<in> set (ww_sent w)" "b \<in> set (ww_sent w)" | "a \<in> set as" "b \<in> set as"
      | "a \<in> set as" "b \<in> set (ww_sent w)" | "a \<in> set (ww_sent w)" "b \<in> set as"
      using \<open>a \<in> set (ww_sent w')\<close> \<open>b \<in> set (ww_sent w')\<close> Fire.hyps(2) by auto
    then show ?thesis
    proof cases
      case 1
      then show ?thesis using Fire.prems(3) \<open>sa_key a = sa_key b\<close> by (simp add: spaced_def)
    next
      case 3
      then have "sa_at a = now" "sa_at b + cd \<le> now"
        using new [of a] old [of b] \<open>sa_key a = sa_key b\<close> by simp_all
      then show ?thesis by linarith
    next
      case 4
      then have "sa_at b = now" "sa_at a + cd \<le> now"
        using new [of b] old [of a] \<open>sa_key a = sa_key b\<close> by simp_all
      then show ?thesis by linarith
    qed (simp add: new)
  qed
  ultimately show ?case by (simp add: spaced_def)
next
  case (Seq s t u)
  then show ?case by blast
qed

lemma gated_quiet:
  assumes "gated cd now s t" "cooldown_ok cd" "quiet_until end' k cd (fst s)" "now < end'"
  shows "quiet_until end' k cd (fst t) \<and>
     filter (\<lambda>a. sa_key a = k) (ww_sent (snd t)) = filter (\<lambda>a. sa_key a = k) (ww_sent (snd s))"
  using assms
proof (induction rule: gated.induct)
  case (Keep w' w c)
  then show ?case by simp
next
  case (Fire c j w' w as)
  have "j \<noteq> k"
    using Fire.hyps(1) Fire.prems in_cooldown_iff [OF Fire.prems(1)] by (auto simp: quiet_until_def)
  then show ?case
    using Fire.hyps(2,3) Fire.prems(2) by (auto simp: quiet_until_def filter_empty_conv)
next
  case (Seq s t u)
  then show ?case by simp
qed

section \<open>The contract of a watcher\<close>

locale cooldown_watcher =
  fixes cd :: duration and mutable :: bool
    and check :: "instant \<Rightarrow> 'e \<Rightarrow> 'w watch_state \<Rightarrow> 'w watch_state"
  assumes cooldown: "cooldown_ok cd"
    and mute_longer: "mutable \<Longrightarrow> cd \<le> hour"
    and checks_gated: "gated cd now s (check now e s)"
begin

lemma step_invariant:
  assumes "remembered cd now s" "spaced cd (ww_sent (snd s))"
  shows "remembered cd now (watch_event_step cd mutable check (now, e) s) \<and>
     spaced cd (ww_sent (snd (watch_event_step cd mutable check (now, e) s)))"
proof (cases e)
  case (Check x)
  then show ?thesis
    using gated_invariant [OF checks_gated cooldown assms] by (simp add: watch_event_step_def)
next
  case (Mute k)
  have "remembered cd now (mute_alert cd now k hour (fst s), snd s)" if mutable
    using assms(1) mute_longer [OF that] by (fastforce simp: remembered_def mute_alert_def)
  then show ?thesis
    using Mute assms by (simp add: watch_event_step_def)
next
  case Cleanup
  have "remembered cd now (cleanup_cache cd now (fst s), snd s)"
    using assms(1) cleanup_iff [OF cooldown] by (fastforce simp: remembered_def)
  then show ?thesis using Cleanup assms by (simp add: watch_event_step_def)
next
  case (Elsewhere w)
  then show ?thesis using assms by (simp add: watch_event_step_def remembered_def)
qed

lemma run_invariant:
  "sorted (now # map fst evs) \<Longrightarrow> remembered cd now s \<Longrightarrow> spaced cd (ww_sent (snd s)) \<Longrightarrow>
   spaced cd (ww_sent (snd (watch_run cd mutable check evs s)))"
proof (induction evs arbitrary: now s)
  case (Cons ev evs)
  obtain t e where ev: "ev = (t, e)" by (cases ev)
  have "remembered cd t s" using Cons.prems ev by (auto intro: remembered_later)
  from step_invariant [OF this Cons.prems(3)] show ?case
    using Cons.IH [of t "watch_event_step cd mutable check ev s"] Cons.prems(1) ev
    by (simp add: watch_run_def)
qed (simp add: watch_run_def)

lemma alerts_spaced:
  assumes "sorted (map fst evs)" "ww_sent w = []"
  shows "spaced cd (ww_sent (snd (watch_run cd mutable check evs (Map.empty, w))))"
proof (cases evs)
  case Nil
  then show ?thesis by (simp add: watch_run_def spaced_def assms(2))
next
  case (Cons ev es)
  then show ?thesis
    using run_invariant [of "fst ev" evs "(Map.empty, w)"] assms by (simp add: remembered_def spaced_def)
qed

lemma step_quiet:
  assumes "quiet_until end' k cd (fst s)" "now < end'" "e \<noteq> Mute k"
  shows "quiet_until end' k cd (fst (watch_event_step cd mutable check (now, e) s)) \<and>
     filter (\<lambda>a. sa_key a = k) (ww_sent (snd (watch_event_step cd mutable check (now, e) s))) =
     filter (\<lambda>a. sa_key a = k) (ww_sent (snd s))"
proof (cases e)
  case (Check x)
  then show ?thesis
    using gated_quiet [OF checks_gated cooldown assms(1,2)] by (simp add: watch_event_step_def)
next
  case Cleanup
  have "quiet_until end' k cd (cleanup_cache cd now (fst s))"
    using assms(1,2) cleanup_iff [OF cooldown] by (fastforce simp: quiet_until_def)
  then show ?thesis using Cleanup by (simp add: watch_event_step_def)
qed (use assms in \<open>auto simp: watch_event_step_def quiet_until_def mute_alert_def\<close>)

lemma run_quiet:
  assumes "quiet_until end' k cd (fst s)" "\<forall>(t, e) \<in> set evs. t < end' \<and> e \<noteq> Mute k"
  shows "filter (\<lambda>a. sa_key a = k) (ww_sent (snd (watch_run cd mutable check evs s))) =
     filter (\<lambda>a. sa_key a = k) (ww_sent (snd s))"
  using assms
proof (induction evs arbitrary: s)
  case (Cons ev evs)
  then show ?case using step_quiet [of end' k s "fst ev" "snd ev"] by (simp add: watch_run_def case_prod_beta)
qed (simp add: watch_run_def)

lemma muted_is_quiet:
  assumes mutable "\<forall>(t, e) \<in> set evs. t < now + hour \<and> e \<noteq> Mute k"
  shows "filter (\<lambda>a. sa_key a = k)
       (ww_sent (snd (watch_run cd mutable check evs (mute_alert cd now k hour c, w)))) =
     filter (\<lambda>a. sa_key a = k) (ww_sent w)"
  using run_quiet [of "now + hour" k "(mute_alert cd now k hour c, w)" evs] assms
  by (simp add: quiet_until_def mute_alert_def)

end

section \<open>The six watchers\<close>

lemma custom_cooldown_ok [simp]: "cooldown_ok custom_rule_cooldown"
  and cert_cooldown_ok [simp]: "cooldown_ok cert_check_interval"
  by (simp_all add: cooldown_ok_def custom_rule_cooldown_def cert_check_interval_def hour_def minute_def)

lemma default_below_hour [simp]: "default_cooldown \<le> hour"
  by (simp add: default_cooldown_def hour_def minute_def)

interpretation wpods: cooldown_watcher default_cooldown True "\<lambda>now (cl, old, new). check_pod E now cl old new"
  for E :: "'w watch_env"
  by unfold_locales (auto intro: gated_check_pod)

interpretation wnodes: cooldown_watcher default_cooldown True "\<lambda>now (cl, old, new). check_node E now cl old new"
  for E :: "'w watch_env"
  by unfold_locales (auto intro: gated_check_node)

interpretation wcrons: cooldown_watcher default_cooldown False "check_cron_cluster E C" for E :: "'w watch_env" and C
  by unfold_locales (auto intro: gated_check_cron)

interpretation wvolumes: cooldown_watcher default_cooldown False "check_volume_cluster E C"
  for E :: "'w watch_env" and C
  by unfold_locales (auto intro: gated_check_volume)

interpretation wcerts: cooldown_watcher cert_check_interval False "check_cert_cluster parse E C"
  for parse and E :: "'w watch_env" and C
  by unfold_locales (auto intro: gated_check_cert)

interpretation wrules: cooldown_watcher custom_rule_cooldown False "\<lambda>now rules. evaluate_rules qtext E order now rules"
  for qtext and E :: "'w watch_env" and order
  by unfold_locales (auto intro: gated_evaluate_rules)


section \<open>Cooldown and muting\<close>

text \<open>C21: No watcher repeats itself within its cooldown. In every run of a watcher from its start -
  checks of arbitrary objects, mute presses, cleanup ticks and arbitrary changes of the world in
  between, at non-decreasing times - two alerts under one key are sent at the same moment (to
  the configured chats) or at least the cooldown apart: five minutes for pods, nodes, cron jobs
  and volume claims, six hours for certificates, ten minutes for custom rules.\<close>

theorem alerts_respect_cooldown:
  assumes "ww_sent (w :: 'w watch_world) = []" "sorted (map fst pes)" "sorted (map fst nes)" "sorted (map fst evs)" "sorted (map fst res)"
  shows "spaced (5 * minute) (ww_sent (snd (watch_run default_cooldown True
           (\<lambda>now (cl, old, new). check_pod E now cl old new) pes (Map.empty, w)))) \<and>
     spaced (5 * minute) (ww_sent (snd (watch_run default_cooldown True
           (\<lambda>now (cl, old, new). check_node E now cl old new) nes (Map.empty, w)))) \<and>
     spaced (5 * minute) (ww_sent (snd (watch_run default_cooldown False
           (check_cron_cluster E C) evs (Map.empty, w)))) \<and>
     spaced (5 * minute) (ww_sent (snd (watch_run default_cooldown False
           (check_volume_cluster E V) evs (Map.empty, w)))) \<and>
     spaced (6 * hour) (ww_sent (snd (watch_run cert_check_interval False
           (check_cert_cluster parse E X) evs (Map.empty, w)))) \<and>
     spaced (10 * minute) (ww_sent (snd (watch_run custom_rule_cooldown False
           (evaluate_rules qtext E order) res (Map.empty, w))))"
  using wpods.alerts_spaced [OF assms(2,1)] wnodes.alerts_spaced [OF assms(3,1)]
    wcrons.alerts_spaced [OF assms(4,1)] wvolumes.alerts_spaced [OF assms(4,1)]
    wcerts.alerts_spaced [OF assms(4,1)] wrules.alerts_spaced [OF assms(5,1)]
  by (simp add: default_cooldown_def cert_check_interval_def custom_rule_cooldown_def)

definition watch_demo_pod :: kube_pod where
  "watch_demo_pod = \<lparr>pd_name = ''api-1'', pd_namespace = ''shop'', pd_created = 0, pd_deletion = None,
     pd_phase = ''Running'', pd_reason = [], pd_message = [], pd_node = ''n1'', pd_ip = [],
     pd_owners = [], pd_containers = [],
     pd_statuses = [\<lparr>cs_name = ''api'', cs_image = ''api:1'', cs_restarts = 1, cs_waiting = None,
       cs_terminated = Some (''OOMKilled'', 137)\<rparr>], pd_init_statuses = [], pd_claims = []\<rparr>"

definition watch_demo_world :: "unit watch_world" where
  "watch_demo_world = \<lparr>ww_manager = new_cluster_manager [], ww_remote = (), ww_store = Map.empty, ww_sent = [],
     ww_audit = []\<rparr>"

definition watch_demo_env :: "unit watch_env" where
  "watch_demo_env = \<lparr>we_library = \<lparr>kl_in_cluster = Inl ErrNotFound, kl_kubeconfig = (\<lambda>p c. Inl ErrNotFound),
     kl_tuned = (\<lambda>t q b c. c), kl_clientset = Inr, kl_metrics = Inr, kl_dynamic = Inr\<rparr>,
     we_cfg = \<lparr>tc_admin_ids = [1], tc_allowed_chats = [7], tc_rate_limit = 0\<rparr>, we_ids = show_nat\<rparr>"

theorem alerts_respect_cooldown_witness:
  "spaced (5 * minute) (ww_sent (snd (watch_run default_cooldown True
     (\<lambda>now (cl, old, new). check_pod watch_demo_env now cl old new)
     [(0, Check (''prod'', watch_demo_pod, watch_demo_pod)), (minute, Cleanup),
      (2 * minute, Check (''prod'', watch_demo_pod, watch_demo_pod)), (3 * minute, Mute ''x''),
      (6 * minute, Check (''prod'', watch_demo_pod, watch_demo_pod))] (Map.empty, watch_demo_world))))"
  using alerts_respect_cooldown [of watch_demo_world
      "[(0, Check (''prod'', watch_demo_pod, watch_demo_pod)), (minute, Cleanup),
        (2 * minute, Check (''prod'', watch_demo_pod, watch_demo_pod)), (3 * minute, Mute ''x''),
        (6 * minute, Check (''prod'', watch_demo_pod, watch_demo_pod))]" "[]" "[]" "[]" watch_demo_env]
  by (simp add: watch_demo_world_def minute_def second_def)

text \<open>Pressing a mute button silences exactly that key for one hour: the pod watcher sends no alert
  under it in any run that stays within the hour (the node watcher likewise), the key is free
  again from the hour's end on, and every other key is as it was.\<close>

theorem mute_lasts_one_hour:
  assumes "wm_pods S = Some c" "wm_nodes S = Some d"
  shows "\<exists>c' d'. wm_pods (handle_mute now k S) = Some c' \<and> wm_nodes (handle_mute now k S) = Some d' \<and>
     (\<forall>evs w. (\<forall>(t, e) \<in> set evs. t < now + hour \<and> e \<noteq> Mute k) \<longrightarrow>
        filter (\<lambda>a. sa_key a = k) (ww_sent (snd (watch_run default_cooldown True
          (\<lambda>now (cl, old, new). check_pod E now cl old new) evs (c', w)))) =
        filter (\<lambda>a. sa_key a = k) (ww_sent w)) \<and>
     (\<forall>evs w. (\<forall>(t, e) \<in> set evs. t < now + hour \<and> e \<noteq> Mute k) \<longrightarrow>
        filter (\<lambda>a. sa_key a = k) (ww_sent (snd (watch_run default_cooldown True
          (\<lambda>now (cl, old, new). check_node E now cl old new) evs (d', w)))) =
        filter (\<lambda>a. sa_key a = k) (ww_sent w)) \<and>
     (\<forall>t. in_cooldown default_cooldown c' t k \<longleftrightarrow> t < now + hour) \<and>
     (\<forall>j t. j \<noteq> k \<longrightarrow> in_cooldown default_cooldown c' t j = in_cooldown default_cooldown c t j)"
proof (intro exI conjI allI impI)
  show "wm_pods (handle_mute now k S) = Some (mute_alert default_cooldown now k hour c)"
    "wm_nodes (handle_mute now k S) = Some (mute_alert default_cooldown now k hour d)"
    by (simp_all add: handle_mute_def assms)
  show "in_cooldown default_cooldown (mute_alert default_cooldown now k hour c) t k \<longleftrightarrow> t < now + hour" for t
    by (auto simp: in_cooldown_iff mute_alert_def)
  show "in_cooldown default_cooldown (mute_alert default_cooldown now k hour c) t j = in_cooldown default_cooldown c t j"
    if "j \<noteq> k" for j t
    using that by (simp add: in_cooldown_def mute_alert_def)
qed (auto intro: wpods.muted_is_quiet [OF TrueI] wnodes.muted_is_quiet [OF TrueI])

theorem mute_lasts_one_hour_witness:
  "\<exists>c. wm_pods (handle_mute 0 ''prod/shop/api-1/OOMKilled''
       (start_watchers () (new_watchers watch_demo_world :: (unit, unit) watchers))) = Some c \<and>
     in_cooldown default_cooldown c (59 * minute) ''prod/shop/api-1/OOMKilled''"
proof -
  let ?S = "start_watchers () (new_watchers watch_demo_world :: (unit, unit) watchers)"
  have "wm_pods ?S = Some Map.empty" "wm_nodes ?S = Some Map.empty"
    by (simp_all add: start_watchers_def new_watchers_def)
  from mute_lasts_one_hour [OF this, where now = 0 and k = "''prod/shop/api-1/OOMKilled''" and
      E = watch_demo_env]
  obtain c' where "wm_pods (handle_mute 0 ''prod/shop/api-1/OOMKilled'' ?S) = Some c'"
    "\<forall>t. in_cooldown default_cooldown c' t ''prod/shop/api-1/OOMKilled'' \<longleftrightarrow> t < 0 + hour"
    by (elim exE conjE) (rule that, assumption, assumption)
  then show ?thesis by (simp add: hour_def)
qed

section \<open>The ArgoCD watcher\<close>

lemma poll_notice_other:
  "n \<notin> app_name ` set as \<Longrightarrow> map (poll_notice W now (m(n \<mapsto> x))) as = map (poll_notice W now m) as"
  by (induction as) (auto simp: poll_notice_def)

lemma set_poll_notice:
  "x \<in> set (poll_notice W now m a) \<longleftrightarrow>
     (m (app_name a) = None \<and> x = notify_new_app W a) \<or>
     (\<exists>p. m (app_name a) = Some p \<and> changed W p a \<and> x = notify_status_change W now p a)"
  by (auto simp: poll_notice_def split: option.splits)

lemma poll_apps_distinct:
  "distinct (map app_name as) \<Longrightarrow>
   poll_apps W now m as = (remember_all m as, concat (map (poll_notice W now m) as))"
  by (induction as arbitrary: m) (simp_all add: poll_notice_other)

lemma remember_all_map_of:
  "distinct (map app_name as) \<Longrightarrow> remember_all m as = m ++ map_of (map (\<lambda>a. (app_name a, a)) as)"
proof (induction as arbitrary: m)
  case (Cons a as)
  then have "app_name a \<notin> dom (map_of (map (\<lambda>a. (app_name a, a)) as))"
    by (auto simp: dom_map_of_conv_image_fst)
  with Cons show ?case
    by (auto simp: fun_eq_iff map_add_def split: option.splits)
qed simp

lemma drop_deleted_spec:
  "distinct ns \<Longrightarrow> drop_deleted W cur ns m =
     ((\<lambda>n. if n \<in> set ns \<and> n \<notin> cur then None else m n),
      map (\<lambda>n. notify_deleted_app W (the (m n))) (filter (\<lambda>n. n \<notin> cur \<and> m n \<noteq> None) ns))"
proof (induction ns arbitrary: m)
  case (Cons n ns)
  have *: "map (\<lambda>j. notify_deleted_app W (the ((m(n := None)) j)))
        (filter (\<lambda>j. j \<notin> cur \<and> (m(n := None)) j \<noteq> None) ns) =
      map (\<lambda>j. notify_deleted_app W (the (m j))) (filter (\<lambda>j. j \<notin> cur \<and> m j \<noteq> None) ns)"
    using Cons.prems by (intro map_cong filter_cong) auto
  show ?case
  proof (cases "m n")
    case None
    with Cons show ?thesis by (auto simp: fun_eq_iff)
  next
    case (Some a)
    with Cons * show ?thesis by (auto simp: fun_eq_iff case_prod_beta)
  qed
qed simp

text \<open>A poll of the ArgoCD watcher that succeeds reports exactly the difference to what it
  remembers: each application it did not know as new, each known one whose watched status
  changed with its old and new status, each remembered one that is gone as removed, and nothing
  else; afterwards it remembers exactly the applications listed.\<close>

theorem argo_poll_reports_the_difference:
  assumes "ac_list_applications (gw_client W) r = Inr apps" "distinct (map app_name apps)"
    and "distinct order" "set order = dom (gw_last W) \<union> set (map app_name apps)"
  shows "gw_last (fst (argo_poll order now r W)) = map_of (map (\<lambda>a. (app_name a, a)) apps) \<and>
     set (snd (argo_poll order now r W)) =
       {notify_new_app W a | a. a \<in> set apps \<and> gw_last W (app_name a) = None} \<union>
       {notify_status_change W now p a | a p. a \<in> set apps \<and> gw_last W (app_name a) = Some p \<and> changed W p a} \<union>
       {notify_deleted_app W p | n p. gw_last W n = Some p \<and> n \<notin> set (map app_name apps)}"
proof -
  let ?listed = "map_of (map (\<lambda>a. (app_name a, a)) apps)" and ?names = "set (map app_name apps)"
  define m where "m = gw_last W ++ ?listed"
  have listed: "?listed n = None \<longleftrightarrow> n \<notin> ?names" for n
    by (simp add: map_of_eq_None_iff image_image)
  have m: "m n = (if n \<in> ?names then ?listed n else gw_last W n)" for n
    using listed [of n] unfolding m_def map_add_def by (cases "?listed n") (simp_all only: option.case option.distinct simp_thms if_True if_False split: if_split)
  have poll: "argo_poll order now r W =
      (W\<lparr>gw_last := (\<lambda>n. if n \<in> set order \<and> n \<notin> ?names then None else m n)\<rparr>,
       concat (map (poll_notice W now (gw_last W)) apps) @
       map (\<lambda>n. notify_deleted_app W (the (m n))) (filter (\<lambda>n. n \<notin> ?names \<and> m n \<noteq> None) order))"
    unfolding argo_poll_def assms(1) poll_apps_distinct [OF assms(2)] remember_all_map_of [OF assms(2)] m_def
      drop_deleted_spec [OF assms(3)] sum.case Let_def prod.case ..
  have "(if n \<in> set order \<and> n \<notin> ?names then None else m n) = ?listed n" for n
    using assms(4) listed [of n] m [of n] by (auto simp: domIff)
  moreover have "(\<lambda>n. notify_deleted_app W (the (m n))) ` {n \<in> set order. n \<notin> ?names \<and> m n \<noteq> None} =
      {notify_deleted_app W p | n p. gw_last W n = Some p \<and> n \<notin> ?names}" (is "?L = ?R")
  proof
    show "?R \<subseteq> ?L"
    proof
      fix x assume "x \<in> ?R"
      then obtain n p where n: "x = notify_deleted_app W p" "gw_last W n = Some p" "n \<notin> ?names" by blast
      with m [of n] assms(4) show "x \<in> ?L"
        by (intro image_eqI [of _ _ n]) auto
    qed
  qed (use m in \<open>auto, blast\<close>)
  moreover have "set (concat (map (poll_notice W now (gw_last W)) apps)) =
       {notify_new_app W a | a. a \<in> set apps \<and> gw_last W (app_name a) = None} \<union>
       {notify_status_change W now p a | a p. a \<in> set apps \<and> gw_last W (app_name a) = Some p \<and> changed W p a}"
    by (simp add: set_eq_iff set_poll_notice) blast
  ultimately show ?thesis
    unfolding poll fst_conv snd_conv set_append set_map set_filter by simp
qed

definition watch_demo_app :: "string \<Rightarrow> string \<Rightarrow> application" where
  "watch_demo_app n health = \<lparr>app_name = n, app_namespace = [], app_project = ''default'', app_repo_url = [],
     app_path = [], app_target_rev = [], app_sync_status = ''Synced'', app_health_status = health,
     app_current_rev = [], app_last_sync_at = None, app_last_sync_by = []\<rparr>"

definition watch_demo_client :: "application list argo_client" where
  "watch_demo_client =
     \<lparr>ac_list_applications = Inr,
      ac_get_application = (\<lambda>r app. Inl ErrNotFound),
      ac_get_application_status = (\<lambda>r app. Inl ErrNotFound),
      ac_sync_application = (\<lambda>r app o'. (r, Inl ErrNotFound)),
      ac_rollback_application = (\<lambda>r app i. (r, Inl ErrNotFound)),
      ac_get_application_history = (\<lambda>r app. Inr []),
      ac_get_managed_resources = (\<lambda>r app. Inr []),
      ac_get_application_diff = (\<lambda>r app. Inl ErrNotFound),
      ac_disable_auto_sync = (\<lambda>r app. (r, Inr ())),
      ac_enable_auto_sync = (\<lambda>r app. (r, Inr ())),
      ac_ping = (\<lambda>r. Inr ())\<rparr>"

theorem argo_poll_reports_the_difference_witness:
  "RemovedApp ''prod'' ''old'' ''default'' \<in> set (snd (argo_poll [''old'', ''shop''] 9
     [watch_demo_app ''shop'' ''Degraded'']
     (seed_initial_state [watch_demo_app ''old'' ''Healthy'', watch_demo_app ''shop'' ''Healthy'']
        (new_argo_watch ''prod'' watch_demo_client 0 True True))))"
proof -
  define W where "W = seed_initial_state [watch_demo_app ''old'' ''Healthy'', watch_demo_app ''shop'' ''Healthy'']
        (new_argo_watch ''prod'' watch_demo_client 0 True True)"
  have W: "ac_list_applications (gw_client W) [watch_demo_app ''shop'' ''Degraded''] =
        Inr [watch_demo_app ''shop'' ''Degraded'']"
      "gw_last W = [''old'' \<mapsto> watch_demo_app ''old'' ''Healthy'', ''shop'' \<mapsto> watch_demo_app ''shop'' ''Healthy'']"
      "gw_instance W = ''prod''"
    by (simp_all add: W_def seed_initial_state_def new_argo_watch_def watch_demo_client_def watch_demo_app_def)
  have "set (snd (argo_poll [''old'', ''shop''] 9 [watch_demo_app ''shop'' ''Degraded''] W)) \<supseteq>
      {notify_deleted_app W p | n p. gw_last W n = Some p \<and> n \<notin> set (map app_name [watch_demo_app ''shop'' ''Degraded''])}"
    by (subst argo_poll_reports_the_difference [OF W(1), of "[''old'', ''shop'']" 9, THEN conjunct2])
      (auto simp: W(2) watch_demo_app_def)
  moreover have "gw_last W ''old'' = Some (watch_demo_app ''old'' ''Healthy'')"
    by (simp add: W(2))
  ultimately have "notify_deleted_app W (watch_demo_app ''old'' ''Healthy'') \<in>
      set (snd (argo_poll [''old'', ''shop''] 9 [watch_demo_app ''shop'' ''Degraded''] W))"
    by (auto simp: watch_demo_app_def)
  then show ?thesis
    unfolding W_def [symmetric] by (simp add: notify_deleted_app_def W(3) watch_demo_app_def)
qed

end
