(* ===== verification/RbacMenu.thy ===== *)
theory RbacMenu
  imports Registry Middleware
begin

text \<open>
  The \<open>/rbac\<close> menu (\<open>internal/module/rbacmod/module.go\<close>): listing users and roles, assigning and
  revoking. Every handler is a function of the engine, the sender and the world, which is the
  database behind both repositories and the audit entries handed to the logger. Identifiers, the
  clock and the iteration order of the built-in roles are arguments (\<open>rbac_env\<close>).
\<close>

section \<open>State and messages\<close>

record rbac_world =
  rw_db :: db
  rw_audit :: "audit_entry list"

record rbac_env =
  re_now :: instant
  re_binding_id :: string
  re_spare_id :: string
  re_audit_id :: string
  re_order :: "string list"

record rbac_module =
  rm_engine :: engine
  rm_healthy :: bool

definition new_rbac_module :: "engine \<Rightarrow> rbac_module" where
  "new_rbac_module e = \<lparr>rm_engine = e, rm_healthy = True\<rparr>"

definition rbac_module_health :: "rbac_module \<Rightarrow> health_status" where
  "rbac_module_health M = (if rm_healthy M then Healthy else Unhealthy)"

definition rbac_commands :: "command_info list" where
  "rbac_commands =
     [\<lparr>co_command = ''/rbac'', co_description = ''Manage user roles and permissions'',
       co_permission = perm_admin_rbac_manage, co_chat_type = ''all''\<rparr>]"

datatype binding_expiry = NeverExpires | AlreadyExpired | ExpiresOn instant

datatype rbac_msg =
    RbacNotice string
  | MsgRbacMenu
  | MsgUserRoles "(string \<times> string \<times> bool) list"
  | MsgUserDetail user_id string bool "(string \<times> binding_expiry) list"
  | MsgRoleList "(string \<times> string) list" "(string \<times> string \<times> nat) list"
  | MsgPickUser bool
  | MsgPickRole user_id
  | MsgPickBinding user_id string bool
  | MsgRoleAssigned user_id string string
  | MsgRoleRevoked user_id string string

type_synonym rbac_effects = "rbac_msg chat_effect list"

definition eng_roles :: "string list \<Rightarrow> engine \<Rightarrow> role list" where
  "eng_roles order e = List.map_filter (en_builtin_roles e) order"

section \<open>Guards and keyboards\<close>

definition manages_rbac :: "rbac_module \<Rightarrow> tg_user \<Rightarrow> rbac_world \<Rightarrow> bool" where
  "manages_rbac M who w = permitted (rm_engine M) (rw_db w) (tu_id who) perm_admin_rbac_manage"

definition rbac_denied :: rbac_effects where
  "rbac_denied = [Respond (Some (RbacNotice ''Permission denied''))]"

definition rbac_main_keyboard :: keyboard where
  "rbac_main_keyboard =
     [[(''rbac_users'', ''''), (''rbac_roles'', '''')], [(''rbac_assign'', ''''), (''rbac_revoke'', '''')]]"

text \<open>The errors of \<open>GetRole\<close> and \<open>ListUserBindings\<close> are discarded: the role is then the empty string.\<close>

definition flat_role_of :: "rbac_module \<Rightarrow> rbac_world \<Rightarrow> user_id \<Rightarrow> string" where
  "flat_role_of M w uid =
     (case eng_get_role sqlite_rbac (rm_engine M) (rw_db w) uid of Inl _ \<Rightarrow> '''' | Inr r \<Rightarrow> r)"

definition bindings_of :: "rbac_world \<Rightarrow> user_id \<Rightarrow> user_role_binding list" where
  "bindings_of w uid = (case list_user_bindings sqlite_rbac (rw_db w) uid of Inl _ \<Rightarrow> [] | Inr bs \<Rightarrow> bs)"

definition user_buttons :: "string \<Rightarrow> nat \<Rightarrow> user list \<Rightarrow> keyboard" where
  "user_buttons unique limit us =
     rows_of 3 (map (\<lambda>u. (unique, show_int (u_telegram_id u))) (take limit us))"

section \<open>Listing (handleRBAC, handleListUsers, handleUserDetail, handleListRoles, handleBack)\<close>

definition handle_rbac :: "rbac_module \<Rightarrow> tg_user \<Rightarrow> rbac_world \<Rightarrow> rbac_effects" where
  "handle_rbac M who w =
     (if \<not> manages_rbac M who w
      then [SendText (RbacNotice ''You don't have permission to manage RBAC.'') []]
      else [SendText MsgRbacMenu rbac_main_keyboard])"

definition shown_username :: "user \<Rightarrow> string" where
  "shown_username u =
     (if u_username u = '''' then ''ID:'' @ show_int (u_telegram_id u) else u_username u)"

definition handle_list_users :: "rbac_module \<Rightarrow> tg_user \<Rightarrow> rbac_world \<Rightarrow> rbac_effects" where
  "handle_list_users M who w =
     (if \<not> manages_rbac M who w then rbac_denied
      else (case user_list (rw_db w) of
         Inl _ \<Rightarrow> [Respond (Some (RbacNotice ''Failed to load users''))]
       | Inr us \<Rightarrow>
          if us = [] then [EditText (RbacNotice ''No users registered yet.'') [[(''rbac_back'', '''')]]]
          else [EditText
                 (MsgUserRoles (map (\<lambda>u. (shown_username u, flat_role_of M w (u_telegram_id u),
                                          is_super_admin (rm_engine M) (u_telegram_id u))) us))
                 (user_buttons ''rbac_user_detail'' 8 us @ [[(''rbac_back'', '''')]])]))"

definition binding_expiry_of :: "instant \<Rightarrow> user_role_binding \<Rightarrow> binding_expiry" where
  "binding_expiry_of now b =
     (case b_expires_at b of
        None \<Rightarrow> NeverExpires
      | Some t \<Rightarrow> if binding_is_expired now b then AlreadyExpired else ExpiresOn t)"

definition handle_user_detail ::
  "rbac_module \<Rightarrow> rbac_env \<Rightarrow> tg_user \<Rightarrow> string \<Rightarrow> rbac_world \<Rightarrow> rbac_effects" where
  "handle_user_detail M env who data w =
     (if \<not> manages_rbac M who w then rbac_denied
      else (case sscanf_d data of
         None \<Rightarrow> [Respond (Some (RbacNotice ''Invalid user ID''))]
       | Some uid \<Rightarrow>
          [EditText (MsgUserDetail uid (flat_role_of M w uid) (is_super_admin (rm_engine M) uid)
                       (map (\<lambda>b. (b_role_name b, binding_expiry_of (re_now env) b)) (bindings_of w uid)))
             [[(''rbac_users'', '''')]]]))"

definition handle_list_roles ::
  "rbac_module \<Rightarrow> rbac_env \<Rightarrow> tg_user \<Rightarrow> rbac_world \<Rightarrow> rbac_effects" where
  "handle_list_roles M env who w =
     (if \<not> manages_rbac M who w then rbac_denied
      else
        (let builtin = eng_roles (re_order env) (rm_engine M);
             custom = (case eng_list_roles sqlite_rbac (rw_db w) of Inl _ \<Rightarrow> [] | Inr rs \<Rightarrow> rs)
         in [EditText
              (MsgRoleList (map (\<lambda>r. (r_name r, r_description r)) builtin)
                 (map (\<lambda>r. (r_name r, r_description r, length (r_rules r)))
                    (filter (\<lambda>r. \<not> r_is_builtin r) custom)))
              [[(''rbac_back'', '''')]]]))"

definition rbac_handle_back :: rbac_effects where
  "rbac_handle_back = [EditText MsgRbacMenu rbac_main_keyboard]"

section \<open>Assigning (handleAssignStart, handleAssignSelectUser, handleAssignConfirm)\<close>

definition pick_user ::
  "rbac_module \<Rightarrow> string \<Rightarrow> rbac_msg \<Rightarrow> tg_user \<Rightarrow> rbac_world \<Rightarrow> rbac_effects" where
  "pick_user M unique msg who w =
     (if \<not> manages_rbac M who w then rbac_denied
      else (case user_list (rw_db w) of
         Inl _ \<Rightarrow> [Respond (Some (RbacNotice ''Failed to load users''))]
       | Inr us \<Rightarrow>
          if us = [] then [Respond (Some (RbacNotice ''No users registered.''))]
          else [EditText msg (user_buttons unique 12 us @ [[(''rbac_back'', '''')]])]))"

definition handle_assign_start :: "rbac_module \<Rightarrow> tg_user \<Rightarrow> rbac_world \<Rightarrow> rbac_effects" where
  "handle_assign_start M = pick_user M ''rbac_assign_user'' (MsgPickUser True)"

definition handle_assign_select_user ::
  "rbac_module \<Rightarrow> tg_user \<Rightarrow> string \<Rightarrow> rbac_world \<Rightarrow> rbac_effects" where
  "handle_assign_select_user M who data w =
     (if \<not> manages_rbac M who w then rbac_denied
      else (case sscanf_d data of
         None \<Rightarrow> [Respond (Some (RbacNotice ''Invalid user ID''))]
       | Some uid \<Rightarrow>
          [EditText (MsgPickRole uid)
             (map (\<lambda>r. [(''rbac_assign_role'', show_int uid @ ''|'' @ r)]) valid_roles @
              [[(''rbac_assign'', '''')]])]))"

definition rbac_audit ::
  "rbac_env \<Rightarrow> tg_user \<Rightarrow> string \<Rightarrow> user_id \<Rightarrow> (string \<times> string) list \<Rightarrow> audit_entry" where
  "rbac_audit env who action uid details =
     \<lparr>ae_id = re_audit_id env, ae_user_id = tu_id who, ae_username = tu_username who,
      ae_action = action, ae_resource = ''user/'' @ show_int uid, ae_cluster = '''',
      ae_namespace = '''', ae_chat_id = 0, ae_chat_type = '''', ae_status = audit_success,
      ae_details = details, ae_error = '''', ae_occurred_at = re_now env\<rparr>"

definition handle_assign_confirm ::
  "rbac_module \<Rightarrow> rbac_env \<Rightarrow> tg_user \<Rightarrow> string \<Rightarrow> rbac_world \<Rightarrow> rbac_world \<times> rbac_effects" where
  "handle_assign_confirm M env who data w =
     (if \<not> manages_rbac M who w then (w, rbac_denied)
      else (case split_n 2 (CHR ''|'') data of
         [first, role_name] \<Rightarrow>
           (case sscanf_d first of
              None \<Rightarrow> (w, [Respond (Some (RbacNotice ''Invalid user ID''))])
            | Some uid \<Rightarrow>
               (case eng_set_role sqlite_rbac (re_now env) (rw_db w) uid role_name of
                  (s1, Inl _) \<Rightarrow>
                    (w\<lparr>rw_db := s1\<rparr>, [Respond (Some (RbacNotice ''Failed to assign role''))])
                | (s1, Inr _) \<Rightarrow>
                    (let (s2, bound) = assign_role sqlite_rbac (re_spare_id env) s1
                           \<lparr>b_id = re_binding_id env, b_user_id = uid, b_role_name = role_name,
                            b_expires_at = None\<rparr>
                     in (\<lparr>rw_db = s2,
                          rw_audit = rw_audit w @ [rbac_audit env who ''rbac.role.assign'' uid
                            [(''role'', role_name), (''target'', show_int uid)]]\<rparr>,
                         [EditText (MsgRoleAssigned uid role_name (tu_username who))
                            [[(''rbac_back'', '''')]]]))))
       | _ \<Rightarrow> (w, [Respond (Some (RbacNotice ''Invalid data''))])))"

section \<open>Revoking (handleRevokeStart, handleRevokeSelectUser, handleRevokeConfirm)\<close>

definition handle_revoke_start :: "rbac_module \<Rightarrow> tg_user \<Rightarrow> rbac_world \<Rightarrow> rbac_effects" where
  "handle_revoke_start M = pick_user M ''rbac_revoke_user'' (MsgPickUser False)"

definition reset_mark :: string where "reset_mark = ''__reset__''"

definition handle_revoke_select_user ::
  "rbac_module \<Rightarrow> tg_user \<Rightarrow> string \<Rightarrow> rbac_world \<Rightarrow> rbac_effects" where
  "handle_revoke_select_user M who data w =
     (if \<not> manages_rbac M who w then rbac_denied
      else (case sscanf_d data of
         None \<Rightarrow> [Respond (Some (RbacNotice ''Invalid user ID''))]
       | Some uid \<Rightarrow>
          (let bs = bindings_of w uid; flat = flat_role_of M w uid
           in [EditText (MsgPickBinding uid flat (bs \<noteq> []))
                (map (\<lambda>b. [(''rbac_revoke_confirm'', show_int uid @ ''|'' @ b_role_name b)]) bs @
                 (if flat \<noteq> role_viewer
                  then [[(''rbac_revoke_confirm'', show_int uid @ ''|'' @ reset_mark)]] else []) @
                 [[(''rbac_revoke'', '''')]])])))"

text \<open>The text shown for a reset, with the UTF-8 bytes of its arrow.\<close>

definition reset_shown :: string where
  "reset_shown = ''all '' @ [CHR 0xE2, CHR 0x86, CHR 0x92] @ '' viewer''"

definition handle_revoke_confirm ::
  "rbac_module \<Rightarrow> rbac_env \<Rightarrow> tg_user \<Rightarrow> string \<Rightarrow> rbac_world \<Rightarrow> rbac_world \<times> rbac_effects" where
  "handle_revoke_confirm M env who data w =
     (if \<not> manages_rbac M who w then (w, rbac_denied)
      else (case split_n 2 (CHR ''|'') data of
         [first, role_name] \<Rightarrow>
           (case sscanf_d first of
              None \<Rightarrow> (w, [Respond (Some (RbacNotice ''Invalid user ID''))])
            | Some uid \<Rightarrow>
               (let reset = (role_name = reset_mark);
                    (s1, r) = (if reset then eng_set_role sqlite_rbac (re_now env) (rw_db w) uid role_viewer
                               else revoke_role sqlite_rbac (rw_db w) uid role_name);
                    shown = (if reset then reset_shown else role_name)
                in case r of
                     Inl _ \<Rightarrow>
                       (w\<lparr>rw_db := s1\<rparr>, [Respond (Some (RbacNotice
                          (if reset then ''Failed to reset role'' else ''Failed to revoke role'')))])
                   | Inr _ \<Rightarrow>
                       (\<lparr>rw_db = s1,
                         rw_audit = rw_audit w @ [rbac_audit env who ''rbac.role.revoke'' uid
                           [(''revoked_role'', shown), (''target'', show_int uid)]]\<rparr>,
                        [EditText (MsgRoleRevoked uid shown (tu_username who))
                           [[(''rbac_back'', '''')]]])))
       | _ \<Rightarrow> (w, [Respond (Some (RbacNotice ''Invalid data''))])))"

section \<open>Endpoints (Register)\<close>

definition rbac_endpoints :: "string list" where
  "rbac_endpoints =
     [''/rbac'', ''rbac_users'', ''rbac_roles'', ''rbac_assign'', ''rbac_assign_user'',
      ''rbac_assign_role'', ''rbac_revoke'', ''rbac_revoke_user'', ''rbac_revoke_confirm'',
      ''rbac_user_detail'', ''rbac_back'']"

definition rbac_update ::
  "rbac_module \<Rightarrow> rbac_env \<Rightarrow> tg_user \<Rightarrow> string \<Rightarrow> string \<Rightarrow> rbac_world \<Rightarrow> rbac_world \<times> rbac_effects"
where
  "rbac_update M env who endpoint data w =
     (if endpoint = ''/rbac'' then (w, handle_rbac M who w)
      else if endpoint = ''rbac_users'' then (w, handle_list_users M who w)
      else if endpoint = ''rbac_roles'' then (w, handle_list_roles M env who w)
      else if endpoint = ''rbac_assign'' then (w, handle_assign_start M who w)
      else if endpoint = ''rbac_assign_user'' then (w, handle_assign_select_user M who data w)
      else if endpoint = ''rbac_assign_role'' then handle_assign_confirm M env who data w
      else if endpoint = ''rbac_revoke'' then (w, handle_revoke_start M who w)
      else if endpoint = ''rbac_revoke_user'' then (w, handle_revoke_select_user M who data w)
      else if endpoint = ''rbac_revoke_confirm'' then handle_revoke_confirm M env who data w
      else if endpoint = ''rbac_user_detail'' then (w, handle_user_detail M env who data w)
      else if endpoint = ''rbac_back'' then (w, rbac_handle_back)
      else (w, []))"

end
