(* ===== verification/RbacMenuProps.thy ===== *)
theory RbacMenuProps
  imports RbacMenu RbacProps
begin

text \<open>
  What the \<open>/rbac\<close> menu guarantees: stored roles stay valid whatever is typed or pressed, only
  managers change anything and every change is audited, a pressed role is in force afterwards, and
  revoking a role leaves the flat role, and with it every permission check, as it was.
\<close>

section \<open>Lemmas\<close>

lemma sscanf_d_show_int:
  assumes "- (2 ^ 63) \<le> i" "i < 2 ^ 63"
  shows "sscanf_d (show_int i) = Some i"
proof -
  have digits: "takeWhile is_digit (show_nat n) = show_nat n" for n
    by (simp add: takeWhile_eq_all_conv is_digit_def) (metis show_nat_chars option.distinct(1) option.exhaust)
  have first: "\<exists>c cs. show_nat n = c # cs \<and> digit_val c \<noteq> None" for n
    using show_nat_chars [of _ n] show_nat_nonempty [of n] by (cases "show_nat n") auto
  have signs: "digit_val (CHR '' '') = None" "digit_val (CHR ''-'') = None" "digit_val (CHR ''+'') = None"
    by (simp_all add: digit_val_def)
  show ?thesis
  proof (cases "i < 0")
    case True
    then show ?thesis
      using assms by (simp add: sscanf_d_def show_int_def digits read_show_nat Let_def)
  next
    case False
    obtain c cs where c: "show_nat (nat i) = c # cs" "digit_val c \<noteq> None" using first by blast
    with signs have "c \<noteq> CHR '' ''" "c \<noteq> CHR ''-''" "c \<noteq> CHR ''+''" by auto
    with False c assms digits [of "nat i"] read_show_nat [of "nat i"] show ?thesis
      by (simp add: sscanf_d_def show_int_def Let_def)
  qed
qed

lemma bar_not_in_show_int: "CHR ''|'' \<notin> set (show_int i)"
  using show_nat_chars [of "CHR ''|''"] by (auto simp: show_int_def digit_val_def)

lemma split_pressed: "split_n 2 (CHR ''|'') (show_int i @ CHR ''|'' # r) = [show_int i, r]"
  by (rule split_n_2 [OF bar_not_in_show_int])

text \<open>A failed assignment leaves the tables alone, and so does a failed revocation.\<close>

lemma eng_set_role_failed:
  "eng_set_role sqlite_rbac now s u r = (s', Inl e) \<Longrightarrow> s' = s"
  by (auto simp: eng_set_role_def set_user_role_def Let_def filter_empty_conv cong: map_cong
      split: if_splits option.splits intro!: db.equality map_idI)

lemma revoke_role_failed: "revoke_role sqlite_rbac s u r = (s', Inl e) \<Longrightarrow> s' = s"
  by (auto simp: revoke_role_def delete_role_binding_def exec_sql_def split: option.splits)

lemma assign_role_users: "db_users (fst (assign_role sqlite_rbac i s b)) = db_users s"
  "db_fault (fst (assign_role sqlite_rbac i s b)) = db_fault s"
  by (auto simp: assign_role_def create_role_binding_def Let_def split: option.splits)

lemma revoke_role_users: "db_users (fst (revoke_role sqlite_rbac s u r)) = db_users s"
  "db_fault (fst (revoke_role sqlite_rbac s u r)) = db_fault s"
  by (auto simp: revoke_role_def delete_role_binding_def exec_sql_def split: option.splits)

lemma get_user_role_cong:
  "db_users s' = db_users s \<Longrightarrow> db_fault s' = db_fault s \<Longrightarrow> get_user_role s' = get_user_role s"
  by (rule ext) (simp add: get_user_role_def split: option.split)

section \<open>Stored roles\<close>

definition roles_typed :: "db \<Rightarrow> bool" where
  "roles_typed s \<longleftrightarrow> list_all (\<lambda>u. is_valid_role (u_role u)) (db_users s)"

lemma valid_role_names [simp]: "is_valid_role role_viewer" "is_valid_role role_admin"
  by (simp_all add: is_valid_role_iff valid_roles_def)

lemma roles_typed_users: "db_users s' = db_users s \<Longrightarrow> roles_typed s' = roles_typed s"
  by (simp add: roles_typed_def)

lemma roles_typed_set_role:
  "roles_typed s \<Longrightarrow> roles_typed (fst (eng_set_role sqlite_rbac now s u r))"
  by (auto simp: roles_typed_def eng_set_role_def set_user_role_def Let_def list_all_iff
      split: option.splits)

lemma roles_typed_upsert:
  "roles_typed s \<Longrightarrow> is_valid_role (u_role u) \<Longrightarrow> roles_typed (fst (user_upsert now s u))"
  by (auto simp: roles_typed_def user_upsert_def list_all_iff split: option.splits)

lemma initial_role_valid: "is_valid_role (initial_role as uid)"
  by (induction as) auto

lemma user_get_typed:
  "roles_typed s \<Longrightarrow> user_get s t = Inr u \<Longrightarrow> is_valid_role (u_role u)"
  by (auto simp: roles_typed_def user_get_def list_all_iff split: option.splits
      dest!: find_SomeD)

text \<open>
  One update that can touch the user table: an update of the menu, or any message of a user, which
  the middleware registers and whose names it refreshes.
\<close>

datatype role_event =
    MenuEvent rbac_env tg_user string string
  | MessageEvent instant tg_user

fun role_step :: "rbac_module \<Rightarrow> telegram_config \<Rightarrow> role_event \<Rightarrow> rbac_world \<Rightarrow> rbac_world" where
  "role_step M cfg (MenuEvent env who endpoint data) w = fst (rbac_update M env who endpoint data w)"
| "role_step M cfg (MessageEvent now t) w =
     (case find_or_register sqlite_users cfg now t (rw_db w) of
        (s', Inl e) \<Rightarrow> w\<lparr>rw_db := s'\<rparr>
      | (s', Inr u) \<Rightarrow> w\<lparr>rw_db := fst (refresh_names sqlite_users now t s' u)\<rparr>)"

lemma find_or_register_typed:
  assumes "roles_typed s" "find_or_register sqlite_users cfg now t s = (s', r)"
  shows "roles_typed s' \<and> (\<forall>u. r = Inr u \<longrightarrow> is_valid_role (u_role u))"
proof (cases "user_get s (tu_id t)")
  case (Inr u)
  with assms user_get_typed [OF assms(1) Inr] show ?thesis
    by (auto simp: find_or_register_def sqlite_users_def)
next
  case (Inl e)
  define u where "u = new_user cfg now t"
  have v: "is_valid_role (u_role u)" by (simp add: u_def new_user_def initial_role_valid)
  obtain s2 x where up: "user_upsert now s u = (s2, x)" by fastforce
  with roles_typed_upsert [OF assms(1) v, of now] have "roles_typed s2" by simp
  with assms Inl v up show ?thesis
    by (cases x) (auto simp: find_or_register_def sqlite_users_def u_def [symmetric] split: if_splits)
qed

lemma refresh_names_typed:
  "roles_typed s \<Longrightarrow> is_valid_role (u_role u) \<Longrightarrow>
     roles_typed (fst (refresh_names sqlite_users now t s u))"
  by (auto simp: refresh_names_def Let_def sqlite_users_def intro!: roles_typed_upsert)

text \<open>A confirmation either leaves the world as it was or has done its whole job.\<close>

lemma assign_confirm_cases:
  obtains (stays) "fst (handle_assign_confirm M env who data w) = w"
  | (assigned) first uid r s1 where "manages_rbac M who w" "split_n 2 (CHR ''|'') data = [first, r]"
      "sscanf_d first = Some uid" "eng_set_role sqlite_rbac (re_now env) (rw_db w) uid r = (s1, Inr ())"
      "fst (handle_assign_confirm M env who data w) =
         \<lparr>rw_db = fst (assign_role sqlite_rbac (re_spare_id env) s1
             \<lparr>b_id = re_binding_id env, b_user_id = uid, b_role_name = r, b_expires_at = None\<rparr>),
          rw_audit = rw_audit w @ [rbac_audit env who ''rbac.role.assign'' uid
             [(''role'', r), (''target'', show_int uid)]]\<rparr>"
proof (cases "manages_rbac M who w \<and>
    (\<exists>first r uid. split_n 2 (CHR ''|'') data = [first, r] \<and> sscanf_d first = Some uid)")
  case True
  then obtain first r uid where m: "manages_rbac M who w" "split_n 2 (CHR ''|'') data = [first, r]"
    "sscanf_d first = Some uid" by blast
  obtain s1 x where set: "eng_set_role sqlite_rbac (re_now env) (rw_db w) uid r = (s1, x)" by fastforce
  show thesis
  proof (cases x)
    case (Inl e)
    with set have "s1 = rw_db w" by (simp add: eng_set_role_failed)
    with m set Inl show thesis by (intro stays) (simp add: handle_assign_confirm_def)
  next
    case (Inr u)
    with m set show thesis
      by (intro assigned [OF m]) (simp_all add: handle_assign_confirm_def Let_def case_prod_beta)
  qed
next
  case False
  then show thesis
    by (intro stays) (auto simp: handle_assign_confirm_def split: list.split option.split)
qed

lemma revoke_confirm_cases:
  obtains (stays) "fst (handle_revoke_confirm M env who data w) = w"
  | (revoked) first uid r s1 shown where "manages_rbac M who w" "split_n 2 (CHR ''|'') data = [first, r]"
      "sscanf_d first = Some uid"
      "(if r = reset_mark then eng_set_role sqlite_rbac (re_now env) (rw_db w) uid role_viewer
        else revoke_role sqlite_rbac (rw_db w) uid r) = (s1, Inr ())"
      "fst (handle_revoke_confirm M env who data w) =
         \<lparr>rw_db = s1, rw_audit = rw_audit w @ [rbac_audit env who ''rbac.role.revoke'' uid
             [(''revoked_role'', shown), (''target'', show_int uid)]]\<rparr>"
proof (cases "manages_rbac M who w \<and>
    (\<exists>first r uid. split_n 2 (CHR ''|'') data = [first, r] \<and> sscanf_d first = Some uid)")
  case True
  then obtain first r uid where m: "manages_rbac M who w" "split_n 2 (CHR ''|'') data = [first, r]"
    "sscanf_d first = Some uid" by blast
  obtain s1 x where st: "(if r = reset_mark
      then eng_set_role sqlite_rbac (re_now env) (rw_db w) uid role_viewer
      else revoke_role sqlite_rbac (rw_db w) uid r) = (s1, x)" by fastforce
  show thesis
  proof (cases x)
    case (Inl e)
    with st have "s1 = rw_db w"
      by (auto dest: eng_set_role_failed revoke_role_failed split: if_splits)
    with m st Inl show thesis
      by (intro stays) (simp add: handle_revoke_confirm_def Let_def)
  next
    case (Inr u)
    with m st show thesis
      by (intro revoked [OF m]) (simp_all add: handle_revoke_confirm_def Let_def)
  qed
next
  case False
  then show thesis
    by (intro stays) (auto simp: handle_revoke_confirm_def split: list.split option.split)
qed

lemma assign_confirm_typed:
  assumes "roles_typed (rw_db w)"
  shows "roles_typed (rw_db (fst (handle_assign_confirm M env who data w)))"
proof (cases rule: assign_confirm_cases [of M env who data w])
  case (assigned first uid r s1)
  with roles_typed_set_role [OF assms, of "re_now env" uid r] show ?thesis
    by (simp add: roles_typed_users [OF assign_role_users(1)])
qed (use assms in simp)

lemma revoke_confirm_typed:
  assumes "roles_typed (rw_db w)"
  shows "roles_typed (rw_db (fst (handle_revoke_confirm M env who data w)))"
proof (cases rule: revoke_confirm_cases [of M env who data w])
  case (revoked first uid r s1 shown)
  with assms roles_typed_set_role [OF assms, of "re_now env" uid role_viewer]
    roles_typed_users [OF revoke_role_users(1), of "rw_db w" uid r] show ?thesis
    by (simp split: if_splits)
qed (use assms in simp)

lemma role_step_typed: "roles_typed (rw_db w) \<Longrightarrow> roles_typed (rw_db (role_step M cfg e w))"
proof (cases e)
  case (MenuEvent env who endpoint data)
  assume "roles_typed (rw_db w)"
  then show ?thesis
    by (simp add: MenuEvent rbac_update_def assign_confirm_typed revoke_confirm_typed)
next
  case (MessageEvent now t)
  assume ok: "roles_typed (rw_db w)"
  obtain s' r where f: "find_or_register sqlite_users cfg now t (rw_db w) = (s', r)" by fastforce
  from find_or_register_typed [OF ok f] show ?thesis
    by (auto simp: MessageEvent f refresh_names_typed split: sum.split)
qed

text \<open>C22: Every role stored for a user is one of the five roles the program knows, at every time:
  from a table with this property, no sequence of messages and menu updates, by whomever sent and
  with whatever callback data, stores another role.\<close>

theorem stored_roles_stay_valid:
  assumes "roles_typed (rw_db w)"
  shows "roles_typed (rw_db (fold (role_step M cfg) es w))"
  using assms by (induction es arbitrary: w) (simp_all add: role_step_typed)

section \<open>Who changes what\<close>

lemma update_assigns:
  "rbac_update M env who ''rbac_assign_role'' data w = handle_assign_confirm M env who data w"
  by (simp add: rbac_update_def)

lemma update_revokes:
  "rbac_update M env who ''rbac_revoke_confirm'' data w = handle_revoke_confirm M env who data w"
  by (simp add: rbac_update_def)

lemma update_reads:
  "endpoint \<noteq> ''rbac_assign_role'' \<Longrightarrow> endpoint \<noteq> ''rbac_revoke_confirm'' \<Longrightarrow>
     fst (rbac_update M env who endpoint data w) = w"
  by (simp add: rbac_update_def)

lemma assign_confirm_changes:
  assumes "fst (handle_assign_confirm M env who data w) \<noteq> w"
  shows "manages_rbac M who w \<and>
     (\<exists>uid details. rw_audit (fst (handle_assign_confirm M env who data w)) =
        rw_audit w @ [rbac_audit env who ''rbac.role.assign'' uid details])"
  by (cases rule: assign_confirm_cases [of M env who data w]) (use assms in auto)

lemma revoke_confirm_changes:
  assumes "fst (handle_revoke_confirm M env who data w) \<noteq> w"
  shows "manages_rbac M who w \<and>
     (\<exists>uid details. rw_audit (fst (handle_revoke_confirm M env who data w)) =
        rw_audit w @ [rbac_audit env who ''rbac.role.revoke'' uid details])"
  by (cases rule: revoke_confirm_cases [of M env who data w]) (use assms in auto)

text \<open>C23: Whatever endpoint and data an update of the menu carries, it changes the world only if
  its sender may manage roles at that moment, only through the two confirmations, and then with
  exactly one audit entry, in the sender's name.\<close>

theorem role_changes_are_guarded_and_audited:
  assumes "fst (rbac_update M env who endpoint data w) \<noteq> w"
  shows "permitted (rm_engine M) (rw_db w) (tu_id who) perm_admin_rbac_manage \<and>
     (\<exists>action uid details.
        (endpoint, action) \<in> {(''rbac_assign_role'', ''rbac.role.assign''),
                              (''rbac_revoke_confirm'', ''rbac.role.revoke'')} \<and>
        rw_audit (fst (rbac_update M env who endpoint data w)) =
          rw_audit w @ [rbac_audit env who action uid details])"
proof -
  from assms update_reads [of endpoint M env who data w]
  consider "endpoint = ''rbac_assign_role''" | "endpoint = ''rbac_revoke_confirm''" by blast
  then show ?thesis
  proof cases
    case 1
    with assms assign_confirm_changes [of M env who data w] show ?thesis
      by (auto simp: manages_rbac_def update_assigns)
  next
    case 2
    with assms revoke_confirm_changes [of M env who data w] show ?thesis
      by (auto simp: manages_rbac_def update_revokes)
  qed
qed

section \<open>What an assignment and a revocation achieve\<close>

text \<open>Every handler but the two of the main menu answers an unauthorised sender with a denial.\<close>

lemma menu_shows_nothing_to_others:
  assumes "\<not> manages_rbac M who w"
  shows "shown_buttons (handle_assign_select_user M who data w) = {}"
    "shown_buttons (handle_revoke_select_user M who data w) = {}"
  using assms by (simp_all add: handle_assign_select_user_def handle_revoke_select_user_def rbac_denied_def
      shown_buttons_def)

lemma set_role_succeeds:
  assumes "is_valid_role r" "db_fault s = None" "uid \<in> u_telegram_id ` set (db_users s)"
  obtains s' where "eng_set_role sqlite_rbac now s uid r = (s', Inr ())" "set_user_role now s uid r = (s', Inr ())"
proof -
  from assms(3) have "filter (\<lambda>u. u_telegram_id u = uid) (db_users s) \<noteq> []"
    by (auto simp: filter_empty_conv)
  with assms that show thesis by (simp add: eng_set_role_def set_user_role_def Let_def)
qed

text \<open>The role buttons shown for a user do what they say: pressed by the manager they were
  shown to, a button carries the user and one of the valid roles, stores exactly that role for
  exactly that user and records it under the manager's name.\<close>

theorem pressed_role_is_in_force:
  assumes "sscanf_d data = Some uid" "db_fault (rw_db w) = None"
    and "uid \<in> u_telegram_id ` set (db_users (rw_db w))"
    and "(''rbac_assign_role'', d) \<in> shown_buttons (handle_assign_select_user M who data w)"
  shows "\<exists>r \<in> set valid_roles. d = show_int uid @ ''|'' @ r \<and>
     (let w' = fst (handle_assign_confirm M env who d w)
      in (\<forall>v. get_user_role (rw_db w') v = (if v = uid then Inr r else get_user_role (rw_db w) v)) \<and>
         rw_audit w' = rw_audit w @ [rbac_audit env who ''rbac.role.assign'' uid
           [(''role'', r), (''target'', show_int uid)]])"
proof -
  from assms(4) have m: "manages_rbac M who w" using menu_shows_nothing_to_others(1) by (metis empty_iff)
  with assms(1,4) obtain r where r: "r \<in> set valid_roles" "d = show_int uid @ ''|'' @ r"
    by (auto simp: handle_assign_select_user_def shown_buttons_def)
  from assms(1) have range: "- (2 ^ 63) \<le> uid" "uid < 2 ^ 63"
    by (auto simp: sscanf_d_def Let_def split: if_splits option.splits)
  obtain s1 where s1: "eng_set_role sqlite_rbac (re_now env) (rw_db w) uid r = (s1, Inr ())"
      "set_user_role (re_now env) (rw_db w) uid r = (s1, Inr ())"
    using set_role_succeeds [OF _ assms(2,3)] r(1) by (metis is_valid_role_iff)
  define w' where "w' = fst (handle_assign_confirm M env who d w)"
  have w': "w' = \<lparr>rw_db = fst (assign_role sqlite_rbac (re_spare_id env) s1
             \<lparr>b_id = re_binding_id env, b_user_id = uid, b_role_name = r, b_expires_at = None\<rparr>),
          rw_audit = rw_audit w @ [rbac_audit env who ''rbac.role.assign'' uid
             [(''role'', r), (''target'', show_int uid)]]\<rparr>"
    using m s1(1) sscanf_d_show_int [OF range]
    by (simp add: w'_def r(2) handle_assign_confirm_def split_pressed Let_def case_prod_beta)
  have "get_user_role (rw_db w') = get_user_role s1"
    by (rule get_user_role_cong) (simp_all add: w' assign_role_users)
  then have "\<forall>v. get_user_role (rw_db w') v = (if v = uid then Inr r else get_user_role (rw_db w) v)"
    using set_role_frame [OF s1(2)] by simp
  with r w' show ?thesis unfolding Let_def w'_def [symmetric] by auto
qed

text \<open>Revoking a named role never changes what a user may do: the confirmation removes role
  bindings only, while every handler asks for the flat role, so the answer to each permission
  question is the same before and after, for the user concerned and for everybody else. (Only the
  reset button changes the flat role.)\<close>

theorem revoking_a_role_keeps_every_permission:
  assumes "split_n 2 (CHR ''|'') data = [first, r]" "r \<noteq> reset_mark"
  shows "has_permission sqlite_rbac (rm_engine M) (rw_db (fst (handle_revoke_confirm M env who data w))) uid p =
     has_permission sqlite_rbac (rm_engine M) (rw_db w) uid p"
proof (cases rule: revoke_confirm_cases [of M env who data w])
  case (revoked first' v r' s1 shown)
  with assms have s1: "s1 = fst (revoke_role sqlite_rbac (rw_db w) v r)" by simp
  have "get_user_role s1 = get_user_role (rw_db w)"
    by (rule get_user_role_cong) (simp_all add: s1 revoke_role_users)
  then show ?thesis
    by (simp add: revoked has_permission_def eng_get_role_def)
qed simp

section \<open>Witnesses\<close>

definition menu_demo :: rbac_module where
  "menu_demo = new_rbac_module (new_engine 0 [] [9])"

definition menu_demo_env :: rbac_env where
  "menu_demo_env = \<lparr>re_now = 5, re_binding_id = ''B'', re_spare_id = ''S'', re_audit_id = ''A'', re_order = []\<rparr>"

definition menu_demo_boss :: tg_user where
  "menu_demo_boss = \<lparr>tu_id = 9, tu_username = ''boss'', tu_first_name = ''B'', tu_last_name = ''''\<rparr>"

definition menu_demo_world :: rbac_world where
  "menu_demo_world = \<lparr>rw_db = demo_store, rw_audit = []\<rparr>"

lemma menu_demo_manages [simp]: "manages_rbac menu_demo menu_demo_boss w"
  by (simp add: manages_rbac_def permitted_def has_permission_def is_super_admin_def menu_demo_def
      new_rbac_module_def new_engine_def default_roles_def menu_demo_boss_def)

lemma menu_demo_permitted [simp]:
  "permitted (rm_engine menu_demo) s (tu_id menu_demo_boss) perm_admin_rbac_manage"
  using menu_demo_manages [of "\<lparr>rw_db = s, rw_audit = []\<rparr>"] by (simp add: manages_rbac_def)

lemmas menu_demo_defs = menu_demo_world_def menu_demo_env_def demo_store_def demo_user_def new_store_def

lemma menu_demo_typed: "roles_typed (rw_db menu_demo_world)"
  by (simp add: roles_typed_def menu_demo_defs is_valid_role_iff valid_roles_def role_names)

theorem stored_roles_stay_valid_witness:
  "roles_typed (rw_db (fold (role_step menu_demo \<lparr>tc_admin_ids = [9], tc_allowed_chats = [], tc_rate_limit = 0\<rparr>)
     [MessageEvent 3 menu_demo_boss,
      MenuEvent menu_demo_env menu_demo_boss ''rbac_assign_role'' ''1|emperor''] menu_demo_world))"
  by (rule stored_roles_stay_valid [OF menu_demo_typed])

lemma menu_demo_assigns:
  "fst (rbac_update menu_demo menu_demo_env menu_demo_boss ''rbac_assign_role'' ''1|operator'' menu_demo_world)
     \<noteq> menu_demo_world"
proof -
  have d: "split_n 2 (CHR ''|'') ''1|operator'' = [''1'', ''operator'']" "sscanf_d ''1'' = Some 1"
    by code_simp+
  obtain s1 where "eng_set_role sqlite_rbac (re_now menu_demo_env) (rw_db menu_demo_world) 1 ''operator'' = (s1, Inr ())"
    by (rule set_role_succeeds [of "''operator''" "rw_db menu_demo_world" 1])
       (simp_all add: menu_demo_defs is_valid_role_iff valid_roles_def role_names)
  then have "rw_audit (fst (rbac_update menu_demo menu_demo_env menu_demo_boss ''rbac_assign_role''
      ''1|operator'' menu_demo_world)) \<noteq> rw_audit menu_demo_world"
    by (simp add: update_assigns handle_assign_confirm_def d Let_def case_prod_beta)
  then show ?thesis by metis
qed

theorem role_changes_are_guarded_and_audited_witness:
  "\<exists>action uid details.
        (''rbac_assign_role'', action) \<in> {(''rbac_assign_role'', ''rbac.role.assign''),
                              (''rbac_revoke_confirm'', ''rbac.role.revoke'')} \<and>
        rw_audit (fst (rbac_update menu_demo menu_demo_env menu_demo_boss ''rbac_assign_role'' ''1|operator'' menu_demo_world)) =
          rw_audit menu_demo_world @ [rbac_audit menu_demo_env menu_demo_boss action uid details]"
  using role_changes_are_guarded_and_audited [OF menu_demo_assigns] by (rule conjunct2)

theorem pressed_role_is_in_force_witness:
  "\<exists>r \<in> set valid_roles. show_int 1 @ ''|'' @ role_operator = show_int 1 @ ''|'' @ r \<and>
     (let w' = fst (handle_assign_confirm menu_demo menu_demo_env menu_demo_boss
                      (show_int 1 @ ''|'' @ role_operator) menu_demo_world)
      in (\<forall>v. get_user_role (rw_db w') v =
               (if v = 1 then Inr r else get_user_role (rw_db menu_demo_world) v)) \<and>
         rw_audit w' = rw_audit menu_demo_world @
           [rbac_audit menu_demo_env menu_demo_boss ''rbac.role.assign'' 1
             [(''role'', r), (''target'', show_int 1)]])"
proof (rule pressed_role_is_in_force)
  show d: "sscanf_d ''1'' = Some 1" by code_simp
  show "db_fault (rw_db menu_demo_world) = None" by (simp add: menu_demo_defs)
  show "1 \<in> u_telegram_id ` set (db_users (rw_db menu_demo_world))" by (simp add: menu_demo_defs)
  show "(''rbac_assign_role'', show_int 1 @ ''|'' @ role_operator)
      \<in> shown_buttons (handle_assign_select_user menu_demo menu_demo_boss ''1'' menu_demo_world)"
    using d by (auto simp: handle_assign_select_user_def shown_buttons_def valid_roles_def)
qed

theorem revoking_a_role_keeps_every_permission_witness:
  "has_permission sqlite_rbac (rm_engine menu_demo) (rw_db (fst (handle_revoke_confirm menu_demo
       menu_demo_env menu_demo_boss ''2|admin'' menu_demo_world))) 2 perm_admin_rbac_manage =
     has_permission sqlite_rbac (rm_engine menu_demo) (rw_db menu_demo_world) 2 perm_admin_rbac_manage \<and>
   rw_audit (fst (handle_revoke_confirm menu_demo menu_demo_env menu_demo_boss ''2|admin'' menu_demo_world)) \<noteq> []"
proof
  have d: "split_n 2 (CHR ''|'') ''2|admin'' = [''2'', ''admin'']" "sscanf_d ''2'' = Some 2"
    by code_simp+
  have r: "''admin'' \<noteq> reset_mark" by (simp add: reset_mark_def)
  show "has_permission sqlite_rbac (rm_engine menu_demo) (rw_db (fst (handle_revoke_confirm menu_demo
       menu_demo_env menu_demo_boss ''2|admin'' menu_demo_world))) 2 perm_admin_rbac_manage =
     has_permission sqlite_rbac (rm_engine menu_demo) (rw_db menu_demo_world) 2 perm_admin_rbac_manage"
    by (rule revoking_a_role_keeps_every_permission [OF d(1) r])
  show "rw_audit (fst (handle_revoke_confirm menu_demo menu_demo_env menu_demo_boss ''2|admin'' menu_demo_world)) \<noteq> []"
    using r by (simp add: handle_revoke_confirm_def d Let_def revoke_role_def delete_role_binding_def
        exec_sql_def menu_demo_defs)
qed

end
