(* ===== verification/Helm.thy ===== *)
theory Helm
  imports GoTime Registry Middleware
begin

text \<open>
  The Helm module (\<open>internal/module/helm\<close>): choosing a namespace, listing releases, the detail of
  one, and rolling it back. The Helm SDK and the namespace query of client-go are third-party: a
  release client is a record of its four calls over a remote state \<open>'w\<close>, the factory that builds
  one and the namespace query are fields of the module. Charts and release infos are assumed present
  (the code dereferences both).
\<close>

section \<open>Releases and their client (client.go)\<close>

record helm_release =
  hr_name :: string
  hr_namespace :: string
  hr_version :: int
  hr_chart_name :: string
  hr_chart_version :: string
  hr_app_version :: string
  hr_status :: string
  hr_deployed :: instant

record 'w release_client =
  rc_list :: "'w \<Rightarrow> helm_release list result"
  rc_get :: "string \<Rightarrow> 'w \<Rightarrow> helm_release result"
  rc_history :: "string \<Rightarrow> 'w \<Rightarrow> helm_release list result"
  rc_rollback :: "string \<Rightarrow> int \<Rightarrow> 'w \<Rightarrow> 'w \<times> unit result"

text \<open>
  The actions of the SDK with the options the code sets: \<open>All\<close> of a list, \<open>Max\<close> of a history,
  version, \<open>Wait\<close> and \<open>Timeout\<close> of a rollback.
\<close>

record ('c, 'w) helm_sdk =
  hk_init :: "'c option \<Rightarrow> string \<Rightarrow> unit result"
  hk_list :: "'c option \<Rightarrow> string \<Rightarrow> bool \<Rightarrow> 'w \<Rightarrow> helm_release list result"
  hk_get :: "'c option \<Rightarrow> string \<Rightarrow> string \<Rightarrow> 'w \<Rightarrow> helm_release result"
  hk_history :: "'c option \<Rightarrow> string \<Rightarrow> int \<Rightarrow> string \<Rightarrow> 'w \<Rightarrow> helm_release list result"
  hk_rollback :: "'c option \<Rightarrow> string \<Rightarrow> int \<Rightarrow> bool \<Rightarrow> duration \<Rightarrow> string \<Rightarrow> 'w \<Rightarrow> 'w \<times> unit result"

definition sdk_client :: "('c, 'w) helm_sdk \<Rightarrow> 'c option \<Rightarrow> string \<Rightarrow> 'w release_client" where
  "sdk_client K cfg ns =
     \<lparr>rc_list = hk_list K cfg ns True,
      rc_get = hk_get K cfg ns,
      rc_history = hk_history K cfg ns 10,
      rc_rollback = (\<lambda>n v. hk_rollback K cfg ns v True (5 * minute) n)\<rparr>"

type_synonym ('c, 'w) client_factory = "'c option \<Rightarrow> string \<Rightarrow> 'w release_client result"

definition default_client_factory :: "('c, 'w) helm_sdk \<Rightarrow> ('c, 'w) client_factory" where
  "default_client_factory K cfg ns =
     (case hk_init K cfg ns of
        Inl e \<Rightarrow> Inl (ErrWrap ''init helm action config'' e)
      | Inr _ \<Rightarrow> Inr (sdk_client K cfg ns))"

section \<open>The module (module.go)\<close>

record 'c cluster_client =
  hc_name :: string
  hc_kubeconfig :: "'c option"

record ('c, 'w) helm_module =
  hm_clusters :: "'c cluster_client list"
  hm_engine :: engine
  hm_new_client :: "('c, 'w) client_factory"
  hm_namespaces :: "'c \<Rightarrow> 'w \<Rightarrow> string list result"

record 'w helm_world =
  hw_remote :: 'w
  hw_db :: db
  hw_store :: callback_store
  hw_audit :: "audit_entry list"

definition new_helm_module ::
  "('c, 'w) helm_sdk \<Rightarrow> ('c \<Rightarrow> 'w \<Rightarrow> string list result) \<Rightarrow> 'c cluster_client list \<Rightarrow> engine \<Rightarrow>
   ('c, 'w) helm_module" where
  "new_helm_module K nss cls e =
     \<lparr>hm_clusters = cls, hm_engine = e, hm_new_client = default_client_factory K, hm_namespaces = nss\<rparr>"

definition set_client_factory ::
  "('c, 'w) client_factory \<Rightarrow> ('c, 'w) helm_module \<Rightarrow> ('c, 'w) helm_module" where
  "set_client_factory f M = M\<lparr>hm_new_client := f\<rparr>"

definition helm_commands :: "command_info list" where
  "helm_commands =
     [\<lparr>co_command = ''/helm'', co_description = ''List and manage Helm releases'',
       co_permission = perm_helm_releases_list, co_chat_type = ''all''\<rparr>]"

datatype release_mark = ReleaseOk | ReleaseFailed | ReleasePending | ReleaseOther

datatype helm_msg =
    HelmNotice string
  | MsgHelmError string go_error
  | MsgReleases string string "(release_mark \<times> string \<times> string \<times> string \<times> int \<times> duration) list"
  | MsgRelease string string string string string int instant "(int \<times> string \<times> bool) list"
  | MsgRollingBack string int
  | MsgRolledBack string int

type_synonym helm_effects = "helm_msg chat_effect list"

definition status_mark :: "string \<Rightarrow> release_mark" where
  "status_mark s =
     (if s = ''deployed'' then ReleaseOk
      else if s = ''failed'' then ReleaseFailed
      else if s \<in> {''pending-install'', ''pending-upgrade'', ''pending-rollback''} then ReleasePending
      else ReleaseOther)"

definition format_release_list ::
  "instant \<Rightarrow> string \<Rightarrow> string \<Rightarrow> helm_release list \<Rightarrow> helm_msg" where
  "format_release_list now cl ns rs =
     MsgReleases (if ns = [] then ''All Namespaces'' else ns) cl
       (map (\<lambda>r. (status_mark (hr_status r), hr_name r, hr_app_version r, hr_status r, hr_version r,
                  duration_round minute (time_sub now (hr_deployed r)))) rs)"

definition format_release_detail :: "helm_release \<Rightarrow> helm_release list \<Rightarrow> helm_msg" where
  "format_release_detail r hist =
     MsgRelease (hr_name r) (hr_namespace r) (hr_chart_name r @ ''-'' @ hr_chart_version r)
       (hr_app_version r) (hr_status r) (hr_version r) (hr_deployed r)
       (map (\<lambda>h. (hr_version h, hr_app_version h, hr_version h = hr_version r)) hist)"

section \<open>Data access\<close>

definition client_for_cluster ::
  "('c, 'w) helm_module \<Rightarrow> string \<Rightarrow> string \<Rightarrow> 'w release_client result" where
  "client_for_cluster M cl ns =
     (case find (\<lambda>c. hc_name c = cl) (hm_clusters M) of
        None \<Rightarrow> Inl (ErrText (''cluster '' @ [CHR 0x22] @ cl @ [CHR 0x22] @ '' not found''))
      | Some c \<Rightarrow> hm_new_client M (hc_kubeconfig c) ns)"

definition list_releases ::
  "('c, 'w) helm_module \<Rightarrow> string \<Rightarrow> string \<Rightarrow> 'w \<Rightarrow> helm_release list result" where
  "list_releases M cl ns w =
     (case client_for_cluster M cl ns of Inl e \<Rightarrow> Inl e | Inr c \<Rightarrow> rc_list c w)"

text \<open>A history that cannot be read is an empty one.\<close>

definition get_release_detail ::
  "('c, 'w) helm_module \<Rightarrow> string \<Rightarrow> string \<Rightarrow> string \<Rightarrow> 'w \<Rightarrow> (helm_release \<times> helm_release list) result"
where
  "get_release_detail M cl ns rel w =
     (case client_for_cluster M cl ns of
        Inl e \<Rightarrow> Inl e
      | Inr c \<Rightarrow>
         (case rc_get c rel w of
            Inl e \<Rightarrow> Inl (ErrWrap ''get release'' e)
          | Inr r \<Rightarrow> Inr (r, case rc_history c rel w of Inl _ \<Rightarrow> [] | Inr h \<Rightarrow> h)))"

definition helm_rollback ::
  "('c, 'w) helm_module \<Rightarrow> string \<Rightarrow> string \<Rightarrow> string \<Rightarrow> int \<Rightarrow> 'w \<Rightarrow> 'w \<times> unit result" where
  "helm_rollback M cl ns rel v w =
     (case client_for_cluster M cl ns of Inl e \<Rightarrow> (w, Inl e) | Inr c \<Rightarrow> rc_rollback c rel v w)"

definition helm_default_namespaces :: "string list" where
  "helm_default_namespaces = [''default'', ''production'', ''staging'', ''kube-system'']"

definition list_cluster_namespaces :: "('c, 'w) helm_module \<Rightarrow> 'c cluster_client \<Rightarrow> 'w \<Rightarrow> string list" where
  "list_cluster_namespaces M c w =
     (case hc_kubeconfig c of
        None \<Rightarrow> helm_default_namespaces
      | Some k \<Rightarrow> (case hm_namespaces M k w of Inl _ \<Rightarrow> helm_default_namespaces | Inr ns \<Rightarrow> ns))"

section \<open>Handlers\<close>

text \<open>Buttons, one per row, whose data went through the callback store.\<close>

definition helm_buttons ::
  "string \<Rightarrow> string list \<Rightarrow> callback_store \<Rightarrow> callback_store \<times> keyboard" where
  "helm_buttons unique ds st = (let (st', ks) = store_all st ds in (st', map (\<lambda>k. [(unique, k)]) ks))"

definition handle_helm ::
  "('c, 'w) helm_module \<Rightarrow> tg_user \<Rightarrow> 'w helm_world \<Rightarrow> 'w helm_world \<times> helm_effects" where
  "handle_helm M who w =
     (if \<not> permitted (hm_engine M) (hw_db w) (tu_id who) perm_helm_releases_list
      then (w, [SendText (HelmNotice ''Insufficient permissions'') []])
      else (case hm_clusters M of
         [] \<Rightarrow> (w, [SendText (HelmNotice ''No clusters configured for Helm'') []])
       | c # _ \<Rightarrow>
          (let (st, kb) = helm_buttons ''helm_ns_select''
                 (map (\<lambda>ns. hc_name c @ ''|'' @ ns) ([] # list_cluster_namespaces M c (hw_remote w)))
                 (hw_store w)
           in (w\<lparr>hw_store := st\<rparr>, [SendText (HelmNotice ''Select namespace for Helm releases:'') kb]))))"

definition helm_namespace_select ::
  "('c, 'w) helm_module \<Rightarrow> instant \<Rightarrow> string \<Rightarrow> 'w helm_world \<Rightarrow> 'w helm_world \<times> helm_effects" where
  "helm_namespace_select M now data w =
     (case split_n 2 (CHR ''|'') data of
        [cl, ns] \<Rightarrow>
          (case list_releases M cl ns (hw_remote w) of
             Inl e \<Rightarrow> (w, [Respond None, SendText (MsgHelmError ''listing releases'' e) []])
           | Inr rs \<Rightarrow>
              (let (st1, kb) = helm_buttons ''helm_release_detail''
                     (map (\<lambda>r. cl @ ''|'' @ ns @ ''|'' @ hr_name r) rs) (hw_store w);
                   (st2, k) = store_data st1 (cl @ ''|'' @ ns)
               in (w\<lparr>hw_store := st2\<rparr>,
                   [Respond None,
                    EditText (format_release_list now cl ns rs) (kb @ [[(''helm_refresh'', k)]])])))
      | _ \<Rightarrow> (w, [Respond None, SendText (HelmNotice ''Invalid selection'') []]))"

definition handle_release_detail ::
  "('c, 'w) helm_module \<Rightarrow> string \<Rightarrow> 'w helm_world \<Rightarrow> 'w helm_world \<times> helm_effects" where
  "handle_release_detail M data w =
     (case split_n 3 (CHR ''|'') data of
        [cl, ns, rel] \<Rightarrow>
          (case get_release_detail M cl ns rel (hw_remote w) of
             Inl e \<Rightarrow> (w, [Respond None, SendText (MsgHelmError [] e) []])
           | Inr (r, hist) \<Rightarrow>
              (let (st1, k) = store_data (hw_store w) (cl @ ''|'' @ ns @ ''|'' @ rel);
                   (st2, b) = store_data st1 (cl @ ''|'' @ ns)
               in (w\<lparr>hw_store := st2\<rparr>,
                   [Respond None,
                    EditText (format_release_detail r hist)
                      [[(''helm_rollback_select'', k), (''helm_ns_select'', b)]]])))
      | _ \<Rightarrow> (w, [Respond None, SendText (HelmNotice ''Invalid selection'') []]))"

definition revision_data :: "string \<Rightarrow> string \<Rightarrow> string \<Rightarrow> int \<Rightarrow> string" where
  "revision_data cl ns rel v = cl @ ''|'' @ ns @ ''|'' @ rel @ ''|'' @ show_int v"

definition helm_rollback_select ::
  "('c, 'w) helm_module \<Rightarrow> string \<Rightarrow> 'w helm_world \<Rightarrow> 'w helm_world \<times> helm_effects" where
  "helm_rollback_select M data w =
     (case split_n 3 (CHR ''|'') data of
        [cl, ns, rel] \<Rightarrow>
          (case get_release_detail M cl ns rel (hw_remote w) of
             Inl e \<Rightarrow> (w, [Respond None, SendText (MsgHelmError [] e) []])
           | Inr (r, hist) \<Rightarrow>
              (let (st, kb) = helm_buttons ''helm_rollback_confirm''
                     (map (\<lambda>h. revision_data cl ns rel (hr_version h)) (filter (\<lambda>h. hr_version h \<noteq> 0) hist))
                     (hw_store w)
               in (w\<lparr>hw_store := st\<rparr>,
                   [Respond None, EditText (HelmNotice ''Select revision to rollback to:'') kb])))
      | _ \<Rightarrow> (w, [Respond None]))"

text \<open>The entry sets neither identifier nor time nor chat: they are Go's zero values.\<close>

definition helm_audit :: "tg_user \<Rightarrow> string \<Rightarrow> string \<Rightarrow> string \<Rightarrow> audit_entry" where
  "helm_audit who rel cl ns =
     \<lparr>ae_id = [], ae_user_id = tu_id who, ae_username = tu_username who,
      ae_action = ''helm.releases.rollback'', ae_resource = rel, ae_cluster = cl, ae_namespace = ns,
      ae_chat_id = 0, ae_chat_type = [], ae_status = audit_success, ae_details = [], ae_error = [],
      ae_occurred_at = zero_time\<rparr>"

text \<open>The version announced at the end is the one asked for plus one, a 64-bit sum.\<close>

definition wrapped_succ :: "int \<Rightarrow> int" where
  "wrapped_succ v = (if v + 1 < 2 ^ 63 then v + 1 else - (2 ^ 63))"

definition helm_rollback_confirm ::
  "('c, 'w) helm_module \<Rightarrow> tg_user \<Rightarrow> string \<Rightarrow> 'w helm_world \<Rightarrow> 'w helm_world \<times> helm_effects" where
  "helm_rollback_confirm M who data w =
     (case split_n 4 (CHR ''|'') data of
        [cl, ns, rel, rev_text] \<Rightarrow>
          (case sscanf_d rev_text of
             None \<Rightarrow> (w, [Respond None, EditText (HelmNotice ''Invalid revision number'') []])
           | Some v \<Rightarrow>
              if \<not> permitted (hm_engine M) (hw_db w) (tu_id who) perm_helm_releases_rollback
              then (w, [Respond None, EditText (HelmNotice
                      ''You need admin permission to rollback Helm releases'') []])
              else (case helm_rollback M cl ns rel v (hw_remote w) of
                 (r', Inl e) \<Rightarrow>
                   (w\<lparr>hw_remote := r'\<rparr>,
                    [Respond None, EditText (MsgRollingBack rel v) [],
                     EditText (MsgHelmError ''Rollback failed'' e) []])
               | (r', Inr _) \<Rightarrow>
                   (w\<lparr>hw_remote := r', hw_audit := hw_audit w @ [helm_audit who rel cl ns]\<rparr>,
                    [Respond None, EditText (MsgRollingBack rel v) [],
                     EditText (MsgRolledBack rel (wrapped_succ v)) []])))
      | _ \<Rightarrow> (w, [Respond None]))"

definition helm_rollback_cancel :: helm_effects where
  "helm_rollback_cancel =
     [Respond (Some (HelmNotice ''Cancelled'')), EditText (HelmNotice ''Rollback cancelled'') []]"

definition helm_refresh ::
  "('c, 'w) helm_module \<Rightarrow> instant \<Rightarrow> string \<Rightarrow> 'w helm_world \<Rightarrow> 'w helm_world \<times> helm_effects" where
  "helm_refresh M now data w = helm_namespace_select M now data w"

section \<open>Endpoints (Register)\<close>

definition helm_resolve :: "'w helm_world \<Rightarrow> string \<Rightarrow> string" where
  "helm_resolve w data = (if data = [] then data else resolve (hw_store w) data)"

definition helm_update ::
  "('c, 'w) helm_module \<Rightarrow> instant \<Rightarrow> tg_user \<Rightarrow> string \<Rightarrow> string \<Rightarrow> 'w helm_world \<Rightarrow>
   'w helm_world \<times> helm_effects" where
  "helm_update M now who endpoint data w =
     (if endpoint = ''/helm'' then handle_helm M who w
      else if endpoint = ''helm_ns_select'' then helm_namespace_select M now (helm_resolve w data) w
      else if endpoint = ''helm_release_detail'' then handle_release_detail M (helm_resolve w data) w
      else if endpoint = ''helm_rollback_select'' then helm_rollback_select M (helm_resolve w data) w
      else if endpoint = ''helm_rollback_confirm''
        then helm_rollback_confirm M who (helm_resolve w data) w
      else if endpoint = ''helm_rollback_cancel'' then (w, helm_rollback_cancel)
      else if endpoint = ''helm_refresh'' then helm_refresh M now (helm_resolve w data) w
      else (w, []))"

end
