(* ===== verification/HelmProps.thy ===== *)
theory HelmProps
  imports Helm AuditLog RbacMenuProps ArgocdProps
begin

text \<open>
  What the Helm module guarantees: a release changes only through a permitted rollback, the revision
  buttons roll back to what they show, and what becomes of the audit entries of rollbacks.
\<close>

section \<open>Lemmas\<close>

lemma helm_buttons_store [simp]:
  "fst (helm_buttons unique ds st) = fst (store_all st ds)"
  "snd (helm_buttons unique ds st) = map (\<lambda>d. [(unique, callback_key d)]) ds"
  by (simp_all add: helm_buttons_def case_prod_beta store_all_keys)

lemma helm_confirm_cases:
  obtains (stays) "hw_remote (fst (helm_rollback_confirm M who data w)) = hw_remote w"
      "hw_audit (fst (helm_rollback_confirm M who data w)) = hw_audit w"
  | (acts) cl ns rel rt v r' x where "split_n 4 (CHR ''|'') data = [cl, ns, rel, rt]" "sscanf_d rt = Some v"
      "permitted (hm_engine M) (hw_db w) (tu_id who) perm_helm_releases_rollback"
      "helm_rollback M cl ns rel v (hw_remote w) = (r', x)"
      "hw_remote (fst (helm_rollback_confirm M who data w)) = r'"
      "hw_audit (fst (helm_rollback_confirm M who data w)) =
         hw_audit w @ (if is_err x then [] else [helm_audit who rel cl ns])"
proof (cases "permitted (hm_engine M) (hw_db w) (tu_id who) perm_helm_releases_rollback \<and>
    (\<exists>cl ns rel rt v. split_n 4 (CHR ''|'') data = [cl, ns, rel, rt] \<and> sscanf_d rt = Some v)")
  case True
  then obtain cl ns rel rt v where m: "split_n 4 (CHR ''|'') data = [cl, ns, rel, rt]" "sscanf_d rt = Some v"
    "permitted (hm_engine M) (hw_db w) (tu_id who) perm_helm_releases_rollback" by blast
  obtain r' x where r: "helm_rollback M cl ns rel v (hw_remote w) = (r', x)" by fastforce
  show thesis
    by (rule acts [OF m r]) (cases x; simp add: helm_rollback_confirm_def m r)+
next
  case False
  then have "fst (helm_rollback_confirm M who data w) = w"
    by (auto simp: helm_rollback_confirm_def split: list.split option.split)
  with stays show thesis by simp
qed

lemma helm_browsing_remote:
  "hw_remote (fst (handle_helm M who w)) = hw_remote w"
  "hw_remote (fst (helm_namespace_select M now data w)) = hw_remote w"
  "hw_remote (fst (handle_release_detail M data w)) = hw_remote w"
  "hw_remote (fst (helm_rollback_select M data w)) = hw_remote w"
  by (simp_all add: handle_helm_def helm_namespace_select_def handle_release_detail_def
      helm_rollback_select_def case_prod_beta split: list.split sum.split prod.split)

lemma helm_update_browses:
  "endpoint \<noteq> ''helm_rollback_confirm'' \<Longrightarrow>
     hw_remote (fst (helm_update M now who endpoint data w)) = hw_remote w"
  by (simp add: helm_update_def helm_browsing_remote helm_refresh_def)

lemma helm_update_confirms:
  "helm_update M now who ''helm_rollback_confirm'' data w =
     helm_rollback_confirm M who (helm_resolve w data) w"
  by (simp add: helm_update_def)

section \<open>Properties\<close>

text \<open>C24: Whatever endpoint is called with whatever data, the clusters' releases change only when the
  sender may roll back Helm releases at that moment, and then exactly as one rollback of the
  release and to the revision named in the confirmed data changes them. (Listing and browsing, in
  contrast, do not look at the sender after the first command.)\<close>

theorem helm_releases_change_by_permitted_rollback_only:
  assumes "hw_remote (fst (helm_update M now who endpoint data w)) \<noteq> hw_remote w"
  shows "endpoint = ''helm_rollback_confirm'' \<and>
     permitted (hm_engine M) (hw_db w) (tu_id who) perm_helm_releases_rollback \<and>
     (\<exists>cl ns rel rt v. split_n 4 (CHR ''|'') (helm_resolve w data) = [cl, ns, rel, rt] \<and>
        sscanf_d rt = Some v \<and>
        hw_remote (fst (helm_update M now who endpoint data w)) =
          fst (helm_rollback M cl ns rel v (hw_remote w)))"
proof -
  from assms helm_update_browses have ep: "endpoint = ''helm_rollback_confirm''" by metis
  note u = helm_update_confirms [of M now who data w]
  show ?thesis
  proof (cases rule: helm_confirm_cases [of M who "helm_resolve w data" w])
    case stays
    with assms show ?thesis by (simp add: ep u)
  next
    case (acts cl ns rel rt v r' x)
    then show ?thesis by (auto simp: ep u)
  qed
qed

lemma helm_browsing_ignores_the_sender:
  "helm_update M now who ''helm_ns_select'' data w = helm_update M now other ''helm_ns_select'' data w"
  "helm_update M now who ''helm_release_detail'' data w = helm_update M now other ''helm_release_detail'' data w"
  by (simp_all add: helm_update_def)

text \<open>The audit trail keeps at most one Helm rollback: its entries have an empty identifier, which is
  the primary key, so once one of them is stored, storing the entry of any other successful
  rollback fails and changes nothing; and the one that is stored carries Go's zero time, so no
  query with a later starting time ever returns it.\<close>

theorem only_one_helm_rollback_is_recorded:
  assumes "hw_audit (fst (helm_rollback_confirm M who data w)) = hw_audit w @ [e1]"
    and "hw_audit (fst (helm_rollback_confirm M' who' data' w')) = hw_audit w' @ [e2]"
    and "audit_create s e1 = (s1, Inr ())"
  shows "fst (audit_create s1 e2) = s1 \<and> is_err (snd (audit_create s1 e2)) \<and>
     (\<forall>f t. af_from f = Some t \<and> zero_time < t \<longrightarrow> e1 \<notin> set (audit_selected s1 f))"
proof -
  have entry: "\<exists>rel cl ns. e = helm_audit u rel cl ns"
    if "hw_audit (fst (helm_rollback_confirm N u d v)) = hw_audit v @ [e]" for N u d v e
    by (cases rule: helm_confirm_cases [of N u d v]) (use that in \<open>auto split: if_splits\<close>)
  from entry [OF assms(1)] have e1: "ae_id e1 = []" "ae_occurred_at e1 = zero_time"
    by (auto simp: helm_audit_def)
  from entry [OF assms(2)] have e2: "ae_id e2 = []" by (auto simp: helm_audit_def)
  from assms(3) have "db_fault s1 = None" "e1 \<in> set (db_audit s1)"
    by (auto simp: audit_create_def split: option.splits if_splits)
  with e1 e2 show ?thesis
    by (auto simp: audit_create_def list_ex_iff audit_selected_def audit_matches_def)
qed

section \<open>From the button to the rollback\<close>

lemma show_int_inj_data:
  assumes "CHR ''|'' \<notin> set cl" "CHR ''|'' \<notin> set ns" "CHR ''|'' \<notin> set rel"
  shows "split_n 4 (CHR ''|'') (revision_data cl ns rel v) = [cl, ns, rel, show_int v]"
  using split_n_4 [OF assms, of "show_int v"] by (simp add: revision_data_def)

lemma break_at_before: "break_at c s = (a, r) \<Longrightarrow> c \<notin> set a"
  by (induction s arbitrary: a r) (auto split: if_splits prod.splits)

lemma split_n_3_bars: "split_n 3 c s = [a, b, d] \<Longrightarrow> c \<notin> set a \<and> c \<notin> set b"
  by (auto simp: numeral_3_eq_3 split: prod.splits option.splits dest: break_at_before)

text \<open>The revision buttons do what they show: the dialog for a release carries one button for every
  revision of its history, and pressing that button rolls the same release of the same cluster
  and namespace back to exactly that revision, provided that names hold no bar, that the callback
  keys of the buttons differ and that the sender may roll back.\<close>

theorem pressed_revision_is_rolled_back:
  assumes "split_n 3 (CHR ''|'') data = [cl, ns, rel]" "CHR ''|'' \<notin> set rel"
    and "get_release_detail M cl ns rel (hw_remote w) = Inr (r, hist)"
    and "h \<in> set hist" "hr_version h \<noteq> 0" "- (2 ^ 63) \<le> hr_version h" "hr_version h < 2 ^ 63"
    and "inj_on callback_key (revision_data cl ns rel ` hr_version ` set hist)"
    and "store_ok (revision_data cl ns rel ` hr_version ` set hist) (hw_store w)"
    and "permitted (hm_engine M) (hw_db w) (tu_id who) perm_helm_releases_rollback"
  shows "let (w1, es) = helm_rollback_select M data w; k = callback_key (revision_data cl ns rel (hr_version h))
     in (''helm_rollback_confirm'', k) \<in> shown_buttons es \<and>
        hw_remote (fst (helm_update M now who ''helm_rollback_confirm'' k w1)) =
          fst (helm_rollback M cl ns rel (hr_version h) (hw_remote w))"
proof -
  define ds where "ds = map (\<lambda>h. revision_data cl ns rel (hr_version h)) (filter (\<lambda>h. hr_version h \<noteq> 0) hist)"
  define d where "d = revision_data cl ns rel (hr_version h)"
  define w1 where "w1 = w\<lparr>hw_store := fst (store_all (hw_store w) ds)\<rparr>"
  have sub: "set ds \<subseteq> revision_data cl ns rel ` hr_version ` set hist" "d \<in> set ds"
    using assms(4,5) by (auto simp: ds_def d_def)
  have sel: "helm_rollback_select M data w =
      (w1, [Respond None, EditText (HelmNotice ''Select revision to rollback to:'')
              (map (\<lambda>d. [(''helm_rollback_confirm'', callback_key d)]) ds)])"
    by (simp add: helm_rollback_select_def assms(1,3) case_prod_beta w1_def ds_def)
  have "resolve (fst (store_all (hw_store w) ds)) (callback_key d) = d"
    using inj_on_subset [OF assms(8) sub(1)] assms(9) sub
    by (intro stored_button_resolves) (auto simp: store_ok_def)
  then have res: "helm_resolve w1 (callback_key d) = d"
    by (auto simp: helm_resolve_def w1_def callback_key_def d_def revision_data_def split: if_splits)
  have bars: "CHR ''|'' \<notin> set cl" "CHR ''|'' \<notin> set ns"
    using split_n_3_bars [OF assms(1)] by auto
  have sp: "split_n 4 (CHR ''|'') d = [cl, ns, rel, show_int (hr_version h)]"
    unfolding d_def by (rule show_int_inj_data [OF bars assms(2)])
  obtain r' x where rb: "helm_rollback M cl ns rel (hr_version h) (hw_remote w) = (r', x)" by fastforce
  have "hw_remote (fst (helm_rollback_confirm M who d w1)) = r'"
    using assms(10) sscanf_d_show_int [OF assms(6,7)] rb
    by (cases x) (simp_all add: helm_rollback_confirm_def sp w1_def)
  with sel res rb sub(2) show ?thesis
    by (auto simp: helm_update_confirms d_def [symmetric] shown_buttons_def)
qed

section \<open>Witnesses\<close>

type_synonym rollback_log = "(string \<times> int) list"

definition helm_demo_release :: "int \<Rightarrow> helm_release" where
  "helm_demo_release v =
     \<lparr>hr_name = ''api'', hr_namespace = ''shop'', hr_version = v, hr_chart_name = ''api'',
      hr_chart_version = ''1'', hr_app_version = ''2'', hr_status = ''deployed'', hr_deployed = 0\<rparr>"

definition helm_demo_client :: "rollback_log release_client" where
  "helm_demo_client =
     \<lparr>rc_list = (\<lambda>w. Inr [helm_demo_release 2]), rc_get = (\<lambda>n w. Inr (helm_demo_release 2)),
      rc_history = (\<lambda>n w. Inr [helm_demo_release 1, helm_demo_release 2]),
      rc_rollback = (\<lambda>n v w. (w @ [(n, v)], Inr ()))\<rparr>"

definition helm_demo :: "(unit, rollback_log) helm_module" where
  "helm_demo =
     \<lparr>hm_clusters = [\<lparr>hc_name = ''prod'', hc_kubeconfig = None\<rparr>], hm_engine = new_engine 0 [] [9],
      hm_new_client = (\<lambda>cfg ns. Inr helm_demo_client), hm_namespaces = (\<lambda>c w. Inr [])\<rparr>"

definition helm_demo_world :: "rollback_log helm_world" where
  "helm_demo_world = \<lparr>hw_remote = [], hw_db = new_store, hw_store = Map.empty, hw_audit = []\<rparr>"

lemmas helm_demo_defs = helm_demo_def helm_demo_client_def helm_demo_release_def helm_demo_world_def

lemma helm_demo_permitted [simp]:
  "permitted (hm_engine helm_demo) s (tu_id menu_demo_boss) p"
  by (simp add: permitted_def has_permission_def is_super_admin_def helm_demo_def new_engine_def
      default_roles_def menu_demo_boss_def)

definition helm_demo_data :: string where "helm_demo_data = revision_data ''prod'' ''shop'' ''api'' 1"

lemma helm_demo_split:
  "split_n 4 (CHR ''|'') helm_demo_data = [''prod'', ''shop'', ''api'', show_int 1]"
  "sscanf_d (show_int 1) = Some 1"
  by (simp_all add: helm_demo_data_def show_int_inj_data sscanf_d_show_int)

lemma helm_demo_rolls_back:
  "helm_rollback helm_demo ''prod'' ''shop'' ''api'' 1 w = (w @ [(''api'', 1)], Inr ())"
  by (simp add: helm_rollback_def client_for_cluster_def helm_demo_defs)

lemma helm_demo_confirmed:
  "hw_remote (fst (helm_rollback_confirm helm_demo menu_demo_boss helm_demo_data w)) = hw_remote w @ [(''api'', 1)]"
  "hw_audit (fst (helm_rollback_confirm helm_demo menu_demo_boss helm_demo_data w)) =
     hw_audit w @ [helm_audit menu_demo_boss ''api'' ''prod'' ''shop'']"
  by (simp_all add: helm_rollback_confirm_def helm_demo_split helm_demo_rolls_back)

lemma helm_demo_resolve: "helm_resolve helm_demo_world d = d"
  by (simp add: helm_resolve_def helm_demo_world_def resolve_def)

theorem helm_releases_change_by_permitted_rollback_only_witness:
  "\<exists>cl ns rel rt v. split_n 4 (CHR ''|'') (helm_resolve helm_demo_world helm_demo_data) = [cl, ns, rel, rt] \<and>
     sscanf_d rt = Some v \<and>
     hw_remote (fst (helm_update helm_demo 0 menu_demo_boss ''helm_rollback_confirm'' helm_demo_data helm_demo_world)) =
       fst (helm_rollback helm_demo cl ns rel v (hw_remote helm_demo_world))"
proof -
  have "hw_remote (fst (helm_update helm_demo 0 menu_demo_boss ''helm_rollback_confirm'' helm_demo_data helm_demo_world))
      \<noteq> hw_remote helm_demo_world"
    by (simp add: helm_update_confirms helm_demo_resolve helm_demo_confirmed)
  from helm_releases_change_by_permitted_rollback_only [OF this] show ?thesis by blast
qed

theorem only_one_helm_rollback_is_recorded_witness:
  "let e = helm_audit menu_demo_boss ''api'' ''prod'' ''shop''; s1 = fst (audit_create new_store e)
   in fst (audit_create s1 e) = s1 \<and> is_err (snd (audit_create s1 e)) \<and>
      (\<forall>f t. af_from f = Some t \<and> zero_time < t \<longrightarrow> e \<notin> set (audit_selected s1 f))"
proof -
  let ?e = "helm_audit menu_demo_boss ''api'' ''prod'' ''shop''"
  have "audit_create new_store ?e = (fst (audit_create new_store ?e), Inr ())"
    by (simp add: audit_create_def new_store_def)
  from only_one_helm_rollback_is_recorded [OF helm_demo_confirmed(2) helm_demo_confirmed(2) this]
  show ?thesis by (simp add: Let_def)
qed

theorem pressed_revision_is_rolled_back_witness:
  "let (w1, es) = helm_rollback_select helm_demo ''prod|shop|api'' helm_demo_world;
       k = callback_key (revision_data ''prod'' ''shop'' ''api'' (hr_version (helm_demo_release 1)))
   in (''helm_rollback_confirm'', k) \<in> shown_buttons es \<and>
      hw_remote (fst (helm_update helm_demo 0 menu_demo_boss ''helm_rollback_confirm'' k w1)) =
        fst (helm_rollback helm_demo ''prod'' ''shop'' ''api'' (hr_version (helm_demo_release 1)) (hw_remote helm_demo_world))"
proof (rule pressed_revision_is_rolled_back)
  show "split_n 3 (CHR ''|'') ''prod|shop|api'' = [''prod'', ''shop'', ''api'']" by code_simp
  show "get_release_detail helm_demo ''prod'' ''shop'' ''api'' (hw_remote helm_demo_world) =
      Inr (helm_demo_release 2, [helm_demo_release 1, helm_demo_release 2])"
    by (simp add: get_release_detail_def client_for_cluster_def helm_demo_defs)
  have "show_int 1 = ''1''" "show_int 2 = ''2''" by code_simp+
  then show "inj_on callback_key (revision_data ''prod'' ''shop'' ''api'' ` hr_version ` set [helm_demo_release 1, helm_demo_release 2])"
    by (simp add: helm_demo_release_def revision_data_def callback_key_def max_data_bytes_def)
  show "store_ok (revision_data ''prod'' ''shop'' ''api'' ` hr_version ` set [helm_demo_release 1, helm_demo_release 2]) (hw_store helm_demo_world)"
    by (simp add: store_ok_def helm_demo_world_def)
qed (simp_all add: helm_demo_release_def)

end
