(* ===== verification/Incident.thy ===== *)
theory Incident
  imports GoTime AuditLog
begin

text \<open>
  The incident timeline (\<open>internal/module/incident/module.go\<close>): events of a cluster and audit entries
  gathered for a time window, sorted and shown, and the three handlers that pick namespace and
  window. The summaries are kept as the values they show. \<open>sort.Slice\<close> leaves the order of equal
  timestamps open; here they keep the order they were gathered in.
\<close>

section \<open>Timelines\<close>

datatype event_mark_k8s = MarkWarning | MarkOOM | MarkStarted | MarkPulled | MarkBackOff | MarkOther

datatype event_summary =
    KubeEventSummary event_mark_k8s string string string
  | UserSummary string string string

record timeline_event =
  te_at :: instant
  te_summary :: event_summary

record timeline =
  tl_events :: "timeline_event list"
  tl_namespace :: string
  tl_cluster :: string
  tl_from :: instant
  tl_to :: instant

definition timeline_sort :: "timeline \<Rightarrow> timeline" where
  "timeline_sort t = t\<lparr>tl_events := sort_key te_at (tl_events t)\<rparr>"

definition timeline_append :: "timeline_event \<Rightarrow> timeline \<Rightarrow> timeline" where
  "timeline_append e t = t\<lparr>tl_events := tl_events t @ [e]\<rparr>"

record collect_opts =
  op_cluster :: string
  op_namespace :: string
  op_from :: instant
  op_to :: instant

text \<open>The collector's sources: the cluster manager with its remote state, and the audit table.\<close>

record 'w incident_world =
  iw_manager :: "'w kube_api cluster_manager"
  iw_remote :: 'w
  iw_db :: db
  iw_store :: callback_store

definition k8s_event_mark :: "kube_event \<Rightarrow> event_mark_k8s" where
  "k8s_event_mark e =
     (if kv_type e = ''Warning'' then MarkWarning
      else if kv_reason e = ''OOMKilling'' then MarkOOM
      else if kv_reason e = ''Started'' then MarkStarted
      else if kv_reason e \<in> {''Pulled'', ''Scheduled''} then MarkPulled
      else if kv_reason e = ''BackOff'' then MarkBackOff
      else MarkOther)"

definition k8s_event_time :: "kube_event \<Rightarrow> instant" where
  "k8s_event_time e = (if kv_last e = zero_time then kv_time e else kv_last e)"

text \<open>An event without time or outside of the window is skipped.\<close>

fun append_k8s_events :: "collect_opts \<Rightarrow> kube_event list \<Rightarrow> timeline \<Rightarrow> timeline" where
  "append_k8s_events opts [] t = t"
| "append_k8s_events opts (e # es) t =
     (let ts = k8s_event_time e
      in if ts = zero_time \<or> ts < op_from opts \<or> op_to opts < ts then append_k8s_events opts es t
         else append_k8s_events opts es
                (timeline_append \<lparr>te_at = ts, te_summary = KubeEventSummary (k8s_event_mark e)
                    (kv_object e) (kv_reason e) (kv_message e)\<rparr> t))"

text \<open>The list call asks for at most 200 events.\<close>

definition collect_k8s_events ::
  "'w kube_api kube_library \<Rightarrow> collect_opts \<Rightarrow> timeline \<Rightarrow> 'w incident_world \<Rightarrow>
   'w incident_world \<times> timeline" where
  "collect_k8s_events L opts t w =
     (case client_set L (iw_manager w) (op_cluster opts) of
        (m, Inl e) \<Rightarrow> (w\<lparr>iw_manager := m\<rparr>, t)
      | (m, Inr api) \<Rightarrow>
         (case ka_events api (iw_remote w) (op_namespace opts) [] of
            Inl e \<Rightarrow> (w\<lparr>iw_manager := m\<rparr>, t)
          | Inr es \<Rightarrow> (w\<lparr>iw_manager := m\<rparr>, append_k8s_events opts (take 200 es) t)))"

definition incident_filter :: "collect_opts \<Rightarrow> audit_filter" where
  "incident_filter opts =
     \<lparr>af_user_id = None, af_action = None, af_cluster = Some (op_cluster opts),
      af_namespace = (if op_namespace opts \<noteq> [] then Some (op_namespace opts) else None),
      af_status = None, af_from = Some (op_from opts), af_to = Some (op_to opts), af_page = 1,
      af_page_size = 100\<rparr>"

definition audit_event :: "audit_entry \<Rightarrow> timeline_event" where
  "audit_event e =
     \<lparr>te_at = ae_occurred_at e, te_summary = UserSummary (ae_username e) (ae_action e) (ae_resource e)\<rparr>"

definition collect_audit_entries :: "collect_opts \<Rightarrow> db \<Rightarrow> timeline \<Rightarrow> timeline" where
  "collect_audit_entries opts s t =
     (case audit_list s (incident_filter opts) of
        Inl e \<Rightarrow> t
      | Inr (es, n) \<Rightarrow> fold (\<lambda>e. timeline_append (audit_event e)) es t)"

text \<open>The error of \<open>collect\<close> is always nil.\<close>

definition collect ::
  "'w kube_api kube_library \<Rightarrow> collect_opts \<Rightarrow> 'w incident_world \<Rightarrow> 'w incident_world \<times> timeline" where
  "collect L opts w =
     (let t0 = \<lparr>tl_events = [], tl_namespace = op_namespace opts, tl_cluster = op_cluster opts,
                tl_from = op_from opts, tl_to = op_to opts\<rparr>;
          (w1, t1) = collect_k8s_events L opts t0 w
      in (w1, timeline_sort (collect_audit_entries opts (iw_db w1) t1)))"

section \<open>Handlers\<close>

datatype incident_msg =
    IncNotice string
  | MsgTimeline string duration string instant instant "nat option" "timeline_event list" nat

type_synonym incident_effects = "incident_msg chat_effect list"

definition incident_commands :: "command_info list" where
  "incident_commands =
     [\<lparr>co_command = ''/incident'', co_description = ''Build incident timeline from K8s events and audit log'',
       co_permission = ''kubernetes.pods.events'', co_chat_type = ''all''\<rparr>]"

definition format_timeline :: "timeline \<Rightarrow> incident_msg" where
  "format_timeline t =
     (let n = length (tl_events t)
      in MsgTimeline (if tl_namespace t = [] then ''All Namespaces'' else tl_namespace t)
           (duration_round minute (time_sub (tl_to t) (tl_from t))) (tl_cluster t) (tl_from t) (tl_to t)
           (if n > 30 then Some n else None) (take 30 (tl_events t)) n)"

definition system_namespaces :: "string list" where
  "system_namespaces = [''kube-system'', ''kube-public'', ''kube-node-lease'']"

definition inc_cluster_namespaces ::
  "'w kube_api kube_library \<Rightarrow> string \<Rightarrow> 'w incident_world \<Rightarrow> 'w incident_world \<times> string list" where
  "inc_cluster_namespaces L cl w =
     (case client_set L (iw_manager w) cl of
        (m, Inl e) \<Rightarrow> (w\<lparr>iw_manager := m\<rparr>, [''production'', ''staging''])
      | (m, Inr api) \<Rightarrow>
         (w\<lparr>iw_manager := m\<rparr>,
          case ka_namespaces api (iw_remote w) of
            Inl e \<Rightarrow> [''production'', ''staging'']
          | Inr l \<Rightarrow>
             (let names = take 8 (filter (\<lambda>n. n \<notin> set system_namespaces) (map ns_name l))
              in if names = [] then [''default''] else names)))"

definition handle_incident ::
  "'w kube_api kube_library \<Rightarrow> string list \<Rightarrow> 'w incident_world \<Rightarrow> 'w incident_world \<times> incident_effects"
where
  "handle_incident L order w =
     (case list_clusters order (iw_manager w) of
        [] \<Rightarrow> (w, [SendText (IncNotice ''No clusters configured'') []])
      | c # _ \<Rightarrow>
         (let (w1, nss) = inc_cluster_namespaces L (ci_name c) w;
              (st1, ks) = store_all (iw_store w1) (map (\<lambda>ns. ci_name c @ ''|'' @ ns) nss);
              (st2, k) = store_data st1 (ci_name c @ ''|'')
          in (w1\<lparr>iw_store := st2\<rparr>,
              [SendText (IncNotice ''Select namespace:'')
                 (rows_of 2 (map (\<lambda>k. (''inc_ns_select'', k)) ks) @ [[(''inc_ns_select'', k)]])])))"

definition inc_windows :: "string list" where
  "inc_windows = [''15m'', ''30m'', ''1h'', ''4h'']"

definition handle_ns_select ::
  "string \<Rightarrow> 'w incident_world \<Rightarrow> 'w incident_world \<times> incident_effects" where
  "handle_ns_select data w =
     (case split_n 2 (CHR ''|'') data of
        [cl, ns] \<Rightarrow>
          (let (st, ks) = store_all (iw_store w) (map (\<lambda>d. cl @ ''|'' @ ns @ ''|'' @ d) inc_windows)
           in (w\<lparr>iw_store := st\<rparr>,
               [Respond None,
                EditText (IncNotice ''Select time window:'')
                  (rows_of 2 (map (\<lambda>k. (''inc_window_select'', k)) ks))]))
      | _ \<Rightarrow> (w, [Respond None]))"

definition handle_window_select ::
  "'w kube_api kube_library \<Rightarrow> instant \<Rightarrow> string \<Rightarrow> 'w incident_world \<Rightarrow>
   'w incident_world \<times> incident_effects" where
  "handle_window_select L now data w =
     (case split_n 3 (CHR ''|'') data of
        [cl, ns, window] \<Rightarrow>
          (case parse_duration window of
             None \<Rightarrow> (w, [Respond None, SendText (IncNotice ''Invalid time window'') []])
           | Some d \<Rightarrow>
              (let (w1, t) = collect L \<lparr>op_cluster = cl, op_namespace = ns, op_from = now - d, op_to = now\<rparr> w;
                   (st1, r) = store_data (iw_store w1) data;
                   (st2, b) = store_data st1 (cl @ ''|'' @ ns)
               in (w1\<lparr>iw_store := st2\<rparr>,
                   [Respond None, EditText (IncNotice ''Building incident timeline...'') [],
                    EditText (format_timeline t) [[(''inc_window_select'', r), (''inc_ns_select'', b)]]])))
      | _ \<Rightarrow> (w, [Respond None]))"

section \<open>Endpoints (Register)\<close>

definition inc_resolve :: "'w incident_world \<Rightarrow> string \<Rightarrow> string" where
  "inc_resolve w data = (if data = [] then data else resolve (iw_store w) data)"

definition incident_update ::
  "'w kube_api kube_library \<Rightarrow> string list \<Rightarrow> instant \<Rightarrow> string \<Rightarrow> string \<Rightarrow> 'w incident_world \<Rightarrow>
   'w incident_world \<times> incident_effects" where
  "incident_update L order now endpoint data w =
     (if endpoint = ''/incident'' then handle_incident L order w
      else if endpoint = ''inc_ns_select'' then handle_ns_select (inc_resolve w data) w
      else if endpoint = ''inc_window_select'' then handle_window_select L now (inc_resolve w data) w
      else (w, []))"

section \<open>Properties\<close>














end
