(* ===== verification/Notify.thy ===== *)
theory Notify
  imports Registry TelegramText
begin

text \<open>
  Notification preferences: their repository (\<open>notification_pref_repo.go\<close>) with the interface the
  module uses as a locale, the \<open>/notify\<close> handlers and \<open>ShouldNotify\<close>
  (\<open>internal/module/notify/module.go\<close>). The lists are stored as JSON text, which gives valid strings
  back as they were. Time zones are a parameter: the minute of the day at an instant, \<open>None\<close> for an
  unknown zone.
\<close>

section \<open>Repository\<close>

record 's pref_repository =
  pf_get :: "'s \<Rightarrow> user_id \<Rightarrow> notification_preference result"
  pf_upsert :: "'s \<Rightarrow> notification_preference \<Rightarrow> 's \<times> unit result"
  pf_delete :: "'s \<Rightarrow> user_id \<Rightarrow> 's \<times> unit result"

definition pref_get :: "db \<Rightarrow> user_id \<Rightarrow> notification_preference result" where
  "pref_get s uid =
     (case db_fault s of
        Some e \<Rightarrow> Inl (DriverErr e)
      | None \<Rightarrow>
         (case find (\<lambda>p. np_user_id p = uid) (db_prefs s) of None \<Rightarrow> Inl ErrNotFound | Some p \<Rightarrow> Inr p))"

definition pref_upsert :: "db \<Rightarrow> notification_preference \<Rightarrow> db \<times> unit result" where
  "pref_upsert s p =
     exec_sql s
       (if list_ex (\<lambda>q. np_user_id q = np_user_id p) (db_prefs s)
        then s\<lparr>db_prefs := map (\<lambda>q. if np_user_id q = np_user_id p then p else q) (db_prefs s)\<rparr>
        else s\<lparr>db_prefs := db_prefs s @ [p]\<rparr>) ()"

definition pref_delete :: "db \<Rightarrow> user_id \<Rightarrow> db \<times> unit result" where
  "pref_delete s uid = exec_sql s (s\<lparr>db_prefs := filter (\<lambda>p. np_user_id p \<noteq> uid) (db_prefs s)\<rparr>) ()"

definition sqlite_prefs :: "db pref_repository" where
  "sqlite_prefs = \<lparr>pf_get = pref_get, pf_upsert = pref_upsert, pf_delete = pref_delete\<rparr>"

section \<open>Messages and menus\<close>

datatype notify_msg =
    NotifyNotice string
  | MsgSettings string "string list" "string list" "(string \<times> string \<times> string) option"
  | MsgSeverityMenu
  | MsgQuietMenu
  | MsgMuteMenu "string list"
  | MsgSeveritySet string
  | MsgQuietSet string string
  | MsgClusterToggled string bool

type_synonym notify_effects = "notify_msg chat_effect list"

definition notify_commands :: "command_info list" where
  "notify_commands =
     [\<lparr>co_command = ''/notify'', co_description = ''Manage your notification preferences'',
       co_permission = [], co_chat_type = ''all''\<rparr>]"

definition default_pref :: "user_id \<Rightarrow> notification_preference" where
  "default_pref uid =
     \<lparr>np_user_id = uid, np_min_severity = ''info'', np_muted_alerts = [], np_muted_clusters = [],
      np_quiet_hours_start = None, np_quiet_hours_end = None, np_timezone = ''UTC''\<rparr>"

text \<open>Every handler starts from the stored preferences, from the defaults when they cannot be read.\<close>

definition current_pref :: "'s pref_repository \<Rightarrow> 's \<Rightarrow> user_id \<Rightarrow> notification_preference" where
  "current_pref R s uid = (case pf_get R s uid of Inl _ \<Rightarrow> default_pref uid | Inr p \<Rightarrow> p)"

definition settings_view :: "notification_preference \<Rightarrow> notify_msg" where
  "settings_view p =
     MsgSettings (if np_min_severity p = [] then ''info'' else np_min_severity p)
       (np_muted_clusters p) (np_muted_alerts p)
       (case (np_quiet_hours_start p, np_quiet_hours_end p) of
          (Some a, Some b) \<Rightarrow> Some (a, b, if np_timezone p = [] then ''UTC'' else np_timezone p)
        | _ \<Rightarrow> None)"

definition show_main_menu :: "bool \<Rightarrow> notification_preference \<Rightarrow> notify_effects" where
  "show_main_menu callback p =
     send_or_edit callback (settings_view p)
       [[(''notify_severity'', [])], [(''notify_quiet'', [])], [(''notify_mute_cluster'', [])]]"

section \<open>Handlers\<close>

definition handle_notify :: "'s pref_repository \<Rightarrow> bool \<Rightarrow> user_id \<Rightarrow> 's \<Rightarrow> notify_effects" where
  "handle_notify R callback uid s = show_main_menu callback (current_pref R s uid)"

definition handle_set_severity :: notify_effects where
  "handle_set_severity =
     [EditText MsgSeverityMenu
        [[(''notify_severity_set'', ''info'')], [(''notify_severity_set'', ''warning'')],
         [(''notify_severity_set'', ''critical'')], [(''notify_back'', [])]]]"

text \<open>The four handlers that store: save, answer the button and show the menu, or report the failure.\<close>

definition save_pref ::
  "'s pref_repository \<Rightarrow> notification_preference \<Rightarrow> notify_msg \<Rightarrow> 's \<Rightarrow> 's \<times> notify_effects" where
  "save_pref R p toast s =
     (case pf_upsert R s p of
        (s', Inl e) \<Rightarrow> (s', [Respond (Some (NotifyNotice ''Failed to save''))])
      | (s', Inr _) \<Rightarrow> (s', Respond (Some toast) # show_main_menu True p))"

definition handle_severity_confirm ::
  "'s pref_repository \<Rightarrow> user_id \<Rightarrow> string \<Rightarrow> 's \<Rightarrow> 's \<times> notify_effects" where
  "handle_severity_confirm R uid severity s =
     save_pref R ((current_pref R s uid)\<lparr>np_min_severity := severity\<rparr>) (MsgSeveritySet severity) s"

definition handle_quiet_hours :: notify_effects where
  "handle_quiet_hours =
     [EditText MsgQuietMenu
        [[(''notify_quiet_set'', ''22:00|08:00'')], [(''notify_quiet_set'', ''23:00|07:00'')],
         [(''notify_quiet_set'', ''00:00|06:00'')], [(''notify_quiet_clear'', [])], [(''notify_back'', [])]]]"

definition handle_quiet_hours_confirm ::
  "'s pref_repository \<Rightarrow> user_id \<Rightarrow> string \<Rightarrow> 's \<Rightarrow> 's \<times> notify_effects" where
  "handle_quiet_hours_confirm R uid data s =
     (case split_n 2 (CHR ''|'') data of
        [a, b] \<Rightarrow>
          save_pref R ((current_pref R s uid)\<lparr>np_quiet_hours_start := Some a, np_quiet_hours_end := Some b\<rparr>)
            (MsgQuietSet a b) s
      | _ \<Rightarrow> (s, [Respond (Some (NotifyNotice ''Invalid selection''))]))"

definition handle_quiet_hours_clear ::
  "'s pref_repository \<Rightarrow> user_id \<Rightarrow> 's \<Rightarrow> 's \<times> notify_effects" where
  "handle_quiet_hours_clear R uid s =
     save_pref R ((current_pref R s uid)\<lparr>np_quiet_hours_start := None, np_quiet_hours_end := None\<rparr>)
       (NotifyNotice ''Quiet hours disabled'') s"

definition handle_mute_cluster :: "'s pref_repository \<Rightarrow> user_id \<Rightarrow> 's \<Rightarrow> notify_effects" where
  "handle_mute_cluster R uid s =
     (let muted = np_muted_clusters (current_pref R s uid)
      in [EditText (MsgMuteMenu muted)
            (map (\<lambda>c. [(''notify_mute_cluster_toggle'', c)]) muted @ [[(''notify_back'', [])]])])"

text \<open>The toggle loop: whether the cluster was found, and the list without it.\<close>

fun toggle_loop :: "string \<Rightarrow> string list \<Rightarrow> bool \<times> string list" where
  "toggle_loop c [] = (False, [])"
| "toggle_loop c (x # xs) =
     (let (found, rest) = toggle_loop c xs in if x = c then (True, rest) else (found, x # rest))"

definition toggled :: "string \<Rightarrow> string list \<Rightarrow> string list" where
  "toggled c xs = (let (found, rest) = toggle_loop c xs in if found then rest else rest @ [c])"

definition handle_mute_cluster_toggle ::
  "'s pref_repository \<Rightarrow> user_id \<Rightarrow> string \<Rightarrow> 's \<Rightarrow> 's \<times> notify_effects" where
  "handle_mute_cluster_toggle R uid c s =
     (let p = current_pref R s uid
      in save_pref R (p\<lparr>np_muted_clusters := toggled c (np_muted_clusters p)\<rparr>)
           (MsgClusterToggled c (\<not> fst (toggle_loop c (np_muted_clusters p)))) s)"

definition notify_update ::
  "'s pref_repository \<Rightarrow> bool \<Rightarrow> user_id \<Rightarrow> string \<Rightarrow> string \<Rightarrow> 's \<Rightarrow> 's \<times> notify_effects" where
  "notify_update R callback uid endpoint data s =
     (if endpoint = ''/notify'' then (s, handle_notify R callback uid s)
      else if endpoint = ''notify_severity'' then (s, handle_set_severity)
      else if endpoint = ''notify_severity_set'' then handle_severity_confirm R uid data s
      else if endpoint = ''notify_quiet'' then (s, handle_quiet_hours)
      else if endpoint = ''notify_quiet_set'' then handle_quiet_hours_confirm R uid data s
      else if endpoint = ''notify_quiet_clear'' then handle_quiet_hours_clear R uid s
      else if endpoint = ''notify_mute_cluster'' then (s, handle_mute_cluster R uid s)
      else if endpoint = ''notify_mute_cluster_toggle'' then handle_mute_cluster_toggle R uid data s
      else if endpoint = ''notify_back'' then (s, handle_notify R callback uid s)
      else (s, []))"

section \<open>ShouldNotify\<close>

definition severity_level :: "string \<Rightarrow> int" where
  "severity_level s =
     (let t = to_lower s
      in if t = ''critical'' then 3 else if t = ''warning'' then 2 else if t = ''info'' then 1 else 0)"

definition is_in_quiet_hours :: "string \<Rightarrow> string \<Rightarrow> string \<Rightarrow> bool" where
  "is_in_quiet_hours now start stop =
     (if start \<le> stop then now \<ge> start \<and> now < stop else now \<ge> start \<or> now < stop)"

text \<open>\<open>Format("15:04")\<close> of the minute of a day.\<close>

definition two_digits :: "nat \<Rightarrow> string" where
  "two_digits n = [digit_char (n div 10), digit_char (n mod 10)]"

definition hour_min :: "nat \<Rightarrow> string" where
  "hour_min m = two_digits (m div 60) @ '':'' @ two_digits (m mod 60)"

definition quiet_now ::
  "(string \<Rightarrow> instant \<Rightarrow> nat option) \<Rightarrow> instant \<Rightarrow> notification_preference \<Rightarrow> bool" where
  "quiet_now zone now p =
     (case (np_quiet_hours_start p, np_quiet_hours_end p) of
        (Some a, Some b) \<Rightarrow>
          (case zone (if np_timezone p = [] then ''UTC'' else np_timezone p) now of
             None \<Rightarrow> False
           | Some m \<Rightarrow> is_in_quiet_hours (hour_min m) a b)
      | _ \<Rightarrow> False)"

definition should_notify ::
  "(string \<Rightarrow> instant \<Rightarrow> nat option) \<Rightarrow> instant \<Rightarrow> notification_preference option \<Rightarrow> string \<Rightarrow> string \<Rightarrow> bool"
where
  "should_notify zone now pref severity cluster =
     (case pref of
        None \<Rightarrow> True
      | Some p \<Rightarrow>
         if list_ex (\<lambda>m. m = cluster) (np_muted_clusters p) then False
         else if np_min_severity p \<noteq> [] \<and> severity_level severity < severity_level (np_min_severity p) then False
         else if severity \<noteq> ''critical'' \<and> quiet_now zone now p then False
         else True)"

end
