(* ===== verification/NotifyProps.thy ===== *)
theory NotifyProps
  imports Notify RbacProps
begin

text \<open>
  What the notification preferences guarantee: nobody's settings change but the presser's own, the
  cluster toggle flips one cluster, quiet hours are a clock interval, and critical alerts pass.
\<close>

declare map_key_if [simp del]

section \<open>The interface\<close>

locale pref_repo =
  fixes R :: "'s pref_repository" and ok :: "'s \<Rightarrow> bool"
  assumes upsert_ok: "ok s \<Longrightarrow> ok (fst (pf_upsert R s p))"
    and get_upsert: "ok s \<Longrightarrow> pf_upsert R s p = (s', Inr ()) \<Longrightarrow>
      pf_get R s' u = (if u = np_user_id p then Inr p else pf_get R s u)"
    and upsert_failed: "pf_upsert R s p = (s', Inl e) \<Longrightarrow> s' = s"
    and get_owner: "ok s \<Longrightarrow> pf_get R s u = Inr p \<Longrightarrow> np_user_id p = u"
begin

lemma current_owner: "ok s \<Longrightarrow> np_user_id (current_pref R s u) = u"
  by (auto simp: current_pref_def default_pref_def get_owner split: sum.split)

text \<open>What saving does, whichever handler saves.\<close>

lemma save_cases:
  assumes "ok s"
  obtains (failed) "fst (save_pref R p t s) = s"
  | (saved) s' where "pf_upsert R s p = (s', Inr ())" "fst (save_pref R p t s) = s'"
      "snd (save_pref R p t s) = Respond (Some t) # show_main_menu True p"
proof (cases "pf_upsert R s p")
  case (Pair s' r)
  show thesis
  proof (cases r)
    case (Inl e)
    with Pair upsert_failed have "fst (save_pref R p t s) = s" by (auto simp: save_pref_def)
    then show thesis by (rule failed)
  next
    case (Inr u)
    with Pair show thesis by (intro saved) (auto simp: save_pref_def)
  qed
qed

lemma save_ok: "ok s \<Longrightarrow> ok (fst (save_pref R p t s))"
  using upsert_ok [of s p] by (auto simp: save_pref_def split: prod.split sum.split)

lemma save_private:
  "ok s \<Longrightarrow> np_user_id p \<noteq> v \<Longrightarrow> pf_get R (fst (save_pref R p t s)) v = pf_get R s v"
  by (cases rule: save_cases [of s p t]) (auto simp: get_upsert)

lemma update_ok: "ok s \<Longrightarrow> ok (fst (notify_update R cb u ep d s))"
  by (simp add: notify_update_def handle_severity_confirm_def handle_quiet_hours_confirm_def
      handle_quiet_hours_clear_def handle_mute_cluster_toggle_def Let_def save_ok split: list.split)

lemma update_private:
  assumes "ok s" "u \<noteq> v"
  shows "pf_get R (fst (notify_update R cb u ep d s)) v = pf_get R s v"
proof -
  have own: "np_user_id (current_pref R s u) \<noteq> v" using current_owner [OF assms(1)] assms(2) by simp
  show ?thesis
    using own by (simp add: notify_update_def handle_severity_confirm_def handle_quiet_hours_confirm_def
        handle_quiet_hours_clear_def handle_mute_cluster_toggle_def Let_def save_private assms(1)
        split: list.split)
qed

lemma run_private:
  "ok s \<Longrightarrow> list_all (\<lambda>(cb, u, ep, d). u \<noteq> v) evs \<Longrightarrow>
     pf_get R (fold (\<lambda>(cb, u, ep, d) s. fst (notify_update R cb u ep d s)) evs s) v = pf_get R s v"
proof (induction evs arbitrary: s)
  case (Cons e evs)
  then show ?case by (cases e) (simp add: update_ok update_private)
qed simp

end

lemma keys_ok_pref_upsert [inv_intros]: "keys_ok s \<Longrightarrow> keys_ok (fst (pref_upsert s p))"
proof -
  assume ok: "keys_ok s"
  have ids: "map np_user_id (map (\<lambda>q. if np_user_id q = np_user_id p then p else q) ps) = map np_user_id ps"
    for ps by (induction ps) auto
  show ?thesis
  proof (cases "db_fault s = None \<and> \<not> list_ex (\<lambda>q. np_user_id q = np_user_id p) (db_prefs s)")
    case True
    with ok show ?thesis by (auto simp: keys_ok_def pref_upsert_def exec_sql_def list_ex_iff)
  next
    case False
    define ps where "ps = map (\<lambda>q. if np_user_id q = np_user_id p then p else q) (db_prefs s)"
    have "map np_user_id ps = map np_user_id (db_prefs s)" unfolding ps_def by (rule ids)
    moreover have "distinct (map np_user_id (db_prefs s))" using ok unfolding keys_ok_def by iprover
    ultimately have "distinct (map np_user_id ps)" by (simp only:)
    with ok have kept: "keys_ok (s\<lparr>db_prefs := ps\<rparr>)" by (simp add: keys_ok_def)
    show ?thesis
    proof (cases "db_fault s")
      case None
      with False have "fst (pref_upsert s p) = s\<lparr>db_prefs := ps\<rparr>"
        unfolding ps_def pref_upsert_def exec_sql_def by simp
      with kept show ?thesis by (simp only:)
    next
      case (Some e)
      with ok show ?thesis by (simp add: pref_upsert_def exec_sql_def)
    qed
  qed
qed

lemma find_replaced:
  "find (\<lambda>q. np_user_id q = u) (map (\<lambda>q. if np_user_id q = np_user_id p then p else q) ps) =
     (if u = np_user_id p then (if list_ex (\<lambda>q. np_user_id q = u) ps then Some p else None)
      else find (\<lambda>q. np_user_id q = u) ps)"
proof (induction ps)
  case (Cons q ps)
  then show ?case by (cases "np_user_id q = np_user_id p"; cases "u = np_user_id p") simp_all
qed simp

lemma pref_get_upsert:
  assumes "pref_upsert s p = (s', Inr ())"
  shows "pref_get s' u = (if u = np_user_id p then Inr p else pref_get s u)"
proof -
  from assms have nf: "db_fault s = None" by (cases "db_fault s") (simp_all add: pref_upsert_def exec_sql_def)
  define there where "there = list_ex (\<lambda>q. np_user_id q = np_user_id p) (db_prefs s)"
  show ?thesis
  proof (cases there)
    case True
    with assms nf have s': "s' = s\<lparr>db_prefs := map (\<lambda>q. if np_user_id q = np_user_id p then p else q) (db_prefs s)\<rparr>"
      by (simp add: pref_upsert_def exec_sql_def there_def)
    show ?thesis using True nf by (simp add: s' pref_get_def find_replaced there_def)
  next
    case False
    with assms nf have s': "s' = s\<lparr>db_prefs := db_prefs s @ [p]\<rparr>"
      by (simp add: pref_upsert_def exec_sql_def there_def)
    have none: "find (\<lambda>q. np_user_id q = np_user_id p) (db_prefs s) = None"
      using False by (simp add: there_def find_None_iff_filter filter_empty_conv list_ex_iff)
    show ?thesis
      using nf none by (cases "u = np_user_id p") (simp_all add: s' pref_get_def find_append split: option.split)
  qed
qed

interpretation sqp: pref_repo sqlite_prefs keys_ok
proof unfold_locales
  fix s p assume "keys_ok s"
  then show "keys_ok (fst (pf_upsert sqlite_prefs s p))" by (simp add: sqlite_prefs_def inv_intros)
next
  fix s p s' u assume "pf_upsert sqlite_prefs s p = (s', Inr ())"
  then show "pf_get sqlite_prefs s' u = (if u = np_user_id p then Inr p else pf_get sqlite_prefs s u)"
    using pref_get_upsert by (simp add: sqlite_prefs_def)
next
  fix s p s' e assume "pf_upsert sqlite_prefs s p = (s', Inl e)"
  then show "s' = s" by (auto simp: sqlite_prefs_def pref_upsert_def exec_sql_def split: option.splits)
next
  fix s u p assume "pf_get sqlite_prefs s u = Inr p"
  then show "np_user_id p = u"
    by (auto simp: sqlite_prefs_def pref_get_def split: option.splits dest: find_SomeD)
qed

section \<open>Clock times as strings\<close>

lemma digit_char_order:
  assumes "d < 10" "e < 10"
  shows "digit_char d < digit_char e \<longleftrightarrow> d < e" "digit_char d = digit_char e \<longleftrightarrow> d = e"
proof -
  show lt: "digit_char d < digit_char e \<longleftrightarrow> d < e"
    using assms by (simp add: digit_char_def less_char_def)
  show "digit_char d = digit_char e \<longleftrightarrow> d = e"
    by (metis assms digit_val_char option.inject)
qed

lemma div_mod_order:
  fixes x y k :: nat
  assumes "0 < k"
  shows "x < y \<longleftrightarrow> x div k < y div k \<or> x div k = y div k \<and> x mod k < y mod k"
proof (cases "x div k" "y div k" rule: linorder_cases)
  case less
  then have "\<not> y \<le> x" using div_le_mono [of y x k] by linarith
  with less show ?thesis by simp
next
  case equal
  have "k * (x div k) + x mod k = x" "k * (y div k) + y mod k = y" by (rule mult_div_mod_eq)+
  then have "x < y \<longleftrightarrow> x mod k < y mod k" unfolding equal by linarith
  with equal show ?thesis by simp
next
  case greater
  then have "\<not> x \<le> y" using div_le_mono [of x y k] by linarith
  with greater show ?thesis by simp
qed

lemma two_digits_order:
  assumes "x < 100" "y < 100"
  shows "two_digits x @ r < two_digits y @ t \<longleftrightarrow> x < y \<or> x = y \<and> r < t"
proof -
  have "x div 10 < 10" "y div 10 < 10" using assms by auto
  then show ?thesis
    using div_mod_order [of 10 x y] by (auto simp: two_digits_def digit_char_order) (metis div_mod_decomp)+
qed

lemma hour_min_less:
  assumes "m < 1440" "n < 1440"
  shows "hour_min m < hour_min n \<longleftrightarrow> m < n"
proof -
  have b: "m div 60 < 100" "n div 60 < 100" "m mod 60 < 100" "n mod 60 < 100"
    using assms mod_less_divisor [of 60 m] mod_less_divisor [of 60 n] by auto
  have "hour_min m < hour_min n \<longleftrightarrow> m div 60 < n div 60 \<or> m div 60 = n div 60 \<and> m mod 60 < n mod 60"
    using two_digits_order [OF b(1,2)] two_digits_order [OF b(3,4), of "[]" "[]"]
    by (simp add: hour_min_def)
  then show ?thesis using div_mod_order [of 60 m n] by simp
qed

lemma hour_min_le: "m < 1440 \<Longrightarrow> n < 1440 \<Longrightarrow> hour_min m \<le> hour_min n \<longleftrightarrow> m \<le> n"
  using hour_min_less [of n m] by (simp add: not_less [symmetric])

lemma quiet_interval:
  assumes "m < 1440" "a < 1440" "b < 1440"
  shows "is_in_quiet_hours (hour_min m) (hour_min a) (hour_min b) \<longleftrightarrow>
    (m + 1440 - a) mod 1440 < (b + 1440 - a) mod 1440"
proof -
  have m: "(x + 1440 - a) mod 1440 = (if a \<le> x then x - a else x + 1440 - a)" if "x < 1440" for x
    using that assms(2) by (auto simp: mod_if)
  show ?thesis
    using assms by (simp add: is_in_quiet_hours_def hour_min_less hour_min_le m) linarith
qed

section \<open>Properties\<close>

text \<open>C26: Whether a stored preference lets an alert through follows the clock: with quiet hours from
  minute a to minute b of the day and the local time at minute m, the alert arrives exactly when
  its cluster is not muted, its level reaches the minimum, and it is critical or m lies outside of
  the circular interval from a to b (which the code decides by comparing the texts hh:mm, across
  midnight too).\<close>

theorem delivery_follows_the_clock:
  assumes "np_quiet_hours_start p = Some (hour_min a)" "np_quiet_hours_end p = Some (hour_min b)"
    and "zone (if np_timezone p = [] then ''UTC'' else np_timezone p) now = Some m"
    and "m < 1440" "a < 1440" "b < 1440"
  shows "should_notify zone now (Some p) severity cl \<longleftrightarrow>
     cl \<notin> set (np_muted_clusters p) \<and>
     (np_min_severity p = [] \<or> severity_level (np_min_severity p) \<le> severity_level severity) \<and>
     (severity = ''critical'' \<or> \<not> (m + 1440 - a) mod 1440 < (b + 1440 - a) mod 1440)"
proof -
  have "quiet_now zone now p \<longleftrightarrow> (m + 1440 - a) mod 1440 < (b + 1440 - a) mod 1440"
    using quiet_interval [OF assms(4-6)] by (simp add: quiet_now_def assms(1-3))
  then show ?thesis by (auto simp: should_notify_def list_ex_iff)
qed

theorem delivery_follows_the_clock_witness:
  "\<not> should_notify (\<lambda>z t. Some 60) 0
     (Some ((default_pref 7)\<lparr>np_quiet_hours_start := Some ''22:00'', np_quiet_hours_end := Some ''08:00''\<rparr>))
     ''warning'' ''prod''"
proof -
  have times: "hour_min 1320 = ''22:00''" "hour_min 480 = ''08:00''" by code_simp+
  show ?thesis
    using delivery_follows_the_clock [of "(default_pref 7)\<lparr>np_quiet_hours_start := Some ''22:00'',
        np_quiet_hours_end := Some ''08:00''\<rparr>" 1320 480 "\<lambda>z t. Some 60" 0 60 "''warning''" "''prod''"]
    by (simp add: times default_pref_def)
qed

lemma severity_level_bound: "severity_level s \<le> severity_level ''critical''"
proof -
  have "severity_level ''critical'' = 3" by code_simp
  then show ?thesis by (simp add: severity_level_def Let_def)
qed

text \<open>Critical alerts always arrive, whatever severity filter, quiet hours and time zone a user has
  stored, except those from a cluster the user muted.\<close>

theorem critical_alerts_always_arrive:
  "should_notify zone now (Some p) ''critical'' cl \<longleftrightarrow> cl \<notin> set (np_muted_clusters p)"
  using severity_level_bound [of "np_min_severity p"] by (auto simp: should_notify_def list_ex_iff)

text \<open>Nobody changes another user's preferences: whatever the others press, with whatever data and
  in whatever order, what is stored for a user stays as it is.\<close>

theorem preferences_are_private:
  assumes "keys_ok s" "list_all (\<lambda>(cb, u, ep, d). u \<noteq> v) evs"
  shows "pref_get (fold (\<lambda>(cb, u, ep, d) s. fst (notify_update sqlite_prefs cb u ep d s)) evs s) v = pref_get s v"
  using sqp.run_private [OF assms] by (simp add: sqlite_prefs_def)

theorem preferences_are_private_witness:
  "pref_get (fold (\<lambda>(cb, u, ep, d) s. fst (notify_update sqlite_prefs cb u ep d s))
      [(True, 1, ''notify_severity_set'', ''critical''), (True, 2, ''notify_mute_cluster_toggle'', ''prod'')]
      new_store) 3 = Inl ErrNotFound"
  using preferences_are_private [OF keys_ok_new_store, of 3 "[(True, 1, ''notify_severity_set'', ''critical''),
      (True, 2, ''notify_mute_cluster_toggle'', ''prod'')]"]
  by (simp add: pref_get_def new_store_def)

lemma sqlite_prefs_ops [simp]: "pf_get sqlite_prefs = pref_get" "pf_upsert sqlite_prefs = pref_upsert"
  by (simp_all add: sqlite_prefs_def)

lemma toggle_loop_spec: "toggle_loop c xs = (c \<in> set xs, filter (\<lambda>x. x \<noteq> c) xs)"
  by (induction xs) auto

lemma set_toggled: "set (toggled c xs) = (if c \<in> set xs then set xs - {c} else insert c (set xs))"
  by (auto simp: toggled_def toggle_loop_spec)

text \<open>Pressing the toggle of a cluster stores the presser's preferences with exactly that cluster
  flipped and everything else as before, the answer says which way, and from then on no alert of
  the cluster arrives if it was not muted before.\<close>

theorem toggle_flips_one_cluster:
  assumes "keys_ok s" "db_fault s = None"
  shows "let p = current_pref sqlite_prefs s u; muted = set (np_muted_clusters p);
            (s', es) = notify_update sqlite_prefs True u ''notify_mute_cluster_toggle'' c s
     in \<exists>p'. pref_get s' u = Inr p' \<and> p'\<lparr>np_muted_clusters := np_muted_clusters p\<rparr> = p \<and>
          set (np_muted_clusters p') = (if c \<in> muted then muted - {c} else insert c muted) \<and>
          hd es = Respond (Some (MsgClusterToggled c (c \<notin> muted))) \<and>
          (c \<in> muted \<or> \<not> should_notify zone now (Some p') severity c)"
proof -
  define p where "p = current_pref sqlite_prefs s u"
  define p' where "p' = p\<lparr>np_muted_clusters := toggled c (np_muted_clusters p)\<rparr>"
  have own: "np_user_id p' = u" using sqp.current_owner [OF assms(1)] by (simp add: p'_def p_def)
  obtain s' where s': "pref_upsert s p' = (s', Inr ())"
    using assms(2) by (simp add: pref_upsert_def exec_sql_def)
  have up: "notify_update sqlite_prefs True u ''notify_mute_cluster_toggle'' c s =
      (s', Respond (Some (MsgClusterToggled c (c \<notin> set (np_muted_clusters p)))) # show_main_menu True p')"
    using s' by (simp add: notify_update_def handle_mute_cluster_toggle_def p_def [symmetric] Let_def
        p'_def [symmetric] save_pref_def toggle_loop_spec)
  have "pref_get s' u = Inr p'" using pref_get_upsert [OF s', of u] own by simp
  moreover have "set (np_muted_clusters p') =
      (if c \<in> set (np_muted_clusters p) then set (np_muted_clusters p) - {c}
       else insert c (set (np_muted_clusters p)))"
    by (simp add: p'_def set_toggled)
  moreover from this have "c \<in> set (np_muted_clusters p) \<or> \<not> should_notify zone now (Some p') severity c"
    by (auto simp: should_notify_def list_ex_iff)
  ultimately show ?thesis
    unfolding p_def [symmetric] up Let_def prod.case by (intro exI [of _ p']) (simp add: p'_def)
qed

theorem toggle_flips_one_cluster_witness:
  "\<exists>p'. pref_get (fst (notify_update sqlite_prefs True 7 ''notify_mute_cluster_toggle'' ''prod'' new_store)) 7 = Inr p' \<and>
     set (np_muted_clusters p') = {''prod''}"
proof -
  have f: "db_fault new_store = None" by (simp add: new_store_def)
  have "np_muted_clusters (current_pref sqlite_prefs new_store 7) = []"
    by (simp add: current_pref_def pref_get_def new_store_def default_pref_def)
  with toggle_flips_one_cluster [OF keys_ok_new_store f, of 7 "''prod''" "\<lambda>z t. None" 0 "''info''"]
  obtain p' where
    "pref_get (fst (notify_update sqlite_prefs True 7 ''notify_mute_cluster_toggle'' ''prod'' new_store)) 7 = Inr p'"
    "set (np_muted_clusters p') = {''prod''}"
    unfolding Let_def case_prod_beta by auto
  then show ?thesis by blast
qed

end
