(* ===== verification/ArgocdHttp.thy ===== *)
theory ArgocdHttp
  imports ArgocdModel TelegramText "HOL-Library.Monad_Syntax" "HOL-Library.Word"
begin

text \<open>
  The HTTP client behind the ArgoCD client interface (\<open>pkg/argocd/client.go\<close>), its authentication
  (\<open>auth.go\<close>) and the construction of the instances (\<open>BuildInstances\<close> of
  \<open>internal/module/argocd/module.go\<close>). The network is a record of calls over a remote state: what
  \<open>http.Client.Do\<close> answers, the clock, the wait between two attempts (which a finished context
  ends early), URL checking, and the texts of JSON and RFC 3339. Decoding follows
  \<open>encoding/json\<close>: unknown keys are skipped, absent keys and null leave the zero value, keys match
  without regard to case, a value of another type is an error.
\<close>

section \<open>JSON\<close>

datatype json =
    JNull
  | JBool bool
  | JInt int
  | JReal string
  | JStr string
  | JArr "json list"
  | JObj "(string \<times> json) list"

definition dec_fields :: "json \<Rightarrow> (string \<times> json) list option" where
  "dec_fields j = (case j of JNull \<Rightarrow> Some [] | JObj fs \<Rightarrow> Some fs | _ \<Rightarrow> None)"

definition json_at :: "string \<Rightarrow> (string \<times> json) list \<Rightarrow> json" where
  "json_at k fs =
     (case find (\<lambda>(n, v). to_lower n = to_lower k) (rev fs) of None \<Rightarrow> JNull | Some (n, v) \<Rightarrow> v)"

definition dec_string :: "json \<Rightarrow> string option" where
  "dec_string j = (case j of JNull \<Rightarrow> Some [] | JStr s \<Rightarrow> Some s | _ \<Rightarrow> None)"

definition dec_int64 :: "json \<Rightarrow> int option" where
  "dec_int64 j =
     (case j of
        JNull \<Rightarrow> Some 0
      | JInt i \<Rightarrow> if - (2 ^ 63) \<le> i \<and> i < 2 ^ 63 then Some i else None
      | _ \<Rightarrow> None)"

definition dec_list :: "(json \<Rightarrow> 'a option) \<Rightarrow> json \<Rightarrow> 'a list option" where
  "dec_list d j = (case j of JNull \<Rightarrow> Some [] | JArr js \<Rightarrow> those (map d js) | _ \<Rightarrow> None)"

definition dec_pointer :: "(json \<Rightarrow> 'a option) \<Rightarrow> json \<Rightarrow> 'a option option" where
  "dec_pointer d j = (case j of JNull \<Rightarrow> Some None | _ \<Rightarrow> map_option Some (d j))"

definition string_at :: "string \<Rightarrow> (string \<times> json) list \<Rightarrow> string option" where
  "string_at k fs = dec_string (json_at k fs)"

definition fields_at :: "string \<Rightarrow> (string \<times> json) list \<Rightarrow> (string \<times> json) list option" where
  "fields_at k fs = dec_fields (json_at k fs)"

section \<open>Requests and the network\<close>

datatype http_body = NoBody | JsonBody json | FormBody "(string \<times> string) list"

record http_request =
  rq_method :: string
  rq_url :: string
  rq_headers :: "(string \<times> string) list"
  rq_body :: http_body

record http_response =
  hr_status :: int
  hr_text :: string

record http_conn =
  hc_timeout :: duration
  hc_insecure :: bool

text \<open>\<open>gh_stream\<close> is \<open>json.NewDecoder(r).Decode\<close>, which reads the first value of the text.\<close>

record 'w go_http =
  gh_now :: "'w \<Rightarrow> instant"
  gh_wait :: "'w \<Rightarrow> duration \<Rightarrow> 'w \<times> string option"
  gh_url_error :: "string \<Rightarrow> string option"
  gh_do :: "'w \<Rightarrow> http_conn \<Rightarrow> http_request \<Rightarrow> 'w \<times> (string + http_response)"
  gh_parse :: "string \<Rightarrow> json option"
  gh_stream :: "string \<Rightarrow> json option"
  gh_time :: "string \<Rightarrow> instant option"

definition dec_time :: "'w go_http \<Rightarrow> json \<Rightarrow> instant option" where
  "dec_time T j = (case j of JNull \<Rightarrow> Some zero_time | JStr s \<Rightarrow> gh_time T s | _ \<Rightarrow> None)"

section \<open>Authentication (auth.go)\<close>

record oauth_config =
  oc_token_url :: string
  oc_client_id :: string
  oc_client_secret :: string
  oc_conn :: http_conn

record oauth_state =
  oa_token :: string
  oa_expiry :: instant

datatype auth_provider = TokenAuth string | OAuthAuth nat oauth_config

text \<open>An OAuth provider is a mutable object; the number in its constructor is its address.\<close>

record 'w http_world =
  hw_remote :: 'w
  hw_oauth :: "nat \<Rightarrow> oauth_state"

definition new_oauth_state :: oauth_state where
  "new_oauth_state = \<lparr>oa_token = [], oa_expiry = zero_time\<rparr>"

definition wrap_int64 :: "int \<Rightarrow> int" where
  "wrap_int64 x = sint (word_of_int x :: 64 word)"

definition token_alive :: "instant \<Rightarrow> oauth_state \<Rightarrow> bool" where
  "token_alive now st \<longleftrightarrow> now < oa_expiry st - 30 * second"

definition token_request :: "oauth_config \<Rightarrow> http_request" where
  "token_request cfg =
     \<lparr>rq_method = ''POST'', rq_url = oc_token_url cfg,
      rq_headers = [(''Content-Type'', ''application/x-www-form-urlencoded'')],
      rq_body = FormBody [(''grant_type'', ''client_credentials''), (''client_id'', oc_client_id cfg),
                          (''client_secret'', oc_client_secret cfg)]\<rparr>"

definition dec_token :: "json \<Rightarrow> (string \<times> int) option" where
  "dec_token j = do {
     fs \<leftarrow> dec_fields j;
     tok \<leftarrow> string_at ''access_token'' fs;
     ex \<leftarrow> dec_int64 (json_at ''expires_in'' fs);
     Some (tok, ex)
   }"

definition token_state :: "instant \<Rightarrow> string \<Rightarrow> int \<Rightarrow> oauth_state" where
  "token_state now tok ex =
     \<lparr>oa_token = tok, oa_expiry = now + (if ex > 0 then wrap_int64 (ex * second) else hour)\<rparr>"

definition oauth_refresh ::
  "'w go_http \<Rightarrow> nat \<Rightarrow> oauth_config \<Rightarrow> 'w http_world \<Rightarrow> 'w http_world \<times> unit result" where
  "oauth_refresh T i cfg w =
     (if token_alive (gh_now T (hw_remote w)) (hw_oauth w i) then (w, Inr ())
      else
        (case gh_url_error T (oc_token_url cfg) of
           Some e \<Rightarrow> (w, Inl (ErrWrap ''creating token request'' (DriverErr e)))
         | None \<Rightarrow>
             (case gh_do T (hw_remote w) (oc_conn cfg) (token_request cfg) of
                (r, Inl e) \<Rightarrow> (w\<lparr>hw_remote := r\<rparr>, Inl (ErrWrap ''executing token request'' (DriverErr e)))
              | (r, Inr resp) \<Rightarrow>
                  if hr_status resp \<noteq> 200
                  then (w\<lparr>hw_remote := r\<rparr>,
                        Inl (ErrText (''token endpoint returned status '' @ show_int (hr_status resp))))
                  else
                    (case Option.bind (gh_stream T (hr_text resp)) dec_token of
                       None \<Rightarrow> (w\<lparr>hw_remote := r\<rparr>, Inl (ErrWrap ''decoding token response'' (DriverErr ''json'')))
                     | Some (tok, ex) \<Rightarrow>
                         (w\<lparr>hw_remote := r, hw_oauth := (hw_oauth w)(i := token_state (gh_now T r) tok ex)\<rparr>,
                          Inr ())))))"

text \<open>The value of the \<open>Authorization\<close> header.\<close>

definition oauth_apply ::
  "'w go_http \<Rightarrow> nat \<Rightarrow> oauth_config \<Rightarrow> 'w http_world \<Rightarrow> 'w http_world \<times> string result" where
  "oauth_apply T i cfg w =
     (let st = hw_oauth w i
      in if \<not> token_alive (gh_now T (hw_remote w)) st \<or> oa_token st = []
         then (case oauth_refresh T i cfg w of
                 (w1, Inl e) \<Rightarrow> (w1, Inl (ErrWrap ''refreshing oauth token'' e))
               | (w1, Inr _) \<Rightarrow> (w1, Inr (''Bearer '' @ oa_token (hw_oauth w1 i))))
         else (w, Inr (''Bearer '' @ oa_token st)))"

definition auth_apply ::
  "'w go_http \<Rightarrow> auth_provider \<Rightarrow> 'w http_world \<Rightarrow> 'w http_world \<times> string result" where
  "auth_apply T a w =
     (case a of
        TokenAuth t \<Rightarrow> (w, Inr (''Bearer '' @ t))
      | OAuthAuth i cfg \<Rightarrow> oauth_apply T i cfg w)"

section \<open>doJSON (client.go)\<close>

record http_client =
  hx_base :: string
  hx_auth :: "auth_provider option"
  hx_conn :: http_conn
  hx_retries :: nat

definition default_timeout :: duration where "default_timeout = 30 * second"
definition default_max_retries :: nat where "default_max_retries = 3"
definition default_backoff_base :: duration where "default_backoff_base = 300000000"

definition new_client :: "string \<Rightarrow> auth_provider option \<Rightarrow> bool \<Rightarrow> duration \<Rightarrow> http_client" where
  "new_client base auth insecure timeout =
     \<lparr>hx_base = rev (dropWhile (\<lambda>c. c = CHR ''/'') (rev base)), hx_auth = auth,
      hx_conn = \<lparr>hc_timeout = (if timeout = 0 then default_timeout else timeout), hc_insecure = insecure\<rparr>,
      hx_retries = default_max_retries\<rparr>"

definition api_request :: "http_client \<Rightarrow> string option \<Rightarrow> string \<Rightarrow> string \<Rightarrow> json option \<Rightarrow> http_request" where
  "api_request C auth meth path body =
     \<lparr>rq_method = meth, rq_url = hx_base C @ path,
      rq_headers = [(''Content-Type'', ''application/json''), (''Accept'', ''application/json'')] @
        (case auth of None \<Rightarrow> [] | Some h \<Rightarrow> [(''Authorization'', h)]),
      rq_body = (case body of None \<Rightarrow> NoBody | Some j \<Rightarrow> JsonBody j)\<rparr>"

text \<open>\<open>out\<close>: the decoding of a non-empty body into a struct, or nil, which leaves the body unread.\<close>

definition decode_into :: "'w go_http \<Rightarrow> (json \<Rightarrow> 'a option) \<Rightarrow> string \<Rightarrow> 'a option" where
  "decode_into T dec text = (if text = [] then dec JNull else Option.bind (gh_parse T text) dec)"

definition ignore_body :: "string \<Rightarrow> unit option" where
  "ignore_body text = Some ()"

datatype 'a attempt = Done "'a result" | Retry go_error

definition judge :: "(string \<Rightarrow> 'a option) \<Rightarrow> string + http_response \<Rightarrow> 'a attempt" where
  "judge out a =
     (case a of
        Inl e \<Rightarrow> Retry (ErrWrap ''executing request'' (DriverErr e))
      | Inr resp \<Rightarrow>
          if hr_status resp \<ge> 500
          then Retry (ErrText (''argocd server error '' @ show_int (hr_status resp) @ '': '' @ hr_text resp))
          else if hr_status resp \<ge> 400
          then Done (Inl (ErrText (''argocd client error '' @ show_int (hr_status resp) @ '': '' @ hr_text resp)))
          else (case out (hr_text resp) of
                  None \<Rightarrow> Done (Inl (ErrWrap ''decoding response'' (DriverErr ''json'')))
                | Some x \<Rightarrow> Done (Inr x)))"

definition auth_header ::
  "'w go_http \<Rightarrow> http_client \<Rightarrow> 'w http_world \<Rightarrow> 'w http_world \<times> string option result" where
  "auth_header T C w =
     (case hx_auth C of
        None \<Rightarrow> (w, Inr None)
      | Some a \<Rightarrow>
          (case auth_apply T a w of
             (w1, Inl e) \<Rightarrow> (w1, Inl (ErrWrap ''applying auth'' e))
           | (w1, Inr h) \<Rightarrow> (w1, Inr (Some h))))"

definition one_attempt ::
  "'w go_http \<Rightarrow> http_client \<Rightarrow> string \<Rightarrow> string \<Rightarrow> json option \<Rightarrow> (string \<Rightarrow> 'a option) \<Rightarrow>
   'w http_world \<Rightarrow> 'w http_world \<times> 'a attempt" where
  "one_attempt T C meth path body out w =
     (case gh_url_error T (hx_base C @ path) of
        Some e \<Rightarrow> (w, Done (Inl (ErrWrap ''creating request'' (DriverErr e))))
      | None \<Rightarrow>
          (case auth_header T C w of
             (w1, Inl e) \<Rightarrow> (w1, Done (Inl e))
           | (w1, Inr h) \<Rightarrow>
               (let (r, a) = gh_do T (hw_remote w1) (hx_conn C) (api_request C h meth path body)
                in (w1\<lparr>hw_remote := r\<rparr>, judge out a))))"

text \<open>Before every attempt but the first: 300 ms, then 600 ms.\<close>

definition backoff ::
  "'w go_http \<Rightarrow> nat \<Rightarrow> 'w http_world \<Rightarrow> 'w http_world \<times> string option" where
  "backoff T k w =
     (if k = 0 then (w, None)
      else (let (r, e) = gh_wait T (hw_remote w) (default_backoff_base * 2 ^ (k - 1))
            in (w\<lparr>hw_remote := r\<rparr>, e)))"

text \<open>\<open>k\<close> attempts are behind, \<open>n\<close> are left.\<close>

fun attempts ::
  "'w go_http \<Rightarrow> http_client \<Rightarrow> string \<Rightarrow> string \<Rightarrow> json option \<Rightarrow> (string \<Rightarrow> 'a option) \<Rightarrow>
   nat \<Rightarrow> nat \<Rightarrow> go_error \<Rightarrow> 'w http_world \<Rightarrow> 'w http_world \<times> 'a result" where
  "attempts T C meth path body out k 0 err w =
     (w, Inl (ErrWrap (''argocd request failed after '' @ show_nat (hx_retries C) @ '' attempts'') err))"
| "attempts T C meth path body out k (Suc n) err w =
     (case backoff T k w of
        (w1, Some e) \<Rightarrow> (w1, Inl (ErrText e))
      | (w1, None) \<Rightarrow>
          (case one_attempt T C meth path body out w1 of
             (w2, Done r) \<Rightarrow> (w2, r)
           | (w2, Retry e) \<Rightarrow> attempts T C meth path body out (Suc k) n e w2))"

definition do_json ::
  "'w go_http \<Rightarrow> http_client \<Rightarrow> string \<Rightarrow> string \<Rightarrow> json option \<Rightarrow> (string \<Rightarrow> 'a option) \<Rightarrow>
   'w http_world \<Rightarrow> 'w http_world \<times> 'a result" where
  "do_json T C meth path body out w = attempts T C meth path body out 0 (hx_retries C) (ErrText []) w"

section \<open>Applications\<close>

record raw_resource =
  rr_kind :: string
  rr_name :: string
  rr_namespace :: string
  rr_group :: string
  rr_version :: string
  rr_status :: string
  rr_live :: string
  rr_predicted :: string
  rr_health :: "string option"

record raw_app =
  ra_name :: string
  ra_namespace :: string
  ra_project :: string
  ra_source :: "string \<times> string \<times> string"
  ra_sync_status :: string
  ra_sync_revision :: string
  ra_health :: string
  ra_operation :: "(instant \<times> string) option"
  ra_resources :: "raw_resource list"
  ra_history :: "(revision_history \<times> string option) list"

definition dec_health :: "json \<Rightarrow> string option" where
  "dec_health j = do { fs \<leftarrow> dec_fields j; string_at ''status'' fs }"

definition dec_username :: "json \<Rightarrow> string option" where
  "dec_username j = do { fs \<leftarrow> dec_fields j; string_at ''username'' fs }"

definition dec_source :: "json \<Rightarrow> (string \<times> string \<times> string) option" where
  "dec_source j = do {
     fs \<leftarrow> dec_fields j;
     u \<leftarrow> string_at ''repoURL'' fs;
     p \<leftarrow> string_at ''path'' fs;
     t \<leftarrow> string_at ''targetRevision'' fs;
     Some (u, p, t)
   }"

text \<open>The flag tells the items of the managed-resources call, which carry the two states.\<close>

definition dec_resource :: "bool \<Rightarrow> json \<Rightarrow> raw_resource option" where
  "dec_resource states j = do {
     fs \<leftarrow> dec_fields j;
     kind \<leftarrow> string_at ''kind'' fs;
     name \<leftarrow> string_at ''name'' fs;
     ns \<leftarrow> string_at ''namespace'' fs;
     grp \<leftarrow> string_at ''group'' fs;
     ver \<leftarrow> string_at ''version'' fs;
     status \<leftarrow> string_at ''status'' fs;
     live \<leftarrow> (if states then string_at ''normalizedLiveState'' fs else Some []);
     pred \<leftarrow> (if states then string_at ''predictedLiveState'' fs else Some []);
     h \<leftarrow> dec_pointer dec_health (json_at ''health'' fs);
     Some \<lparr>rr_kind = kind, rr_name = name, rr_namespace = ns, rr_group = grp, rr_version = ver,
           rr_status = status, rr_live = live, rr_predicted = pred, rr_health = h\<rparr>
   }"

definition dec_history :: "'w go_http \<Rightarrow> json \<Rightarrow> (revision_history \<times> string option) option" where
  "dec_history T j = do {
     fs \<leftarrow> dec_fields j;
     i \<leftarrow> dec_int64 (json_at ''id'' fs);
     rv \<leftarrow> string_at ''revision'' fs;
     t \<leftarrow> dec_time T (json_at ''deployedAt'' fs);
     src \<leftarrow> dec_source (json_at ''source'' fs);
     b \<leftarrow> dec_pointer dec_username (json_at ''initiatedBy'' fs);
     Some (\<lparr>rh_id = i, rh_revision = rv, rh_deployed_at = t, rh_deployed_by = [], rh_source = src\<rparr>, b)
   }"

definition dec_operation :: "'w go_http \<Rightarrow> json \<Rightarrow> (instant \<times> string) option" where
  "dec_operation T j = do {
     fs \<leftarrow> dec_fields j;
     t \<leftarrow> dec_time T (json_at ''startedAt'' fs);
     u \<leftarrow> dec_username (json_at ''initiatedBy'' fs);
     Some (t, u)
   }"

definition dec_app :: "'w go_http \<Rightarrow> json \<Rightarrow> raw_app option" where
  "dec_app T j = do {
     fs \<leftarrow> dec_fields j;
     md \<leftarrow> fields_at ''metadata'' fs;
     name \<leftarrow> string_at ''name'' md;
     ns \<leftarrow> string_at ''namespace'' md;
     spec \<leftarrow> fields_at ''spec'' fs;
     proj \<leftarrow> string_at ''project'' spec;
     src \<leftarrow> dec_source (json_at ''source'' spec);
     st \<leftarrow> fields_at ''status'' fs;
     sync \<leftarrow> fields_at ''sync'' st;
     sync_status \<leftarrow> string_at ''status'' sync;
     sync_rev \<leftarrow> string_at ''revision'' sync;
     health \<leftarrow> dec_health (json_at ''health'' st);
     oper \<leftarrow> dec_pointer (dec_operation T) (json_at ''operationState'' st);
     rs \<leftarrow> dec_list (dec_resource False) (json_at ''resources'' st);
     hs \<leftarrow> dec_list (dec_history T) (json_at ''history'' st);
     Some \<lparr>ra_name = name, ra_namespace = ns, ra_project = proj, ra_source = src,
           ra_sync_status = sync_status, ra_sync_revision = sync_rev, ra_health = health,
           ra_operation = oper, ra_resources = rs, ra_history = hs\<rparr>
   }"

definition dec_items :: "(json \<Rightarrow> 'a option) \<Rightarrow> json \<Rightarrow> 'a list option" where
  "dec_items d j = do { fs \<leftarrow> dec_fields j; dec_list d (json_at ''items'' fs) }"

definition app_from_raw :: "raw_app \<Rightarrow> application" where
  "app_from_raw r =
     \<lparr>app_name = ra_name r, app_namespace = ra_namespace r, app_project = ra_project r,
      app_repo_url = fst (ra_source r), app_path = fst (snd (ra_source r)),
      app_target_rev = snd (snd (ra_source r)), app_sync_status = ra_sync_status r,
      app_health_status = ra_health r, app_current_rev = ra_sync_revision r,
      app_last_sync_at = map_option fst (ra_operation r),
      app_last_sync_by = (case ra_operation r of None \<Rightarrow> [] | Some (t, u) \<Rightarrow> u)\<rparr>"

definition resource_of :: "raw_resource \<Rightarrow> managed_resource" where
  "resource_of r =
     \<lparr>mr_kind = rr_kind r, mr_name = rr_name r, mr_namespace = rr_namespace r, mr_group = rr_group r,
      mr_version = rr_version r, mr_status = rr_status r,
      mr_health = (case rr_health r of None \<Rightarrow> [] | Some h \<Rightarrow> h),
      mr_live = rr_live r, mr_predicted = rr_predicted r\<rparr>"

definition status_of_raw :: "raw_app \<Rightarrow> application_status" where
  "status_of_raw r =
     \<lparr>st_name = ra_name r, st_sync_status = ra_sync_status r, st_health_status = ra_health r,
      st_project = ra_project r, st_repo_url = fst (ra_source r), st_path = fst (snd (ra_source r)),
      st_target_rev = snd (snd (ra_source r)), st_current_rev = ra_sync_revision r,
      st_resources = map resource_of (ra_resources r), st_last_sync_at = map_option fst (ra_operation r),
      st_last_sync_by = (case ra_operation r of None \<Rightarrow> [] | Some (t, u) \<Rightarrow> u), st_message = []\<rparr>"

definition history_entry :: "revision_history \<times> string option \<Rightarrow> revision_history" where
  "history_entry h = (case h of (e, None) \<Rightarrow> e | (e, Some u) \<Rightarrow> e\<lparr>rh_deployed_by := u\<rparr>)"

definition apps_path :: string where "apps_path = ''/api/v1/applications''"

definition app_path_of :: "string \<Rightarrow> string" where "app_path_of name = apps_path @ ''/'' @ name"

definition quoted :: "string \<Rightarrow> string" where "quoted s = CHR 0x22 # s @ [CHR 0x22]"

text \<open>\<open>%q\<close> of a name without characters to escape; a call, its error wrapped, its result converted.\<close>

definition call_api :: "string \<Rightarrow> ('a \<Rightarrow> 'b) \<Rightarrow> 's \<times> 'a result \<Rightarrow> 's \<times> 'b result" where
  "call_api msg f p = (case p of (w, Inl e) \<Rightarrow> (w, Inl (ErrWrap msg e)) | (w, Inr x) \<Rightarrow> (w, Inr (f x)))"

definition list_applications where
  "list_applications T C w =
     call_api ''listing applications'' (map app_from_raw)
       (do_json T C ''GET'' apps_path None (decode_into T (dec_items (dec_app T))) w)"

definition get_raw_app where
  "get_raw_app T C name w = do_json T C ''GET'' (app_path_of name) None (decode_into T (dec_app T)) w"

definition get_application where
  "get_application T C name w =
     call_api (''getting application '' @ quoted name) app_from_raw (get_raw_app T C name w)"

definition get_application_status where
  "get_application_status T C name w =
     call_api (''getting application status '' @ quoted name) status_of_raw (get_raw_app T C name w)"

definition get_application_history where
  "get_application_history T C name w =
     call_api (''getting application history '' @ quoted name) (\<lambda>r. map history_entry (ra_history r))
       (get_raw_app T C name w)"

section \<open>Synchronisation and rollback\<close>

definition sync_payload :: "sync_opts \<Rightarrow> json" where
  "sync_payload o' =
     JObj ([(''dryRun'', JBool (so_dry_run o')), (''prune'', JBool (so_prune o'))] @
       (if so_force o' then [(''strategy'', JObj [(''apply'', JObj [(''force'', JBool True)])])] else []))"

definition dec_resource_result :: "json \<Rightarrow> resource_result option" where
  "dec_resource_result j = do {
     fs \<leftarrow> dec_fields j;
     kind \<leftarrow> string_at ''kind'' fs;
     name \<leftarrow> string_at ''name'' fs;
     msg \<leftarrow> string_at ''message'' fs;
     status \<leftarrow> string_at ''status'' fs;
     Some \<lparr>rs_kind = kind, rs_name = name, rs_message = msg, rs_status = status\<rparr>
   }"

definition operation_fields :: "json \<Rightarrow> (string \<times> json) list option" where
  "operation_fields j = do {
     fs \<leftarrow> dec_fields j;
     st \<leftarrow> fields_at ''status'' fs;
     fields_at ''operationState'' st
   }"

definition dec_sync_result :: "json \<Rightarrow> sync_result option" where
  "dec_sync_result j = do {
     oper \<leftarrow> operation_fields j;
     phase \<leftarrow> string_at ''phase'' oper;
     msg \<leftarrow> string_at ''message'' oper;
     res \<leftarrow> fields_at ''syncResult'' oper;
     rv \<leftarrow> string_at ''revision'' res;
     rs \<leftarrow> dec_list dec_resource_result (json_at ''resources'' res);
     Some \<lparr>sr_phase = phase, sr_message = msg, sr_revision = rv, sr_results = rs\<rparr>
   }"

definition sync_application where
  "sync_application T C name o' w =
     call_api (''syncing application '' @ quoted name) id
       (do_json T C ''POST'' (app_path_of name @ ''/sync'') (Some (sync_payload o'))
          (decode_into T dec_sync_result) w)"

definition dec_rollback_result :: "json \<Rightarrow> rollback_result option" where
  "dec_rollback_result j = do {
     oper \<leftarrow> operation_fields j;
     phase \<leftarrow> string_at ''phase'' oper;
     msg \<leftarrow> string_at ''message'' oper;
     Some \<lparr>rb_phase = phase, rb_message = msg\<rparr>
   }"

definition rollback_payload :: "int \<Rightarrow> json" where
  "rollback_payload rv = JObj [(''id'', JInt rv), (''prune'', JBool True)]"

definition rollback_application where
  "rollback_application T C name rv w =
     call_api (''rolling back application '' @ quoted name @ '' to revision '' @ show_int rv) id
       (do_json T C ''POST'' (app_path_of name @ ''/rollback'') (Some (rollback_payload rv))
          (decode_into T dec_rollback_result) w)"

section \<open>Managed resources and diff\<close>

definition get_managed_resources where
  "get_managed_resources T C name w =
     call_api (''getting managed resources for '' @ quoted name) (map resource_of)
       (do_json T C ''GET'' (app_path_of name @ ''/managed-resources'') None
          (decode_into T (dec_items (dec_resource True))) w)"

definition resource_diff_of :: "managed_resource \<Rightarrow> resource_diff" where
  "resource_diff_of r =
     \<lparr>rd_kind = mr_kind r, rd_name = mr_name r, rd_namespace = mr_namespace r,
      rd_diff = (if mr_live r \<noteq> mr_predicted r then ''~ changed'' else []),
      rd_live = mr_live r, rd_target = mr_predicted r\<rparr>"

fun diff_loop :: "diff_result \<Rightarrow> managed_resource list \<Rightarrow> diff_result" where
  "diff_loop d [] = d"
| "diff_loop d (r # rs) =
     (if mr_live r = [] \<and> mr_predicted r = [] then diff_loop d rs
      else diff_loop
             (d\<lparr>df_changed := (if mr_live r \<noteq> mr_predicted r then df_changed d + 1 else df_changed d),
                df_resources := df_resources d @ [resource_diff_of r]\<rparr>) rs)"

definition get_application_diff where
  "get_application_diff T C name w =
     (case get_managed_resources T C name w of
        (w1, Inl e) \<Rightarrow> (w1, Inl e)
      | (w1, Inr rs) \<Rightarrow>
          (w1, Inr (diff_loop \<lparr>df_app_name = name, df_changed = 0, df_added = 0, df_removed = 0, df_resources = []\<rparr> rs)))"

section \<open>Automatic synchronisation and ping\<close>

definition dec_policy :: "json \<Rightarrow> unit option" where
  "dec_policy j = do {
     fs \<leftarrow> dec_fields j;
     spec \<leftarrow> fields_at ''spec'' fs;
     dec_pointer dec_fields (json_at ''syncPolicy'' spec);
     Some ()
   }"

definition policy_patch :: "json \<Rightarrow> json" where
  "policy_patch p = JObj [(''spec'', JObj [(''syncPolicy'', p)])]"

definition disable_auto_sync where
  "disable_auto_sync T C name w =
     (case do_json T C ''GET'' (app_path_of name) None (decode_into T dec_policy) w of
        (w1, Inl e) \<Rightarrow> (w1, Inl (ErrWrap ''getting app for disable-autosync'' e))
      | (w1, Inr _) \<Rightarrow>
          call_api (''disabling auto-sync for '' @ quoted name) id
            (do_json T C ''PATCH'' (app_path_of name) (Some (policy_patch JNull)) ignore_body w1))"

definition enable_auto_sync where
  "enable_auto_sync T C name w =
     call_api (''enabling auto-sync for '' @ quoted name) id
       (do_json T C ''PATCH'' (app_path_of name)
          (Some (policy_patch (JObj [(''automated'', JObj [(''prune'', JBool True), (''selfHeal'', JBool True)])])))
          ignore_body w)"

definition dec_version :: "json \<Rightarrow> string option" where
  "dec_version j = do { fs \<leftarrow> dec_fields j; string_at ''Version'' fs }"

definition ping where
  "ping T C w =
     call_api ''pinging argocd'' (\<lambda>v. ()) (do_json T C ''GET'' ''/api/version'' None (decode_into T dec_version) w)"

section \<open>The client as the module sees it, and its instances\<close>

text \<open>
  The record of \<open>ArgocdModel\<close> has no state in the results of the reading calls: its state after
  a read is the one before, as long as reading changes nothing at the server.
\<close>

definition http_argo_client :: "'w go_http \<Rightarrow> http_client \<Rightarrow> 'w http_world argo_client" where
  "http_argo_client T C =
     \<lparr>ac_list_applications = (\<lambda>w. snd (list_applications T C w)),
      ac_get_application = (\<lambda>w n. snd (get_application T C n w)),
      ac_get_application_status = (\<lambda>w n. snd (get_application_status T C n w)),
      ac_sync_application = (\<lambda>w n o'. sync_application T C n o' w),
      ac_rollback_application = (\<lambda>w n rv. rollback_application T C n rv w),
      ac_get_application_history = (\<lambda>w n. snd (get_application_history T C n w)),
      ac_get_managed_resources = (\<lambda>w n. snd (get_managed_resources T C n w)),
      ac_get_application_diff = (\<lambda>w n. snd (get_application_diff T C n w)),
      ac_disable_auto_sync = (\<lambda>w n. disable_auto_sync T C n w),
      ac_enable_auto_sync = (\<lambda>w n. enable_auto_sync T C n w),
      ac_ping = (\<lambda>w. snd (ping T C w))\<rparr>"

record argo_auth_config =
  gc_type :: string
  gc_token :: string
  gc_token_url :: string
  gc_client_id :: string
  gc_client_secret :: string

record argo_instance_config =
  gi_name :: string
  gi_url :: string
  gi_auth :: argo_auth_config
  gi_clusters :: "string list"

record argo_config =
  ag_instances :: "argo_instance_config list"
  ag_insecure :: bool
  ag_timeout :: string

definition instance_timeout :: "argo_config \<Rightarrow> duration" where
  "instance_timeout cfg =
     (if ag_timeout cfg \<noteq> [] then (case parse_duration (ag_timeout cfg) of None \<Rightarrow> 30 * second | Some d \<Rightarrow> d)
      else 30 * second)"

definition instance_auth :: "duration \<Rightarrow> nat \<Rightarrow> argo_auth_config \<Rightarrow> auth_provider" where
  "instance_auth timeout i a =
     (if gc_type a = ''oauth''
      then OAuthAuth i \<lparr>oc_token_url = gc_token_url a, oc_client_id = gc_client_id a,
             oc_client_secret = gc_client_secret a, oc_conn = \<lparr>hc_timeout = timeout, hc_insecure = False\<rparr>\<rparr>
      else TokenAuth (gc_token a))"

definition build_instances :: "'w go_http \<Rightarrow> argo_config \<Rightarrow> 'w http_world argo_instance list" where
  "build_instances T cfg =
     map (\<lambda>(i, ic). \<lparr>ai_name = gi_name ic, ai_clusters = gi_clusters ic,
            ai_client = http_argo_client T
              (new_client (gi_url ic) (Some (instance_auth (instance_timeout cfg) i (gi_auth ic)))
                 (ag_insecure cfg) (instance_timeout cfg))\<rparr>)
       (List.enumerate 0 (ag_instances cfg))"

end
