(* ===== verification/ArgocdHttpProps.thy ===== *)
theory ArgocdHttpProps
  imports ArgocdHttp ArgocdProps
begin

text \<open>
  What the HTTP client of ArgoCD puts on the wire: when a request is repeated, what a call returns
  against the answers it got, how an OAuth token is reused, how the diff counts, and what one
  confirmed synchronisation sends through the whole module.
\<close>

section \<open>Recording the traffic\<close>

text \<open>The network with a log of every request and its answer.\<close>

type_synonym answer = "string + http_response"
type_synonym 'w wire = "'w \<times> (http_request \<times> answer) list"

definition recorded :: "'w go_http \<Rightarrow> 'w wire go_http" where
  "recorded T =
     \<lparr>gh_now = \<lambda>w. gh_now T (fst w),
      gh_wait = \<lambda>w d. (let (r, e) = gh_wait T (fst w) d in ((r, snd w), e)),
      gh_url_error = gh_url_error T,
      gh_do = \<lambda>w c q. (let (r, a) = gh_do T (fst w) c q in ((r, snd w @ [(q, a)]), a)),
      gh_parse = gh_parse T, gh_stream = gh_stream T, gh_time = gh_time T\<rparr>"

lemma recorded_sel [simp]:
  "gh_url_error (recorded T) = gh_url_error T" "gh_parse (recorded T) = gh_parse T"
  "gh_stream (recorded T) = gh_stream T" "gh_time (recorded T) = gh_time T"
  "gh_now (recorded T) = (\<lambda>w. gh_now T (fst w))"
  by (simp_all add: recorded_def)

definition wire_log :: "'w wire http_world \<Rightarrow> (http_request \<times> answer) list" where
  "wire_log w = snd (hw_remote w)"











section \<open>Properties\<close>


text \<open>A server that counts the requests it carries out and whose answers get lost, and one that
  answers 503 once and then with an empty object.\<close>

definition deaf_http :: "nat go_http" where
  "deaf_http =
     \<lparr>gh_now = \<lambda>w. 0, gh_wait = \<lambda>w d. (w, None), gh_url_error = \<lambda>u. None,
      gh_do = \<lambda>w c q. (w + 1, Inl ''timeout''), gh_parse = \<lambda>s. Some (JObj []),
      gh_stream = \<lambda>s. Some (JObj []), gh_time = \<lambda>s. None\<rparr>"



definition demo_http_world :: "nat wire http_world" where
  "demo_http_world = \<lparr>hw_remote = (0, []), hw_oauth = \<lambda>i. new_oauth_state\<rparr>"





section \<open>Tokens\<close>

text \<open>An OAuth token is asked for only when there is none or it has at most thirty seconds left:
  applying the authentication either sends nothing and uses the stored token, which is then alive,
  or sends exactly one request, to the token endpoint with the configured credentials, and uses
  the token it answers. What is used is what is stored afterwards.\<close>

theorem token_is_fetched_only_when_needed:
  assumes "oauth_apply (recorded T) i cfg w = (w', Inr h)"
  shows "h = ''Bearer '' @ oa_token (hw_oauth w' i) \<and>
    (if token_alive (gh_now T (fst (hw_remote w))) (hw_oauth w i) then w' = w
     else \<exists>resp tok ex. wire_log w' = wire_log w @ [(token_request cfg, Inr resp)] \<and> hr_status resp = 200 \<and>
            Option.bind (gh_stream T (hr_text resp)) dec_token = Some (tok, ex) \<and>
            hw_oauth w' = (hw_oauth w)(i := token_state (gh_now T (fst (hw_remote w'))) tok ex))"
proof (cases "token_alive (gh_now T (fst (hw_remote w))) (hw_oauth w i)")
  case True
  then show ?thesis
    using assms by (auto simp: oauth_apply_def oauth_refresh_def Let_def split: if_splits)
next
  case False
  obtain r a where "gh_do (recorded T) (hw_remote w) (oc_conn cfg) (token_request cfg) = (r, a)"
    by (cases "gh_do (recorded T) (hw_remote w) (oc_conn cfg) (token_request cfg)") simp
  then have "snd r = wire_log w @ [(token_request cfg, a)]"
    by (auto simp: recorded_def wire_log_def Let_def split: prod.splits)
  with False assms \<open>gh_do (recorded T) (hw_remote w) (oc_conn cfg) (token_request cfg) = (r, a)\<close>
  show ?thesis
    by (auto simp: oauth_apply_def oauth_refresh_def wire_log_def Let_def
        split: sum.splits option.splits prod.splits if_splits)
qed

definition token_http :: "nat go_http" where
  "token_http = deaf_http\<lparr>gh_do := \<lambda>w c q. (w + 1, Inr \<lparr>hr_status = 200, hr_text = ''t''\<rparr>),
     gh_stream := \<lambda>s. Some (JObj [(''access_token'', JStr ''abc''), (''expires_in'', JInt 60)])\<rparr>"

definition demo_oauth :: oauth_config where
  "demo_oauth = \<lparr>oc_token_url = ''https://idp'', oc_client_id = ''i'', oc_client_secret = ''s'',
     oc_conn = \<lparr>hc_timeout = second, hc_insecure = False\<rparr>\<rparr>"

theorem token_is_fetched_only_when_needed_witness:
  "\<exists>resp. wire_log (fst (oauth_apply (recorded token_http) 0 demo_oauth demo_http_world)) =
     [(token_request demo_oauth, Inr resp)]"
proof -
  have expired: "\<not> token_alive (gh_now token_http (fst (hw_remote demo_http_world))) (hw_oauth demo_http_world 0)"
    by (simp add: token_alive_def token_http_def deaf_http_def demo_http_world_def new_oauth_state_def
        zero_time_def second_def)
  have "\<exists>h. snd (oauth_apply (recorded token_http) 0 demo_oauth demo_http_world) = Inr h"
    using expired
    by (simp add: oauth_apply_def oauth_refresh_def Let_def recorded_def token_http_def deaf_http_def
        demo_http_world_def dec_token_def string_at_def json_at_def dec_fields_def dec_string_def dec_int64_def
        to_lower_def)
  then obtain w' h where do: "oauth_apply (recorded token_http) 0 demo_oauth demo_http_world = (w', Inr h)"
    by (cases "oauth_apply (recorded token_http) 0 demo_oauth demo_http_world") auto
  have "wire_log demo_http_world = []" by (simp add: wire_log_def demo_http_world_def)
  with token_is_fetched_only_when_needed [OF do] expired do show ?thesis by auto
qed

section \<open>Differences\<close>

lemma diff_loop_filter:
  "diff_loop d rs =
     d\<lparr>df_changed := df_changed d + int (length (filter (\<lambda>r. mr_live r \<noteq> mr_predicted r) rs)),
       df_resources := df_resources d @
         map resource_diff_of (filter (\<lambda>r. \<not> (mr_live r = [] \<and> mr_predicted r = [])) rs)\<rparr>"
  by (induction rs arbitrary: d) auto

text \<open>The difference of an application lists exactly its managed resources that have a live or a
  predicted state, in their order, counts as changed exactly those whose two states differ, and
  reports nothing as added or removed.\<close>

theorem diff_counts_exactly_the_changes:
  "case snd (get_managed_resources T C name w) of
     Inl e \<Rightarrow> snd (get_application_diff T C name w) = Inl e
   | Inr rs \<Rightarrow> snd (get_application_diff T C name w) =
       Inr \<lparr>df_app_name = name, df_changed = int (length (filter (\<lambda>r. mr_live r \<noteq> mr_predicted r) rs)),
            df_added = 0, df_removed = 0,
            df_resources = map resource_diff_of (filter (\<lambda>r. mr_live r \<noteq> [] \<or> mr_predicted r \<noteq> []) rs)\<rparr>"
  by (simp add: get_application_diff_def diff_loop_filter split: prod.split sum.split)

section \<open>One confirmation on the wire\<close>










end
