(* ===== verification/Briefing.thy ===== *)
theory Briefing
  imports GoTime AuditLog
begin

text \<open>
  The daily briefing (\<open>internal/module/briefing\<close>): the reporter with the report it formats
  (\<open>reporter.go\<close>), the scheduler that looks at the clock every minute (\<open>scheduler.go\<close>) and the module
  that the leader starts and stops (\<open>module.go\<close>). Clock readings are arguments, \<open>zone\<close> is the time
  zone database: the minute of the day at an instant, \<open>None\<close> for an unknown zone.
\<close>

section \<open>Reports (reporter.go)\<close>

record cluster_report =
  cr_name :: string
  cr_nodes_ready :: nat
  cr_nodes_total :: nat
  cr_pods_running :: nat
  cr_pods_failed :: nat
  cr_pods_pending :: nat
  cr_avg_cpu :: rat
  cr_avg_ram :: rat
  cr_alerts :: nat

record activity_report =
  at_total :: nat
  at_restarts :: nat
  at_scales :: nat
  at_deploys :: nat

record briefing_report =
  bp_generated_at :: instant
  bp_clusters :: "cluster_report list"
  bp_activity :: activity_report

text \<open>What the reporter reads: the cluster manager with its remote state, and the audit table.\<close>

record 'w brief_world =
  bw_manager :: "'w kube_api cluster_manager"
  bw_remote :: 'w
  bw_db :: db

definition empty_cluster_report :: "string \<Rightarrow> cluster_report" where
  "empty_cluster_report n =
     \<lparr>cr_name = n, cr_nodes_ready = 0, cr_nodes_total = 0, cr_pods_running = 0, cr_pods_failed = 0,
      cr_pods_pending = 0, cr_avg_cpu = 0, cr_avg_ram = 0, cr_alerts = 0\<rparr>"

definition ready_conditions :: "kube_node list \<Rightarrow> nat" where
  "ready_conditions ns =
     length (filter (\<lambda>c. nc_type c = ''Ready'' \<and> nc_status c = ''True'') (concat (map nd_conditions ns)))"

definition count_nodes :: "kube_node list result \<Rightarrow> cluster_report \<Rightarrow> cluster_report" where
  "count_nodes nodes r =
     (case nodes of
        Inl e \<Rightarrow> r
      | Inr ns \<Rightarrow> r\<lparr>cr_nodes_total := length ns, cr_nodes_ready := cr_nodes_ready r + ready_conditions ns\<rparr>)"

fun count_phases :: "kube_pod list \<Rightarrow> cluster_report \<Rightarrow> cluster_report" where
  "count_phases [] r = r"
| "count_phases (p # ps) r =
     count_phases ps
       (if pd_phase p = ''Running'' then r\<lparr>cr_pods_running := cr_pods_running r + 1\<rparr>
        else if pd_phase p = ''Failed'' then r\<lparr>cr_pods_failed := cr_pods_failed r + 1\<rparr>
        else if pd_phase p = ''Pending'' then r\<lparr>cr_pods_pending := cr_pods_pending r + 1\<rparr>
        else r)"

text \<open>The sums of the usage ratios over the nodes that have metrics, and how many there are.\<close>

definition add_usage :: "node_metrics \<Rightarrow> kube_node \<Rightarrow> rat \<times> rat \<times> nat \<Rightarrow> rat \<times> rat \<times> nat" where
  "add_usage nm nd acc =
     (case acc of (cpu, ram, n) \<Rightarrow>
        if nd_name nd \<noteq> nm_name nm then acc
        else (let cpu_cap = milli_value (nd_cpu nd); ram_cap = unit_value (nd_memory nd)
              in (if cpu_cap > 0 then fadd cpu (fdiv (of_int64 (milli_value (nm_cpu nm))) (of_int64 cpu_cap)) else cpu,
                  if ram_cap > 0 then fadd ram (fdiv (of_int64 (unit_value (nm_memory nm))) (of_int64 ram_cap)) else ram,
                  n + 1)))"

definition usage_sums :: "node_metrics list \<Rightarrow> kube_node list \<Rightarrow> rat \<times> rat \<times> nat" where
  "usage_sums ms ns = fold (\<lambda>nm. fold (add_usage nm) ns) ms (0, 0, 0)"

definition average_usage :: "node_metrics list \<Rightarrow> kube_node list \<Rightarrow> cluster_report \<Rightarrow> cluster_report" where
  "average_usage ms ns r =
     (case usage_sums ms ns of (cpu, ram, n) \<Rightarrow>
        if n > 0
        then r\<lparr>cr_avg_cpu := fmul (fdiv cpu (of_int64 (int n))) 100,
               cr_avg_ram := fmul (fdiv ram (of_int64 (int n))) 100\<rparr>
        else r)"

text \<open>A thousand entries are asked for; the repository caps a page at a hundred.\<close>

definition alerts_filter :: "string \<Rightarrow> instant \<Rightarrow> audit_filter" where
  "alerts_filter cl since =
     \<lparr>af_user_id = None, af_action = Some ''alert.'', af_cluster = Some cl, af_namespace = None,
      af_status = None, af_from = Some since, af_to = None, af_page = 1, af_page_size = 1000\<rparr>"

definition activity_filter :: "instant \<Rightarrow> audit_filter" where
  "activity_filter since =
     \<lparr>af_user_id = None, af_action = None, af_cluster = None, af_namespace = None,
      af_status = None, af_from = Some since, af_to = None, af_page = 1, af_page_size = 1000\<rparr>"

text \<open>\<open>entries, _, _ := audit.Query(...)\<close>\<close>

definition queried :: "db \<Rightarrow> audit_filter \<Rightarrow> audit_entry list" where
  "queried s f = (case audit_list s f of Inl e \<Rightarrow> [] | Inr (es, n) \<Rightarrow> es)"

definition generate_cluster_report ::
  "'w kube_api kube_library \<Rightarrow> instant \<Rightarrow> string \<Rightarrow> 'w brief_world \<Rightarrow> 'w brief_world \<times> cluster_report" where
  "generate_cluster_report L now cl w =
     (case client_set L (bw_manager w) cl of
        (m, Inl e) \<Rightarrow> (w\<lparr>bw_manager := m\<rparr>, empty_cluster_report cl)
      | (m, Inr api) \<Rightarrow>
         (let nodes = ka_nodes api (bw_remote w);
              r1 = count_nodes nodes (empty_cluster_report cl);
              r2 = (case ka_pods api (bw_remote w) [] of Inl e \<Rightarrow> r1 | Inr ps \<Rightarrow> count_phases ps r1);
              (m2, metrics) = metrics_client L m cl;
              r3 = (case metrics of
                      Inl e \<Rightarrow> r2
                    | Inr mapi \<Rightarrow>
                        (case (ka_node_metrics mapi (bw_remote w), nodes) of
                           (Inr ms, Inr ns) \<Rightarrow> if ns \<noteq> [] then average_usage ms ns r2 else r2
                         | _ \<Rightarrow> r2))
          in (w\<lparr>bw_manager := m2\<rparr>,
              r3\<lparr>cr_alerts := length (queried (bw_db w) (alerts_filter cl (now - 24 * hour)))\<rparr>)))"

fun contains_text :: "string \<Rightarrow> string \<Rightarrow> bool" where
  "contains_text t [] \<longleftrightarrow> t = []"
| "contains_text t (c # cs) \<longleftrightarrow> prefix t (c # cs) \<or> contains_text t cs"

definition count_action :: "string \<Rightarrow> activity_report \<Rightarrow> activity_report" where
  "count_action a r =
     (if prefix ''pod.restart'' a then r\<lparr>at_restarts := at_restarts r + 1\<rparr>
      else if contains_text ''scale'' a then r\<lparr>at_scales := at_scales r + 1\<rparr>
      else if contains_text ''deploy'' a then r\<lparr>at_deploys := at_deploys r + 1\<rparr>
      else r)"

definition last_24h_activity :: "instant \<Rightarrow> db \<Rightarrow> activity_report" where
  "last_24h_activity now s =
     (let es = queried s (activity_filter (now - 24 * hour))
      in fold (\<lambda>e. count_action (ae_action e)) es
           \<lparr>at_total = length es, at_restarts = 0, at_scales = 0, at_deploys = 0\<rparr>)"

fun cluster_reports ::
  "'w kube_api kube_library \<Rightarrow> instant \<Rightarrow> string list \<Rightarrow> 'w brief_world \<Rightarrow> 'w brief_world \<times> cluster_report list" where
  "cluster_reports L now [] w = (w, [])"
| "cluster_reports L now (c # cs) w =
     (let (w1, r) = generate_cluster_report L now c w; (w2, rs) = cluster_reports L now cs w1 in (w2, r # rs))"

text \<open>One reading of the clock serves the whole report.\<close>

definition generate_report ::
  "'w kube_api kube_library \<Rightarrow> string list \<Rightarrow> instant \<Rightarrow> 'w brief_world \<Rightarrow> 'w brief_world \<times> briefing_report" where
  "generate_report L order now w =
     (let (w1, rs) = cluster_reports L now (map ci_name (list_clusters order (bw_manager w))) w
      in (w1, \<lparr>bp_generated_at = now, bp_clusters = rs, bp_activity = last_24h_activity now (bw_db w1)\<rparr>))"

datatype nodes_mark = NodesGreen | NodesYellow | NodesRed

record cluster_lines =
  bl_name :: string
  bl_nodes :: "nat \<times> nat \<times> nodes_mark"
  bl_running :: nat
  bl_failed :: "nat option"
  bl_pending :: "nat option"
  bl_cpu :: "int option"
  bl_ram :: "int option"
  bl_alerts :: nat

datatype briefing_text =
  BriefingText instant "cluster_lines list" nat "nat option" "nat option" "nat option"

definition positive :: "nat \<Rightarrow> nat option" where
  "positive n = (if n > 0 then Some n else None)"

definition format_cluster :: "cluster_report \<Rightarrow> cluster_lines" where
  "format_cluster r =
     \<lparr>bl_name = cr_name r,
      bl_nodes = (cr_nodes_ready r, cr_nodes_total r,
        if cr_nodes_ready r = 0 \<and> cr_nodes_total r > 0 then NodesRed
        else if cr_nodes_ready r < cr_nodes_total r then NodesYellow else NodesGreen),
      bl_running = cr_pods_running r, bl_failed = positive (cr_pods_failed r),
      bl_pending = positive (cr_pods_pending r),
      bl_cpu = (if cr_avg_cpu r > 0 then Some (round_units (cr_avg_cpu r)) else None),
      bl_ram = (if cr_avg_ram r > 0 then Some (round_units (cr_avg_ram r)) else None),
      bl_alerts = cr_alerts r\<rparr>"

definition format_briefing :: "briefing_report \<Rightarrow> briefing_text" where
  "format_briefing b =
     (let a = bp_activity b
      in BriefingText (bp_generated_at b) (map format_cluster (bp_clusters b)) (at_total a)
           (positive (at_restarts a)) (positive (at_scales a)) (positive (at_deploys a)))"

section \<open>The schedule (scheduler.go)\<close>

text \<open>\<open>fmt.Sscanf(s, "%d %d", &m, &h)\<close>: a number, at least one blank (not a newline), a number.\<close>

definition scan_blank :: "char \<Rightarrow> bool" where
  "scan_blank c \<longleftrightarrow> is_space c \<and> c \<noteq> CHR 0x0A"

definition scan_int :: "string \<Rightarrow> (int \<times> string) option" where
  "scan_int s =
     (let t = dropWhile scan_blank s;
          neg = (t \<noteq> [] \<and> hd t = CHR ''-'');
          body = (if t \<noteq> [] \<and> (hd t = CHR ''-'' \<or> hd t = CHR ''+'') then tl t else t);
          ds = takeWhile is_digit body
      in if ds = [] then None
         else (case read_digits 0 ds of
                 None \<Rightarrow> None
               | Some v \<Rightarrow>
                   (let i = (if neg then - int v else int v)
                    in if - (2 ^ 63) \<le> i \<and> i < 2 ^ 63 then Some (i, dropWhile is_digit body) else None)))"

text \<open>Hour and minute; the default is eight o'clock.\<close>

definition parse_cron_time :: "string \<Rightarrow> int \<times> int" where
  "parse_cron_time schedule =
     (case scan_int schedule of
        None \<Rightarrow> (8, 0)
      | Some (m, rest) \<Rightarrow>
          (case rest of
             [] \<Rightarrow> (8, 0)
           | c # cs \<Rightarrow>
               if scan_blank c then (case scan_int cs of None \<Rightarrow> (8, 0) | Some (h, _) \<Rightarrow> (h, m))
               else (8, 0)))"

record brief_config =
  bf_enabled :: bool
  bf_schedule :: string
  bf_timezone :: string
  bf_chats :: "chat_id list"

record brief_scheduler =
  sc_config :: brief_config
  sc_chats :: "chat_id list"
  sc_last_run :: "instant option"

definition new_scheduler :: "brief_config \<Rightarrow> chat_id list \<Rightarrow> brief_scheduler" where
  "new_scheduler cfg chats = \<lparr>sc_config = cfg, sc_chats = chats, sc_last_run = None\<rparr>"

type_synonym time_zones = "string \<Rightarrow> instant \<Rightarrow> nat option"

text \<open>An unknown zone falls back to UTC.\<close>

definition local_minute :: "time_zones \<Rightarrow> string \<Rightarrow> instant \<Rightarrow> nat" where
  "local_minute zone tz t = (case zone tz t of None \<Rightarrow> nat (t div minute mod 1440) | Some m \<Rightarrow> m)"

definition schedule_matches :: "time_zones \<Rightarrow> brief_config \<Rightarrow> instant \<Rightarrow> bool" where
  "schedule_matches zone cfg t \<longleftrightarrow>
     (let (h, m) = parse_cron_time (bf_schedule cfg); now = local_minute zone (bf_timezone cfg) t
      in int (now div 60) = h \<and> int (now mod 60) = m)"

definition execute_briefing ::
  "'w kube_api kube_library \<Rightarrow> string list \<Rightarrow> instant \<Rightarrow> brief_scheduler \<Rightarrow> 'w brief_world \<Rightarrow>
   'w brief_world \<times> (chat_id \<times> briefing_text) list" where
  "execute_briefing L order now S w =
     (let (w1, r) = generate_report L order now w
      in (w1, map (\<lambda>c. (c, format_briefing r)) (sc_chats S)))"

text \<open>
  One tick: \<open>t\<close> is the time the ticker delivers, \<open>now\<close> the clock. \<open>None\<close> when no briefing is due.
\<close>

definition scheduler_tick ::
  "'w kube_api kube_library \<Rightarrow> time_zones \<Rightarrow> string list \<Rightarrow> instant \<times> instant \<Rightarrow>
   brief_scheduler \<times> 'w brief_world \<Rightarrow>
   (brief_scheduler \<times> 'w brief_world) \<times> (chat_id \<times> briefing_text) list option" where
  "scheduler_tick L zone order tn Sw =
     (case (tn, Sw) of ((t, now), (S, w)) \<Rightarrow>
        if schedule_matches zone (sc_config S) t \<and>
           (case sc_last_run S of None \<Rightarrow> True | Some l \<Rightarrow> now - l > 2 * minute)
        then (let (w1, sent) = execute_briefing L order now S w
              in ((S\<lparr>sc_last_run := Some now\<rparr>, w1), Some sent))
        else ((S, w), None))"

text \<open>A run of the loop: the briefings with the ticks they were made at.\<close>

fun scheduler_run ::
  "'w kube_api kube_library \<Rightarrow> time_zones \<Rightarrow> string list \<Rightarrow> (instant \<times> instant) list \<Rightarrow>
   brief_scheduler \<times> 'w brief_world \<Rightarrow>
   (brief_scheduler \<times> 'w brief_world) \<times> (instant \<times> (chat_id \<times> briefing_text) list) list" where
  "scheduler_run L zone order [] Sw = (Sw, [])"
| "scheduler_run L zone order (tn # tns) Sw =
     (let (Sw1, sent) = scheduler_tick L zone order tn Sw; (Sw2, rest) = scheduler_run L zone order tns Sw1
      in (Sw2, (case sent of None \<Rightarrow> [] | Some b \<Rightarrow> [(fst tn, b)]) @ rest))"

section \<open>The module (module.go)\<close>

record brief_module =
  bm_config :: brief_config
  bm_healthy :: bool
  bm_running :: bool
  bm_scheduler :: "brief_scheduler option"

definition new_brief_module :: "brief_config \<Rightarrow> brief_module" where
  "new_brief_module cfg = \<lparr>bm_config = cfg, bm_healthy = True, bm_running = False, bm_scheduler = None\<rparr>"

definition start_scheduler :: "chat_id list \<Rightarrow> brief_module \<Rightarrow> brief_module" where
  "start_scheduler chats M =
     (if bm_running M then M
      else M\<lparr>bm_scheduler := Some (new_scheduler (bm_config M)
               (if bf_chats (bm_config M) \<noteq> [] then bf_chats (bm_config M) else chats)),
             bm_running := True\<rparr>)"

text \<open>A stopped scheduler takes no further ticks.\<close>

definition stop_scheduler :: "brief_module \<Rightarrow> brief_module" where
  "stop_scheduler M = (if bm_running M then M\<lparr>bm_running := False\<rparr> else M)"

definition brief_health :: "brief_module \<Rightarrow> health_status" where
  "brief_health M = (if bm_healthy M then Healthy else Unhealthy)"

text \<open>The module under a tick: nothing unless it is running.\<close>

definition brief_tick ::
  "'w kube_api kube_library \<Rightarrow> time_zones \<Rightarrow> string list \<Rightarrow> instant \<times> instant \<Rightarrow>
   brief_module \<times> 'w brief_world \<Rightarrow> (brief_module \<times> 'w brief_world) \<times> (chat_id \<times> briefing_text) list" where
  "brief_tick L zone order tn Mw =
     (case (Mw, bm_scheduler (fst Mw)) of
        ((M, w), Some S) \<Rightarrow>
          if bm_running M
          then (let ((S1, w1), sent) = scheduler_tick L zone order tn (S, w)
                in ((M\<lparr>bm_scheduler := Some S1\<rparr>, w1), case sent of None \<Rightarrow> [] | Some b \<Rightarrow> b))
          else (Mw, [])
      | _ \<Rightarrow> (Mw, []))"

section \<open>Properties\<close>

lemma count_action_total:
  "at_total (count_action a r) = at_total r"
  "at_restarts (count_action a r) + at_scales (count_action a r) + at_deploys (count_action a r) \<le>
     at_restarts r + at_scales r + at_deploys r + 1"
  by (simp_all add: count_action_def)

lemma fold_count_action:
  "at_total (fold (\<lambda>e. count_action (ae_action e)) es r) = at_total r \<and>
   at_restarts (fold (\<lambda>e. count_action (ae_action e)) es r) + at_scales (fold (\<lambda>e. count_action (ae_action e)) es r) +
     at_deploys (fold (\<lambda>e. count_action (ae_action e)) es r) \<le> at_restarts r + at_scales r + at_deploys r + length es"
proof (induction es arbitrary: r)
  case (Cons e es)
  show ?case using Cons [of "count_action (ae_action e) r"] count_action_total [of "ae_action e" r] by simp
qed simp

lemma queried_newest:
  "queried s f = (if db_fault s = None then take (nat (effective_page_size (af_page_size f))) (audit_selected s f) else [])"
  if "af_page f = 1"
  using that by (simp add: queried_def audit_list_def effective_page_def Let_def split: option.split)

text \<open>The activity of a briefing is that of at most the hundred newest audit entries of the last day,
  although a thousand are asked for, and the classes it counts never exceed its total; and what it
  counts as alerts are at most the entries of the last day whose whole action is the word alert followed by a dot.\<close>

theorem briefing_counts_a_page_of_a_hundred:
  "let a = last_24h_activity now s;
       day = filter (\<lambda>e. now - 24 * hour \<le> ae_occurred_at e) (db_audit s)
   in at_total a = (if db_fault s = None then min 100 (length day) else 0) \<and>
      at_restarts a + at_scales a + at_deploys a \<le> at_total a \<and>
      length (queried s (alerts_filter cl (now - 24 * hour))) \<le>
        length (filter (\<lambda>e. ae_action e = ''alert.'') day)"
proof -
  define day where "day = filter (\<lambda>e. now - 24 * hour \<le> ae_occurred_at e) (db_audit s)"
  have "audit_matches (activity_filter (now - 24 * hour)) = (\<lambda>e. now - 24 * hour \<le> ae_occurred_at e)"
    by (simp add: fun_eq_iff audit_matches_def activity_filter_def opt_is_def)
  then have all: "filter (audit_matches (activity_filter (now - 24 * hour))) (db_audit s) = day"
    by (simp add: day_def)
  have n: "length (queried s (activity_filter (now - 24 * hour))) =
      (if db_fault s = None then min 100 (length day) else 0)"
    using all by (simp add: queried_newest activity_filter_def effective_page_size_def Let_def
        audit_selected_def min.commute)
  have "audit_matches (alerts_filter cl (now - 24 * hour)) =
      (\<lambda>e. ae_cluster e = cl \<and> ae_action e = ''alert.'' \<and> now - 24 * hour \<le> ae_occurred_at e)"
    by (auto simp: fun_eq_iff audit_matches_def alerts_filter_def opt_is_def)
  then have "filter (audit_matches (alerts_filter cl (now - 24 * hour))) (db_audit s) =
      filter (\<lambda>e. ae_cluster e = cl) (filter (\<lambda>e. ae_action e = ''alert.'') day)"
    by (auto simp: day_def intro!: filter_cong)
  then have "length (audit_selected s (alerts_filter cl (now - 24 * hour))) \<le>
      length (filter (\<lambda>e. ae_action e = ''alert.'') day)"
    by (simp add: audit_selected_def del: filter_filter)
  then have "length (queried s (alerts_filter cl (now - 24 * hour))) \<le> length (filter (\<lambda>e. ae_action e = ''alert.'') day)"
    by (simp add: queried_newest alerts_filter_def min.coboundedI1)
  then show ?thesis
    using n fold_count_action [of "queried s (activity_filter (now - 24 * hour))"
        "\<lparr>at_total = length (queried s (activity_filter (now - 24 * hour))), at_restarts = 0, at_scales = 0, at_deploys = 0\<rparr>"]
    by (simp add: last_24h_activity_def Let_def day_def [symmetric])
qed

text \<open>In a zone with a fixed offset, two instants at the same minute of the day are days apart.\<close>

definition fixed_offset :: "time_zones \<Rightarrow> string \<Rightarrow> int \<Rightarrow> bool" where
  "fixed_offset zone tz off \<longleftrightarrow> (\<forall>t. zone tz t = Some (nat ((t div minute + off) mod 1440)))"

lemma local_minute_fixed:
  "fixed_offset zone tz off \<Longrightarrow> int (local_minute zone tz t) = (t div minute + off) mod 1440"
  by (simp add: fixed_offset_def local_minute_def)

lemma schedule_matches_same:
  assumes "schedule_matches zone cfg t" "schedule_matches zone cfg u"
  shows "local_minute zone (bf_timezone cfg) t = local_minute zone (bf_timezone cfg) u"
proof -
  obtain h m where p: "parse_cron_time (bf_schedule cfg) = (h, m)" by fastforce
  have "local_minute zone (bf_timezone cfg) t div 60 = local_minute zone (bf_timezone cfg) u div 60"
    "local_minute zone (bf_timezone cfg) t mod 60 = local_minute zone (bf_timezone cfg) u mod 60"
    using assms by (auto simp: schedule_matches_def p Let_def)
  then show ?thesis by (metis div_mult_mod_eq)
qed

lemma matching_days_apart:
  assumes "fixed_offset zone (bf_timezone cfg) off"
    and "schedule_matches zone cfg l" "schedule_matches zone cfg t" "t = l + int j * minute" "0 < j"
  shows "t - l > 2 * minute"
proof -
  have t: "t div minute = l div minute + int j" using assms(4) minute_pos
    by (metis div_mult_self1 less_irrefl add.commute)
  have "(l div minute + off) mod 1440 = (t div minute + off) mod 1440"
    using schedule_matches_same [OF assms(2,3)] local_minute_fixed [OF assms(1)] by metis
  then have "1440 dvd l div minute + off - (t div minute + off)" by (rule mod_eq_dvd_iff [THEN iffD1])
  then have "1440 dvd int j" by (simp add: t)
  then have "int j \<ge> 1440" using assms(5) by (intro zdvd_imp_le) simp_all
  then have "int j * minute \<ge> 1440 * minute" by (intro mult_right_mono) (simp_all add: less_imp_le)
  moreover have "1440 * minute > 2 * minute" by (simp add: minute_def second_def)
  ultimately show ?thesis using assms(4) by simp
qed

lemma scheduler_tick_last:
  assumes "scheduler_tick L zone order (t, now) (S, w) = ((S', w'), sent)"
  shows "sc_config S' = sc_config S" "sc_chats S' = sc_chats S"
    "sent = None \<longrightarrow> S' = S" "sent \<noteq> None \<longrightarrow> sc_last_run S' = Some now \<and> schedule_matches zone (sc_config S) t"
  using assms by (auto simp: scheduler_tick_def split: if_splits prod.splits)

text \<open>C34: With the ticker on the minute in a time zone of fixed offset, a briefing is made at exactly the
  ticks at which the local clock shows the scheduled hour and minute: once every day, never twice
  and none left out, from whatever tick the scheduler starts.\<close>

theorem briefing_is_made_once_a_day:
  assumes "fixed_offset zone (bf_timezone cfg) off"
  shows "map fst (snd (scheduler_run L zone order (map (\<lambda>k. (t0 + int k * minute, t0 + int k * minute)) [a..<b])
            (new_scheduler cfg chats, w))) =
         filter (schedule_matches zone cfg) (map (\<lambda>k. t0 + int k * minute) [a..<b])"
proof -
  have "map fst (snd (scheduler_run L zone order (map (\<lambda>k. (t0 + int k * minute, t0 + int k * minute)) [a..<b]) (S, w))) =
      filter (schedule_matches zone cfg) (map (\<lambda>k. t0 + int k * minute) [a..<b])"
    if "sc_config S = cfg"
      "\<forall>l. sc_last_run S = Some l \<longrightarrow> schedule_matches zone cfg l \<and> (\<exists>i<a. l = t0 + int i * minute)" for S w
    using that
  proof (induction "b - a" arbitrary: a S w)
    case (Suc n)
    let ?t = "t0 + int a * minute"
    have ab: "[a..<b] = a # [Suc a..<b]" using Suc.hyps(2) by (simp add: upt_conv_Cons)
    obtain S1 w1 sent where tick: "scheduler_tick L zone order (?t, ?t) (S, w) = ((S1, w1), sent)"
      by (cases "scheduler_tick L zone order (?t, ?t) (S, w)") auto
    note last = scheduler_tick_last [OF tick]
    have due: "sent \<noteq> None \<longleftrightarrow> schedule_matches zone cfg ?t"
    proof (cases "sc_last_run S")
      case None
      then show ?thesis using tick Suc.prems(1) by (auto simp: scheduler_tick_def split: if_splits prod.splits)
    next
      case (Some l)
      with Suc.prems(2) obtain i where i: "schedule_matches zone cfg l" "i < a" "l = t0 + int i * minute" by blast
      have "?t - l > 2 * minute" if "schedule_matches zone cfg ?t"
        using matching_days_apart [OF assms i(1) that, of "a - i"] i(2,3)
        by (simp add: of_nat_diff algebra_simps)
      then show ?thesis using tick Some Suc.prems(1) by (auto simp: scheduler_tick_def split: if_splits prod.splits)
    qed
    have "\<forall>l. sc_last_run S1 = Some l \<longrightarrow> schedule_matches zone cfg l \<and> (\<exists>i<Suc a. l = t0 + int i * minute)"
      using last Suc.prems by (cases sent) (auto, metis less_SucI)
    with Suc.hyps(1) [of "Suc a" S1 w1] Suc.hyps(2) last(1) Suc.prems(1)
    have "map fst (snd (scheduler_run L zone order (map (\<lambda>k. (t0 + int k * minute, t0 + int k * minute)) [Suc a..<b]) (S1, w1))) =
        filter (schedule_matches zone cfg) (map (\<lambda>k. t0 + int k * minute) [Suc a..<b])" by simp
    then show ?case using due by (cases sent) (simp_all add: ab tick Let_def case_prod_beta)
  qed simp
  from this [of "new_scheduler cfg chats" w] show ?thesis by (simp add: new_scheduler_def)
qed

definition no_clusters :: "unit kube_api kube_library" where
  "no_clusters =
     \<lparr>kl_in_cluster = Inl (DriverErr ''no cluster''), kl_kubeconfig = (\<lambda>p c. Inl (DriverErr ''no cluster'')),
      kl_tuned = (\<lambda>q b t c. c), kl_clientset = Inr, kl_metrics = Inr, kl_dynamic = Inr\<rparr>"

definition brief_demo_world :: "unit brief_world" where
  "brief_demo_world = \<lparr>bw_manager = new_cluster_manager [], bw_remote = (), bw_db = new_store\<rparr>"

theorem briefing_is_made_once_a_day_witness:
  "map fst (snd (scheduler_run no_clusters (\<lambda>tz t. Some (nat ((t div minute + 420) mod 1440))) []
     (map (\<lambda>k. (int k * minute, int k * minute)) [0..<3]) 
     (new_scheduler \<lparr>bf_enabled = True, bf_schedule = ''1 7 * * *'', bf_timezone = ''Asia/Bangkok'', bf_chats = [7]\<rparr> [], brief_demo_world))) =
   [minute]"
proof -
  let ?zone = "\<lambda>tz t. Some (nat ((t div minute + 420) mod 1440))"
  let ?cfg = "\<lparr>bf_enabled = True, bf_schedule = ''1 7 * * *'', bf_timezone = ''Asia/Bangkok'', bf_chats = [7]\<rparr>"
  have "fixed_offset ?zone (bf_timezone ?cfg) 420" by (simp add: fixed_offset_def)
  note h = briefing_is_made_once_a_day [OF this, of no_clusters "[]" 0 0 3 "[]" brief_demo_world]
  have "parse_cron_time ''1 7 * * *'' = (7, 1)" by code_simp
  then have "schedule_matches ?zone ?cfg (int k * minute) \<longleftrightarrow> k = 1" if "k < 3" for k
    using that by (auto simp: schedule_matches_def local_minute_def minute_def second_def less_Suc_eq numeral_3_eq_3)
  from this [of 0] this [of 1] this [of 2]
  have "filter (schedule_matches ?zone ?cfg) (map (\<lambda>k. 0 + int k * minute) [0, 1, 2]) = [minute]"
    by simp
  moreover have "[0..<3] = [0, 1, 2]" by code_simp
  ultimately have "filter (schedule_matches ?zone ?cfg) (map (\<lambda>k. 0 + int k * minute) [0..<3]) = [minute]"
    by (simp only:)
  with h show ?thesis by simp
qed

end
