(* ===== verification/Lifecycle.thy ===== *)
theory Lifecycle
  imports WatcherModule Briefing ArgocdHttp Helm Incident RbacMenu Notify KubePods
begin

text \<open>
  The life of the program: leader election (\<open>internal/leader/elector.go\<close>) around client-go's
  \<open>RunOrDie\<close>, which is given by the callbacks it makes; the application that starts and stops
  everything (\<open>internal/app/app.go\<close>); and the wiring of \<open>cmd/telekube/main.go\<close>: which modules are
  registered with which endpoints, what is passed to them, and which selection of clusters the
  bot and the Kubernetes module each hold. The run-time state of the modules is the one the
  lifecycle changes: the watchers and the briefing.
\<close>

section \<open>Leader election (leader/elector.go)\<close>

record election_config =
  le_name :: string
  le_namespace :: string
  le_identity :: string
  le_lease :: duration
  le_renew :: duration
  le_retry :: duration

definition default_election :: "string \<Rightarrow> string \<Rightarrow> nat \<Rightarrow> election_config" where
  "default_election ns hostname pid =
     \<lparr>le_name = ''telekube-leader'', le_namespace = ns,
      le_identity = (if hostname = [] then ''telekube-'' @ show_nat pid else hostname),
      le_lease = 15 * second, le_renew = 10 * second, le_retry = 2 * second\<rparr>"

record 'x leader_callbacks =
  lc_started :: "('x \<Rightarrow> 'x) option"
  lc_stopped :: "('x \<Rightarrow> 'x) option"
  lc_new_leader :: "(string \<Rightarrow> 'x \<Rightarrow> 'x) option"

record elector =
  el_config :: election_config
  el_is_leader :: bool

definition new_elector :: "election_config \<Rightarrow> elector" where
  "new_elector cfg = \<lparr>el_config = cfg, el_is_leader = False\<rparr>"

text \<open>What the election calls.\<close>

datatype leader_event = StartedLeading | StoppedLeading | NewLeader string

definition elector_event ::
  "'x leader_callbacks \<Rightarrow> leader_event \<Rightarrow> elector \<times> 'x \<Rightarrow> elector \<times> 'x" where
  "elector_event K ev ex =
     (case ex of (e, x) \<Rightarrow>
        (case ev of
           StartedLeading \<Rightarrow>
             (e\<lparr>el_is_leader := True\<rparr>, case lc_started K of None \<Rightarrow> x | Some f \<Rightarrow> f x)
         | StoppedLeading \<Rightarrow>
             (e\<lparr>el_is_leader := False\<rparr>, case lc_stopped K of None \<Rightarrow> x | Some f \<Rightarrow> f x)
         | NewLeader who \<Rightarrow>
             if who = le_identity (el_config e) then (e, x)
             else (e, case lc_new_leader K of None \<Rightarrow> x | Some f \<Rightarrow> f who x)))"

definition is_leader :: "elector \<Rightarrow> bool" where
  "is_leader e = el_is_leader e"

section \<open>Background tasks (app/app.go)\<close>

record ('w, 'r) background =
  bk_watchers :: "('w, 'r) watchers option"
  bk_briefing :: "brief_module option"

definition start_background_tasks :: "'r \<Rightarrow> ('w, 'r) background \<Rightarrow> ('w, 'r) background" where
  "start_background_tasks r b =
     b\<lparr>bk_watchers := map_option (start_watchers r) (bk_watchers b),
       bk_briefing := map_option (start_scheduler []) (bk_briefing b)\<rparr>"

definition stop_background_tasks :: "('w, 'r) background \<Rightarrow> ('w, 'r) background" where
  "stop_background_tasks b =
     b\<lparr>bk_watchers := map_option stop_watchers (bk_watchers b),
       bk_briefing := map_option stop_scheduler (bk_briefing b)\<rparr>"

definition app_callbacks :: "'r \<Rightarrow> ('w, 'r) background leader_callbacks" where
  "app_callbacks r =
     \<lparr>lc_started = Some (start_background_tasks r), lc_stopped = Some stop_background_tasks,
      lc_new_leader = Some (\<lambda>who b. b)\<rparr>"

record election_settings =
  es_enabled :: bool
  es_namespace :: string

definition start_with_leader_election ::
  "'c kube_library \<Rightarrow> election_settings \<Rightarrow> string \<Rightarrow> nat \<Rightarrow> 'r \<Rightarrow> 'c cluster_manager \<Rightarrow>
   ('w, 'r) background \<Rightarrow> 'c cluster_manager \<times> ('w, 'r) background \<times> elector option" where
  "start_with_leader_election L es hostname pid r m b =
     (case get_default m of
        Inl e \<Rightarrow> (m, start_background_tasks r b, None)
      | Inr info \<Rightarrow>
          (case client_set L m (ci_name info) of
             (m1, Inl e) \<Rightarrow> (m1, start_background_tasks r b, None)
           | (m1, Inr c) \<Rightarrow>
               (m1, b, Some (new_elector
                  (default_election (if es_namespace es = [] then ''default'' else es_namespace es) hostname pid)))))"

section \<open>Closing the audit logger (audit/logger.go)\<close>

text \<open>\<open>Close\<close>: signal the worker, wait until it has drained the channel and returned, flush.\<close>

definition close_logger :: "logger_state \<Rightarrow> logger_state" where
  "close_logger l =
     (let l1 = l\<lparr>lg_done := True, lg_draining := True\<rparr>;
          l2 = (worker_drain ^^ Suc (length (lg_chan l1))) l1
      in (flush_round ^^ length (lg_chan l2)) l2)"

section \<open>The application (app/app.go)\<close>

record ('w, 'r) app =
  ap_registry :: "('w, 'r) background registry"
  ap_background :: "('w, 'r) background"
  ap_elector :: "elector option"
  ap_logger :: logger_state
  ap_bot_running :: bool
  ap_health_running :: bool
  ap_redis_open :: bool
  ap_storage_open :: bool

definition app_run ::
  "'c kube_library \<Rightarrow> election_settings \<Rightarrow> string \<Rightarrow> nat \<Rightarrow> 'r \<Rightarrow> 'c cluster_manager \<Rightarrow> ('w, 'r) app \<Rightarrow>
   'c cluster_manager \<times> ('w, 'r) app" where
  "app_run L es hostname pid r m a =
     (let (b, _) = start_all (ap_registry a) (ap_background a);
          (m1, b1, el) = (if es_enabled es then start_with_leader_election L es hostname pid r m b
                          else (m, start_background_tasks r b, None))
      in (m1, a\<lparr>ap_background := b1, ap_elector := el, ap_health_running := True, ap_bot_running := True\<rparr>))"

text \<open>The steps of \<open>shutdown\<close>. Inserts into a closed database fail.\<close>

definition close_storage :: "('w, 'r) app \<Rightarrow> ('w, 'r) app" where
  "close_storage a =
     a\<lparr>ap_storage_open := False,
       ap_logger := (ap_logger a)\<lparr>lg_db := (lg_db (ap_logger a))\<lparr>db_fault := Some ''sql: database is closed''\<rparr>\<rparr>\<rparr>"

definition stop_modules :: "('w, 'r) app \<Rightarrow> ('w, 'r) app" where
  "stop_modules a = a\<lparr>ap_background := fst (stop_all (ap_registry a) (ap_background a))\<rparr>"

definition app_shutdown :: "('w, 'r) app \<Rightarrow> ('w, 'r) app" where
  "app_shutdown a =
     (let a1 = a\<lparr>ap_bot_running := False\<rparr>;
          a2 = stop_modules a1;
          a3 = a2\<lparr>ap_health_running := False\<rparr>;
          a4 = a3\<lparr>ap_logger := close_logger (ap_logger a3)\<rparr>;
          a5 = a4\<lparr>ap_redis_open := False\<rparr>
      in close_storage a5)"

section \<open>The modules of main.go\<close>

text \<open>A module whose start and stop touch neither the watchers nor the briefing.\<close>

definition plain_module ::
  "string \<Rightarrow> string \<Rightarrow> string list \<Rightarrow> command_info list \<Rightarrow> ('w, 'r) background bot_module" where
  "plain_module n d eps cmds =
     \<lparr>md_name = n, md_description = d, md_endpoints = eps, md_start = \<lambda>b. (b, Inr ()),
      md_stop = \<lambda>b. (b, Inr ()), md_health = \<lambda>b. Healthy, md_commands = cmds\<rparr>"

definition k8s_endpoints :: "string list" where
  "k8s_endpoints =
     [''/pods'', ''/logs'', ''/events'', ''/top'', ''/scale'', ''/nodes'', ''/quota'', ''/restart'',
      ''/namespaces'', ''/deploys'', ''/cronjobs''] @ k8s_buttons @ k8s_info_buttons"

definition helm_endpoints :: "string list" where
  "helm_endpoints =
     [''/helm'', ''helm_ns_select'', ''helm_release_detail'', ''helm_rollback_select'',
      ''helm_rollback_confirm'', ''helm_rollback_cancel'', ''helm_refresh'']"

definition incident_endpoints :: "string list" where
  "incident_endpoints = [''/incident'', ''inc_ns_select'', ''inc_window_select'']"

definition approval_endpoints :: "string list" where
  "approval_endpoints = [''appr_approve'', ''appr_reject'', ''appr_cancel'']"

definition notify_endpoints :: "string list" where
  "notify_endpoints =
     [''/notify'', ''notify_severity'', ''notify_severity_set'', ''notify_quiet'', ''notify_quiet_set'',
      ''notify_quiet_clear'', ''notify_mute_cluster'', ''notify_mute_cluster_toggle'', ''notify_back'']"

definition argo_endpoints :: "string list" where
  "argo_endpoints =
     [''/apps'', ''/dashboard'', ''/freeze'', ''argo_app_detail'', ''argo_apps_refresh'', ''argo_apps_back'',
      ''argo_inst_select'', ''argo_diff'', ''argo_sync'', ''argo_sync_now'', ''argo_sync_prune'',
      ''argo_sync_force'', ''argo_sync_confirm'', ''argo_sync_cancel'', ''argo_rollback'',
      ''argo_rollback_select'', ''argo_rollback_confirm'', ''argo_rollback_cancel'', ''argo_dash_refresh'',
      ''argo_dash_outofsync'', ''argo_dash_degraded'', ''argo_freeze_create'', ''argo_freeze_scope'',
      ''argo_freeze_duration'', ''argo_freeze_confirm'', ''argo_freeze_thaw'', ''argo_freeze_history'',
      ''argo_noop'']"

definition argo_commands :: "command_info list" where
  "argo_commands = map (\<lambda>(c, d, p). \<lparr>co_command = c, co_description = d, co_permission = p, co_chat_type = ''all''\<rparr>)
     [(''/apps'', ''List ArgoCD applications with status'', perm_argocd_apps_list),
      (''/dashboard'', ''GitOps status dashboard across all ArgoCD instances'', perm_argocd_apps_list),
      (''/freeze'', ''Manage deployment freeze (block sync/rollback)'', perm_argocd_freeze_manage)]"

definition watcher_module :: "('w, 'r) background bot_module" where
  "watcher_module =
     (plain_module ''watcher'' ''Real-time Kubernetes monitoring and alerts'' [''watcher_mute''] [])
       \<lparr>md_stop := \<lambda>b. (b\<lparr>bk_watchers := map_option stop_watchers (bk_watchers b)\<rparr>, Inr ()),
        md_health := \<lambda>b. (case bk_watchers b of None \<Rightarrow> Healthy | Some S \<Rightarrow> watchers_health S)\<rparr>"

definition briefing_module :: "('w, 'r) background bot_module" where
  "briefing_module =
     (plain_module ''briefing'' ''Scheduled cluster health reports'' [] [])
       \<lparr>md_stop := \<lambda>b. (b\<lparr>bk_briefing := map_option stop_scheduler (bk_briefing b)\<rparr>, Inr ()),
        md_health := \<lambda>b. (case bk_briefing b of None \<Rightarrow> Healthy | Some M \<Rightarrow> brief_health M)\<rparr>"

record main_config =
  mn_kubernetes :: bool
  mn_helm :: bool
  mn_incident :: bool
  mn_notify :: bool
  mn_watcher :: bool
  mn_argocd :: bool
  mn_briefing :: bool
  mn_argo :: argo_config
  mn_custom_rules :: "alert_rule list"
  mn_schedule :: string
  mn_timezone :: string
  mn_approval_rules :: "approval_rule list"
  mn_approval_expiry :: string

text \<open>The expiry of approvals; the clusters that get a Helm client: those whose REST configuration loads.\<close>

definition approval_expiry :: "main_config \<Rightarrow> duration" where
  "approval_expiry c =
     (if mn_approval_expiry c \<noteq> [] then
        (case parse_duration (mn_approval_expiry c) of None \<Rightarrow> 30 * minute | Some d \<Rightarrow> d)
      else 30 * minute)"

fun helm_cluster_list ::
  "'c kube_library \<Rightarrow> string list \<Rightarrow> 'c cluster_manager \<Rightarrow> 'c cluster_manager \<times> (string \<times> 'c) list" where
  "helm_cluster_list L [] m = (m, [])"
| "helm_cluster_list L (n # ns) m =
     (case rest_config L m n of
        (m1, Inl e) \<Rightarrow> helm_cluster_list L ns m1
      | (m1, Inr rc) \<Rightarrow> (let (m2, r) = helm_cluster_list L ns m1 in (m2, (n, rc) # r)))"

definition helm_on :: "main_config \<Rightarrow> bool \<Rightarrow> bool" where
  "helm_on c helm_ready \<longleftrightarrow> mn_helm c \<and> helm_ready"

definition argo_on :: "main_config \<Rightarrow> bool" where
  "argo_on c \<longleftrightarrow> mn_argocd c \<and> ag_instances (mn_argo c) \<noteq> []"

text \<open>The modules in the order of their registration; \<open>helm_ready\<close>: there is a Helm cluster.\<close>

definition main_modules :: "main_config \<Rightarrow> bool \<Rightarrow> ('w, 'r) background bot_module list" where
  "main_modules c helm_ready =
     (if mn_kubernetes c then [plain_module ''kubernetes'' ''Kubernetes cluster operations'' k8s_endpoints k8s_commands] else []) @
     (if helm_on c helm_ready then [plain_module ''helm'' ''Helm release management'' helm_endpoints helm_commands] else []) @
     (if mn_incident c then [plain_module ''incident'' ''Incident timeline builder'' incident_endpoints incident_commands] else []) @
     [plain_module ''approval'' ''Approval workflow for dangerous operations'' approval_endpoints [],
      plain_module ''rbac'' ''RBAC role management via Telegram'' rbac_endpoints rbac_commands] @
     (if mn_notify c then [plain_module ''notify'' ''User notification preferences'' notify_endpoints notify_commands] else []) @
     (if mn_watcher c then [watcher_module] else []) @
     (if argo_on c
      then [plain_module ''argocd'' ''ArgoCD GitOps management'' argo_endpoints argo_commands] else []) @
     (if mn_briefing c then [briefing_module] else [])"

text \<open>The watchers with their custom rules and one ArgoCD watcher per instance; the briefing, whose
  configuration names no chats.\<close>

definition main_watchers ::
  "'r go_http \<Rightarrow> main_config \<Rightarrow> 'w watch_world \<Rightarrow> ('w, 'r http_world) watchers" where
  "main_watchers T c w =
     (let S0 = new_watchers w;
          S1 = (if mn_custom_rules c \<noteq> [] then set_custom_rules (mn_custom_rules c) S0 else S0)
      in if argo_on c
         then fold (\<lambda>i. add_argo_watcher (new_argo_watch (ai_name i) (ai_client i) 0 True True))
                (build_instances T (mn_argo c)) S1
         else S1)"

definition main_briefing_config :: "main_config \<Rightarrow> brief_config" where
  "main_briefing_config c =
     \<lparr>bf_enabled = mn_briefing c, bf_schedule = mn_schedule c, bf_timezone = mn_timezone c, bf_chats = []\<rparr>"

definition main_background ::
  "'r go_http \<Rightarrow> main_config \<Rightarrow> 'w watch_world \<Rightarrow> ('w, 'r http_world) background" where
  "main_background T c w =
     \<lparr>bk_watchers = (if mn_watcher c then Some (main_watchers T c w) else None),
      bk_briefing = (if mn_briefing c then Some (new_brief_module (main_briefing_config c)) else None)\<rparr>"

definition main_app :: "'r go_http \<Rightarrow> main_config \<Rightarrow> bool \<Rightarrow> 'w watch_world \<Rightarrow> db \<Rightarrow> ('w, 'r http_world) app" where
  "main_app T c helm_ready w d =
     \<lparr>ap_registry = register_list (main_modules c helm_ready) new_registry,
      ap_background = main_background T c w, ap_elector = None, ap_logger = new_logger d,
      ap_bot_running = False, ap_health_running = False, ap_redis_open = True, ap_storage_open = True\<rparr>"

section \<open>Two selections of clusters\<close>

text \<open>
  \<open>main.go\<close> makes a selection for the Kubernetes module and \<open>bot.New\<close> makes its own for /start,
  /clusters and the cluster buttons.
\<close>

record 'w program =
  pg_selected :: user_context
  pg_kube :: "'w k8s_world"

definition new_program :: "'w k8s_world \<Rightarrow> 'w program" where
  "new_program w = \<lparr>pg_selected = Map.empty, pg_kube = w\<lparr>kw_selected := Map.empty\<rparr>\<rparr>"

definition press_cluster ::
  "core_env \<Rightarrow> user option \<Rightarrow> string \<Rightarrow> 'w program \<Rightarrow> 'w program \<times> core_msg chat_effect list" where
  "press_cluster env usr data P =
     (let (uc, es) = cluster_select env (kw_manager (pg_kube P)) usr data (pg_selected P)
      in (P\<lparr>pg_selected := uc\<rparr>, es))"

definition program_clusters ::
  "core_env \<Rightarrow> user option \<Rightarrow> 'w program \<Rightarrow> core_msg chat_effect list" where
  "program_clusters env usr P = handle_clusters env (kw_manager (pg_kube P)) (pg_selected P) usr"

definition program_pods ::
  "'w k8s_module \<Rightarrow> instant \<Rightarrow> instant \<Rightarrow> user option \<Rightarrow> 'w program \<Rightarrow> 'w program \<times> pods_view k8s_msg chat_effect list" where
  "program_pods M t1 t2 usr P =
     (let (w, es) = handle_pods M t1 t2 usr (pg_kube P) in (P\<lparr>pg_kube := w\<rparr>, es))"

end
