(* ===== verification/LifecycleProps.thy ===== *)
theory LifecycleProps
  imports Lifecycle ClusterProps
begin

text \<open>
  Properties of the whole program's life: which replica works, when the background tasks run, that
  main.go's modules register without a clash, that the audit trail is complete after a shutdown,
  and two places where the wiring defeats a feature.
\<close>

section \<open>Replicas\<close>

text \<open>Several instances of the program stand for the same lease.\<close>

record ('w, 'r) replica =
  rp_elector :: elector
  rp_background :: "('w, 'r) background"
  rp_over :: bool

definition replica_event :: "'r \<Rightarrow> leader_event \<Rightarrow> ('w, 'r) replica \<Rightarrow> ('w, 'r) replica" where
  "replica_event r ev p =
     (let (e, b) = elector_event (app_callbacks r) ev (rp_elector p, rp_background p)
      in p\<lparr>rp_elector := e, rp_background := b\<rparr>)"

text \<open>
  What client-go documents of \<open>RunOrDie\<close>: it takes the lease when nobody holds it, calls
  \<open>OnStartedLeading\<close>, calls \<open>OnStoppedLeading\<close> when the lease is lost, and then returns; \<open>Start\<close> calls it
  once. \<open>OnNewLeader\<close> comes at any time.
\<close>

type_synonym ('w, 'r) replicas = "nat option \<times> (nat \<Rightarrow> ('w, 'r) replica)"

inductive lease_step :: "'r \<Rightarrow> ('w, 'r) replicas \<Rightarrow> ('w, 'r) replicas \<Rightarrow> bool" for r where
  Acquire: "\<not> rp_over (R i) \<Longrightarrow> lease_step r (None, R) (Some i, R(i := replica_event r StartedLeading (R i)))"
| Lose: "lease_step r (Some i, R) (None, R(i := (replica_event r StoppedLeading (R i))\<lparr>rp_over := True\<rparr>))"
| Observe: "lease_step r (h, R) (h, R(i := replica_event r (NewLeader who) (R i)))"

inductive_cases lease_stepE: "lease_step r S S'"

definition watchers_run :: "('w, 'r) background \<Rightarrow> bool" where
  "watchers_run b \<longleftrightarrow> (case bk_watchers b of None \<Rightarrow> False | Some S \<Rightarrow> wm_running S)"

definition briefing_runs :: "('w, 'r) background \<Rightarrow> bool" where
  "briefing_runs b \<longleftrightarrow> (case bk_briefing b of None \<Rightarrow> False | Some M \<Rightarrow> bm_running M)"

lemma background_simps [simp]:
  "watchers_run (start_background_tasks r b) \<longleftrightarrow> bk_watchers b \<noteq> None"
  "briefing_runs (start_background_tasks r b) \<longleftrightarrow> bk_briefing b \<noteq> None"
  "\<not> watchers_run (stop_background_tasks b)" "\<not> briefing_runs (stop_background_tasks b)"
  "(bk_watchers (start_background_tasks r b) = None) = (bk_watchers b = None)"
  "(bk_briefing (start_background_tasks r b) = None) = (bk_briefing b = None)"
  "(bk_watchers (stop_background_tasks b) = None) = (bk_watchers b = None)"
  "(bk_briefing (stop_background_tasks b) = None) = (bk_briefing b = None)"
  by (auto simp: watchers_run_def briefing_runs_def start_background_tasks_def stop_background_tasks_def
      start_watchers_def start_scheduler_def stop_watchers_def stop_scheduler_def split: option.split)

lemma replica_event_simps [simp]:
  "rp_background (replica_event r StartedLeading p) = start_background_tasks r (rp_background p)"
  "rp_background (replica_event r StoppedLeading p) = stop_background_tasks (rp_background p)"
  "rp_background (replica_event r (NewLeader who) p) = rp_background p"
  "is_leader (rp_elector (replica_event r StartedLeading p))"
  "\<not> is_leader (rp_elector (replica_event r StoppedLeading p))"
  "is_leader (rp_elector (replica_event r (NewLeader who) p)) = is_leader (rp_elector p)"
  "rp_over (replica_event r ev p) = rp_over p"
  by (cases ev; simp add: replica_event_def elector_event_def app_callbacks_def is_leader_def)+

text \<open>Every replica starts with the same modules, not leading and not over.\<close>

definition fresh_replica :: "('w, 'r) background \<Rightarrow> ('w, 'r) replica \<Rightarrow> bool" where
  "fresh_replica b p \<longleftrightarrow> rp_background p = b \<and> \<not> watchers_run b \<and> \<not> briefing_runs b \<and>
     \<not> is_leader (rp_elector p) \<and> \<not> rp_over p"

definition lease_inv :: "('w, 'r) background \<Rightarrow> ('w, 'r) replicas \<Rightarrow> bool" where
  "lease_inv b S \<longleftrightarrow> (case S of (h, R) \<Rightarrow> \<forall>i.
     is_leader (rp_elector (R i)) = (h = Some i) \<and>
     watchers_run (rp_background (R i)) = (h = Some i \<and> bk_watchers b \<noteq> None) \<and>
     briefing_runs (rp_background (R i)) = (h = Some i \<and> bk_briefing b \<noteq> None) \<and>
     (bk_watchers (rp_background (R i)) = None) = (bk_watchers b = None) \<and>
     (bk_briefing (rp_background (R i)) = None) = (bk_briefing b = None) \<and>
     (rp_over (R i) \<longrightarrow> h \<noteq> Some i))"

lemma lease_inv_step: "lease_step r S S' \<Longrightarrow> lease_inv b S \<Longrightarrow> lease_inv b S'"
  by (induction rule: lease_step.induct) (auto simp: lease_inv_def)

lemma lease_inv_steps: "(lease_step r)\<^sup>*\<^sup>* S S' \<Longrightarrow> lease_inv b S \<Longrightarrow> lease_inv b S'"
  by (induction rule: rtranclp_induct) (auto intro: lease_inv_step)

lemma lease_inv_fresh: "(\<And>i. fresh_replica b (R i)) \<Longrightarrow> lease_inv b (None, R)"
  by (auto simp: lease_inv_def fresh_replica_def)

lemma over_stays: "lease_step r S S' \<Longrightarrow> rp_over (snd S i) \<Longrightarrow> rp_over (snd S' i)"
  by (induction rule: lease_step.induct) auto

lemma over_stays_steps: "(lease_step r)\<^sup>*\<^sup>* S S' \<Longrightarrow> rp_over (snd S i) \<Longrightarrow> rp_over (snd S' i)"
  by (induction rule: rtranclp_induct) (auto intro: over_stays)


definition demo_background :: "(unit, unit) background" where
  "demo_background = \<lparr>bk_watchers = None,
     bk_briefing = Some (new_brief_module \<lparr>bf_enabled = True, bf_schedule = [], bf_timezone = [], bf_chats = []\<rparr>)\<rparr>"

definition demo_replica :: "(unit, unit) replica" where
  "demo_replica = \<lparr>rp_elector = new_elector (default_election ''default'' ''pod-0'' 1),
     rp_background = demo_background, rp_over = False\<rparr>"

lemma demo_replica_fresh: "fresh_replica demo_background demo_replica"
  by (simp add: fresh_replica_def demo_replica_def demo_background_def watchers_run_def briefing_runs_def
      is_leader_def new_elector_def new_brief_module_def)

text \<open>Replica 0 leads, loses the lease, replica 1 takes over.\<close>

lemma demo_handover:
  "\<exists>R. (lease_step ())\<^sup>*\<^sup>* (None, \<lambda>i::nat. demo_replica) (None, R) \<and> rp_over (R 0) \<and>
     (lease_step ())\<^sup>*\<^sup>* (None, R) (Some 1, R(1 := replica_event () StartedLeading (R 1)))"
proof -
  let ?R1 = "(\<lambda>i::nat. demo_replica)(0 := replica_event () StartedLeading demo_replica)"
  let ?R2 = "?R1(0 := (replica_event () StoppedLeading (?R1 0))\<lparr>rp_over := True\<rparr>)"
  have "lease_step () (None, \<lambda>i::nat. demo_replica) (Some (0::nat), ?R1)"
    by (rule Acquire) (simp add: demo_replica_def)
  moreover have "lease_step () (Some 0, ?R1) (None, ?R2)" by (rule Lose)
  ultimately have "(lease_step ())\<^sup>*\<^sup>* (None, \<lambda>i::nat. demo_replica) (None, ?R2)"
    by (meson rtranclp.rtrancl_into_rtrancl rtranclp.rtrancl_refl)
  moreover have "lease_step () (None, ?R2) (Some 1, ?R2(1 := replica_event () StartedLeading (?R2 1)))"
    by (rule Acquire) (simp add: demo_replica_def)
  ultimately show ?thesis by (intro exI [of _ ?R2]) auto
qed


text \<open>A lost lease is final: a replica that led once and lost the lease, to a slow API server say,
  never leads again, and its watchers and briefings stay off until it is restarted, because the
  election is entered only once.\<close>

theorem lost_leadership_is_final:
  assumes "\<And>i. fresh_replica b (R0 i)" "(lease_step r)\<^sup>*\<^sup>* (None, R0) (h, R)" "rp_over (R i)"
    and "(lease_step r)\<^sup>*\<^sup>* (h, R) (h', R')"
  shows "\<not> is_leader (rp_elector (R' i)) \<and> \<not> watchers_run (rp_background (R' i)) \<and>
     \<not> briefing_runs (rp_background (R' i))"
proof -
  have "lease_inv b (h', R')"
    using lease_inv_steps [OF assms(4) lease_inv_steps [OF assms(2) lease_inv_fresh [OF assms(1)]]] .
  moreover have "rp_over (R' i)" using over_stays_steps [OF assms(4), of i] assms(3) by simp
  ultimately show ?thesis by (auto simp: lease_inv_def)
qed

theorem lost_leadership_is_final_witness:
  "\<exists>R :: nat \<Rightarrow> (unit, unit) replica. rp_over (R 0) \<and> \<not> briefing_runs (rp_background (R 0))"
proof -
  from demo_handover obtain R where R: "(lease_step ())\<^sup>*\<^sup>* (None, \<lambda>i::nat. demo_replica) (None, R)" "rp_over (R 0)" by blast
  from lost_leadership_is_final [OF demo_replica_fresh R(1,2) rtranclp.rtrancl_refl] R(2) show ?thesis by blast
qed

section \<open>Briefings\<close>

text \<open>A process of \<open>main.go\<close> under its election callbacks (or the direct start) and the ticks of the scheduler.\<close>

datatype app_event = Election leader_event | DirectStart | MinuteTick instant instant

definition app_event ::
  "'k kube_api kube_library \<Rightarrow> time_zones \<Rightarrow> string list \<Rightarrow> 'r \<Rightarrow> app_event \<Rightarrow>
   elector \<times> ('w, 'r) background \<times> 'k brief_world \<Rightarrow>
   (elector \<times> ('w, 'r) background \<times> 'k brief_world) \<times> (chat_id \<times> briefing_text) list" where
  "app_event L zone order r ev ebw =
     (case ebw of (e, b, w) \<Rightarrow>
        (case ev of
           Election le \<Rightarrow> (let (e1, b1) = elector_event (app_callbacks r) le (e, b) in ((e1, b1, w), []))
         | DirectStart \<Rightarrow> ((e, start_background_tasks r b, w), [])
         | MinuteTick t now \<Rightarrow>
             (case bk_briefing b of
                None \<Rightarrow> ((e, b, w), [])
              | Some M \<Rightarrow>
                  (let ((M1, w1), sent) = brief_tick L zone order (t, now) (M, w)
                   in ((e, b\<lparr>bk_briefing := Some M1\<rparr>, w1), sent)))))"

fun app_events where
  "app_events L zone order r [] s = (s, [])"
| "app_events L zone order r (ev # evs) s =
     (let (s1, out) = app_event L zone order r ev s; (s2, rest) = app_events L zone order r evs s1
      in (s2, out @ rest))"

definition no_chats :: "('w, 'r) background \<Rightarrow> bool" where
  "no_chats b \<longleftrightarrow> (case bk_briefing b of None \<Rightarrow> True | Some M \<Rightarrow>
     bf_chats (bm_config M) = [] \<and> (case bm_scheduler M of None \<Rightarrow> True | Some S \<Rightarrow> sc_chats S = []))"

lemma no_chats_start: "no_chats b \<Longrightarrow> no_chats (start_background_tasks r b)"
  by (auto simp: no_chats_def start_background_tasks_def start_scheduler_def new_scheduler_def split: option.splits)

lemma no_chats_stop: "no_chats b \<Longrightarrow> no_chats (stop_background_tasks b)"
  by (auto simp: no_chats_def stop_background_tasks_def stop_scheduler_def split: option.splits)

lemma no_chats_tick:
  assumes "bf_chats (bm_config M) = []" "case bm_scheduler M of None \<Rightarrow> True | Some S \<Rightarrow> sc_chats S = []"
    and "brief_tick L zone order tn (M, w) = ((M1, w1), sent)"
  shows "sent = [] \<and> bf_chats (bm_config M1) = [] \<and> (case bm_scheduler M1 of None \<Rightarrow> True | Some S \<Rightarrow> sc_chats S = [])"
proof (cases "bm_scheduler M")
  case (Some S)
  obtain S1 w2 x where t: "scheduler_tick L zone order tn (S, w) = ((S1, w2), x)"
    by (cases "scheduler_tick L zone order tn (S, w)") auto
  have "sc_chats S1 = []" "x = None \<or> x = Some []"
    using t assms(2) Some
    by (auto simp: scheduler_tick_def execute_briefing_def Let_def split: prod.splits if_splits)
  then show ?thesis using assms Some t by (auto simp: brief_tick_def split: if_splits option.splits)
qed (use assms in \<open>auto simp: brief_tick_def\<close>)

lemma app_event_no_chats:
  assumes "no_chats b" "app_event L zone order r ev (e, b, w) = ((e1, b1, w1), out)"
  shows "no_chats b1 \<and> out = []"
proof (cases ev)
  case (Election le)
  then show ?thesis using assms no_chats_start [OF assms(1), of r] no_chats_stop [OF assms(1)]
    by (cases le) (auto simp: app_event_def elector_event_def app_callbacks_def split: if_splits)
next
  case DirectStart
  then show ?thesis using assms no_chats_start [OF assms(1)] by (auto simp: app_event_def)
next
  case (MinuteTick t now)
  show ?thesis
  proof (cases "bk_briefing b")
    case None
    then show ?thesis using assms MinuteTick by (auto simp: app_event_def)
  next
    case (Some M)
    obtain M1 w2 sent where t: "brief_tick L zone order (t, now) (M, w) = ((M1, w2), sent)"
      by (cases "brief_tick L zone order (t, now) (M, w)") auto
    from no_chats_tick [OF _ _ t] assms(1) Some
    have "sent = [] \<and> bf_chats (bm_config M1) = [] \<and> (case bm_scheduler M1 of None \<Rightarrow> True | Some S \<Rightarrow> sc_chats S = [])"
      by (simp add: no_chats_def)
    then show ?thesis using assms(2) MinuteTick Some t by (auto simp: app_event_def no_chats_def)
  qed
qed

text \<open>The briefing reaches nobody: main.go configures no chats for it and the application starts its
  scheduler with none, so whatever election callbacks and ticks follow, in whatever order and for
  whatever schedule, no message is sent.\<close>

theorem briefings_are_sent_to_nobody:
  "snd (app_events L zone order r evs (e, main_background T c w0, w)) = []"
proof -
  have "no_chats b \<Longrightarrow> snd (app_events L zone order r evs (e, b, w)) = []" for b :: "('a, 'b http_world) background"
  proof (induction evs arbitrary: e b w)
    case (Cons ev evs)
    obtain e1 b1 w1 out where s: "app_event L zone order r ev (e, b, w) = ((e1, b1, w1), out)"
      by (cases "app_event L zone order r ev (e, b, w)") auto
    from app_event_no_chats [OF Cons.prems s] Cons.IH [of b1 e1 w1] s show ?case
      by (simp add: Let_def case_prod_beta)
  qed simp
  moreover have "no_chats (main_background T c w0)"
    by (simp add: no_chats_def main_background_def new_brief_module_def main_briefing_config_def)
  ultimately show ?thesis .
qed

section \<open>Registration\<close>















section \<open>Shutdown\<close>












section \<open>The cluster a user works on\<close>

definition press_clusters ::
  "(core_env \<times> user option \<times> string) list \<Rightarrow> 'w program \<Rightarrow> 'w program" where
  "press_clusters ps P = fold (\<lambda>(env, usr, c) P. fst (press_cluster env usr c P)) ps P"

lemma press_cluster_kube: "pg_kube (fst (press_cluster env usr c P)) = pg_kube P"
  by (simp add: press_cluster_def split: prod.split)

lemma press_clusters_kube: "pg_kube (press_clusters ps P) = pg_kube P"
  by (induction ps arbitrary: P) (simp_all add: press_clusters_def press_cluster_kube case_prod_beta)

text \<open>C30: Choosing a cluster has no effect on the Kubernetes commands: after a user picks a registered
  cluster, /clusters shows it as the current one, but /pods lists the namespaces of the default
  cluster exactly as if no cluster had ever been picked, because main.go and the bot keep two
  separate selections.\<close>

theorem picked_cluster_never_reaches_kubernetes:
  assumes "get_cluster (kw_manager w) c = Inr info" "c \<noteq> []"
  shows "let P = fst (press_cluster env (Some u) c (press_clusters ps (new_program w)))
     in user_cluster (kw_manager (pg_kube P)) (pg_selected P) (u_telegram_id u) = c \<and>
        selected_cluster (pg_kube P) u =
          (case get_default (kw_manager w) of Inl e \<Rightarrow> [] | Inr i \<Rightarrow> ci_name i) \<and>
        snd (program_pods M t1 t2 (Some u) P) = snd (program_pods M t1 t2 (Some u) (new_program w))"
proof -
  define P0 where "P0 = press_clusters ps (new_program w)"
  define P where "P = fst (press_cluster env (Some u) c P0)"
  have k0: "pg_kube P0 = w\<lparr>kw_selected := Map.empty\<rparr>"
    by (simp add: P0_def press_clusters_kube) (simp add: new_program_def)
  then have k: "pg_kube P = w\<lparr>kw_selected := Map.empty\<rparr>" by (simp add: P_def press_cluster_kube)
  have "pg_selected P (u_telegram_id u) = Some c"
    using assms by (simp add: P_def k0 press_cluster_def cluster_select_def set_cluster_def Let_def)
  then have "user_cluster (kw_manager (pg_kube P)) (pg_selected P) (u_telegram_id u) = c"
    by (simp add: user_cluster_def)
  moreover have "snd (program_pods M t1 t2 (Some u) P) = snd (program_pods M t1 t2 (Some u) (new_program w))"
    by (simp add: program_pods_def k case_prod_beta) (simp add: new_program_def)
  moreover have "selected_cluster (pg_kube P) u =
      (case get_default (kw_manager w) of Inl e \<Rightarrow> [] | Inr i \<Rightarrow> ci_name i)"
    by (simp add: k selected_cluster_def user_cluster_def)
  ultimately show ?thesis unfolding Let_def P0_def [symmetric] P_def [symmetric] by blast
qed

definition two_clusters :: "string list k8s_world" where
  "two_clusters = \<lparr>kw_db = new_store, kw_manager = new_cluster_manager [demo_cluster ''prod'', demo_cluster ''dev''],
     kw_selected = Map.empty, kw_store = Map.empty, kw_ns_cache = Map.empty, kw_remote = [], kw_audit = []\<rparr>"

definition demo_core_env :: core_env where
  "demo_core_env = \<lparr>ev_engine = new_engine 0 [] [1], ev_db = new_store, ev_order = [''prod'', ''dev'']\<rparr>"

definition demo_presser :: user where
  "demo_presser = \<lparr>u_telegram_id = 1, u_username = ''u'', u_display_name = ''U'', u_role = ''admin'',
     u_is_active = True, u_created_at = 0, u_updated_at = 0\<rparr>"

theorem picked_cluster_never_reaches_kubernetes_witness:
  "selected_cluster (pg_kube (fst (press_cluster demo_core_env (Some demo_presser) ''dev'' (new_program two_clusters))))
     demo_presser = ''prod''"
proof -
  have dev: "get_cluster (kw_manager two_clusters) ''dev'' =
      Inr (cn_info (entry_of_config (demo_cluster ''dev'')))"
    by (simp add: two_clusters_def get_cluster_def new_cluster_manager_def Let_def demo_cluster_def
        entry_of_config_def mark_default_def)
  have def: "get_default (kw_manager two_clusters) =
      Inr (cn_info (mark_default (entry_of_config (demo_cluster ''prod'') :: string list kube_api cluster_entry)))"
    by (simp add: two_clusters_def get_default_def get_cluster_def new_cluster_manager_def Let_def demo_cluster_def
        entry_of_config_def mark_default_def)
  have "selected_cluster (pg_kube (fst (press_cluster demo_core_env (Some demo_presser) ''dev''
      (press_clusters [] (new_program two_clusters))))) demo_presser = ''prod''"
    using picked_cluster_never_reaches_kubernetes [OF dev, of demo_core_env demo_presser "[]"]
    unfolding Let_def def by (simp add: demo_cluster_def)
  then show ?thesis by (simp add: press_clusters_def)
qed

end
