(* ===== verification/Postgres.thy ===== *)
theory Postgres
  imports RbacSpec ApprovalStore FreezeStore Middleware AuditLog Notify
begin

text \<open>
  The PostgreSQL store (\<open>internal/storage/postgres\<close>), the second back end behind the storage
  interfaces, over the same tables as SQLite's: user\_repo.go, rbac\_repo.go (roles, bindings and
  approvals), freeze\_repo.go, audit\_repo.go, notification\_pref\_repo.go. A TIMESTAMPTZ column holds
  microseconds (\<open>pg_time\<close>), an INT column 32 bits, foreign keys are always enforced, and a BOOLEAN
  is kept as 0 or 1 in the column SQLite has for it. Where a query has no ORDER BY the rows come in
  insertion order, which SQL leaves open. \<open>NOW()\<close> and \<open>time.Now()\<close> are the argument \<open>now\<close>.
\<close>

section \<open>Column types\<close>

definition pg_time :: "instant \<Rightarrow> instant" where
  "pg_time t = t div 1000 * 1000"

definition int4_ok :: "int \<Rightarrow> bool" where
  "int4_ok n \<longleftrightarrow> - (2 ^ 31) \<le> n \<and> n < 2 ^ 31"

definition pg_duplicate :: "string \<Rightarrow> go_error" where
  "pg_duplicate constraint =
     DriverErr (''ERROR: duplicate key value violates unique constraint '' @ constraint)"

section \<open>Users (user\_repo.go)\<close>

definition pg_user_get :: "db \<Rightarrow> user_id \<Rightarrow> user result" where
  "pg_user_get s tid =
     (case db_fault s of
        Some e \<Rightarrow> Inl (ErrWrap (''get user '' @ show_int tid) (DriverErr e))
      | None \<Rightarrow>
         (case find (\<lambda>u. u_telegram_id u = tid) (db_users s) of
            None \<Rightarrow> Inl ErrNotFound
          | Some u \<Rightarrow> Inr u))"

definition pg_user_upsert :: "instant \<Rightarrow> db \<Rightarrow> user \<Rightarrow> db \<times> unit result" where
  "pg_user_upsert now s u =
     (case db_fault s of
        Some e \<Rightarrow> (s, Inl (ErrWrap ''upsert user'' (DriverErr e)))
      | None \<Rightarrow>
         (if list_ex (\<lambda>v. u_telegram_id v = u_telegram_id u) (db_users s)
          then (s\<lparr>db_users :=
                  map (\<lambda>v. if u_telegram_id v = u_telegram_id u
                           then v\<lparr>u_username := u_username u,
                                  u_display_name := u_display_name u,
                                  u_updated_at := pg_time now\<rparr>
                           else v) (db_users s)\<rparr>, Inr ())
          else (s\<lparr>db_users := db_users s @
                    [u\<lparr>u_created_at := pg_time now, u_updated_at := pg_time now\<rparr>]\<rparr>,
                Inr ())))"

text \<open>Newest first, where SQLite's list is oldest first.\<close>

definition pg_user_list :: "db \<Rightarrow> user list result" where
  "pg_user_list s =
     (case db_fault s of
        Some e \<Rightarrow> Inl (ErrWrap ''list users'' (DriverErr e))
      | None \<Rightarrow> Inr (sort_key (\<lambda>u. - u_created_at u) (db_users s)))"

definition postgres_users :: "db user_repository" where
  "postgres_users = \<lparr>us_get = pg_user_get, us_upsert = pg_user_upsert, us_list = pg_user_list\<rparr>"

section \<open>Roles and bindings (rbac\_repo.go)\<close>

definition pg_get_user_role :: "db \<Rightarrow> user_id \<Rightarrow> string result" where
  "pg_get_user_role s tid =
     (case db_fault s of
        Some e \<Rightarrow> Inl (ErrWrap ''get user role'' (DriverErr e))
      | None \<Rightarrow>
         (case find (\<lambda>u. u_telegram_id u = tid) (db_users s) of
            None \<Rightarrow> Inl ErrNotFound
          | Some u \<Rightarrow> Inr (u_role u)))"

text \<open>The number of rows changed is not looked at: an unknown user is no error.\<close>

definition pg_set_user_role :: "instant \<Rightarrow> db \<Rightarrow> user_id \<Rightarrow> string \<Rightarrow> db \<times> unit result" where
  "pg_set_user_role now s tid r =
     (case db_fault s of
        Some e \<Rightarrow> (s, Inl (ErrWrap ''set user role'' (DriverErr e)))
      | None \<Rightarrow>
         (s\<lparr>db_users :=
              map (\<lambda>u. if u_telegram_id u = tid
                       then u\<lparr>u_role := r, u_updated_at := pg_time now\<rparr> else u) (db_users s)\<rparr>,
          Inr ()))"

definition pg_create_role :: "db \<Rightarrow> role \<Rightarrow> db \<times> unit result" where
  "pg_create_role s r =
     (let row = \<lparr>rr_name = r_name r, rr_display_name = r_display_name r,
                 rr_description = r_description r, rr_rules = Some (r_rules r),
                 rr_is_builtin = bool_to_int (r_is_builtin r),
                 rr_created_at = pg_time (r_created_at r)\<rparr>
      in exec_sql s
          (if list_ex (\<lambda>x. rr_name x = r_name r) (db_roles s)
           then s\<lparr>db_roles :=
                  map (\<lambda>x. if rr_name x = r_name r
                           then x\<lparr>rr_display_name := rr_display_name row,
                                  rr_description := rr_description row,
                                  rr_rules := rr_rules row\<rparr>
                           else x) (db_roles s)\<rparr>
           else s\<lparr>db_roles := db_roles s @ [row]\<rparr>) ())"

definition pg_get_role :: "db \<Rightarrow> string \<Rightarrow> role result" where
  "pg_get_role s name =
     (case db_fault s of
        Some e \<Rightarrow> Inl (ErrWrap ''get role'' (DriverErr e))
      | None \<Rightarrow>
         (case find (\<lambda>x. rr_name x = name) (db_roles s) of
            None \<Rightarrow> Inl ErrNotFound
          | Some x \<Rightarrow>
             (case rr_rules x of
                None \<Rightarrow> Inl (ErrWrap ''unmarshal rules'' (DriverErr ''invalid JSON''))
              | Some rules \<Rightarrow> Inr (role_of_row x rules))))"

text \<open>The loop over the rows: the first rules column it cannot parse ends it with an error.\<close>

fun scan_roles :: "role_row list \<Rightarrow> role list result" where
  "scan_roles [] = Inr []"
| "scan_roles (x # xs) =
     (case rr_rules x of
        None \<Rightarrow> Inl (DriverErr ''invalid JSON'')
      | Some rules \<Rightarrow>
         (case scan_roles xs of Inl e \<Rightarrow> Inl e | Inr rs \<Rightarrow> Inr (role_of_row x rules # rs)))"

text \<open>\<open>ORDER BY name\<close> follows the collation of the database, a key for each name.\<close>

definition pg_list_roles :: "(string \<Rightarrow> string) \<Rightarrow> db \<Rightarrow> role list result" where
  "pg_list_roles collate s =
     (case db_fault s of
        Some e \<Rightarrow> Inl (ErrWrap ''list roles'' (DriverErr e))
      | None \<Rightarrow> scan_roles (sort_key (\<lambda>x. collate (rr_name x)) (db_roles s)))"

definition pg_delete_role :: "db \<Rightarrow> string \<Rightarrow> db \<times> unit result" where
  "pg_delete_role s name =
     exec_sql s
       (s\<lparr>db_roles := filter (\<lambda>x. rr_name x \<noteq> name) (db_roles s),
          db_bindings := filter (\<lambda>b. b_role_name b \<noteq> name) (db_bindings s)\<rparr>) ()"

definition pg_create_role_binding :: "string \<Rightarrow> db \<Rightarrow> user_role_binding \<Rightarrow> db \<times> unit result" where
  "pg_create_role_binding new_id s b0 =
     (let b = (if b_id b0 = '''' then b0\<lparr>b_id := new_id\<rparr> else b0);
          row = b\<lparr>b_expires_at := map_option pg_time (b_expires_at b)\<rparr>
      in case db_fault s of
           Some e \<Rightarrow> (s, Inl (DriverErr e))
         | None \<Rightarrow>
            if list_ex (\<lambda>x. b_id x = b_id row) (db_bindings s)
            then (s, Inl (pg_duplicate ''user_role_bindings_pkey''))
            else if \<not> list_ex (\<lambda>x. rr_name x = b_role_name row) (db_roles s)
            then (s, Inl (DriverErr ''ERROR: insert or update on table user_role_bindings violates foreign key constraint''))
            else (s\<lparr>db_bindings := db_bindings s @ [row]\<rparr>, Inr ()))"

definition pg_get_user_role_bindings :: "db \<Rightarrow> user_id \<Rightarrow> user_role_binding list result" where
  "pg_get_user_role_bindings s uid =
     query s (filter (\<lambda>b. b_user_id b = uid) (db_bindings s))"

definition pg_delete_role_binding :: "db \<Rightarrow> user_id \<Rightarrow> string \<Rightarrow> db \<times> unit result" where
  "pg_delete_role_binding s uid rn =
     exec_sql s
       (s\<lparr>db_bindings := filter (\<lambda>b. \<not> (b_user_id b = uid \<and> b_role_name b = rn)) (db_bindings s)\<rparr>) ()"

definition pg_list_all_bindings :: "db \<Rightarrow> user_role_binding list result" where
  "pg_list_all_bindings s = query s (sort_key b_user_id (db_bindings s))"

definition postgres_rbac :: "(string \<Rightarrow> string) \<Rightarrow> db rbac_repository" where
  "postgres_rbac collate =
     \<lparr>rp_get_user_role = pg_get_user_role, rp_set_user_role = pg_set_user_role,
      rp_create_role = pg_create_role, rp_get_role = pg_get_role,
      rp_list_roles = pg_list_roles collate, rp_delete_role = pg_delete_role,
      rp_create_role_binding = pg_create_role_binding,
      rp_get_user_role_bindings = pg_get_user_role_bindings,
      rp_delete_role_binding = pg_delete_role_binding,
      rp_list_all_bindings = pg_list_all_bindings\<rparr>"

section \<open>Approval requests (rbac\_repo.go)\<close>

definition pg_approval_stored :: "approval_request \<Rightarrow> approval_request" where
  "pg_approval_stored r =
     r\<lparr>ar_created_at := pg_time (ar_created_at r), ar_expires_at := pg_time (ar_expires_at r),
       ar_resolved_at := None, ar_resolved_by := None\<rparr>"

definition pg_approval_create :: "db \<Rightarrow> approval_request \<Rightarrow> db \<times> unit result" where
  "pg_approval_create s r =
     (case db_fault s of
        Some e \<Rightarrow> (s, Inl (DriverErr e))
      | None \<Rightarrow>
         if \<not> int4_ok (ar_required_approvals r) \<or> \<not> int4_ok (ar_message_id r)
         then (s, Inl (DriverErr ''unable to encode into int4''))
         else if list_ex (\<lambda>x. ar_id x = ar_id r) (db_approvals s)
         then (s, Inl (pg_duplicate ''approval_requests_pkey''))
         else (s\<lparr>db_approvals := db_approvals s @ [pg_approval_stored r]\<rparr>, Inr ()))"

definition pg_approval_get_by_id :: "db \<Rightarrow> string \<Rightarrow> approval_request result" where
  "pg_approval_get_by_id s i =
     (case db_fault s of
        Some e \<Rightarrow> Inl (DriverErr e)
      | None \<Rightarrow>
         (case find (\<lambda>r. ar_id r = i) (db_approvals s) of
            None \<Rightarrow> Inl ErrNotFound
          | Some r \<Rightarrow> Inr r))"

definition pg_approval_updated :: "approval_request \<Rightarrow> approval_request \<Rightarrow> approval_request" where
  "pg_approval_updated r old =
     old\<lparr>ar_status := ar_status r, ar_approvers := ar_approvers r,
         ar_resolved_at := map_option pg_time (ar_resolved_at r),
         ar_resolved_by := ar_resolved_by r, ar_message_id := ar_message_id r\<rparr>"

definition pg_approval_update :: "db \<Rightarrow> approval_request \<Rightarrow> db \<times> unit result" where
  "pg_approval_update s r =
     (case db_fault s of
        Some e \<Rightarrow> (s, Inl (DriverErr e))
      | None \<Rightarrow>
         if \<not> int4_ok (ar_message_id r) then (s, Inl (DriverErr ''unable to encode into int4''))
         else (s\<lparr>db_approvals := map (\<lambda>x. if ar_id x = ar_id r then pg_approval_updated r x else x)
                             (db_approvals s)\<rparr>, Inr ()))"

definition pg_approval_list_pending :: "db \<Rightarrow> approval_request list result" where
  "pg_approval_list_pending s =
     query s (sort_key ar_created_at
       (filter (\<lambda>r. ar_status r = ApprovalPending) (db_approvals s)))"

definition pg_approval_list_by_requester :: "db \<Rightarrow> user_id \<Rightarrow> approval_request list result" where
  "pg_approval_list_by_requester s u =
     query s (sort_key (\<lambda>r. - ar_created_at r)
       (filter (\<lambda>r. ar_requester_id r = u) (db_approvals s)))"

text \<open>\<open>expires_at < NOW()\<close> compares instants.\<close>

definition pg_approval_due :: "instant \<Rightarrow> approval_request \<Rightarrow> bool" where
  "pg_approval_due now r \<longleftrightarrow>
     ar_status r = ApprovalPending \<and> ar_expires_at r < pg_time now"

definition pg_approval_expire_old :: "instant \<Rightarrow> db \<Rightarrow> db \<times> int result" where
  "pg_approval_expire_old now s =
     exec_sql s
       (s\<lparr>db_approvals :=
           map (\<lambda>r. if pg_approval_due now r
                    then r\<lparr>ar_status := ApprovalExpired, ar_resolved_at := Some (pg_time now)\<rparr>
                    else r) (db_approvals s)\<rparr>)
       (int (length (filter (pg_approval_due now) (db_approvals s))))"

definition postgres_approval :: "db approval_repository" where
  "postgres_approval =
     \<lparr>ap_create = pg_approval_create, ap_get_by_id = pg_approval_get_by_id,
      ap_update = pg_approval_update, ap_list_pending = pg_approval_list_pending,
      ap_list_by_requester = pg_approval_list_by_requester,
      ap_expire_old = pg_approval_expire_old\<rparr>"

text \<open>The repository without a database, which nothing in the program uses.\<close>

definition noop_approval :: "'s approval_repository" where
  "noop_approval =
     \<lparr>ap_create = (\<lambda>s r. (s, Inr ())), ap_get_by_id = (\<lambda>s i. Inl ErrNotFound),
      ap_update = (\<lambda>s r. (s, Inr ())), ap_list_pending = (\<lambda>s. Inr []),
      ap_list_by_requester = (\<lambda>s u. Inr []), ap_expire_old = (\<lambda>now s. (s, Inr 0))\<rparr>"

section \<open>Freezes (freeze\_repo.go)\<close>

definition pg_freeze_stored :: "deployment_freeze \<Rightarrow> deployment_freeze" where
  "pg_freeze_stored f =
     f\<lparr>f_created_at := pg_time (f_created_at f), f_expires_at := pg_time (f_expires_at f),
       f_thawed_at := None, f_thawed_by := None\<rparr>"

definition pg_freeze_create :: "db \<Rightarrow> deployment_freeze \<Rightarrow> db \<times> unit result" where
  "pg_freeze_create s f =
     (case db_fault s of
        Some e \<Rightarrow> (s, Inl (ErrWrap ''inserting deployment freeze'' (DriverErr e)))
      | None \<Rightarrow>
         if list_ex (\<lambda>x. f_id x = f_id f) (db_freezes s)
         then (s, Inl (ErrWrap ''inserting deployment freeze'' (pg_duplicate ''deployment_freezes_pkey'')))
         else (s\<lparr>db_freezes := db_freezes s @ [pg_freeze_stored f]\<rparr>, Inr ()))"

definition pg_freeze_get_active :: "instant \<Rightarrow> db \<Rightarrow> deployment_freeze option result" where
  "pg_freeze_get_active now s =
     (case db_fault s of
        Some e \<Rightarrow> Inl (ErrWrap ''scanning deployment freeze'' (DriverErr e))
      | None \<Rightarrow> Inr (first_row (newest_first
          (filter (\<lambda>f. f_thawed_at f = None \<and> pg_time now < f_expires_at f) (db_freezes s)))))"

definition pg_freeze_get_active_for_cluster ::
  "instant \<Rightarrow> db \<Rightarrow> string \<Rightarrow> deployment_freeze option result" where
  "pg_freeze_get_active_for_cluster now s cluster =
     (case db_fault s of
        Some e \<Rightarrow> Inl (ErrWrap ''scanning deployment freeze'' (DriverErr e))
      | None \<Rightarrow> Inr (first_row (newest_first
          (filter (\<lambda>f. f_thawed_at f = None \<and> pg_time now < f_expires_at f \<and>
                       (f_scope f = ''all'' \<or> f_scope f = cluster)) (db_freezes s)))))"

definition pg_freeze_thaw :: "instant \<Rightarrow> db \<Rightarrow> string \<Rightarrow> user_id \<Rightarrow> db \<times> unit result" where
  "pg_freeze_thaw now s i uid =
     (case db_fault s of
        Some e \<Rightarrow> (s, Inl (ErrWrap (''thawing freeze '' @ i) (DriverErr e)))
      | None \<Rightarrow>
         (let s' = s\<lparr>db_freezes :=
                map (\<lambda>f. if f_id f = i
                         then f\<lparr>f_thawed_at := Some (pg_time now), f_thawed_by := Some uid\<rparr>
                         else f) (db_freezes s)\<rparr>;
              n = length (filter (\<lambda>f. f_id f = i) (db_freezes s))
          in if n = 0 then (s', Inl (ErrText (''freeze '' @ i @ '' not found''))) else (s', Inr ())))"

definition pg_freeze_list :: "db \<Rightarrow> int \<Rightarrow> deployment_freeze list result" where
  "pg_freeze_list s limit =
     (case db_fault s of
        Some e \<Rightarrow> Inl (ErrWrap ''listing deployment freezes'' (DriverErr e))
      | None \<Rightarrow> Inr (take (nat (if limit \<le> 0 then 20 else limit)) (newest_first (db_freezes s))))"

definition postgres_freeze :: "db freeze_repository" where
  "postgres_freeze =
     \<lparr>fz_create = pg_freeze_create, fz_get_active = pg_freeze_get_active,
      fz_get_active_for_cluster = pg_freeze_get_active_for_cluster,
      fz_thaw = pg_freeze_thaw, fz_list = pg_freeze_list\<rparr>"

section \<open>Audit (audit\_repo.go)\<close>

definition pg_audit_create :: "db \<Rightarrow> audit_entry \<Rightarrow> db \<times> unit result" where
  "pg_audit_create s e =
     (case db_fault s of
        Some err \<Rightarrow> (s, Inl (ErrWrap ''create audit entry'' (DriverErr err)))
      | None \<Rightarrow>
         if list_ex (\<lambda>x. ae_id x = ae_id e) (db_audit s)
         then (s, Inl (ErrWrap ''create audit entry'' (pg_duplicate ''audit_log_pkey'')))
         else (s\<lparr>db_audit := db_audit s @ [e\<lparr>ae_occurred_at := pg_time (ae_occurred_at e)\<rparr>]\<rparr>, Inr ()))"

text \<open>
  SQL's LIKE: a percent sign stands for any text, an underscore for any character, a backslash
  takes the next character of the pattern as it is.
\<close>

fun like_match :: "string \<Rightarrow> string \<Rightarrow> bool" where
  "like_match [] [] = True"
| "like_match [] (y # ys) = False"
| "like_match (p # ps) [] = (p = CHR ''%'' \<and> like_match ps [])"
| "like_match (p # ps) (y # ys) =
     (if p = CHR ''%'' then like_match ps (y # ys) \<or> like_match (p # ps) ys
      else if p = CHR 0x5C then (case ps of [] \<Rightarrow> False | q # qs \<Rightarrow> q = y \<and> like_match qs ys)
      else (p = CHR ''_'' \<or> p = y) \<and> like_match ps ys)"

definition pg_audit_matches :: "audit_filter \<Rightarrow> audit_entry \<Rightarrow> bool" where
  "pg_audit_matches f e \<longleftrightarrow>
     opt_is (af_user_id f) (ae_user_id e) \<and>
     (case af_action f of None \<Rightarrow> True | Some a \<Rightarrow> like_match (a @ ''%'') (ae_action e)) \<and>
     opt_is (af_cluster f) (ae_cluster e) \<and> opt_is (af_namespace f) (ae_namespace e) \<and>
     opt_is (af_status f) (ae_status e) \<and>
     (case af_from f of None \<Rightarrow> True | Some t \<Rightarrow> pg_time t \<le> ae_occurred_at e) \<and>
     (case af_to f of None \<Rightarrow> True | Some t \<Rightarrow> ae_occurred_at e \<le> pg_time t)"

definition pg_audit_selected :: "db \<Rightarrow> audit_filter \<Rightarrow> audit_entry list" where
  "pg_audit_selected s f =
     sort_key (\<lambda>e. - ae_occurred_at e) (filter (pg_audit_matches f) (db_audit s))"

definition pg_audit_list :: "db \<Rightarrow> audit_filter \<Rightarrow> (audit_entry list \<times> nat) result" where
  "pg_audit_list s f =
     (case db_fault s of
        Some err \<Rightarrow> Inl (ErrWrap ''count audit entries'' (DriverErr err))
      | None \<Rightarrow>
         (let size = effective_page_size (af_page_size f);
              offset = (effective_page (af_page f) - 1) * size
          in Inr (take (nat size) (drop (nat offset) (pg_audit_selected s f)),
                  length (filter (pg_audit_matches f) (db_audit s)))))"

section \<open>Notification preferences (notification\_pref\_repo.go)\<close>

definition pg_pref_get :: "db \<Rightarrow> user_id \<Rightarrow> notification_preference result" where
  "pg_pref_get s uid =
     (case db_fault s of
        Some e \<Rightarrow> Inl (DriverErr e)
      | None \<Rightarrow>
         (case find (\<lambda>p. np_user_id p = uid) (db_prefs s) of None \<Rightarrow> Inl ErrNotFound | Some p \<Rightarrow> Inr p))"

definition pg_pref_upsert :: "db \<Rightarrow> notification_preference \<Rightarrow> db \<times> unit result" where
  "pg_pref_upsert s p =
     exec_sql s
       (if list_ex (\<lambda>q. np_user_id q = np_user_id p) (db_prefs s)
        then s\<lparr>db_prefs := map (\<lambda>q. if np_user_id q = np_user_id p
                 then q\<lparr>np_min_severity := np_min_severity p, np_muted_alerts := np_muted_alerts p,
                        np_muted_clusters := np_muted_clusters p,
                        np_quiet_hours_start := np_quiet_hours_start p,
                        np_quiet_hours_end := np_quiet_hours_end p,
                        np_timezone := np_timezone p\<rparr>
                 else q) (db_prefs s)\<rparr>
        else s\<lparr>db_prefs := db_prefs s @ [p]\<rparr>) ()"

definition pg_pref_delete :: "db \<Rightarrow> user_id \<Rightarrow> db \<times> unit result" where
  "pg_pref_delete s uid = exec_sql s (s\<lparr>db_prefs := filter (\<lambda>p. np_user_id p \<noteq> uid) (db_prefs s)\<rparr>) ()"

definition postgres_prefs :: "db pref_repository" where
  "postgres_prefs = \<lparr>pf_get = pg_pref_get, pf_upsert = pg_pref_upsert, pf_delete = pg_pref_delete\<rparr>"

end
