(* ===== verification/PostgresProps.thy ===== *)
theory PostgresProps
  imports Postgres RbacProps ApprovalProps NotifyProps MiddlewareProps
begin

text \<open>
  What the two back ends have in common: the PostgreSQL model interprets the locales of the
  storage interfaces, so the engine's and the approval manager's guarantees hold on it, and both
  make the same tables out of the same calls at whole seconds. And where they differ: the change
  of an unknown user's role, and the audit filter on actions.
\<close>

declare map_key_if [simp del]

section \<open>Rounding to a microsecond and to a second\<close>

lemma grid_less: "0 < (n::int) \<Longrightarrow> t div n < k \<longleftrightarrow> t < k * n"
proof -
  assume n: "0 < n"
  have "t div n * n \<le> t" using n by (metis div_mult_mod_eq add_increasing2 order_refl pos_mod_sign)
  moreover have "k * n \<le> t \<Longrightarrow> k \<le> t div n" using zdiv_mono1 [of "k * n" t n] n by simp
  moreover have "k \<le> t div n \<Longrightarrow> k * n \<le> t div n * n" using n by (simp add: mult_right_mono)
  ultimately show ?thesis by linarith
qed

lemma grid_multiple: "t mod n = 0 \<Longrightarrow> t div n * n = (t::int)"
  using div_mult_mod_eq [of t n] by simp

lemma pg_time_le: "pg_time t \<le> t"
  using div_mult_mod_eq [of t 1000] pos_mod_sign [of 1000 t] unfolding pg_time_def by linarith

lemma pg_time_idem [simp]: "pg_time (pg_time t) = pg_time t"
  by (simp add: pg_time_def)

text \<open>An instant on the grid is compared alike with a reading and with the reading rounded.\<close>

lemma pg_time_less:
  assumes "pg_time e = e"
  shows "pg_time t < e \<longleftrightarrow> t < e"
proof -
  have e: "e = e div 1000 * 1000" using assms by (simp add: pg_time_def)
  have "pg_time t < e \<longleftrightarrow> t div 1000 < e div 1000" by (subst e) (simp add: pg_time_def)
  also have "\<dots> \<longleftrightarrow> t < e" using grid_less [of 1000 t "e div 1000"] e by simp
  finally show ?thesis .
qed

definition whole :: "instant \<Rightarrow> bool" where
  "whole t \<longleftrightarrow> t mod second = 0"

lemma whole_times:
  assumes "whole t"
  shows "column_time t = t" and "pg_time t = t"
proof -
  have t: "t div second * second = t" using assms unfolding whole_def by (rule grid_multiple)
  then show "column_time t = t" by (simp add: column_time_def rfc3339_def parse_rfc3339_def)
  have "t mod 1000 = t div second * 1000000 * 1000 mod 1000"
    by (subst t [symmetric]) (simp add: second_def)
  then have "t mod 1000 = 0" by simp
  then show "pg_time t = t" unfolding pg_time_def by (rule grid_multiple)
qed


lemma whole_less:
  assumes "whole t"
  shows "rfc3339 e < rfc3339 t \<longleftrightarrow> e < t"
proof -
  have "t div second * second = t" using assms unfolding whole_def by (rule grid_multiple)
  then show ?thesis using grid_less [of second e "t div second"] by (simp add: rfc3339_def)
qed

section \<open>Operations the two back ends share\<close>

lemma pg_user_get_eq: "db_fault s = None \<Longrightarrow> pg_user_get s t = user_get s t"
  by (simp add: pg_user_get_def user_get_some)

lemma pg_user_get_ok: "pg_user_get s t = Inr u \<Longrightarrow> db_fault s = None"
  by (auto simp: pg_user_get_def split: option.splits)

lemma pg_user_upsert_ok:
  "pg_user_upsert now s u = (s', Inr ()) \<longleftrightarrow> user_upsert (pg_time now) s u = (s', Inr ())"
  by (simp add: pg_user_upsert_def user_upsert_def split: option.split)

lemma user_upsert_fault: "user_upsert now s u = (s', Inr ()) \<Longrightarrow> db_fault s = None \<and> db_fault s' = None"
  by (auto simp: user_upsert_def split: option.splits if_splits)

lemma pg_get_user_role_eq: "pg_get_user_role s t =
    (case get_user_role s t of Inl e \<Rightarrow> Inl (if e = ErrNotFound then e else ErrWrap ''get user role'' (DriverErr (the (db_fault s))))
     | Inr r \<Rightarrow> Inr r)"
  by (auto simp: pg_get_user_role_def get_user_role_def split: option.split)

lemma pg_rbac_eqs [simp]:
  "pg_get_role = get_role"
  "pg_get_user_role_bindings = get_user_role_bindings"
  "pg_delete_role_binding = delete_role_binding"
  "pg_list_all_bindings = list_all_bindings"
  by (intro ext, simp add: pg_get_role_def get_role_def pg_get_user_role_bindings_def
      get_user_role_bindings_def pg_delete_role_binding_def delete_role_binding_def
      pg_list_all_bindings_def list_all_bindings_def)+

lemma postgres_rbac_ops [simp]:
  "rp_get_user_role (postgres_rbac c) = pg_get_user_role"
  "rp_set_user_role (postgres_rbac c) = pg_set_user_role"
  "rp_create_role (postgres_rbac c) = pg_create_role"
  "rp_get_role (postgres_rbac c) = get_role"
  "rp_list_roles (postgres_rbac c) = pg_list_roles c"
  "rp_delete_role (postgres_rbac c) = pg_delete_role"
  "rp_create_role_binding (postgres_rbac c) = pg_create_role_binding"
  "rp_get_user_role_bindings (postgres_rbac c) = get_user_role_bindings"
  "rp_delete_role_binding (postgres_rbac c) = delete_role_binding"
  "rp_list_all_bindings (postgres_rbac c) = list_all_bindings"
  by (simp_all add: postgres_rbac_def)

lemma pg_approval_eqs [simp]:
  "pg_approval_get_by_id = approval_get_by_id"
  "pg_approval_list_pending = approval_list_pending"
  "pg_approval_list_by_requester = approval_list_by_requester"
  by (intro ext, simp add: pg_approval_get_by_id_def approval_get_by_id_def
      pg_approval_list_pending_def approval_list_pending_def
      pg_approval_list_by_requester_def approval_list_by_requester_def)+

lemma postgres_approval_ops [simp]:
  "ap_create postgres_approval = pg_approval_create"
  "ap_get_by_id postgres_approval = approval_get_by_id"
  "ap_update postgres_approval = pg_approval_update"
  "ap_list_pending postgres_approval = approval_list_pending"
  "ap_list_by_requester postgres_approval = approval_list_by_requester"
  "ap_expire_old postgres_approval = pg_approval_expire_old"
  by (simp_all add: postgres_approval_def)

lemma pg_pref_upsert_eq: "pg_pref_upsert = pref_upsert"
proof (intro ext)
  fix s and p :: notification_preference
  have "(if np_user_id q = np_user_id p
         then q\<lparr>np_min_severity := np_min_severity p, np_muted_alerts := np_muted_alerts p,
                np_muted_clusters := np_muted_clusters p,
                np_quiet_hours_start := np_quiet_hours_start p,
                np_quiet_hours_end := np_quiet_hours_end p, np_timezone := np_timezone p\<rparr> else q) =
        (if np_user_id q = np_user_id p then p else q)" for q
    by simp
  then show "pg_pref_upsert s p = pref_upsert s p"
    by (simp only: pg_pref_upsert_def pref_upsert_def)
qed

lemma pg_pref_eqs [simp]:
  "pg_pref_get = pref_get" "pg_pref_upsert = pref_upsert" "pg_pref_delete = pref_delete"
  by (auto simp: fun_eq_iff pg_pref_upsert_eq pg_pref_get_def pref_get_def pg_pref_delete_def pref_delete_def)

lemma postgres_prefs_eq: "postgres_prefs = sqlite_prefs"
  by (simp add: postgres_prefs_def sqlite_prefs_def)

section \<open>The interfaces are kept\<close>

interpretation pgu: user_repo postgres_users pg_time
proof
  fix s t u assume "us_get postgres_users s t = Inr u"
  then show "u_telegram_id u = t"
    by (auto simp: postgres_users_def pg_user_get_def split: option.splits dest!: find_SomeD)
next
  fix now s u s' t assume "us_upsert postgres_users now s u = (s', Inr ())"
  then have up: "user_upsert (pg_time now) s u = (s', Inr ())"
    by (simp add: postgres_users_def pg_user_upsert_ok)
  note nf = user_upsert_fault [OF up]
  show "us_get postgres_users s' t =
      (if t = u_telegram_id u then Inr (upserted (pg_time now) (us_get postgres_users s t) u)
       else us_get postgres_users s t)"
    using sqlite_upsert_get [OF up, of t] nf by (simp add: postgres_users_def pg_user_get_eq)
next
  fix now s u s' e assume "us_upsert postgres_users now s u = (s', Inl e)"
  then show "s' = s" by (auto simp: postgres_users_def pg_user_upsert_def split: option.splits if_splits)
qed

lemma pg_set_role_ok:
  "pg_set_user_role now s u r = (s', Inr ()) \<longleftrightarrow> db_fault s = None \<and>
     s' = s\<lparr>db_users := map (\<lambda>x. if u_telegram_id x = u
               then x\<lparr>u_role := r, u_updated_at := pg_time now\<rparr> else x) (db_users s)\<rparr>"
  by (auto simp: pg_set_user_role_def split: option.split)

lemma pg_set_role_frame:
  assumes "pg_set_user_role now s u r = (s', Inr ())"
  shows "pg_get_user_role s' v = map_sum id (\<lambda>old. if v = u then r else old) (pg_get_user_role s v)"
  using assms by (auto simp: pg_set_role_ok pg_get_user_role_def find_map_update dest: find_SomeD split: option.split)

lemma pg_create_binding_ok:
  assumes "pg_create_role_binding i s b = (s', Inr ())"
  obtains x where "x = (if b_id b = '''' then b\<lparr>b_id := i\<rparr> else b)" "db_fault s = None"
    "s' = s\<lparr>db_bindings := db_bindings s @ [x\<lparr>b_expires_at := map_option pg_time (b_expires_at x)\<rparr>]\<rparr>"
  using assms by (auto simp: pg_create_role_binding_def Let_def split: option.splits if_splits)

interpretation pgr: rbac_store "postgres_rbac collate" rbac_ok pg_time
proof
  fix t show "pg_time t \<le> t" by (rule pg_time_le)
next
  fix s now u r assume "rbac_ok s"
  then show "rbac_ok (fst (rp_set_user_role (postgres_rbac collate) now s u r))"
    by (auto simp: rbac_ok_def pg_set_user_role_def comp_def if_distrib cong: if_cong split: option.splits)
next
  fix s now u r s' r0
  assume "rp_get_user_role (postgres_rbac collate) s u = Inr r0"
    "rp_set_user_role (postgres_rbac collate) now s u r = (s', Inr ())"
  then show "rp_get_user_role (postgres_rbac collate) s' u = Inr r" by (simp add: pg_set_role_frame)
next
  fix s now u r s' v
  assume "rp_set_user_role (postgres_rbac collate) now s u r = (s', Inr ())" "v \<noteq> u"
  then show "rp_get_user_role (postgres_rbac collate) s' v = rp_get_user_role (postgres_rbac collate) s v"
    by (cases "pg_get_user_role s v") (simp_all add: pg_set_role_frame)
next
  fix s i b assume "rbac_ok s"
  then show "rbac_ok (fst (rp_create_role_binding (postgres_rbac collate) i s b))"
    by (auto simp: rbac_ok_def pg_create_role_binding_def Let_def list_ex_iff image_iff
        split: option.splits if_splits)
next
  fix s i b s' u bs
  assume b: "b_id b \<noteq> ''''" "rp_get_user_role_bindings (postgres_rbac collate) s u = Inr bs"
    and "rp_create_role_binding (postgres_rbac collate) i s b = (s', Inr ())"
  then have "pg_create_role_binding i s b = (s', Inr ())" by simp
  then show "rp_get_user_role_bindings (postgres_rbac collate) s' u =
        Inr (bs @ (if b_user_id b = u
                   then [b\<lparr>b_expires_at := map_option pg_time (b_expires_at b)\<rparr>] else []))"
    using b by (auto elim!: pg_create_binding_ok simp: get_user_role_bindings_def query_def split: option.splits)
next
  fix s i b s' n u
  assume "rp_create_role_binding (postgres_rbac collate) i s b = (s', Inr ())"
  then have "pg_create_role_binding i s b = (s', Inr ())" by simp
  then show "rp_get_role (postgres_rbac collate) s' n = rp_get_role (postgres_rbac collate) s n \<and>
      rp_get_user_role (postgres_rbac collate) s' u = rp_get_user_role (postgres_rbac collate) s u"
    by (auto elim!: pg_create_binding_ok simp: get_role_def pg_get_user_role_def)
next
  fix s u n assume "rbac_ok s"
  then show "rbac_ok (fst (rp_delete_role_binding (postgres_rbac collate) s u n))"
    using sq.ok_delete_binding [of s u n] by simp
next
  fix s u n s' v bs
  assume "rbac_ok s" "rp_delete_role_binding (postgres_rbac collate) s u n = (s', Inr ())"
    "rp_get_user_role_bindings (postgres_rbac collate) s v = Inr bs"
  then show "rp_get_user_role_bindings (postgres_rbac collate) s' v =
        Inr (filter (\<lambda>b. \<not> (b_user_id b = u \<and> b_role_name b = n)) bs)"
    using sq.bindings_delete [of s u n s' v bs] by simp
next
  fix s u n s' m v
  assume "rp_delete_role_binding (postgres_rbac collate) s u n = (s', Inr ())"
  then show "rp_get_role (postgres_rbac collate) s' m = rp_get_role (postgres_rbac collate) s m \<and>
      rp_get_user_role (postgres_rbac collate) s' v = rp_get_user_role (postgres_rbac collate) s v"
    by (auto simp: delete_role_binding_def get_role_def pg_get_user_role_def exec_sql_def split: option.splits)
next
  fix s u bs b
  assume "rbac_ok s" "rp_get_user_role_bindings (postgres_rbac collate) s u = Inr bs" "b \<in> set bs"
  then show "b_user_id b = u" using sq.bindings_owner [of s u bs b] by simp
qed




text \<open>The columns hold microseconds, so the expiry of every stored freeze is one.\<close>

definition pg_freezes_up :: "db \<Rightarrow> bool" where
  "pg_freezes_up s \<longleftrightarrow> db_fault s = None \<and> (\<forall>f \<in> set (db_freezes s). pg_time (f_expires_at f) = f_expires_at f)"

lemma pg_freeze_question:
  assumes "pg_freezes_up s"
  shows "pg_freeze_get_active_for_cluster now s c = freeze_get_active_for_cluster now s c"
proof -
  have "filter (\<lambda>f. f_thawed_at f = None \<and> pg_time now < f_expires_at f \<and> (f_scope f = ''all'' \<or> f_scope f = c)) (db_freezes s)
      = filter (\<lambda>f. f_thawed_at f = None \<and> now < f_expires_at f \<and> (f_scope f = ''all'' \<or> f_scope f = c)) (db_freezes s)"
    using assms by (intro filter_cong) (auto simp: pg_freezes_up_def pg_time_less)
  then show ?thesis using assms
    by (simp add: pg_freezes_up_def pg_freeze_get_active_for_cluster_def freeze_get_active_for_cluster_def)
qed

lemma postgres_freeze_ops [simp]:
  "fz_create postgres_freeze = pg_freeze_create"
  "fz_get_active_for_cluster postgres_freeze = pg_freeze_get_active_for_cluster"
  "fz_thaw postgres_freeze = pg_freeze_thaw"
  by (simp_all add: postgres_freeze_def)

interpretation pgf: freeze_repo postgres_freeze "\<lambda>s. set (db_freezes s)" pg_freezes_up pg_time
proof
  fix s now c assume "pg_freezes_up s"
  then show "\<exists>r. fz_get_active_for_cluster postgres_freeze now s c = Inr r"
    by (simp add: pg_freeze_get_active_for_cluster_def pg_freezes_up_def)
next
  fix s now c f
  assume "pg_freezes_up s" "fz_get_active_for_cluster postgres_freeze now s c = Inr (Some f)"
  then show "f \<in> set (db_freezes s) \<and> in_force now c f"
    using sqf.found [of s now c f] by (simp add: pg_freeze_question) (simp add: pg_freezes_up_def)
next
  fix s now c f
  assume "pg_freezes_up s" "fz_get_active_for_cluster postgres_freeze now s c = Inr None" "f \<in> set (db_freezes s)"
  then show "\<not> in_force now c f"
    using sqf.complete [of s now c f] by (simp add: pg_freeze_question) (simp add: pg_freezes_up_def)
next
  fix s f s' assume "fz_create postgres_freeze s f = (s', Inr ())"
  then show "set (db_freezes s') = insert (freeze_row pg_time f) (set (db_freezes s)) \<and>
      (pg_freezes_up s \<longrightarrow> pg_freezes_up s')"
    by (auto simp: pg_freeze_create_def freeze_row_def pg_freeze_stored_def pg_freezes_up_def
        split: option.splits if_splits)
next
  fix now s i u s' assume "fz_thaw postgres_freeze now s i u = (s', Inr ())"
  then show "set (db_freezes s') = (\<lambda>f. if f_id f = i
        then f\<lparr>f_thawed_at := Some (pg_time now), f_thawed_by := Some u\<rparr> else f) ` set (db_freezes s) \<and>
      (pg_freezes_up s \<longrightarrow> pg_freezes_up s')"
    by (auto simp: pg_freeze_thaw_def Let_def pg_freezes_up_def split: option.splits if_splits)
next
  fix s f s' e assume "fz_create postgres_freeze s f = (s', Inl e)"
  then show "set (db_freezes s') = set (db_freezes s)"
    by (auto simp: pg_freeze_create_def split: option.splits if_splits)
next
  fix now s i u s' e assume "fz_thaw postgres_freeze now s i u = (s', Inl e)"
  then show "set (db_freezes s') = set (db_freezes s)"
    by (auto simp: pg_freeze_thaw_def Let_def filter_empty_conv split: option.splits if_splits)
qed

interpretation pgp: pref_repo postgres_prefs keys_ok
  unfolding postgres_prefs_eq by (rule sqp.pref_repo_axioms)

section \<open>The same calls on both back ends\<close>


definition answer :: "db \<times> 'a result \<Rightarrow> db \<times> bool" where
  "answer x = (fst x, \<not> isl (snd x))"







lemma answer_simps [simp]: "answer (s, Inl e) = (s, False)" "answer (s, Inr x) = (s, True)"
  by (simp_all add: answer_def)





lemma whole_audit:
  assumes "af_action f = None" "pred_option whole (af_from f)" "pred_option whole (af_to f)"
  shows "pg_audit_matches f = audit_matches f"
  using assms by (auto simp: fun_eq_iff pg_audit_matches_def audit_matches_def opt_is_def whole_times
      split: option.split)






section \<open>The approval workflow on PostgreSQL\<close>

definition pg_demo_begun :: "db \<times> approval_request \<times> unit result" where
  "pg_demo_begun = submit postgres_approval demo_cfg 0 ''0123456789'' new_store (request_of_input demo_input)"






text \<open>The two clocks of expiry: what SQLite closes at an instant PostgreSQL closes then too, and
  what PostgreSQL closes SQLite closes within a second.\<close>

theorem expiry_differs_by_less_than_a_second:
  "(approval_due now (approval_stored r) \<longrightarrow> pg_approval_due now (pg_approval_stored r)) \<and>
   (pg_approval_due now (pg_approval_stored r) \<longrightarrow> approval_due (now + second) (approval_stored r))"
proof -
  let ?e = "ar_expires_at r"
  have step: "rfc3339 (t + second) = rfc3339 t + 1" for t
    by (simp add: rfc3339_def second_def)
  have lite: "approval_due t (approval_stored r) \<longleftrightarrow> ar_status r = ApprovalPending \<and> rfc3339 ?e < rfc3339 t" for t
    by (simp add: approval_due_def approval_stored_def column_time_def)
  have pg: "pg_approval_due now (pg_approval_stored r) \<longleftrightarrow>
      ar_status r = ApprovalPending \<and> pg_time ?e < pg_time now"
    by (simp add: pg_approval_due_def pg_approval_stored_def)
  have whole: "whole (parse_rfc3339 (rfc3339 now))" by (simp add: whole_def parse_rfc3339_def)
  have "pg_time ?e < pg_time now" if "rfc3339 ?e < rfc3339 now"
  proof -
    have "?e < parse_rfc3339 (rfc3339 now)"
      using that whole_less [OF whole, of ?e] by simp
    moreover have "parse_rfc3339 (rfc3339 now) div 1000 \<le> now div 1000"
      using parse_rfc3339_le by (rule zdiv_mono1) simp
    moreover have "parse_rfc3339 (rfc3339 now) div 1000 * 1000 = parse_rfc3339 (rfc3339 now)"
      using whole_times(2) [OF whole] by (simp add: pg_time_def)
    ultimately show ?thesis using pg_time_le [of ?e] unfolding pg_time_def by linarith
  qed
  moreover have "rfc3339 ?e < rfc3339 now + 1" if "pg_time ?e < pg_time now"
  proof -
    have "?e < now" using that pg_time_less [of "pg_time now" ?e] pg_time_le [of now] by simp
    then show ?thesis using rfc3339_mono [of ?e now] by simp
  qed
  ultimately show ?thesis by (auto simp: lite pg step)
qed

theorem expiry_differs_by_less_than_a_second_witness:
  "approval_due (second + second) (approval_stored (fst (snd pg_demo_begun)\<lparr>ar_expires_at := second - 5000\<rparr>))"
proof -
  have "ar_status (fst (snd pg_demo_begun)) = ApprovalPending" by code_simp
  then have "pg_approval_due second (pg_approval_stored (fst (snd pg_demo_begun)\<lparr>ar_expires_at := second - 5000\<rparr>))"
    by (simp add: pg_approval_due_def pg_approval_stored_def pg_time_def second_def)
  then show ?thesis using expiry_differs_by_less_than_a_second by blast
qed

section \<open>Where the back ends differ\<close>

text \<open>C37: Changing the role of a user nobody registered: SQLite reports that the user is not found,
  PostgreSQL reports success; neither changes anything.\<close>

theorem postgres_hides_unknown_users:
  assumes "db_fault s = None" "u \<notin> u_telegram_id ` set (db_users s)" "is_valid_role r"
  shows "eng_set_role sqlite_rbac now s u r = (s, Inl ErrNotFound) \<and>
    eng_set_role (postgres_rbac collate) now s u r = (s, Inr ())"
proof -
  have none: "u_telegram_id x = u \<longleftrightarrow> False" if "x \<in> set (db_users s)" for x using assms(2) that by auto
  have same: "map (\<lambda>x. if u_telegram_id x = u then f x else x) (db_users s) = db_users s" for f
    by (rule map_idI) (simp add: none)
  have "filter (\<lambda>x. u_telegram_id x = u) (db_users s) = []" by (simp add: filter_empty_conv none)
  then show ?thesis
    using assms(1,3) same by (simp_all add: eng_set_role_def set_user_role_def pg_set_user_role_def Let_def)
qed

theorem postgres_hides_unknown_users_witness:
  "eng_set_role (postgres_rbac (\<lambda>n. n)) 7 new_store 42 ''admin'' = (new_store, Inr ())"
  by (rule postgres_hides_unknown_users [THEN conjunct2])
    (simp_all add: new_store_def is_valid_role_iff valid_roles_def role_names)

text \<open>A pattern of ordinary characters followed by a percent sign matches what begins with them.\<close>

definition ordinary :: "char \<Rightarrow> bool" where
  "ordinary c \<longleftrightarrow> c \<noteq> CHR ''%'' \<and> c \<noteq> CHR ''_'' \<and> c \<noteq> CHR 0x5C"

lemma like_any [simp]: "like_match ''%'' y"
  by (induction y) auto

lemma like_prefix: "list_all ordinary a \<Longrightarrow> like_match (a @ ''%'') y \<longleftrightarrow> take (length a) y = a"
proof (induction a arbitrary: y)
  case (Cons c a)
  then show ?case by (cases y) (auto simp: ordinary_def)
qed simp

text \<open>An audit query by action: PostgreSQL returns and counts the entries whose action begins with
  the text asked for, SQLite those whose action is that text, all other conditions being the same.\<close>

theorem audit_actions_are_prefixes_on_postgres:
  assumes "db_fault s = None" "list_all ordinary a" "af_action f = Some a"
    and "pred_option whole (af_from f)" "pred_option whole (af_to f)"
  shows "case (pg_audit_list s f, audit_list s f) of
     (Inr (es, n), Inr (es', n')) \<Rightarrow>
        n = length (filter (\<lambda>e. take (length a) (ae_action e) = a \<and> audit_matches (f\<lparr>af_action := None\<rparr>) e) (db_audit s)) \<and>
        n' = length (filter (\<lambda>e. ae_action e = a \<and> audit_matches (f\<lparr>af_action := None\<rparr>) e) (db_audit s)) \<and>
        (\<forall>e \<in> set es. take (length a) (ae_action e) = a) \<and> (\<forall>e \<in> set es'. ae_action e = a)
   | _ \<Rightarrow> False"
proof -
  have pg: "pg_audit_matches f e \<longleftrightarrow> take (length a) (ae_action e) = a \<and> audit_matches (f\<lparr>af_action := None\<rparr>) e" for e
    using assms(2-5) by (cases "af_from f"; cases "af_to f")
      (auto simp: pg_audit_matches_def audit_matches_def opt_is_def like_prefix whole_times)
  have lite: "audit_matches f e \<longleftrightarrow> ae_action e = a \<and> audit_matches (f\<lparr>af_action := None\<rparr>) e" for e
    using assms(3) by (auto simp: audit_matches_def opt_is_def)
  have sub: "x \<in> set (take k (drop m xs)) \<Longrightarrow> x \<in> set xs" for x :: audit_entry and k m xs
    by (meson in_set_dropD in_set_takeD)
  have "pg_audit_matches f = (\<lambda>e. take (length a) (ae_action e) = a \<and> audit_matches (f\<lparr>af_action := None\<rparr>) e)"
    "audit_matches f = (\<lambda>e. ae_action e = a \<and> audit_matches (f\<lparr>af_action := None\<rparr>) e)"
    by (intro ext pg, intro ext lite)
  then show ?thesis using assms(1)
    by (auto simp: pg_audit_list_def audit_list_def Let_def pg_audit_selected_def
        audit_selected_def dest!: sub)
qed

definition alert_query :: audit_filter where
  "alert_query =
     \<lparr>af_user_id = None, af_action = Some ''alert.'', af_cluster = None, af_namespace = None,
      af_status = None, af_from = None, af_to = None, af_page = 1, af_page_size = 10\<rparr>"

theorem audit_actions_are_prefixes_on_postgres_witness:
  "let s = new_store\<lparr>db_audit := [demo_entry\<lparr>ae_action := ''alert.pod''\<rparr>]\<rparr> in
   case (pg_audit_list s alert_query, audit_list s alert_query) of
     (Inr (es, n), Inr (es', n')) \<Rightarrow> n = 1 \<and> n' = 0 | _ \<Rightarrow> False"
proof -
  let ?s = "new_store\<lparr>db_audit := [demo_entry\<lparr>ae_action := ''alert.pod''\<rparr>]\<rparr>"
  have "list_all ordinary ''alert.''" by (simp add: ordinary_def)
  with audit_actions_are_prefixes_on_postgres [of ?s "''alert.''" alert_query] show ?thesis
    by (simp add: new_store_def alert_query_def audit_matches_def opt_is_def demo_entry_def
        split: sum.splits prod.splits)
qed

end
