(* ===== verification/Informers.thy ===== *)
theory Informers
  imports WatcherProps KubeProps
begin

text \<open>
  How the watchers are started (\<open>Start\<close> and \<open>watchCluster\<close> of \<open>pod_watcher.go\<close> and
  \<open>node_watcher.go\<close>, \<open>Start\<close> of the polling watchers): one informer per cluster whose client can be
  made, and what it hands to \<open>check_pod\<close> and \<open>check_node\<close>. The informer is client-go's: it reports an
  object that appeared, changed or disappeared, and at every resync each object it knows as
  changed from itself to itself. The goroutines of the clusters run in the order of the list.
\<close>

section \<open>Starting (Start, watchCluster)\<close>

datatype 'o object_event = Appeared 'o | Updated 'o 'o | Disappeared 'o

definition start_informer ::
  "'w watch_env \<Rightarrow> string \<Rightarrow> string list \<times> 'w watch_world \<Rightarrow> string list \<times> 'w watch_world" where
  "start_informer E cl iw =
     (case iw of (informed, w) \<Rightarrow>
       (case watch_client E cl w of
          (w1, Inl e) \<Rightarrow> (informed, w1)
        | (w1, Inr api) \<Rightarrow> (informed @ [cl], w1)))"

definition start_informers ::
  "'w watch_env \<Rightarrow> string list \<Rightarrow> 'w watch_world \<Rightarrow> string list \<times> 'w watch_world" where
  "start_informers E order w =
     fold (start_informer E) (map ci_name (list_clusters order (ww_manager w))) ([], w)"

text \<open>Only an \<open>UpdateFunc\<close> is registered, and only with the informers that were started.\<close>

definition pod_event ::
  "'w watch_env \<Rightarrow> string list \<Rightarrow> instant \<Rightarrow> string \<times> kube_pod object_event \<Rightarrow> 'w watch_state \<Rightarrow> 'w watch_state" where
  "pod_event E informed now ce s =
     (case ce of (cl, ev) \<Rightarrow>
        if cl \<in> set informed then
          (case ev of Updated old new \<Rightarrow> check_pod E now cl old new s | _ \<Rightarrow> s)
        else s)"

definition node_event ::
  "'w watch_env \<Rightarrow> string list \<Rightarrow> instant \<Rightarrow> string \<times> kube_node object_event \<Rightarrow> 'w watch_state \<Rightarrow> 'w watch_state" where
  "node_event E informed now ce s =
     (case ce of (cl, ev) \<Rightarrow>
        if cl \<in> set informed then
          (case ev of Updated old new \<Rightarrow> check_node E now cl old new s | _ \<Rightarrow> s)
        else s)"

definition resync :: "'o \<Rightarrow> 'o object_event" where "resync x = Updated x x"

text \<open>A polling watcher checks every cluster at once when it starts, then once per interval.\<close>

definition polling_round ::
  "string list \<Rightarrow> (string \<Rightarrow> 'w watch_state \<Rightarrow> 'w watch_state) \<Rightarrow> 'w watch_state \<Rightarrow> 'w watch_state" where
  "polling_round order check s =
     fold check (map ci_name (list_clusters order (ww_manager (snd s)))) s"

section \<open>Which clusters get an informer\<close>

lemma client_answer_stays:
  "snd (client_of field L (fst (client_of field L m a)) b) = snd (client_of field L m b)"
  by (auto simp: client_of_def get_or_create_clients_def set_status_def split: option.splits sum.splits)

lemma watch_client_stays: "snd (watch_client E b (fst (watch_client E a w))) = snd (watch_client E b w)"
  using client_answer_stays [of kl_set "we_library E" "ww_manager w" a b]
  by (simp add: watch_client_def client_set_def case_prod_beta)

lemma start_informer_fst:
  "fst (start_informer E cl (informed, w)) =
   informed @ (if is_err (snd (watch_client E cl w)) then [] else [cl])"
  and start_informer_snd: "snd (start_informer E cl (informed, w)) = fst (watch_client E cl w)"
  by (auto simp: start_informer_def split: prod.split sum.split)

lemma fold_informers:
  "fst (fold (start_informer E) cls (informed, w)) =
   informed @ filter (\<lambda>cl. \<not> is_err (snd (watch_client E cl w))) cls"
proof (induction cls arbitrary: informed w)
  case (Cons cl cls)
  obtain i1 w1 where s: "start_informer E cl (informed, w) = (i1, w1)" by (cases "start_informer E cl (informed, w)")
  then have "i1 = informed @ (if is_err (snd (watch_client E cl w)) then [] else [cl])" "w1 = fst (watch_client E cl w)"
    using start_informer_fst [of E cl informed w] start_informer_snd [of E cl informed w] by simp_all
  with s show ?case by (simp add: Cons.IH watch_client_stays)
qed simp

lemma informed_iff:
  "fst (start_informers E order w) =
   filter (\<lambda>cl. \<not> is_err (snd (watch_client E cl w))) (map ci_name (list_clusters order (ww_manager w)))"
  by (simp add: start_informers_def fold_informers)

section \<open>The informers as watchers\<close>

lemma gated_polling_round:
  "(\<And>cl s. gated cd now s (check cl s)) \<Longrightarrow> gated cd now s (polling_round order check s)"
  by (simp add: polling_round_def gated_fold)

interpretation pod_informer: cooldown_watcher default_cooldown True "pod_event E informed"
  for E :: "'w watch_env" and informed
  by unfold_locales
    (auto simp: pod_event_def split: object_event.split intro: gated_check_pod gated_refl)

interpretation node_informer: cooldown_watcher default_cooldown True "node_event E informed"
  for E :: "'w watch_env" and informed
  by unfold_locales
    (auto simp: node_event_def split: object_event.split intro: gated_check_node gated_refl)

text \<open>A resync compares a node with itself, and no condition has changed.\<close>

lemma old_status_self: "distinct (map nc_type (nd_conditions n)) \<Longrightarrow> c \<in> set (nd_conditions n) \<Longrightarrow>
   old_status n (nc_type c) = nc_status c"
proof -
  assume d: "distinct (map nc_type (nd_conditions n))" and c: "c \<in> set (nd_conditions n)"
  have "map_of (rev (map (\<lambda>c. (nc_type c, nc_status c)) (nd_conditions n))) (nc_type c) = Some (nc_status c)"
    using c by (intro map_of_is_SomeI) (auto simp: rev_map [symmetric] comp_def d)
  then show ?thesis by (simp add: old_status_def)
qed

lemma fold_fixed: "\<forall>x \<in> set xs. f x s = s \<Longrightarrow> fold f xs s = s"
  by (induction xs) simp_all

lemma unchanged_node_is_silent:
  assumes "distinct (map nc_type (nd_conditions n))"
  shows "check_node E now cl n n s = s"
  using old_status_self [OF assms]
  by (auto simp: check_node_def check_condition_def Let_def intro!: fold_fixed)

section \<open>What a pod check must report\<close>

text \<open>\<open>reported\<close>: an alert under the key went out now. \<open>told\<close>: a key in cooldown was reported now.\<close>

definition reported :: "string \<Rightarrow> instant \<Rightarrow> 'w watch_state \<Rightarrow> bool" where
  "reported k now s \<longleftrightarrow> (\<exists>a \<in> set (ww_sent (snd s)). sa_key a = k \<and> sa_at a = now)"

definition told :: "string \<Rightarrow> instant \<Rightarrow> 'w watch_state \<Rightarrow> bool" where
  "told k now s \<longleftrightarrow> (in_cooldown default_cooldown (fst s) now k \<longrightarrow> reported k now s)"

lemma gated_reported: "gated cd now s t \<Longrightarrow> reported k now' s \<Longrightarrow> reported k now' t"
  by (induction rule: gated.induct) (auto simp: reported_def)

lemma pod_alert_sent:
  assumes "\<not> in_cooldown default_cooldown (fst s) now (pod_key cl p cond)" "alert_chats E \<noteq> []"
  shows "reported (pod_key cl p cond) now (pod_alert E now cl p cond ct sev msg s)"
  using assms
  by (cases s; cases "alert_chats E") (auto simp: pod_alert_def gated_alert_def reported_def Let_def case_prod_beta)

lemma told_pod_alert:
  assumes "told k now s" "alert_chats E \<noteq> []"
  shows "told k now (pod_alert E now cl p cond ct sev msg s)"
proof (cases "in_cooldown default_cooldown (fst s) now (pod_key cl p cond)")
  case True
  then have "pod_alert E now cl p cond ct sev msg s = s"
    by (cases s) (simp add: pod_alert_def gated_alert_def)
  with assms show ?thesis by simp
next
  case False
  let ?t = "pod_alert E now cl p cond ct sev msg s"
  have "fst ?t = (fst s)(pod_key cl p cond \<mapsto> now)"
    using False by (cases s) (simp add: pod_alert_def gated_alert_def)
  then have "k \<noteq> pod_key cl p cond \<Longrightarrow> in_cooldown default_cooldown (fst ?t) now k \<Longrightarrow>
      in_cooldown default_cooldown (fst s) now k"
    by (simp add: in_cooldown_def)
  then show ?thesis
    using assms pod_alert_sent [OF False assms(2)] gated_reported [OF gated_pod_alert]
    unfolding told_def by metis
qed

lemma told_check_restarts:
  "told k now s \<Longrightarrow> alert_chats E \<noteq> [] \<Longrightarrow> told k now (check_restarts E now cl p cs olds s)"
  by (induction olds arbitrary: s) (simp_all add: told_pod_alert)

lemma told_check_container:
  "told k now s \<Longrightarrow> alert_chats E \<noteq> [] \<Longrightarrow> told k now (check_container E now cl old new cs s)"
  by (auto simp: check_container_def Let_def told_pod_alert told_check_restarts split: option.split)

lemma told_reported:
  "told k now s \<Longrightarrow> k = pod_key cl p cond \<Longrightarrow> alert_chats E \<noteq> [] \<Longrightarrow>
   reported k now (pod_alert E now cl p cond ct sev msg s)"
  using pod_alert_sent gated_reported [OF gated_pod_alert] unfolding told_def by metis

lemma crash_loop_reported:
  assumes "told (pod_key cl new ''CrashLoopBackOff'') now s" "alert_chats E \<noteq> []"
    "cs_waiting cs = Some ''CrashLoopBackOff''"
  shows "reported (pod_key cl new ''CrashLoopBackOff'') now (check_container E now cl old new cs s)"
proof -
  define s1 where "s1 = (case cs_terminated cs of
      Some (reason, code) \<Rightarrow>
        if reason = ''OOMKilled''
        then pod_alert E now cl new ''OOMKilled'' (cs_name cs) severity_critical
               ''Container exceeded memory limit'' s
        else s
    | None \<Rightarrow> s)"
  have "told (pod_key cl new ''CrashLoopBackOff'') now s1"
    using assms by (auto simp: s1_def told_pod_alert split: option.split)
  note r = told_reported [OF this refl assms(2)]
  show ?thesis
    unfolding check_container_def s1_def [symmetric] Let_def
    using assms(3) r gated_reported [OF gated_check_restarts r] by simp
qed

lemma told_check_containers:
  "told k now s \<Longrightarrow> alert_chats E \<noteq> [] \<Longrightarrow> told k now (check_containers E now cl old new css s)"
  by (induction css arbitrary: s) (simp_all add: told_check_container)

lemma crash_loop_in_containers:
  assumes "told (pod_key cl new ''CrashLoopBackOff'') now s" "alert_chats E \<noteq> []"
    "cs \<in> set css" "cs_waiting cs = Some ''CrashLoopBackOff''"
  shows "reported (pod_key cl new ''CrashLoopBackOff'') now (check_containers E now cl old new css s)"
  using assms
proof (induction css arbitrary: s)
  case (Cons c css)
  show ?case
  proof (cases "c = cs")
    case True
    show ?thesis
      using gated_reported [OF gated_check_containers crash_loop_reported [OF Cons.prems(1,2,4)]] True by simp
  next
    case False
    then show ?thesis using Cons by (simp add: told_check_container)
  qed
qed simp

lemma check_pod_reports_crash_loops:
  assumes "\<not> in_cooldown default_cooldown (fst s) now (pod_key cl new ''CrashLoopBackOff'')"
    "alert_chats E \<noteq> []" "cs \<in> set (pd_statuses new)" "cs_waiting cs = Some ''CrashLoopBackOff''"
  shows "reported (pod_key cl new ''CrashLoopBackOff'') now (check_pod E now cl old new s)"
proof -
  have "told (pod_key cl new ''CrashLoopBackOff'') now s" using assms(1) by (simp add: told_def)
  note r = crash_loop_in_containers [OF this assms(2-4)]
  have "gated default_cooldown now t (check_evicted E now cl old new (check_pending E now cl new t))" for t
    by (simp add: check_pending_def check_evicted_def gated_intros gated.Seq [OF gated_pod_alert gated_pod_alert])
  from gated_reported [OF this r] show ?thesis by (simp add: check_pod_def)
qed

section \<open>What the informers never report\<close>

text \<open>C38: What a resync reports.  For a cluster whose client could be made when the watchers started,
  the resync of a pod with a container in CrashLoopBackOff raises that alert unless its key is
  in cooldown, however long the pod has been in that state; the resync of a node, in whatever
  condition, changes nothing, nor does its first appearance, so a node that was down before the
  start is never reported.  For a cluster whose client could not be made at the start no event of a
  pod or node does anything, though a polling watcher would ask for the client again.\<close>

theorem resync_reports_crashes_but_no_nodes:
  assumes "alert_chats E \<noteq> []" "cl \<in> set (map ci_name (list_clusters order (ww_manager w)))"
    "cs \<in> set (pd_statuses p)" "cs_waiting cs = Some ''CrashLoopBackOff''"
    "\<not> in_cooldown default_cooldown (fst s) now (pod_key cl p ''CrashLoopBackOff'')"
    "distinct (map nc_type (nd_conditions n))"
  shows "let informed = fst (start_informers E order w) in
     if is_err (snd (watch_client E cl w))
     then pod_event E informed now (cl, pe) s = s \<and> node_event E informed now (cl, ne) s = s
     else reported (pod_key cl p ''CrashLoopBackOff'') now (pod_event E informed now (cl, resync p) s) \<and>
          node_event E informed now (cl, resync n) s = s \<and> node_event E informed now (cl, Appeared n) s = s"
  using check_pod_reports_crash_loops [OF assms(5,1,3,4)] unchanged_node_is_silent [OF assms(6), of E now cl s]
    assms(2)
  by (auto simp: Let_def informed_iff pod_event_def node_event_def resync_def)

definition crashing_pod :: kube_pod where
  "crashing_pod = (demo_pod ''api-1'' [])\<lparr>pd_statuses :=
     [\<lparr>cs_name = ''api'', cs_image = ''api:1'', cs_restarts = 9, cs_waiting = Some ''CrashLoopBackOff'',
       cs_terminated = None\<rparr>]\<rparr>"

definition down_node :: kube_node where
  "down_node = (demo_node ''n1'')\<lparr>nd_conditions :=
     [\<lparr>nc_type = ''Ready'', nc_status = ''False'', nc_reason = ''KubeletDown'', nc_message = [], nc_since = 0\<rparr>]\<rparr>"

definition informer_demo_env :: "string list watch_env" where
  "informer_demo_env = \<lparr>we_library = demo_kube_library,
     we_cfg = \<lparr>tc_admin_ids = [1], tc_allowed_chats = [7], tc_rate_limit = 0\<rparr>, we_ids = show_nat\<rparr>"

definition informer_demo_world :: "string list watch_world" where
  "informer_demo_world = \<lparr>ww_manager = new_cluster_manager [demo_cluster ''prod''], ww_remote = [],
     ww_store = Map.empty, ww_sent = [], ww_audit = []\<rparr>"

lemma informer_demo_clusters:
  "map ci_name (list_clusters [''prod''] (ww_manager informer_demo_world)) = [''prod'']"
  "\<not> is_err (snd (watch_client informer_demo_env ''prod'' informer_demo_world))"
  by (simp_all add: informer_demo_world_def informer_demo_env_def list_clusters_def new_cluster_manager_def
      demo_cluster_def entry_of_config_def mark_default_def List.map_filter_def watch_client_def client_set_def
      client_of_def get_or_create_clients_def new_clients_def build_rest_config_def demo_kube_library_def Let_def)

theorem resync_reports_crashes_but_no_nodes_witness:
  "reported (pod_key ''prod'' crashing_pod ''CrashLoopBackOff'') 30
     (pod_event informer_demo_env (fst (start_informers informer_demo_env [''prod''] informer_demo_world)) 30
        (''prod'', resync crashing_pod) (Map.empty, informer_demo_world)) \<and>
   node_event informer_demo_env (fst (start_informers informer_demo_env [''prod''] informer_demo_world)) 30
     (''prod'', resync down_node) (Map.empty, informer_demo_world) = (Map.empty, informer_demo_world)"
  using resync_reports_crashes_but_no_nodes [of informer_demo_env "''prod''" "[''prod'']" informer_demo_world
      "hd (pd_statuses crashing_pod)" crashing_pod "(Map.empty, informer_demo_world)" 30 down_node]
    informer_demo_clusters
  by (simp add: crashing_pod_def down_node_def informer_demo_env_def alert_chats_def in_cooldown_def Let_def)

end
