(* ===== verification/AlertManager.thy ===== *)
theory AlertManager
  imports ArgocdHttp Watcher "HOL-Library.Multiset"
begin

text \<open>
  The AlertManager webhook (\<open>internal/module/alertmanager/module.go\<close>): the payload and its decoding,
  the order and the texts of the alerts, the buttons, and silences through AlertManager's own API.
  \<open>sort.Slice\<close> leaves the order of alerts of one severity open; here they keep the payload's. A map is
  an association list in which the last entry of a key counts. Emoji are left out, and a failed
  delivery, which is only logged.
\<close>

section \<open>The payload\<close>

type_synonym string_map = "(string \<times> string) list"

definition map_at :: "string_map \<Rightarrow> string \<Rightarrow> string" where
  "map_at m k = (case map_of (rev m) k of None \<Rightarrow> [] | Some v \<Rightarrow> v)"

record alert =
  al_status :: string
  al_labels :: string_map
  al_annotations :: string_map
  al_starts_at :: instant
  al_ends_at :: instant
  al_generator_url :: string
  al_fingerprint :: string





section \<open>What the chats are sent\<close>


datatype alert_text =
    AlertFiring (am_name: string) (am_severity: string) (am_namespace: "string option")
      (am_pod: "string option") (am_summary: "string option") (am_details: "string option")
      (am_started: instant) (am_ago: string)
  | AlertResolved (am_name: string) (am_severity: string) (am_pod: "string option")
      (am_lasted: "string option")

definition shown :: "string \<Rightarrow> string option" where
  "shown s = (if s \<noteq> [] then Some s else None)"

definition format_alert :: "instant \<Rightarrow> alert \<Rightarrow> alert_text" where
  "format_alert now a =
     (let l = map_at (al_labels a); n = map_at (al_annotations a)
      in if al_status a = ''firing''
         then AlertFiring (l ''alertname'') (l ''severity'') (shown (l ''namespace'')) (shown (l ''pod''))
                (shown (n ''summary'')) (shown (n ''description'')) (al_starts_at a)
                (duration_string (duration_round minute (time_sub now (al_starts_at a))))
         else AlertResolved (l ''alertname'') (l ''severity'') (shown (l ''pod''))
                (if al_ends_at a \<noteq> zero_time \<and> al_starts_at a \<noteq> zero_time
                 then Some (duration_string (duration_round minute (time_sub (al_ends_at a) (al_starts_at a))))
                 else None))"


section \<open>The webhook\<close>

record silencer =
  sl_url :: string
  sl_token :: string
  sl_conn :: http_conn

record alert_module =
  um_token :: string
  um_chats :: "chat_id list"
  um_silencer :: "silencer option"

definition new_silencer :: "string \<Rightarrow> string \<Rightarrow> silencer" where
  "new_silencer url tok =
     \<lparr>sl_url = url, sl_token = tok, sl_conn = \<lparr>hc_timeout = 10 * second, hc_insecure = False\<rparr>\<rparr>"




section \<open>Silences\<close>

record silence_request =
  sr_matchers :: "(string \<times> string) list"
  sr_starts_at :: instant
  sr_ends_at :: instant
  sr_created_by :: string
  sr_comment :: string

text \<open>\<open>json.Marshal\<close> of the request; \<open>tm\<close> prints an instant.\<close>

definition enc_silence :: "(instant \<Rightarrow> string) \<Rightarrow> silence_request \<Rightarrow> json" where
  "enc_silence tm r = JObj
     [(''matchers'', JArr (map (\<lambda>(k, v). JObj [(''name'', JStr k), (''value'', JStr v), (''isRegex'', JBool False)])
                            (sr_matchers r))),
      (''startsAt'', JStr (tm (sr_starts_at r))), (''endsAt'', JStr (tm (sr_ends_at r))),
      (''createdBy'', JStr (sr_created_by r)), (''comment'', JStr (sr_comment r))]"

definition silence_call :: "(instant \<Rightarrow> string) \<Rightarrow> silencer \<Rightarrow> silence_request \<Rightarrow> http_request" where
  "silence_call tm S r =
     \<lparr>rq_method = ''POST'', rq_url = sl_url S @ ''/api/v2/silences'',
      rq_headers = (''Content-Type'', ''application/json'') #
        (if sl_token S \<noteq> [] then [(''Authorization'', ''Bearer '' @ sl_token S)] else []),
      rq_body = JsonBody (enc_silence tm r)\<rparr>"

definition dec_silence_id :: "json \<Rightarrow> string option" where
  "dec_silence_id j = do { fs \<leftarrow> dec_fields j; string_at ''silenceID'' fs }"

text \<open>\<open>Silence\<close> reads the clock twice; \<open>labels\<close> is the map, in the order its loop takes.\<close>

definition silence ::
  "'w go_http \<Rightarrow> (instant \<Rightarrow> string) \<Rightarrow> silencer \<Rightarrow> instant \<Rightarrow> instant \<Rightarrow> string_map \<Rightarrow> duration \<Rightarrow> string \<Rightarrow>
   'w \<Rightarrow> 'w \<times> string result" where
  "silence T tm S n1 n2 labels d by_user w =
     (let r = \<lparr>sr_matchers = labels, sr_starts_at = n1, sr_ends_at = n2 + d, sr_created_by = by_user,
               sr_comment = ''Silenced via Telekube for '' @ duration_string d\<rparr>
      in case gh_url_error T (sl_url S @ ''/api/v2/silences'') of
           Some e \<Rightarrow> (w, Inl (DriverErr e))
         | None \<Rightarrow>
             (case gh_do T w (sl_conn S) (silence_call tm S r) of
                (w1, Inl e) \<Rightarrow> (w1, Inl (DriverErr e))
              | (w1, Inr resp) \<Rightarrow>
                  if hr_status resp \<noteq> 200 \<and> hr_status resp \<noteq> 201
                  then (w1, Inl (ErrText (''alertmanager returned '' @ show_int (hr_status resp) @ '': '' @ hr_text resp)))
                  else (case Option.bind (gh_stream T (hr_text resp)) dec_silence_id of
                          None \<Rightarrow> (w1, Inl (DriverErr ''json''))
                        | Some i \<Rightarrow> (w1, Inr i))))"

datatype alert_msg =
    AlertNotice string
  | MsgSilenceFailed string
  | MsgSilenced string string

definition do_silence ::
  "'w go_http \<Rightarrow> (instant \<Rightarrow> string) \<Rightarrow> alert_module \<Rightarrow> instant \<Rightarrow> instant \<Rightarrow> tg_user \<Rightarrow> string \<Rightarrow> duration \<Rightarrow>
   'w \<Rightarrow> 'w \<times> alert_msg chat_effect list" where
  "do_silence T tm M n1 n2 sender data d w =
     (case um_silencer M of
        None \<Rightarrow> (w, [Respond (Some (AlertNotice ''AlertManager silences not configured''))])
      | Some S \<Rightarrow>
          (let by_user = (if tu_username sender = [] then ''user_'' @ show_int (tu_id sender) else tu_username sender)
           in case silence T tm S n1 n2 [(''fingerprint'', data)] d by_user w of
                (w1, Inl e) \<Rightarrow> (w1, [Respond (Some (MsgSilenceFailed (err_text e)))])
              | (w1, Inr i) \<Rightarrow> (w1, [Respond (Some (MsgSilenced (duration_string d) i))])))"

definition handle_ack :: "alert_msg chat_effect list" where
  "handle_ack = [Respond (Some (AlertNotice ''Acknowledged''))]"

text \<open>The buttons of the module: what each press does with its data.\<close>

definition alert_update ::
  "'w go_http \<Rightarrow> (instant \<Rightarrow> string) \<Rightarrow> alert_module \<Rightarrow> instant \<Rightarrow> instant \<Rightarrow> tg_user \<Rightarrow> string \<Rightarrow> string \<Rightarrow>
   'w \<Rightarrow> 'w \<times> alert_msg chat_effect list" where
  "alert_update T tm M n1 n2 sender endpoint data w =
     (if endpoint = ''am_silence_1h'' then do_silence T tm M n1 n2 sender data hour w
      else if endpoint = ''am_silence_4h'' then do_silence T tm M n1 n2 sender data (4 * hour) w
      else if endpoint = ''am_ack'' then (w, handle_ack)
      else (w, []))"

section \<open>What a webhook call delivers\<close>

lemma am_severity_format [simp]:
  "am_severity (format_alert now a) = map_at (al_labels a) ''severity''"
  by (simp add: format_alert_def Let_def)




end
