(* ===== verification/Services.thy ===== *)
theory Services
  imports Prelude "HOL-Library.Word" "HOL-Library.AList"
begin

text \<open>
  What \<open>main.go\<close> opens before the bot: the storage back end (\<open>New\<close> and the migrations of
  \<open>storage/sqlite\<close> and \<open>storage/postgres\<close>), the optional Redis client, and the health endpoints
  (\<open>pkg/health\<close>). Drivers and embedded files are parameters; a driver call takes and returns the
  outside world and reports its error as text.
\<close>

type_synonym 'w driver_call = "'w \<Rightarrow> 'w \<times> string option"

section \<open>Migrations\<close>

text \<open>\<open>migrations.ReadFile\<close> and the driver's \<open>Exec\<close>, file by file until one fails.\<close>

fun run_migrations ::
  "(string \<Rightarrow> string + string) \<Rightarrow> (string \<Rightarrow> 'w driver_call) \<Rightarrow> string list \<Rightarrow> 'w \<Rightarrow> 'w \<times> unit result" where
  "run_migrations files run [] w = (w, Inr ())"
| "run_migrations files run (f # fs) w =
     (case files f of
        Inl e \<Rightarrow> (w, Inl (ErrWrap (''reading migration file '' @ f) (DriverErr e)))
      | Inr sql \<Rightarrow>
          (case run sql w of
             (w1, Some e) \<Rightarrow> (w1, Inl (ErrWrap (''executing migration '' @ f) (DriverErr e)))
           | (w1, None) \<Rightarrow> run_migrations files run fs w1))"

section \<open>SQLite (sqlite.go)\<close>

record 'w sqlite_driver =
  ld_open :: "string \<Rightarrow> 'w driver_call"
  ld_exec :: "string \<Rightarrow> 'w driver_call"
  ld_files :: "string \<Rightarrow> string + string"

definition sqlite_migrations :: "string list" where
  "sqlite_migrations =
     [''migrations/001_initial.sql'', ''migrations/002_argocd_freeze.sql'', ''migrations/003_rbac_v2.sql'',
      ''migrations/004_approval.sql'', ''migrations/005_notification_prefs.sql'']"

definition migrate :: "'w sqlite_driver \<Rightarrow> 'w \<Rightarrow> 'w \<times> unit result" where
  "migrate D w = run_migrations (ld_files D) (ld_exec D) sqlite_migrations w"

text \<open>A database that opened is not closed when a later step fails.\<close>

definition sqlite_new :: "'w sqlite_driver \<Rightarrow> string \<Rightarrow> 'w \<Rightarrow> 'w \<times> unit result" where
  "sqlite_new D path w =
     (case ld_open D path w of
        (w1, Some e) \<Rightarrow> (w1, Inl (ErrWrap ''opening sqlite db'' (DriverErr e)))
      | (w1, None) \<Rightarrow>
          (case ld_exec D ''PRAGMA journal_mode=WAL'' w1 of
             (w2, Some e) \<Rightarrow> (w2, Inl (ErrWrap ''enabling WAL mode'' (DriverErr e)))
           | (w2, None) \<Rightarrow>
               (case ld_exec D ''PRAGMA foreign_keys=ON'' w2 of
                  (w3, Some e) \<Rightarrow> (w3, Inl (ErrWrap ''enabling foreign keys'' (DriverErr e)))
                | (w3, None) \<Rightarrow>
                    (case migrate D w3 of
                       (w4, Inl e) \<Rightarrow> (w4, Inl (ErrWrap ''running migrations'' e))
                     | (w4, Inr _) \<Rightarrow> (w4, Inr ())))))"

section \<open>PostgreSQL (postgres.go)\<close>

record postgres_settings =
  ps_dsn :: string
  ps_max_open_conns :: int
  ps_max_idle_conns :: int
  ps_conn_max_lifetime :: duration

record pool_settings =
  po_max_conns :: int
  po_min_conns :: int
  po_max_lifetime :: duration
  po_max_idle_time :: duration
  po_health_check_period :: duration

definition to_int32 :: "int \<Rightarrow> int" where
  "to_int32 n = sint (word_of_int n :: 32 word)"

definition pool_settings_of :: "postgres_settings \<Rightarrow> pool_settings" where
  "pool_settings_of c =
     \<lparr>po_max_conns = (if ps_max_open_conns c > 0 then to_int32 (ps_max_open_conns c) else 50),
      po_min_conns = (if ps_max_idle_conns c > 0 then to_int32 (ps_max_idle_conns c) else 25),
      po_max_lifetime = (if ps_conn_max_lifetime c > 0 then ps_conn_max_lifetime c else 30 * minute),
      po_max_idle_time = 5 * minute, po_health_check_period = 30 * second\<rparr>"

record 'w postgres_driver =
  pd_parse :: "string \<Rightarrow> string option"
  pd_connect :: "string \<Rightarrow> pool_settings \<Rightarrow> 'w driver_call"
  pd_ping :: "'w driver_call"
  pd_exec :: "string \<Rightarrow> 'w driver_call"
  pd_close :: "'w \<Rightarrow> 'w"
  pd_files :: "string \<Rightarrow> string + string"

definition postgres_migrations :: "string list" where
  "postgres_migrations =
     [''migrations/000001_initial.up.sql'', ''migrations/000002_argocd_freeze.up.sql'',
      ''migrations/000003_rbac_v2.up.sql'', ''migrations/000004_approval.up.sql'',
      ''migrations/000005_notification_prefs.up.sql'']"

definition postgres_new :: "'w postgres_driver \<Rightarrow> postgres_settings \<Rightarrow> 'w \<Rightarrow> 'w \<times> unit result" where
  "postgres_new D c w =
     (case pd_parse D (ps_dsn c) of
        Some e \<Rightarrow> (w, Inl (ErrWrap ''parsing postgres DSN'' (DriverErr e)))
      | None \<Rightarrow>
          (case pd_connect D (ps_dsn c) (pool_settings_of c) w of
             (w1, Some e) \<Rightarrow> (w1, Inl (ErrWrap ''connecting to postgres'' (DriverErr e)))
           | (w1, None) \<Rightarrow>
               (case pd_ping D w1 of
                  (w2, Some e) \<Rightarrow> (pd_close D w2, Inl (ErrWrap ''pinging postgres'' (DriverErr e)))
                | (w2, None) \<Rightarrow>
                    (case run_migrations (pd_files D) (pd_exec D) postgres_migrations w2 of
                       (w3, Inl e) \<Rightarrow> (pd_close D w3, Inl (ErrWrap ''running migrations'' e))
                     | (w3, Inr _) \<Rightarrow> (w3, Inr ())))))"

section \<open>Redis (client.go)\<close>

record redis_settings =
  rd_addr :: string
  rd_username :: string
  rd_password :: string
  rd_db :: int
  rd_tls :: bool
  rd_pool_size :: int
  rd_op_timeout :: duration

record redis_options =
  ro_addr :: string
  ro_username :: string
  ro_password :: string
  ro_db :: int
  ro_pool_size :: int
  ro_read_timeout :: duration
  ro_write_timeout :: duration
  ro_min_idle :: int
  ro_max_idle_time :: duration
  ro_tls :: bool

definition redis_options_of :: "redis_settings \<Rightarrow> redis_options" where
  "redis_options_of c =
     \<lparr>ro_addr = rd_addr c, ro_username = rd_username c, ro_password = rd_password c, ro_db = rd_db c,
      ro_pool_size = (if rd_pool_size c = 0 then 20 else rd_pool_size c),
      ro_read_timeout = (if rd_op_timeout c = 0 then 2 * second else rd_op_timeout c),
      ro_write_timeout = (if rd_op_timeout c = 0 then 2 * second else rd_op_timeout c),
      ro_min_idle = 5, ro_max_idle_time = 5 * minute, ro_tls = rd_tls c\<rparr>"

text \<open>\<open>redis.NewClient\<close> does not connect; the first command does. The result is the client's options.\<close>

definition redis_new ::
  "(redis_options \<Rightarrow> 'w driver_call) \<Rightarrow> redis_settings \<Rightarrow> 'w \<Rightarrow> 'w \<times> redis_options result" where
  "redis_new ping c w =
     (let opts = redis_options_of c
      in case ping opts w of
           (w1, Some e) \<Rightarrow> (w1, Inl (ErrWrap ''connecting to redis'' (DriverErr e)))
         | (w1, None) \<Rightarrow> (w1, Inr opts))"

section \<open>Opening in main.go\<close>

record storage_settings =
  ss_backend :: string
  ss_sqlite_path :: string
  ss_postgres :: postgres_settings
  ss_redis :: redis_settings

definition open_storage ::
  "'w sqlite_driver \<Rightarrow> 'w postgres_driver \<Rightarrow> storage_settings \<Rightarrow> 'w \<Rightarrow> 'w \<times> unit result" where
  "open_storage L P c w =
     (if ss_backend c = ''postgres'' then postgres_new P (ss_postgres c) w
      else sqlite_new L (ss_sqlite_path c) w)"

text \<open>Without an address there is no client; a client that cannot connect is a warning.\<close>

definition open_redis ::
  "(redis_options \<Rightarrow> 'w driver_call) \<Rightarrow> storage_settings \<Rightarrow> 'w \<Rightarrow> 'w \<times> redis_options option" where
  "open_redis ping c w =
     (if rd_addr (ss_redis c) \<noteq> []
      then (case redis_new ping (ss_redis c) w of
              (w1, Inl e) \<Rightarrow> (w1, None)
            | (w1, Inr opts) \<Rightarrow> (w1, Some opts))
      else (w, None))"

section \<open>Health checks (pkg/health/checker.go)\<close>

text \<open>The map of checks as an association list with one entry for a name, in the order its loops take.\<close>

type_synonym 'w health_checker = "(string \<times> ('w \<Rightarrow> string option)) list"

definition register_check ::
  "string \<Rightarrow> ('w \<Rightarrow> string option) \<Rightarrow> 'w health_checker \<Rightarrow> 'w health_checker" where
  "register_check n check c = AList.update n check c"

definition check_status :: "string option \<Rightarrow> string" where
  "check_status r = (case r of Some e \<Rightarrow> ''unhealthy: '' @ e | None \<Rightarrow> ''healthy'')"

definition check_all :: "'w health_checker \<Rightarrow> 'w \<Rightarrow> (string \<times> string) list" where
  "check_all c w = map (\<lambda>(n, check). (n, check_status (check w))) c"

fun all_healthy :: "(string \<times> string) list \<Rightarrow> bool" where
  "all_healthy [] = True"
| "all_healthy ((n, s) # rs) = (if s \<noteq> ''healthy'' then False else all_healthy rs)"

definition is_ready :: "'w health_checker \<Rightarrow> 'w \<Rightarrow> bool" where
  "is_ready c w = all_healthy (check_all c w)"

record health_reply =
  hl_code :: int
  hl_status :: string
  hl_checks :: "(string \<times> string) list"

definition handle_healthz :: health_reply where
  "handle_healthz = \<lparr>hl_code = 200, hl_status = ''ok'', hl_checks = []\<rparr>"

definition handle_readyz :: "'w health_checker \<Rightarrow> 'w \<Rightarrow> health_reply" where
  "handle_readyz c w =
     (let results = check_all c w; ok = all_healthy results
      in \<lparr>hl_code = (if ok then 200 else 503), hl_status = (if ok then ''ready'' else ''not_ready''),
          hl_checks = results\<rparr>)"

text \<open>The checks \<open>main.go\<close> registers: the store, and Redis when there is a client.\<close>

definition main_checks ::
  "('w \<Rightarrow> string option) \<Rightarrow> (redis_options \<Rightarrow> 'w \<Rightarrow> string option) \<Rightarrow> redis_options option \<Rightarrow> 'w health_checker" where
  "main_checks store_ping redis_ping client =
     (let c = register_check ''storage'' store_ping []
      in case client of None \<Rightarrow> c | Some opts \<Rightarrow> register_check ''redis'' (redis_ping opts) c)"

section \<open>What they guarantee\<close>

lemma all_healthy_iff: "all_healthy rs \<longleftrightarrow> (\<forall>(n, s) \<in> set rs. s = ''healthy'')"
  by (induction rs rule: all_healthy.induct) auto

lemma check_status_healthy [simp]: "check_status r = ''healthy'' \<longleftrightarrow> r = None"
  by (simp add: check_status_def split: option.split)

text \<open>The program reports ready (200) exactly when the store answers a ping and, if Redis was reachable
  at the start, Redis answers one too; otherwise 503. A Redis that was not reachable at the start is
  never asked again, and \<open>/healthz\<close> says ok whatever happens.\<close>

theorem ready_iff_the_dependencies_answer:
  "case open_redis connect c w of (w1, client) \<Rightarrow>
     (let r = handle_readyz (main_checks store_ping redis_ping client) w1;
          answers = store_ping w1 = None \<and>
            (case client of None \<Rightarrow> True | Some opts \<Rightarrow> redis_ping opts w1 = None)
      in hl_code r = (if answers then 200 else 503) \<and> hl_code handle_healthz = 200 \<and>
         (client = None \<longleftrightarrow> rd_addr (ss_redis c) = [] \<or> snd (connect (redis_options_of (ss_redis c)) w) \<noteq> None))"
  by (auto simp: open_redis_def redis_new_def handle_readyz_def main_checks_def register_check_def
      check_all_def all_healthy_iff handle_healthz_def Let_def split: prod.splits option.splits)

end
