(* ===== verification/RedisStore.thy ===== *)
theory RedisStore
  imports Prelude
begin

text \<open>
  The cache and the rate limiter over Redis (\<open>pkg/redis/cache.go\<close>, \<open>rate_limiter.go\<close>), which the
  program does not use yet. Redis is a record of its commands over a state \<open>'r\<close>, each of which may
  fail; \<open>sorted_set_laws\<close> is what its documentation promises of sorted sets. Scores and members of
  the limiter are the same number of milliseconds, so a sorted set is a set of numbers. JSON
  encoding is a parameter.
\<close>

section \<open>Commands\<close>

record 'r redis =
  rx_set :: "string \<Rightarrow> string \<Rightarrow> duration \<Rightarrow> 'r \<Rightarrow> 'r \<times> string option"
  rx_get :: "string \<Rightarrow> 'r \<Rightarrow> string + string option"
  rx_del :: "string \<Rightarrow> 'r \<Rightarrow> 'r \<times> string option"
  rx_scan :: "string \<Rightarrow> 'r \<Rightarrow> string list \<times> string option"
  rx_zrem_up_to :: "string \<Rightarrow> int \<Rightarrow> 'r \<Rightarrow> 'r"
  rx_zadd :: "string \<Rightarrow> int \<Rightarrow> 'r \<Rightarrow> 'r"
  rx_zcard :: "string \<Rightarrow> 'r \<Rightarrow> nat"
  rx_expire :: "string \<Rightarrow> duration \<Rightarrow> 'r \<Rightarrow> 'r"
  rx_pipe_error :: "'r \<Rightarrow> string option"

section \<open>The cache (cache.go)\<close>

definition cache_prefix :: string where "cache_prefix = ''telekube:cache:''"

definition cache_set ::
  "'r redis \<Rightarrow> ('a \<Rightarrow> string + string) \<Rightarrow> string \<Rightarrow> 'a \<Rightarrow> duration \<Rightarrow> 'r \<Rightarrow> 'r \<times> unit result" where
  "cache_set R enc key x ttl w =
     (case enc x of
        Inl e \<Rightarrow> (w, Inl (ErrWrap ''marshal cache value'' (DriverErr e)))
      | Inr data \<Rightarrow>
          (case rx_set R (cache_prefix @ key) data ttl w of
             (w1, Some e) \<Rightarrow> (w1, Inl (DriverErr e))
           | (w1, None) \<Rightarrow> (w1, Inr ())))"

text \<open>The value read into \<open>dest\<close>, \<open>None\<close> when the key is absent.\<close>

definition cache_get :: "'r redis \<Rightarrow> (string \<Rightarrow> 'a option) \<Rightarrow> string \<Rightarrow> 'r \<Rightarrow> 'a option result" where
  "cache_get R dec key w =
     (case rx_get R (cache_prefix @ key) w of
        Inl e \<Rightarrow> Inl (ErrWrap ''get cache'' (DriverErr e))
      | Inr None \<Rightarrow> Inr None
      | Inr (Some data) \<Rightarrow>
          (case dec data of
             None \<Rightarrow> Inl (ErrWrap ''unmarshal cache value'' (DriverErr ''json''))
           | Some x \<Rightarrow> Inr (Some x)))"

definition cache_del :: "'r redis \<Rightarrow> string \<Rightarrow> 'r \<Rightarrow> 'r \<times> unit result" where
  "cache_del R key w =
     (case rx_del R (cache_prefix @ key) w of
        (w1, Some e) \<Rightarrow> (w1, Inl (DriverErr e))
      | (w1, None) \<Rightarrow> (w1, Inr ()))"

text \<open>The keys the iterator yields, one deletion each, whose errors are dropped; then its own error.\<close>

definition cache_del_by_pattern :: "'r redis \<Rightarrow> string \<Rightarrow> 'r \<Rightarrow> 'r \<times> unit result" where
  "cache_del_by_pattern R pat w =
     (case rx_scan R (cache_prefix @ pat) w of
        (keys, err) \<Rightarrow>
          (fold (\<lambda>k w. fst (rx_del R k w)) keys w,
           case err of Some e \<Rightarrow> Inl (DriverErr e) | None \<Rightarrow> Inr ()))"

section \<open>The rate limiter (rate\_limiter.go)\<close>

definition rate_limit_prefix :: string where "rate_limit_prefix = ''telekube:ratelimit:''"

definition unix_milli :: "instant \<Rightarrow> int" where
  "unix_milli t = t div 1000000"

text \<open>The answer: whether the request may pass and how many remain.\<close>

definition redis_allow ::
  "'r redis \<Rightarrow> instant \<Rightarrow> string \<Rightarrow> int \<Rightarrow> duration \<Rightarrow> 'r \<Rightarrow> 'r \<times> (bool \<times> int) result" where
  "redis_allow R now key lim window w =
     (let k = rate_limit_prefix @ key;
          ms = unix_milli now;
          w1 = rx_zrem_up_to R k (ms - window div 1000000) w;
          w2 = rx_zadd R k ms w1;
          n = int (rx_zcard R k w2);
          w3 = rx_expire R k window w2
      in case rx_pipe_error R w of
           Some e \<Rightarrow> (w, Inl (ErrWrap ''rate limit check'' (DriverErr e)))
         | None \<Rightarrow> (w3, Inr (n \<le> lim, if lim - n < 0 then 0 else lim - n)))"

text \<open>Requests one after the other, at the instants given.\<close>

fun redis_allow_all ::
  "'r redis \<Rightarrow> string \<Rightarrow> int \<Rightarrow> duration \<Rightarrow> instant list \<Rightarrow> 'r \<Rightarrow> 'r \<times> (bool \<times> int) result list" where
  "redis_allow_all R key lim window [] w = (w, [])"
| "redis_allow_all R key lim window (t # ts) w =
     (let (w1, r) = redis_allow R t key lim window w;
          (w2, rs) = redis_allow_all R key lim window ts w1
      in (w2, r # rs))"

section \<open>What is counted\<close>

text \<open>
  What Redis documents of sorted sets, with \<open>members k\<close> the set under a key: removing by score,
  adding (a member that is there already only gets its score again), counting; EXPIRE touches no
  member. No command fails.
\<close>

definition sorted_set_laws :: "'r redis \<Rightarrow> (string \<Rightarrow> 'r \<Rightarrow> int set) \<Rightarrow> bool" where
  "sorted_set_laws R members \<longleftrightarrow>
     (\<forall>k m w. members k (rx_zrem_up_to R k m w) = {x \<in> members k w. x < 0 \<or> m < x}) \<and>
     (\<forall>k m w. members k (rx_zadd R k m w) = insert m (members k w)) \<and>
     (\<forall>k w. rx_zcard R k w = card (members k w)) \<and>
     (\<forall>k d w. members k (rx_expire R k d w) = members k w) \<and>
     (\<forall>w. rx_pipe_error R w = None)"

lemma redis_allow_members:
  assumes "sorted_set_laws R members"
  shows "members (rate_limit_prefix @ key) (fst (redis_allow R now key lim window w)) =
      insert (unix_milli now) {x \<in> members (rate_limit_prefix @ key) w. x < 0 \<or> unix_milli now - window div 1000000 < x}"
    and "snd (redis_allow R now key lim window w) =
      (let n = int (card (insert (unix_milli now)
          {x \<in> members (rate_limit_prefix @ key) w. x < 0 \<or> unix_milli now - window div 1000000 < x}))
       in Inr (n \<le> lim, if lim - n < 0 then 0 else lim - n))"
  using assms by (simp_all add: sorted_set_laws_def redis_allow_def Let_def)

text \<open>With an empty set to begin with, a burst of any length within one millisecond is let in whole as
  long as the limit is at least one: the members are the milliseconds, so a burst counts as one request.\<close>

theorem bursts_within_a_millisecond_are_not_limited:
  assumes "sorted_set_laws R members" "members (rate_limit_prefix @ key) w = {}" "0 < lim" "0 < window div 1000000"
    and "\<forall>t \<in> set ts. unix_milli t = ms" "0 \<le> ms"
  shows "snd (redis_allow_all R key lim window ts w) = replicate (length ts) (Inr (True, lim - 1))"
proof -
  have "snd (redis_allow_all R key lim window ts w) = replicate (length ts) (Inr (True, lim - 1))"
    if "members (rate_limit_prefix @ key) w \<subseteq> {ms}" for w
    using assms(5) that
  proof (induction ts arbitrary: w)
    case (Cons t ts)
    have t: "unix_milli t = ms" using Cons.prems(1) by simp
    let ?S = "{x \<in> members (rate_limit_prefix @ key) w. x < 0 \<or> ms - window div 1000000 < x}"
    have S: "insert ms ?S = {ms}" using Cons.prems(2) by auto
    obtain w1 r where r: "redis_allow R t key lim window w = (w1, r)" by (cases "redis_allow R t key lim window w")
    have "members (rate_limit_prefix @ key) w1 = {ms}" "r = Inr (True, lim - 1)"
      using redis_allow_members [OF assms(1), where key = key and now = t and lim = lim and window = window and w = w] r S t assms(3) by (simp_all add: Let_def)
    moreover from this have "snd (redis_allow_all R key lim window ts w1) = replicate (length ts) (Inr (True, lim - 1))"
      using Cons by simp
    ultimately show ?case by (simp add: r case_prod_beta)
  qed simp
  then show ?thesis using assms(2) by simp
qed

text \<open>A Redis that is one map of sets.\<close>

definition demo_redis :: "(string \<Rightarrow> int set) redis" where
  "demo_redis =
     \<lparr>rx_set = (\<lambda>k v d w. (w, None)), rx_get = (\<lambda>k w. Inr None), rx_del = (\<lambda>k w. (w(k := {}), None)),
      rx_scan = (\<lambda>p w. ([], None)), rx_zrem_up_to = (\<lambda>k m w. w(k := {x \<in> w k. x < 0 \<or> m < x})),
      rx_zadd = (\<lambda>k m w. w(k := insert m (w k))), rx_zcard = (\<lambda>k w. card (w k)),
      rx_expire = (\<lambda>k d w. w), rx_pipe_error = (\<lambda>w. None)\<rparr>"

theorem bursts_within_a_millisecond_are_not_limited_witness:
  "snd (redis_allow_all demo_redis ''u7'' 1 minute (replicate 4 1000000) (\<lambda>k. {})) =
     replicate 4 (Inr (True, 0))"
proof -
  have "sorted_set_laws demo_redis (\<lambda>k w. w k)" by (simp add: sorted_set_laws_def demo_redis_def)
  from bursts_within_a_millisecond_are_not_limited [OF this, where key = "''u7''" and w = "\<lambda>k. {}" and lim = 1
      and window = minute and ts = "replicate 4 1000000" and ms = 1]
  show ?thesis by (simp add: unix_milli_def minute_def second_def)
qed

end
