(* ===== verification/I18n.thy ===== *)
theory I18n
  imports Prelude
begin

text \<open>
  Translations (\<open>pkg/i18n/i18n.go\<close>): the manager loads one map per locale file, a translator looks a
  dotted key up in its locale, then in English, then answers with the key. YAML parsing,
  \<open>fmt.Sprintf\<close> and the embedded files are parameters. A map is an association list in which the
  first entry of a key counts (YAML forbids a second one).
\<close>

section \<open>Locale files\<close>

datatype translation = Text string | Group "(string \<times> translation) list" | OtherValue

type_synonym catalog = "(string \<times> translation) list"

definition default_locale :: string where "default_locale = ''en''"

definition yaml_suffix :: string where "yaml_suffix = ''.yaml''"

definition has_yaml_suffix :: "string \<Rightarrow> bool" where
  "has_yaml_suffix n \<longleftrightarrow> length yaml_suffix \<le> length n \<and> drop (length n - length yaml_suffix) n = yaml_suffix"

record locale_files =
  lf_entries :: "(string \<times> bool) list result"
  lf_read :: "string \<Rightarrow> string + string"
  lf_yaml :: "string \<Rightarrow> string + catalog"

text \<open>The loop over the directory: names with whether they are directories.\<close>

fun load_locales ::
  "locale_files \<Rightarrow> (string \<times> bool) list \<Rightarrow> (string \<rightharpoonup> catalog) \<Rightarrow> (string \<rightharpoonup> catalog) result" where
  "load_locales F [] m = Inr m"
| "load_locales F ((n, is_dir) # es) m =
     (if is_dir \<or> \<not> has_yaml_suffix n then load_locales F es m
      else (case lf_read F (''locales/'' @ n) of
              Inl e \<Rightarrow> Inl (ErrWrap (''reading locale '' @ n) (DriverErr e))
            | Inr data \<Rightarrow>
                (case lf_yaml F data of
                   Inl e \<Rightarrow> Inl (ErrWrap (''parsing locale '' @ n) (DriverErr e))
                 | Inr t \<Rightarrow> load_locales F es (m(take (length n - length yaml_suffix) n \<mapsto> t)))))"

definition load_all_locales :: "locale_files \<Rightarrow> (string \<rightharpoonup> catalog) result" where
  "load_all_locales F =
     (case lf_entries F of
        Inl e \<Rightarrow> Inl (ErrWrap ''reading locales dir'' e)
      | Inr es \<Rightarrow> load_locales F es Map.empty)"

section \<open>Lookup\<close>

lemma split_n_2_shorter:
  "split_n 2 c key = p # rest # xs \<Longrightarrow> length rest < length key"
  using join_split_n [of c 1 key] split_n_length [of 2 c key] by (auto simp: numeral_2_eq_2)

text \<open>Each step goes one map down with a shorter key.\<close>

function lookup_key :: "catalog \<Rightarrow> string \<Rightarrow> string" where
  "lookup_key m key =
     (case split_n 2 (CHR ''.'') key of
        [] \<Rightarrow> []
      | p # ps \<Rightarrow>
          (case map_of m p of
             None \<Rightarrow> []
           | Some v \<Rightarrow>
               (case ps of
                  [] \<Rightarrow> (case v of Text s \<Rightarrow> s | _ \<Rightarrow> [])
                | rest # _ \<Rightarrow> (case v of Group m1 \<Rightarrow> lookup_key m1 rest | _ \<Rightarrow> []))))"
  by pat_completeness auto
termination
  by (relation "measure (\<lambda>(m, key). length key)") (auto dest: split_n_2_shorter)

declare lookup_key.simps [simp del]

record translator =
  tl_locale :: string
  tl_messages :: catalog
  tl_fallback :: "catalog option"

text \<open>\<open>For\<close>: an unknown locale means English; English has no fallback of its own.\<close>

definition translator_for :: "(string \<rightharpoonup> catalog) \<Rightarrow> string \<Rightarrow> translator" where
  "translator_for m loc =
     (let en = (case m default_locale of None \<Rightarrow> [] | Some t \<Rightarrow> t)
      in case m loc of
           None \<Rightarrow> \<lparr>tl_locale = default_locale, tl_messages = en, tl_fallback = None\<rparr>
         | Some t \<Rightarrow>
             \<lparr>tl_locale = loc, tl_messages = t,
              tl_fallback = (if loc \<noteq> default_locale then m default_locale else None)\<rparr>)"

text \<open>\<open>sprintf\<close> is \<open>fmt.Sprintf\<close>, called when there are arguments.\<close>

definition format_value :: "(string \<Rightarrow> 'a list \<Rightarrow> string) \<Rightarrow> string \<Rightarrow> 'a list \<Rightarrow> string" where
  "format_value sprintf v args = (if args = [] then v else sprintf v args)"

definition translate :: "(string \<Rightarrow> 'a list \<Rightarrow> string) \<Rightarrow> translator \<Rightarrow> string \<Rightarrow> 'a list \<Rightarrow> string" where
  "translate sprintf t key args =
     (let v = lookup_key (tl_messages t) key
      in if v \<noteq> [] then format_value sprintf v args
         else (case tl_fallback t of
                 None \<Rightarrow> key
               | Some m \<Rightarrow>
                   (let f = lookup_key m key in if f \<noteq> [] then format_value sprintf f args else key)))"

text \<open>Without a translator in the context the key itself is the format.\<close>

definition from_context :: "translator option \<Rightarrow> (string \<Rightarrow> 'a list \<Rightarrow> string) \<Rightarrow> string \<Rightarrow> 'a list \<Rightarrow> string" where
  "from_context t sprintf key args =
     (case t of Some tr \<Rightarrow> translate sprintf tr key args | None \<Rightarrow> format_value sprintf key args)"

section \<open>What a lookup finds\<close>

text \<open>The value at a path of names, from the root of a map.\<close>

fun at_path :: "catalog \<Rightarrow> string list \<Rightarrow> string" where
  "at_path m [] = []"
| "at_path m [p] = (case map_of m p of Some (Text s) \<Rightarrow> s | _ \<Rightarrow> [])"
| "at_path m (p # q # ps) = (case map_of m p of Some (Group m1) \<Rightarrow> at_path m1 (q # ps) | _ \<Rightarrow> [])"

definition plain_name :: "string \<Rightarrow> bool" where
  "plain_name p \<longleftrightarrow> CHR ''.'' \<notin> set p"

lemma lookup_path:
  "list_all plain_name ps \<Longrightarrow> ps \<noteq> [] \<Longrightarrow> lookup_key m (join_with ''.'' ps) = at_path m ps"
proof (induction m ps rule: at_path.induct)
  case (2 m p)
  then have "split_n 2 (CHR ''.'') p = [p]" by (simp add: plain_name_def numeral_2_eq_2)
  then show ?case by (subst lookup_key.simps) (simp split: option.split translation.split)
next
  case (3 m p q ps)
  let ?rest = "join_with ''.'' (q # ps)"
  have "split_n 2 (CHR ''.'') (p @ CHR ''.'' # ?rest) = [p, ?rest]"
    using 3(2) by (simp add: plain_name_def split_n_2)
  moreover have "lookup_key m1 ?rest = at_path m1 (q # ps)" if "map_of m p = Some (Group m1)" for m1
    using that 3 by (intro 3(1)) auto
  ultimately show ?case by (subst lookup_key.simps) (simp split: option.split translation.split)
qed simp

text \<open>The answer for a path of names: the first text that is not empty, in the user's language, then in
  English, then the key itself; a language without a file is English.\<close>

theorem translations_fall_back_to_english:
  assumes "list_all plain_name ps" "ps \<noteq> []"
  shows "translate sprintf (translator_for m loc) (join_with ''.'' ps) [] =
     (let own = (case m loc of None \<Rightarrow> [] | Some t \<Rightarrow> at_path t ps);
          english = (case m ''en'' of None \<Rightarrow> [] | Some t \<Rightarrow> at_path t ps)
      in if own \<noteq> [] then own else if english \<noteq> [] then english else join_with ''.'' ps)"
proof -
  define k where "k = join_with ''.'' ps"
  have found: "lookup_key x k = at_path x ps" for x unfolding k_def using assms by (rule lookup_path)
  have none: "at_path [] ps = []" by (cases ps rule: remdups_adj.cases) simp_all
  show ?thesis unfolding k_def [symmetric]
    by (cases "m loc"; cases "m ''en''"; cases "loc = ''en''")
      (simp_all add: translate_def translator_for_def default_locale_def format_value_def Let_def found none)
qed

end
