(* ===== verification/Setup.thy ===== *)
theory Setup
  imports Services TelegramText
begin

text \<open>
  The configuration: its checks when the program starts (\<open>internal/app/config.go\<close> and the validation
  tags of \<open>internal/config/config.go\<close>) and the wizard that writes a first one
  (\<open>cmd/telekube/setup.go\<close>). Viper and YAML are parameters. The terminal is the list of the lines
  typed; what follows the last newline is never read, as in \<open>ReadString\<close>. The texts printed are left
  out, but for the token in the review. \<open>TrimSpace\<close> is that of ASCII white space.
\<close>

section \<open>Loading (config.go)\<close>

datatype default_value = DefaultInt int | DefaultText string | DefaultBool bool

definition config_defaults :: "(string \<times> default_value) list" where
  "config_defaults =
     [(''telegram.rate_limit'', DefaultInt 30), (''storage.backend'', DefaultText ''sqlite''),
      (''storage.sqlite.path'', DefaultText ''telekube.db''), (''server.port'', DefaultInt 8080),
      (''server.read_timeout_ms'', DefaultInt 15000), (''server.write_timeout_ms'', DefaultInt 15000),
      (''server.idle_timeout_ms'', DefaultInt 60000), (''log.level'', DefaultText ''info''),
      (''log.format'', DefaultText ''json''), (''rbac.default_role'', DefaultText ''viewer''),
      (''modules.kubernetes.enabled'', DefaultBool True)]"

text \<open>The fields with a validation tag that the validator reaches.\<close>

record settings =
  st_token :: string
  st_admin_ids :: "user_id list"
  st_rate_limit :: int
  st_backend :: string

text \<open>The names of the fields that fail, in the order of the struct. Elements of slices are not visited
  without a \<open>dive\<close> tag, so no name of a cluster or of an ArgoCD instance is ever required.\<close>

definition validate :: "settings \<Rightarrow> string list" where
  "validate s =
     (if st_token s = [] then [''Settings.Telegram.Token''] else []) @
     (if st_admin_ids s = [] then [''Settings.Telegram.AdminIDs''] else []) @
     (if st_rate_limit s < 1 then [''Settings.Telegram.RateLimit''] else []) @
     (if st_backend s = ''sqlite'' \<or> st_backend s = ''postgres'' then [] else [''Settings.Storage.Backend''])"

datatype config_file = FileRead | FileNotFound | FileBroken string

text \<open>\<open>unmarshal\<close> is what Viper makes of defaults, file and environment.\<close>

definition load_config ::
  "config_file \<Rightarrow> ((string \<times> default_value) list \<Rightarrow> string + settings) \<Rightarrow> settings result" where
  "load_config f unmarshal =
     (case f of
        FileBroken e \<Rightarrow> Inl (ErrWrap ''reading config file'' (DriverErr e))
      | _ \<Rightarrow>
          (case unmarshal config_defaults of
             Inl e \<Rightarrow> Inl (ErrWrap ''unmarshaling config'' (DriverErr e))
           | Inr s \<Rightarrow>
               if validate s \<noteq> [] then Inl (ErrWrap ''validating config'' (DriverErr (join_with '', '' (validate s))))
               else Inr s))"

section \<open>Reading answers (setup.go)\<close>









section \<open>The dialogue\<close>












text \<open>What the review shows of the token.\<close>

definition token_preview :: "string \<Rightarrow> string" where
  "token_preview t = (if length t > 12 then take 6 t @ ''...'' @ drop (length t - 4) t else t)"




section \<open>The command line (main.go)\<close>

datatype main_command = RunSetup string | PrintVersion | RunBot

text \<open>\<open>os.Args\<close> without the program's name: any other word, and any flag, is not looked at.\<close>

definition main_command_of :: "string list \<Rightarrow> main_command" where
  "main_command_of args =
     (case args of
        [] \<Rightarrow> RunBot
      | a # rest \<Rightarrow>
          if a = ''setup'' then RunSetup (case rest of [] \<Rightarrow> ''configs/config.yaml'' | p # _ \<Rightarrow> p)
          else if a = ''version'' then PrintVersion
          else RunBot)"

section \<open>What the wizard writes can be loaded\<close>










end
