(* ===== verification/Spec2Isabelle.thy ===== *)
theory Spec2Isabelle
  imports RbacProps ApprovalProps ArgocdProps MiddlewareProps AuditLog TelegramText Callback
    ClusterProps GoFloat KubeProps WatcherProps RbacMenuProps HelmProps Incident NotifyProps ArgocdHttpProps LifecycleProps
    PostgresProps Informers AlertManager Services RedisStore I18n Setup
begin

text \<open>
  Telekube is a Telegram bot, written in Go, that lets a team operate Kubernetes clusters and
  ArgoCD from a chat. An update passes a middleware chain (recovery, authentication, rate limit,
  audit), reaches the handler of a module, which asks the RBAC engine for permission, asks the
  approval checker when a rule demands it, calls the remote system and logs to the audit trail;
  buttons carry callback data back into further handlers. This development models that core and
  proves what makes it correct, and where the code does not do what it means to, proves that.

  \<^bold>\<open>Conventions.\<close> A Go struct is a \<open>record\<close> with prefixed fields, an enumeration a \<open>datatype\<close>, an
  \<open>error\<close> a value of \<open>go_error\<close> and a fallible call a sum (\<open>Inl\<close> the error). State is passed
  explicitly; \<open>time.Now()\<close>, ULIDs and the message identifiers Telegram assigns are arguments.
  Instants and durations are nanoseconds (\<open>int\<close>). A repository interface of
  \<open>internal/storage/storage.go\<close> is a record of operations whose laws are the assumptions of a
  locale, proved for the SQLite model and again for the PostgreSQL model by an \<open>interpretation\<close>;
  properties of the components above are proved in the locale where the law is what they rest on,
  and so hold on either back end. SQL statements, Telegram and the ArgoCD servers are outside the program: tables are row lists with their keys, a driver failure
  is \<open>db_fault\<close>, chat effects are a datatype, and a remote server is an abstract state changed by
  the functions of a client record. Fixed wording and emoji of messages are left out, the values
  they show are kept.

  \<^bold>\<open>Theories.\<close>
  \<^item> \<open>Prelude\<close>: instants, errors, decimal printing and scanning, \<open>strings.SplitN\<close>, lists.
  \<^item> \<open>Entities\<close>: \<open>internal/entity\<close>. \<open>Sqlite\<close>: the tables, and the user and RBAC repositories of
    \<open>internal/storage/sqlite\<close>, with the primary-key invariant \<open>keys_ok\<close> that every operation keeps.
  \<^item> \<open>RbacEngine\<close>, \<open>RbacSpec\<close>, \<open>RbacProps\<close>: \<open>internal/rbac\<close>. \<open>policy_verdict\<close> is the declarative
    reading of a rule list (deny wins, then any allow); \<open>authorize\<close> refines it over the active
    bindings, \<open>has_permission\<close> is characterised by the four built-in permission sets, and the
    operations on roles and bindings are shown to do exactly what they say.
  \<^item> \<open>ApprovalStore\<close>, \<open>Approval\<close>, \<open>ApprovalSpec\<close>, \<open>ApprovalProps\<close>: the approval repository and
    \<open>internal/module/approval\<close>. \<open>approval_step\<close> interleaves submissions, the delayed write of the
    message id, decisions, cancellations and expiry ticks; reachable states keep the soundness of
    every request, and each request is executed at most once as long as no delayed write lands
    after a decision, which is shown to be necessary.
  \<^item> \<open>Bot\<close>: chat effects, \<open>time.ParseDuration\<close>. \<open>FreezeStore\<close>: the deployment-freeze repository.
  \<^item> \<open>ArgocdModel\<close>, \<open>Argocd\<close>, \<open>ArgocdProps\<close>: \<open>pkg/argocd\<close> types and client interface, and every
    handler of \<open>internal/module/argocd\<close>: who is offered a sync or rollback, what a confirmation
    does and records, the approval gate, the life of a freeze, the dialogs, the dashboard.
  \<^item> \<open>Middleware\<close>, \<open>MiddlewareProps\<close>: \<open>internal/bot/middleware\<close> and the chain of \<open>bot.go\<close>. The
    sliding-window limiter is equal to a specification that keeps the whole history.
  \<^item> \<open>AuditLog\<close>: the audit repository, the goroutines of \<open>internal/audit\<close> as a step relation with an
    inductive invariant (nothing accepted is lost or reordered), the \<open>/audit\<close> command.
  \<^item> \<open>TelegramText\<close>: \<open>pkg/telegram\<close>. \<open>Callback\<close>: SHA-256, the callback store and the keyboards of
    \<open>internal/bot/keyboard\<close>.
  \<^item> \<open>Cluster\<close>, \<open>Registry\<close>, \<open>ClusterProps\<close>: the cluster manager and the users' selection
    (\<open>internal/cluster\<close>, \<open>pkg/kube\<close>), the module registry, \<open>bot.go\<close> and the core commands. Users
    stay on registered clusters, clients are created once, modules start and stop in order.
  \<^item> \<open>GoFloat\<close>, \<open>GoTime\<close>: float64 arithmetic as the code needs it, rounding and printing of durations.
  \<^item> \<open>KubeApi\<close>, \<open>KubePods\<close>, \<open>KubeScale\<close>, \<open>KubeNodes\<close>, \<open>KubeTop\<close>, \<open>KubeProps\<close>: every command and
    button of \<open>internal/module/kubernetes\<close> over a record of the client-go calls: which permission
    each needs, what a scale, a rollout watch and a drain do, where a list panics.
  \<^item> \<open>Watcher\<close>, \<open>WatcherPoll\<close>, \<open>CustomRules\<close>, \<open>WatcherModule\<close>, \<open>WatcherProps\<close>:
    \<open>internal/module/watcher\<close>. The locale \<open>cooldown_watcher\<close> states what a watcher over an alert
    cache is; it is interpreted on the six watchers of the code, and no two alerts of one key
    come closer than the cooldown in any run of any of them. \<open>Informers\<close>: which clusters are
    watched, which events of an informer are checked; a crash loop is reported at the next resync,
    a node that was down before is not.
  \<^item> \<open>RbacMenu\<close>, \<open>RbacMenuProps\<close>: \<open>internal/module/rbacmod\<close>, who changes roles and to what.
    \<open>Helm\<close>, \<open>HelmProps\<close>: \<open>internal/module/helm\<close>. \<open>Incident\<close>: \<open>internal/module/incident\<close>, whose
    timeline is sorted and complete.
  \<^item> \<open>Notify\<close>, \<open>NotifyProps\<close>: the preference repository behind the locale \<open>pref_repo\<close>, the handlers of
    \<open>internal/module/notify\<close> and \<open>ShouldNotify\<close>, whose quiet hours are the circular interval they
    denote.
  \<^item> \<open>ArgocdHttp\<close>, \<open>ArgocdHttpProps\<close>: the HTTP client of \<open>pkg/argocd\<close> over a record of network
    calls: when requests are repeated, OAuth tokens, and what one confirmed sync of the module
    puts on the wire.
  \<^item> \<open>Briefing\<close>: \<open>internal/module/briefing\<close>; the schedule is met exactly once a day.
  \<^item> \<open>Lifecycle\<close>, \<open>LifecycleProps\<close>: \<open>internal/leader\<close>, \<open>internal/app\<close> and \<open>cmd/telekube/main.go\<close>. A step
    relation over replicas shows that only the holder of the lease works; the modules of main.go
    register without a clash; a shutdown loses no audit entry.
  \<^item> \<open>Postgres\<close>, \<open>PostgresProps\<close>: the six repositories of \<open>internal/storage/postgres\<close> on the rows of
    \<open>Sqlite\<close>, with the driver's microseconds and foreign keys that cascade. They satisfy the
    locales of the SQLite model; where the operations answer alike on equal tables this is proved,
    and so are the differences (precision of expiry, unknown users, matching of audit filters).
  \<^item> \<open>AlertManager\<close>: the webhook of \<open>internal/module/alertmanager\<close>: authorisation, rendering, the
    silences offered and the chats each alert of a payload goes to.
  \<^item> \<open>Services\<close>: opening of the store and of Redis, \<open>pkg/health\<close>. \<open>RedisStore\<close>: the user cache and
    the limiter of \<open>pkg/redis\<close> over a record of the server's commands.
  \<^item> \<open>I18n\<close>: the lookup of translations. \<open>Setup\<close>: validation of \<open>internal/config\<close>, the set-up
    dialog and the command line of \<open>cmd/telekube\<close>; what the dialog saves passes the validation.

  \<^bold>\<open>Bounds and termination.\<close> Every definition is total; the few loops whose recursion is not
  structural (\<open>parse_duration_loop\<close>, \<open>replace_all\<close>, \<open>rows_of\<close>, \<open>sha_blocks\<close>) are proved to terminate by the
  length of what is left, the lookup of a translation (\<open>lookup_key\<close>) by the length of the key, the
  cluster questions of the set-up (\<open>ask_clusters\<close>) by the lines left, the rollout watch by the ticks left in its two minutes. No fuel is used. The
  limiter and the audit buffer keep the sizes of the code (30 requests by default, 1000 slots, batches of 100).
  Loops that wait for a ticker or a channel are given by their one step.

  \<^bold>\<open>Left out of modelled parts.\<close> Failures to deliver a Telegram message (the code logs or ignores
  them; the plain-text retry of \<open>scale.go\<close> with them), contexts and their timeouts (a call that may
  return an error), mutexes (each operation is one step), and goroutines that only call an operation.

  \<^bold>\<open>Not modelled.\<close> The construction of the zap logger and the version string, the reading of YAML
  and environment variables by Viper (its result is the configuration), terminal colours and
  wording of the set-up dialog, the construction of informers and HTTP servers, and the test
  helpers of \<open>internal/testutil\<close>, which no program code calls.
\<close>

end
